(* ===== verification/Go_Prelude.thy ===== *)
theory Go_Prelude
  imports Main "HOL-Library.Word" "HOL-Library.Finite_Map" "HOL-Library.State_Monad"
    "HOL-Library.Char_ord" "HOL-Library.List_Lexorder"
begin

text \<open>
  The part of Go and of its standard library that the operator relies on, and the lemmas the
  components share:
  \<^item> Go strings are byte sequences, so they are \<open>string\<close> (a \<open>char\<close> is one byte); the operations are
    those of \<open>strings\<close>, \<open>sort\<close>, \<open>path/filepath\<close>, \<open>strconv\<close> and \<open>bufio.Scanner\<close>;
  \<^item> a Go map is a finite map, \<open>None\<close> standing for the nil map, and the order in which \<open>range\<close>
    visits it is a parameter of every definition that ranges over one (\<open>range_order\<close>);
  \<^item> a call that may fail and that acts on the cluster is a computation of the state monad with a
    result of type \<open>'e + 'a\<close>; \<open>check\<close> is Go's \<open>if err != nil { return err }\<close>, and \<open>wp\<close> is the
    weakest precondition calculus the component proofs use.
\<close>

named_theorems go_string \<open>unfolding rules for the string functions\<close>
named_theorems wp_rules \<open>weakest precondition rules of the program's calls\<close>

type_synonym int32 = "32 word"
type_synonym int64 = "64 word"
type_synonym 'v gomap = "(string, 'v) fmap option"
type_synonym ('w, 'e, 'a) call = "('w, 'e + 'a) state"

section \<open>Strings\<close>

definition HasPrefix :: "string \<Rightarrow> string \<Rightarrow> bool" where
  [go_string]: "HasPrefix s p \<longleftrightarrow> take (length p) s = p"

definition TrimPrefix :: "string \<Rightarrow> string \<Rightarrow> string" where
  [go_string]: "TrimPrefix s p = (if HasPrefix s p then drop (length p) s else s)"

text \<open>\<open>strings.SplitN(s, ":", 2)\<close>: one or two parts, cut at the first separator.\<close>

definition SplitN2 :: "char \<Rightarrow> string \<Rightarrow> string list" where
  [go_string]: "SplitN2 c s =
     (case dropWhile (\<lambda>x. x \<noteq> c) s of
        [] \<Rightarrow> [s]
      | _ # rest \<Rightarrow> [takeWhile (\<lambda>x. x \<noteq> c) s, rest])"

fun strings_Join :: "string list \<Rightarrow> string \<Rightarrow> string" where
  "strings_Join [] sep = []"
| "strings_Join [x] sep = x"
| "strings_Join (x # y # xs) sep = x @ sep @ strings_Join (y # xs) sep"

text \<open>
  \<open>strings.TrimSpace\<close> removes the characters of \<open>unicode.IsSpace\<close> at both ends. They are listed by
  their UTF-8 encodings, the ASCII ones first.
\<close>

definition space_seqs :: "string list" where
  "space_seqs =
     [[CHR 0x09], [CHR 0x0A], [CHR 0x0B], [CHR 0x0C], [CHR 0x0D], [CHR 0x20],
      [CHR 0xC2, CHR 0x85], [CHR 0xC2, CHR 0xA0], [CHR 0xE1, CHR 0x9A, CHR 0x80],
      [CHR 0xE2, CHR 0x80, CHR 0x80], [CHR 0xE2, CHR 0x80, CHR 0x81],
      [CHR 0xE2, CHR 0x80, CHR 0x82], [CHR 0xE2, CHR 0x80, CHR 0x83],
      [CHR 0xE2, CHR 0x80, CHR 0x84], [CHR 0xE2, CHR 0x80, CHR 0x85],
      [CHR 0xE2, CHR 0x80, CHR 0x86], [CHR 0xE2, CHR 0x80, CHR 0x87],
      [CHR 0xE2, CHR 0x80, CHR 0x88], [CHR 0xE2, CHR 0x80, CHR 0x89],
      [CHR 0xE2, CHR 0x80, CHR 0x8A], [CHR 0xE2, CHR 0x80, CHR 0xA8],
      [CHR 0xE2, CHR 0x80, CHR 0xA9], [CHR 0xE2, CHR 0x80, CHR 0xAF],
      [CHR 0xE2, CHR 0x81, CHR 0x9F], [CHR 0xE3, CHR 0x80, CHR 0x80]]"

function strip_seqs :: "string list \<Rightarrow> string \<Rightarrow> string" where
  "strip_seqs ps s =
     (case find (\<lambda>p. p \<noteq> [] \<and> HasPrefix s p) ps of
        None \<Rightarrow> s
      | Some p \<Rightarrow> strip_seqs ps (drop (length p) s))"
  by pat_completeness auto
termination
proof (relation "measure (\<lambda>(ps, s). length s)")
  fix ps :: "string list" and s p :: string
  assume "find (\<lambda>p. p \<noteq> [] \<and> HasPrefix s p) ps = Some p"
  then have "p \<noteq> []" and "HasPrefix s p"
    by (auto simp: find_Some_iff)
  then have "0 < length p" and "s \<noteq> []"
    by (auto simp: HasPrefix_def)
  then show "((ps, drop (length p) s), ps, s) \<in> measure (\<lambda>(ps, s). length s)"
    by simp
qed simp

declare strip_seqs.simps [simp del]

definition TrimSpace :: "string \<Rightarrow> string" where
  "TrimSpace s = rev (strip_seqs (map rev space_seqs) (rev (strip_seqs space_seqs s)))"

text \<open>
  \<open>bufio.Scanner\<close> with its default split function: the lines without their end-of-line marker (one
  carriage return before the newline is dropped). A line of \<open>MaxScanTokenSize\<close> bytes or more does
  not fit the scanner's buffer: \<open>Scan\<close> returns false there and the rest of the input is not read.
\<close>

definition MaxScanTokenSize :: nat where
  "MaxScanTokenSize = 65536"

definition dropCR :: "string \<Rightarrow> string" where
  [go_string]: "dropCR l = (if l \<noteq> [] \<and> last l = CHR 0x0D then butlast l else l)"

function scan_lines :: "string \<Rightarrow> string list" where
  "scan_lines s =
     (if s = [] then []
      else let l = takeWhile (\<lambda>x. x \<noteq> CHR 0x0A) s;
               rest = dropWhile (\<lambda>x. x \<noteq> CHR 0x0A) s
           in if MaxScanTokenSize \<le> length l then []
              else dropCR l # scan_lines (tl rest))"
  by pat_completeness auto
termination
proof (relation "measure length")
  fix s l rest :: string
  assume "s \<noteq> []" and "rest = dropWhile (\<lambda>x. x \<noteq> CHR 0x0A) s"
  then have "length rest \<le> length s" and "s \<noteq> []"
    by (simp_all add: length_dropWhile_le)
  then show "(tl rest, s) \<in> measure length"
    by (cases rest) auto
qed simp

declare scan_lines.simps [simp del]

text \<open>\<open>filepath.Base\<close> and \<open>filepath.Join\<close> on a Unix system.\<close>

abbreviation slash :: char where
  "slash \<equiv> CHR ''/''"

definition filepath_Base :: "string \<Rightarrow> string" where
  "filepath_Base path =
     (if path = [] then ''.''
      else let p = rev (dropWhile (\<lambda>c. c = slash) (rev path));
               b = rev (takeWhile (\<lambda>c. c \<noteq> slash) (rev p))
           in if b = [] then ''/'' else b)"

fun split_slash :: "string \<Rightarrow> string \<Rightarrow> string list" where
  "split_slash acc [] = [rev acc]"
| "split_slash acc (c # cs) =
     (if c = slash then rev acc # split_slash [] cs else split_slash (c # acc) cs)"

text \<open>The elements of a path after \<open>Clean\<close>, last first; \<open>rooted\<close> is whether the path starts at \<open>/\<close>.\<close>

fun clean_elems :: "bool \<Rightarrow> string list \<Rightarrow> string list \<Rightarrow> string list" where
  "clean_elems rooted acc [] = acc"
| "clean_elems rooted acc (e # es) =
     (if e = [] \<or> e = ''.'' then clean_elems rooted acc es
      else if e = ''..'' then
        (case acc of
           [] \<Rightarrow> clean_elems rooted (if rooted then [] else [''..'']) es
         | a # as \<Rightarrow> if a = ''..'' then clean_elems rooted (''..'' # acc) es
                     else clean_elems rooted as es)
      else clean_elems rooted (e # acc) es)"

definition filepath_Clean :: "string \<Rightarrow> string" where
  "filepath_Clean path =
     (if path = [] then ''.''
      else let rooted = (hd path = slash);
               body = strings_Join (rev (clean_elems rooted [] (split_slash [] path))) ''/''
           in if rooted then slash # body else if body = [] then ''.'' else body)"

definition filepath_Join :: "string list \<Rightarrow> string" where
  "filepath_Join elems =
     (let ne = filter (\<lambda>e. e \<noteq> []) elems
      in if ne = [] then [] else filepath_Clean (strings_Join ne ''/''))"

text \<open>Decimal printing of integers, as \<open>fmt\<close> prints a Go \<open>int\<close>.\<close>

definition digit_char :: "nat \<Rightarrow> char" where
  "digit_char d = char_of (48 + d)"

fun utoa :: "nat \<Rightarrow> string" where
  "utoa n = (if n < 10 then [digit_char n] else utoa (n div 10) @ [digit_char (n mod 10)])"

declare utoa.simps [simp del]

definition itoa :: "int \<Rightarrow> string" where
  "itoa i = (if i < 0 then CHR ''-'' # utoa (nat (- i)) else utoa (nat i))"

definition btoa :: "bool \<Rightarrow> string" where
  "btoa b = (if b then ''true'' else ''false'')"

section \<open>Maps and the order of \<open>range\<close>\<close>

text \<open>
  The order in which \<open>range\<close> visits a map is not specified by the language and may differ from loop
  to loop. A \<open>range_order\<close> gives the order for each loop, named by a path of strings; all that the
  code may rely on is \<open>range_ok\<close>: every key once.
\<close>

type_synonym range_order = "string list \<Rightarrow> string fset \<Rightarrow> string list"

definition range_ok :: "range_order \<Rightarrow> bool" where
  "range_ok rng \<longleftrightarrow> (\<forall>p K. distinct (rng p K) \<and> set (rng p K) = fset K)"

definition gm_get :: "'v gomap \<Rightarrow> string \<Rightarrow> 'v option" where
  "gm_get m k = (case m of None \<Rightarrow> None | Some f \<Rightarrow> fmlookup f k)"

definition gm_keys :: "'v gomap \<Rightarrow> string fset" where
  "gm_keys m = (case m of None \<Rightarrow> {||} | Some f \<Rightarrow> fmdom f)"

definition gm_of :: "(string \<times> 'v) list \<Rightarrow> 'v gomap" where
  "gm_of kvs = Some (fmap_of_list kvs)"

section \<open>Calls that may fail\<close>

abbreviation ok :: "'a \<Rightarrow> ('w, 'e, 'a) call" where
  "ok x \<equiv> State_Monad.return (Inr x)"

abbreviation fail :: "'e \<Rightarrow> ('w, 'e, 'a) call" where
  "fail e \<equiv> State_Monad.return (Inl e)"

definition check :: "('w, 'e, 'a) call \<Rightarrow> ('a \<Rightarrow> ('w, 'e, 'b) call) \<Rightarrow> ('w, 'e, 'b) call" where
  "check m f = State_Monad.bind m (\<lambda>r. case r of Inl e \<Rightarrow> fail e | Inr x \<Rightarrow> f x)"

definition wp :: "('w, 'a) state \<Rightarrow> ('a \<Rightarrow> 'w \<Rightarrow> bool) \<Rightarrow> 'w \<Rightarrow> bool" where
  "wp m Q s = (case run_state m s of (r, s') \<Rightarrow> Q r s')"

section \<open>Lemmas\<close>

lemma HasPrefix_append [simp]: "HasPrefix (p @ s) p"
  by (simp add: HasPrefix_def)

lemma HasPrefix_iff: "HasPrefix s p \<longleftrightarrow> (\<exists>t. s = p @ t)"
  by (metis HasPrefix_append HasPrefix_def append_take_drop_id)

lemma TrimPrefix_append [simp]: "TrimPrefix (p @ s) p = s"
  by (simp add: TrimPrefix_def)

lemma SplitN2_sep [simp]: "c \<notin> set a \<Longrightarrow> SplitN2 c (a @ c # b) = [a, b]"
  by (auto simp: SplitN2_def dropWhile_append takeWhile_append)

lemma SplitN2_no_sep [simp]: "c \<notin> set a \<Longrightarrow> SplitN2 c a = [a]"
proof -
  assume "c \<notin> set a"
  then have "dropWhile (\<lambda>x. x \<noteq> c) a = []"
    by (auto simp: dropWhile_eq_Nil_conv)
  then show ?thesis
    by (simp only: SplitN2_def list.case)
qed

lemma SplitN2_cases:
  "SplitN2 c s = [s] \<and> c \<notin> set s \<or> (\<exists>a b. s = a @ c # b \<and> c \<notin> set a \<and> SplitN2 c s = [a, b])"
  by (metis SplitN2_no_sep SplitN2_sep split_list_first)

lemma SplitN2_nonempty [simp]: "SplitN2 c s \<noteq> []"
  using SplitN2_cases [of c s] by auto

lemma run_check [simp]:
  "run_state (check m f) s =
     (case run_state m s of (Inl e, s') \<Rightarrow> (Inl e, s') | (Inr x, s') \<Rightarrow> run_state (f x) s')"
  by (auto simp: check_def split: prod.split sum.split)

lemma wp_return [wp_rules]: "wp (State_Monad.return x) Q s = Q x s"
  by (simp add: wp_def)

lemma wp_bind [wp_rules]: "wp (State_Monad.bind m f) Q s = wp m (\<lambda>r. wp (f r) Q) s"
  by (simp add: wp_def split: prod.split)

lemma wp_check [wp_rules]:
  "wp (check m f) Q s = wp m (\<lambda>r. case r of Inl e \<Rightarrow> Q (Inl e) | Inr x \<Rightarrow> wp (f x) Q) s"
  by (simp add: wp_def split: prod.split sum.split)

lemma wp_mono: "wp m P s \<Longrightarrow> (\<And>r t. P r t \<Longrightarrow> Q r t) \<Longrightarrow> wp m Q s"
  by (auto simp: wp_def)

lemma wp_conj: "wp m (\<lambda>r t. P r t \<and> Q r t) s \<longleftrightarrow> wp m P s \<and> wp m Q s"
  by (auto simp: wp_def)

lemma run_state_wp: "run_state m s = (r, s') \<Longrightarrow> wp m Q s \<Longrightarrow> Q r s'"
  by (simp add: wp_def)

lemma wp_I: "(\<And>r s'. run_state m s = (r, s') \<Longrightarrow> Q r s') \<Longrightarrow> wp m Q s"
  by (auto simp: wp_def)

lemma range_okD: "range_ok rng \<Longrightarrow> distinct (rng p K) \<and> set (rng p K) = fset K"
  by (simp add: range_ok_def)

lemma sort_range: "range_ok rng \<Longrightarrow> sort (rng p K) = sorted_list_of_fset K"
  by (metis range_ok_def sorted_list_of_fset.rep_eq sorted_list_of_set.idem_if_sorted_distinct
      sorted_list_of_set_sort_remdups distinct_remdups_id)

lemma gm_get_None [simp]: "gm_get None k = None"
  by (simp add: gm_get_def)

lemma gm_get_Some [simp]: "gm_get (Some f) k = fmlookup f k"
  by (simp add: gm_get_def)

lemma gm_get_of [simp]: "gm_get (gm_of kvs) k = map_of kvs k"
  by (simp add: gm_of_def fmlookup_of_list)

lemma gm_keys_iff [simp]: "k |\<in>| gm_keys m \<longleftrightarrow> gm_get m k \<noteq> None"
  by (auto simp: gm_keys_def gm_get_def fmlookup_dom_iff split: option.splits)

text \<open>Two orders that \<open>range\<close> could take: ascending and descending.\<close>

definition sorted_order :: range_order where
  "sorted_order p K = sorted_list_of_fset K"

lemma sorted_order_ok: "range_ok sorted_order" "range_ok (\<lambda>p K. rev (sorted_order p K))"
  by (simp_all add: range_ok_def sorted_order_def sorted_list_of_fset.rep_eq)

section \<open>Loops over maps that sort what they visit\<close>

text \<open>
  The contract of a computation that ranges over a map and sorts the keys before it uses them: it
  does not depend on the order of \<open>range\<close>.
\<close>

locale sorted_range =
  fixes visit :: "range_order \<Rightarrow> 'm \<Rightarrow> 'r"
    and keys :: "'m \<Rightarrow> string fset"
    and body :: "'m \<Rightarrow> string list \<Rightarrow> 'r"
    and path :: "'m \<Rightarrow> string list"
  assumes visit_sorts: "range_ok rng \<Longrightarrow> visit rng m = body m (sort (rng (path m) (keys m)))"
begin

lemma canonical: "range_ok rng \<Longrightarrow> visit rng m = body m (sorted_list_of_fset (keys m))"
  by (simp add: visit_sorts sort_range)

lemma deterministic: "range_ok rng \<Longrightarrow> range_ok rng' \<Longrightarrow> visit rng m = visit rng' m"
  by (simp add: canonical)

end

end
