(* ===== verification/K8s_API.thy ===== *)
theory K8s_API
  imports Go_Prelude
begin

text \<open>
  The interface of the operator to code that is not part of the repository: the Kubernetes API
  types, the client of controller-runtime, and the helper libraries.

  The API types are records with the fields the operator names; the other fields of an API type,
  which the operator never names but which take part in \<open>reflect.DeepEqual\<close> and in a deep copy, are
  one field of type \<open>json\<close>, the serialised rest. A pointer field is an \<open>option\<close>. The resource
  quantities are a type variable \<open>'q\<close>: the operator handles them only through the functions of
  \<open>Lib\<close>.

  \<open>Lib\<close> holds the library functions and \<open>Client\<close> the calls of the API client, over a type of
  cluster states \<open>'w\<close>; both are parameters of the model. What the operator relies on is stated by
  the predicates at the end of the theory, which quote the documentation of the functions.
\<close>

datatype json = JNull | JBool bool | JNum int | JStr string | JArr "json list" | JObj "(string \<times> json) list"

text \<open>
  The errors: \<open>ApiError\<close> and \<open>LibError\<close> are the opaque errors of the client and of the libraries;
  the others are the error values the operator and the modelled standard library build, one
  constructor per \<open>fmt.Errorf\<close>, with the operands of its format (\<open>%w\<close> is the wrapped error).
\<close>

datatype go_error =
    ApiError string
  | LibError string
  | IoError string
  | JsonError string
  | TemplateSyntax string
  | TemplateExec string
  | CaCrtNotFound
  | ParseHostLinksFailed go_error
  | BuildStatefulSetFailed go_error
  | TemplateStorageClassChanged string string
  | ParseTemplateFailed string go_error
  | ExecuteTemplateFailed string go_error
  | ReadTemplateFailed string go_error
  | LogPersistenceDisabled
  | InvalidLogSize string go_error
  | ListClaimsFailed go_error
  | PrepareClaimFailed string go_error
  | ResizeClaimFailed string go_error
  | ClaimStorageClassChanged string
  | ClaimShrunk string string

section \<open>API types\<close>

record NamespacedName =
  nn_Namespace :: string
  nn_Name :: string

record ObjectMeta =
  Name :: string
  Namespace :: string
  Labels :: "string gomap"
  Annotations :: "string gomap"
  DeletionTimestamp :: "int option"
  OwnerReferences :: "json list"
  meta_rest :: json

record Secret =
  sec_Meta :: ObjectMeta
  sec_Type :: string
  sec_Data :: "string gomap"
  sec_rest :: json

record ConfigMap =
  cm_Meta :: ObjectMeta
  cm_Data :: "string gomap"
  cm_rest :: json

record SecretKeySelector =
  ref_Name :: string
  ref_Key :: string

text \<open>
  A status condition without its time stamp: the operator sets the four fields below and leaves
  \<open>LastTransitionTime\<close> to the library.
\<close>

record Condition =
  cond_Type :: string
  cond_Status :: string
  cond_Reason :: string
  cond_Message :: string

record KeyToPath =
  ktp_Key :: string
  ktp_Path :: string

datatype VolumeSource =
    ConfigMapSource string "KeyToPath list" "int32 option"
  | SecretSource string "KeyToPath list" "int32 option"
  | OtherSource json

record Volume =
  vol_Name :: string
  vol_Source :: VolumeSource

record VolumeMount =
  vm_Name :: string
  vm_MountPath :: string
  vm_SubPath :: string
  vm_ReadOnly :: bool

record EnvVar =
  env_Name :: string
  env_Value :: string
  env_FieldPath :: "string option"
  env_rest :: json

record Probe =
  pr_Command :: "string list"
  pr_InitialDelaySeconds :: int32
  pr_TimeoutSeconds :: int32
  pr_PeriodSeconds :: int32
  pr_SuccessThreshold :: int32
  pr_FailureThreshold :: int32
  pr_rest :: json

record SecurityContext =
  RunAsUser :: "int64 option"
  RunAsGroup :: "int64 option"
  RunAsNonRoot :: "bool option"
  sc_rest :: json

record Container =
  ctr_Name :: string
  ctr_Image :: string
  ctr_VolumeMounts :: "VolumeMount list"
  ctr_Command :: "string list"
  ctr_Args :: "string list"
  ctr_Env :: "EnvVar list"
  ctr_ImagePullPolicy :: string
  ctr_SecurityContext :: "SecurityContext option"
  ctr_LivenessProbe :: "Probe option"
  ctr_rest :: json

record PodSpec =
  pod_Affinity :: "json option"
  pod_FSGroup :: "int64 option"
  pod_ServiceAccountName :: string
  pod_Containers :: "Container list"
  pod_Volumes :: "Volume list"
  pod_rest :: json

record PodTemplateSpec =
  pt_Labels :: "string gomap"
  pt_Annotations :: "string gomap"
  pt_Spec :: PodSpec
  pt_rest :: json

text \<open>\<open>Requests\<close> is a map with its nil value, like every Go map.\<close>

record 'q PersistentVolumeClaim =
  pvc_Meta :: ObjectMeta
  pvc_AccessModes :: "string list option"
  pvc_Requests :: "'q gomap"
  pvc_StorageClassName :: "string option"
  pvc_rest :: json

record PVCRetentionPolicy =
  WhenDeleted :: string
  WhenScaled :: string

record LabelSelector =
  MatchLabels :: "string gomap"
  sel_rest :: json

record 'q StatefulSetSpec =
  sts_Replicas :: "int32 option"
  sts_Selector :: "LabelSelector option"
  sts_Template :: PodTemplateSpec
  sts_VolumeClaimTemplates :: "'q PersistentVolumeClaim list"
  sts_ServiceName :: string
  sts_PodManagementPolicy :: string
  sts_UpdateStrategy :: json
  sts_RevisionHistoryLimit :: "int32 option"
  sts_MinReadySeconds :: int32
  sts_RetentionPolicy :: "PVCRetentionPolicy option"
  sts_rest :: json

record 'q StatefulSet =
  sts_Meta :: ObjectMeta
  sts_Spec :: "'q StatefulSetSpec"
  sts_Status :: json

record NeutronAPI =
  neutron_Meta :: ObjectMeta
  DatabaseAccount :: string
  DatabaseHostname :: string

record MariaDBDatabase =
  mdb_Meta :: ObjectMeta

record MariaDBAccount =
  acc_Meta :: ObjectMeta
  UserName :: string

record TransportURL =
  turl_Meta :: ObjectMeta

text \<open>\<open>metav1.Time.IsZero\<close> of a possibly nil time stamp.\<close>

definition IsZero :: "int option \<Rightarrow> bool" where
  "IsZero t \<longleftrightarrow> (case t of None \<Rightarrow> True | Some n \<Rightarrow> n = 0)"

definition zero_meta :: ObjectMeta where
  "zero_meta = \<lparr>Name = [], Namespace = [], Labels = None, Annotations = None,
     DeletionTimestamp = None, OwnerReferences = [], meta_rest = JNull\<rparr>"

section \<open>Library functions\<close>

text \<open>
  \<open>SetControllerReference\<close> (controller-runtime) works on the metadata of the controlled object;
  \<open>SetStatusCondition\<close> (apimachinery) on a list of conditions; \<open>ParseQuantity\<close>, \<open>Cmp\<close>, \<open>QString\<close> and
  \<open>RequestedStorage\<close> are \<open>resource.ParseQuantity\<close>, \<open>Quantity.Cmp\<close>, \<open>Quantity.String\<close> and
  \<open>ResourceList.Storage\<close>; \<open>DistributePods\<close>, \<open>SetValue\<close> and \<open>MergeEnvs\<close> are those of lib-common (an
  \<open>env.Setter\<close> is a function on \<open>EnvVar\<close>); \<open>DatabasePasswordSelector\<close> is a constant of the MariaDB
  operator; \<open>IsNotFound\<close> is \<open>k8s_errors.IsNotFound\<close>.
\<close>

record 'q Lib =
  IsNotFound :: "go_error \<Rightarrow> bool"
  SetControllerReference :: "ObjectMeta \<Rightarrow> ObjectMeta \<Rightarrow> go_error + ObjectMeta"
  SetStatusCondition :: "Condition list \<Rightarrow> Condition \<Rightarrow> Condition list"
  ParseQuantity :: "string \<Rightarrow> go_error + 'q"
  Cmp :: "'q \<Rightarrow> 'q \<Rightarrow> int"
  QString :: "'q \<Rightarrow> string"
  RequestedStorage :: "'q gomap \<Rightarrow> 'q option"
  DistributePods :: "string \<Rightarrow> string list \<Rightarrow> string \<Rightarrow> json option"
  SetValue :: "string \<Rightarrow> EnvVar \<Rightarrow> EnvVar"
  MergeEnvs :: "EnvVar list \<Rightarrow> (EnvVar \<Rightarrow> EnvVar) gomap \<Rightarrow> EnvVar list"
  DatabasePasswordSelector :: string

text \<open>The key of the storage request in a \<open>corev1.ResourceList\<close>.\<close>

definition ResourceStorage :: string where
  "ResourceStorage = ''storage''"

section \<open>Documented behaviour of the library functions\<close>

text \<open>\<open>SetControllerReference\<close> sets an owner reference; it keeps the rest of the metadata.\<close>

definition owner_ref_doc :: "'q Lib \<Rightarrow> bool" where
  "owner_ref_doc L \<longleftrightarrow>
     (\<forall>ow m m'. SetControllerReference L ow m = Inr m' \<longrightarrow>
        m' = m\<lparr>OwnerReferences := OwnerReferences m'\<rparr>)"

text \<open>
  \<open>SetStatusCondition\<close>: the condition of the given type is updated to the new condition, or appended
  when there is none; the others stay.
\<close>

definition find_cond :: "Condition list \<Rightarrow> string \<Rightarrow> Condition option" where
  "find_cond cs ty = find (\<lambda>c. cond_Type c = ty) cs"

definition status_condition_doc :: "'q Lib \<Rightarrow> bool" where
  "status_condition_doc L \<longleftrightarrow>
     (\<forall>cs c ty. find_cond (SetStatusCondition L cs c) ty =
        (if ty = cond_Type c then Some c else find_cond cs ty))"

text \<open>\<open>Cmp\<close> returns 0, -1 or 1 and is a comparison: swapping the operands swaps the sign.\<close>

definition cmp_doc :: "'q Lib \<Rightarrow> bool" where
  "cmp_doc L \<longleftrightarrow>
     (\<forall>p q. Cmp L p q \<in> {-1, 0, 1} \<and> Cmp L q p = - Cmp L p q \<and> Cmp L p p = 0)"

lemma cmp_docD:
  assumes "cmp_doc L"
  shows "Cmp L p q = -1 \<or> Cmp L p q = 0 \<or> Cmp L p q = 1" and "Cmp L p p = 0"
  using assms unfolding cmp_doc_def by blast+

text \<open>\<open>Storage\<close> returns the storage quantity of the list if it is specified.\<close>

definition storage_doc :: "'q Lib \<Rightarrow> bool" where
  "storage_doc L \<longleftrightarrow>
     (\<forall>rl q. gm_get rl ResourceStorage = Some q \<longrightarrow> RequestedStorage L rl = Some q)"

text \<open>Becoming the controller of an object does not change its name.\<close>

lemma owner_ref_names:
  assumes "owner_ref_doc L" and "SetControllerReference L ow m = Inr m'"
  shows "Name m' = Name m" "Namespace m' = Namespace m"
proof -
  have "m' = m\<lparr>OwnerReferences := OwnerReferences m'\<rparr>"
    using assms unfolding owner_ref_doc_def by blast
  then show "Name m' = Name m" "Namespace m' = Namespace m"
    by (metis ObjectMeta.ext_inject ObjectMeta.surjective ObjectMeta.update_convs(6))+
qed

end
