(* ===== verification/Aim_Types.thy ===== *)
theory Aim_Types
  imports K8s_API
begin

text \<open>
  The custom resource of \<open>src/api/v1alpha1/ciscoaciaim_types.go\<close>: one record per Go struct, a field
  per field, pointers as options, \<open>int32\<close> and \<open>int\<close> at their widths. The numeric limits and the
  pattern that the \<open>kubebuilder\<close> markers put into the schema are the predicates \<open>valid_*\<close>; the
  schema defaults are \<open>default_*\<close>.
\<close>

record LogPersistenceSpec =
  Size :: string
  StorageClassName :: string

record LivenessProbeSpec =
  InitialDelaySeconds :: int32
  PeriodSeconds :: int32
  TimeoutSeconds :: int32
  SuccessThreshold :: int32
  FailureThreshold :: int32
  DisableProbe :: bool

record AciConnectionSpec =
  ACIApicHosts :: string
  ACIApicUsername :: string
  ACIApicPassword :: string
  ACIApicCertName :: string
  ACIApicCertificateSecretRef :: "SecretKeySelector option"
  ACIApicPrivateKeySecretRef :: "SecretKeySelector option"
  ACIApicSystemId :: string
  ACIApicSystemIdMaxLength :: int64
  ACIVerifySslCertificate :: string

text \<open>\<open>ACIHostLinks\<close> is the raw text of the JSON value, when there is one.\<close>

record AciFabricSpec =
  ACIApicEntityProfile :: string
  ACIVpcPairs :: "string list"
  ACIOpflexEncapMode :: string
  ACIOpflexVlanRange :: "string list"
  ACIHostLinks :: "string option"
  AciOpenvswitch :: bool
  AciVmmMcastRanges :: string
  AciVmmMulticastAddress :: string
  AciVmmDomainName :: string
  NeutronNetworkVLANRanges :: "string list"
  AciPhysDomMappings :: "string list"
  NeutronPhysicalDevMappings :: "string list"
  AciExternalRoutedDomain :: string

record CiscoAciAimSpec =
  ContainerImage :: string
  Replicas :: "int32 option"
  AciConnection :: AciConnectionSpec
  AciFabric :: "AciFabricSpec option"
  AciGen1HwGratArps :: bool
  AciEnableFaultSubscription :: bool
  ACIAimDebug :: bool
  LogFileMaxSizeMB :: int64
  LogFileMaxCount :: int64
  ACIOptimizedMetadata :: bool
  ACIScopeNames :: bool
  ACIScopeInfra :: bool
  LogPersistence :: "LogPersistenceSpec option"
  LivenessProbe :: "LivenessProbeSpec option"

record CiscoAciAimStatus =
  Conditions :: "Condition list"

record CiscoAciAim =
  aim_Meta :: ObjectMeta
  Spec :: CiscoAciAimSpec
  Status :: CiscoAciAimStatus

record CiscoAciAimList =
  Items :: "CiscoAciAim list"

abbreviation aim_Name :: "CiscoAciAim \<Rightarrow> string" where
  "aim_Name a \<equiv> Name (aim_Meta a)"

abbreviation aim_Namespace :: "CiscoAciAim \<Rightarrow> string" where
  "aim_Namespace a \<equiv> Namespace (aim_Meta a)"

abbreviation aim_Conn :: "CiscoAciAim \<Rightarrow> AciConnectionSpec" where
  "aim_Conn a \<equiv> AciConnection (Spec a)"

abbreviation log_spec :: "CiscoAciAim \<Rightarrow> LogPersistenceSpec option" where
  "log_spec a \<equiv> LogPersistence (Spec a)"

section \<open>Schema limits\<close>

text \<open>The limits of the \<open>kubebuilder:validation\<close> markers on the numeric fields.\<close>

definition valid_probe :: "LivenessProbeSpec \<Rightarrow> bool" where
  "valid_probe p \<longleftrightarrow>
     0 \<le> sint (InitialDelaySeconds p) \<and> 1 \<le> sint (PeriodSeconds p) \<and> 1 \<le> sint (TimeoutSeconds p) \<and>
     1 \<le> sint (SuccessThreshold p) \<and> 1 \<le> sint (FailureThreshold p)"

definition valid_replicas :: "int32 option \<Rightarrow> bool" where
  "valid_replicas r \<longleftrightarrow> (case r of None \<Rightarrow> True | Some n \<Rightarrow> 0 \<le> sint n \<and> sint n \<le> 32)"

text \<open>
  The pattern on \<open>LogPersistenceSpec.Size\<close>,
  \<^verbatim>\<open>^(([0-9]+)(\.[0-9]+)?|\.[0-9]+)([EPTGMK]i|[eE][+-]?[0-9]+|[EPTGMkmun])?$\<close>,
  as a matcher: a mantissa and an optional suffix.
\<close>

definition is_digit :: "char \<Rightarrow> bool" where
  "is_digit c \<longleftrightarrow> CHR ''0'' \<le> c \<and> c \<le> CHR ''9''"

definition digits1 :: "string \<Rightarrow> bool" where
  "digits1 s \<longleftrightarrow> s \<noteq> [] \<and> list_all is_digit s"

definition valid_size_mantissa :: "string \<Rightarrow> bool" where
  "valid_size_mantissa s \<longleftrightarrow>
     (let ip = takeWhile (\<lambda>c. c \<noteq> CHR ''.'') s; fp = dropWhile (\<lambda>c. c \<noteq> CHR ''.'') s
      in if fp = [] then digits1 ip else (ip = [] \<or> digits1 ip) \<and> digits1 (tl fp))"

definition valid_size_suffix :: "string \<Rightarrow> bool" where
  "valid_size_suffix s \<longleftrightarrow>
     (case s of
        [] \<Rightarrow> True
      | [c] \<Rightarrow> c \<in> set ''EPTGMkmun''
      | c # d # r \<Rightarrow>
          (r = [] \<and> d = CHR ''i'' \<and> c \<in> set ''EPTGMK'') \<or>
          (c \<in> set ''eE'' \<and> (digits1 (d # r) \<or> d \<in> set ''+-'' \<and> digits1 r)))"

definition valid_size :: "string \<Rightarrow> bool" where
  "valid_size s \<longleftrightarrow>
     list_ex (\<lambda>n. valid_size_mantissa (take n s) \<and> valid_size_suffix (drop n s)) [0..<Suc (length s)]"

section \<open>Schema defaults\<close>

text \<open>
  The \<open>kubebuilder:default\<close> markers: what the API server fills in for a field the user omits. A
  default of a field of an optional block applies only when the block itself is present.
\<close>

definition default_replicas :: "int32 option \<Rightarrow> int32 option" where
  "default_replicas r = (case r of None \<Rightarrow> Some 1 | Some n \<Rightarrow> Some n)"

definition default_probe :: LivenessProbeSpec where
  "default_probe =
     \<lparr>InitialDelaySeconds = 30, PeriodSeconds = 10, TimeoutSeconds = 5, SuccessThreshold = 1,
      FailureThreshold = 3, DisableProbe = False\<rparr>"

definition default_connection :: AciConnectionSpec where
  "default_connection =
     \<lparr>ACIApicHosts = ''1.1.1.1'', ACIApicUsername = ''admin'', ACIApicPassword = [],
      ACIApicCertName = [], ACIApicCertificateSecretRef = None, ACIApicPrivateKeySecretRef = None,
      ACIApicSystemId = ''aci_openstack'', ACIApicSystemIdMaxLength = 16,
      ACIVerifySslCertificate = ''false''\<rparr>"

definition default_fabric :: AciFabricSpec where
  "default_fabric =
     \<lparr>ACIApicEntityProfile = ''aci-openstack-aep'', ACIVpcPairs = [], ACIOpflexEncapMode = ''vxlan'',
      ACIOpflexVlanRange = [], ACIHostLinks = None, AciOpenvswitch = False,
      AciVmmMcastRanges = ''225.2.1.1:225.2.255.255'', AciVmmMulticastAddress = ''225.1.2.3'',
      AciVmmDomainName = [], NeutronNetworkVLANRanges = [], AciPhysDomMappings = [],
      NeutronPhysicalDevMappings = [], AciExternalRoutedDomain = []\<rparr>"

definition default_spec :: "string \<Rightarrow> CiscoAciAimSpec" where
  "default_spec img =
     \<lparr>ContainerImage = img, Replicas = default_replicas None, AciConnection = default_connection,
      AciFabric = None, AciGen1HwGratArps = False, AciEnableFaultSubscription = True,
      ACIAimDebug = False, LogFileMaxSizeMB = 20, LogFileMaxCount = 5, ACIOptimizedMetadata = True,
      ACIScopeNames = False, ACIScopeInfra = False, LogPersistence = None, LivenessProbe = None\<rparr>"

end
