(* ===== verification/K8s_Client.thy ===== *)
theory K8s_Client
  imports Aim_Types
begin

text \<open>
  The API client the reconciler is given (\<open>client.Client\<close> of controller-runtime), with one operation
  per object kind the operator uses it on, over an arbitrary type \<open>'w\<close> of cluster states. Nothing is
  assumed of a client: a call may fail, and may change the cluster state in any way, which includes
  what other actors do between two calls.

  \<open>traced\<close> runs a client and records every request with its outcome; the theorems about which
  requests the operator makes, and in which order, are theorems about this record.
\<close>

record ('w, 'q) Client =
  Get_CiscoAciAim :: "NamespacedName \<Rightarrow> ('w, go_error, CiscoAciAim) call"
  Get_ConfigMap :: "NamespacedName \<Rightarrow> ('w, go_error, ConfigMap) call"
  Get_Secret :: "NamespacedName \<Rightarrow> ('w, go_error, Secret) call"
  Get_StatefulSet :: "NamespacedName \<Rightarrow> ('w, go_error, 'q StatefulSet) call"
  Get_NeutronAPI :: "NamespacedName \<Rightarrow> ('w, go_error, NeutronAPI) call"
  Get_MariaDBDatabase :: "NamespacedName \<Rightarrow> ('w, go_error, MariaDBDatabase) call"
  Get_MariaDBAccount :: "NamespacedName \<Rightarrow> ('w, go_error, MariaDBAccount) call"
  Get_TransportURL :: "NamespacedName \<Rightarrow> ('w, go_error, TransportURL) call"
  List_CiscoAciAim :: "string \<Rightarrow> ('w, go_error, CiscoAciAimList) call"
  List_PersistentVolumeClaim ::
    "string \<Rightarrow> string gomap \<Rightarrow> ('w, go_error, 'q PersistentVolumeClaim list) call"
  Create_ConfigMap :: "ConfigMap \<Rightarrow> ('w, go_error, ConfigMap) call"
  Create_Secret :: "Secret \<Rightarrow> ('w, go_error, unit) call"
  Create_StatefulSet :: "'q StatefulSet \<Rightarrow> ('w, go_error, unit) call"
  Update_ConfigMap :: "ConfigMap \<Rightarrow> ('w, go_error, unit) call"
  Update_Secret :: "Secret \<Rightarrow> ('w, go_error, unit) call"
  Update_StatefulSet :: "'q StatefulSet \<Rightarrow> ('w, go_error, unit) call"
  Update_PersistentVolumeClaim :: "'q PersistentVolumeClaim \<Rightarrow> ('w, go_error, unit) call"
  Delete_StatefulSet :: "'q StatefulSet \<Rightarrow> ('w, go_error, unit) call"
  UpdateStatus_CiscoAciAim :: "CiscoAciAim \<Rightarrow> ('w, go_error, unit) call"

text \<open>The objects that a list option \<open>client.MatchingLabels\<close> selects have all labels it names.\<close>

definition labels_match :: "string gomap \<Rightarrow> string gomap \<Rightarrow> bool" where
  "labels_match ls m \<longleftrightarrow> (\<forall>k \<in> fset (gm_keys ls). gm_get m k = gm_get ls k)"

definition key :: "string \<Rightarrow> string \<Rightarrow> NamespacedName" where
  "key ns n = \<lparr>nn_Namespace = ns, nn_Name = n\<rparr>"

lemma key_eq [simp]: "key n m = key n' m' \<longleftrightarrow> n = n' \<and> m = m'"
  by (simp add: key_def)

section \<open>Recording the requests\<close>

datatype 'q request =
    RGet string NamespacedName
  | RList string string
  | RCreateConfigMap ConfigMap
  | RCreateSecret Secret
  | RCreateStatefulSet "'q StatefulSet"
  | RUpdateConfigMap ConfigMap
  | RUpdateSecret Secret
  | RUpdateStatefulSet "'q StatefulSet"
  | RUpdateClaim "'q PersistentVolumeClaim"
  | RDeleteStatefulSet "'q StatefulSet"
  | RUpdateStatus CiscoAciAim

text \<open>A request and whether it succeeded.\<close>

type_synonym 'q entry = "'q request \<times> bool"

definition logged :: "'r \<Rightarrow> ('w, 'e, 'a) call \<Rightarrow> ('w \<times> ('r \<times> bool) list, 'e, 'a) call" where
  "logged rq m = State (\<lambda>(w, l). case run_state m w of (r, w') \<Rightarrow> (r, (w', l @ [(rq, \<not> isl r)])))"

definition traced :: "('w, 'q) Client \<Rightarrow> ('w \<times> 'q entry list, 'q) Client" where
  "traced c =
     \<lparr>Get_CiscoAciAim = \<lambda>k. logged (RGet ''CiscoAciAim'' k) (Get_CiscoAciAim c k),
      Get_ConfigMap = \<lambda>k. logged (RGet ''ConfigMap'' k) (Get_ConfigMap c k),
      Get_Secret = \<lambda>k. logged (RGet ''Secret'' k) (Get_Secret c k),
      Get_StatefulSet = \<lambda>k. logged (RGet ''StatefulSet'' k) (Get_StatefulSet c k),
      Get_NeutronAPI = \<lambda>k. logged (RGet ''NeutronAPI'' k) (Get_NeutronAPI c k),
      Get_MariaDBDatabase = \<lambda>k. logged (RGet ''MariaDBDatabase'' k) (Get_MariaDBDatabase c k),
      Get_MariaDBAccount = \<lambda>k. logged (RGet ''MariaDBAccount'' k) (Get_MariaDBAccount c k),
      Get_TransportURL = \<lambda>k. logged (RGet ''TransportURL'' k) (Get_TransportURL c k),
      List_CiscoAciAim = \<lambda>ns. logged (RList ''CiscoAciAim'' ns) (List_CiscoAciAim c ns),
      List_PersistentVolumeClaim =
        \<lambda>ns ls. logged (RList ''PersistentVolumeClaim'' ns) (List_PersistentVolumeClaim c ns ls),
      Create_ConfigMap = \<lambda>x. logged (RCreateConfigMap x) (Create_ConfigMap c x),
      Create_Secret = \<lambda>x. logged (RCreateSecret x) (Create_Secret c x),
      Create_StatefulSet = \<lambda>x. logged (RCreateStatefulSet x) (Create_StatefulSet c x),
      Update_ConfigMap = \<lambda>x. logged (RUpdateConfigMap x) (Update_ConfigMap c x),
      Update_Secret = \<lambda>x. logged (RUpdateSecret x) (Update_Secret c x),
      Update_StatefulSet = \<lambda>x. logged (RUpdateStatefulSet x) (Update_StatefulSet c x),
      Update_PersistentVolumeClaim = \<lambda>x. logged (RUpdateClaim x) (Update_PersistentVolumeClaim c x),
      Delete_StatefulSet = \<lambda>x. logged (RDeleteStatefulSet x) (Delete_StatefulSet c x),
      UpdateStatus_CiscoAciAim = \<lambda>x. logged (RUpdateStatus x) (UpdateStatus_CiscoAciAim c x)\<rparr>"

fun is_write :: "'q request \<Rightarrow> bool" where
  "is_write (RGet k n) = False"
| "is_write (RList k ns) = False"
| "is_write _ = True"

text \<open>The entries a computation adds to the record.\<close>

definition entries :: "('w \<times> 'r list, 'a) state \<Rightarrow> 'w \<Rightarrow> 'r list" where
  "entries m w = snd (snd (run_state m (w, [])))"

definition writes :: "'q entry list \<Rightarrow> 'q entry list" where
  "writes l = filter (\<lambda>e. is_write (fst e)) l"

text \<open>
  \<open>emits P m\<close>: whatever the cluster does, \<open>m\<close> only appends to the record, and its result and the
  entries it appends satisfy \<open>P\<close>.
\<close>

definition emits :: "('a \<Rightarrow> 'r list \<Rightarrow> bool) \<Rightarrow> ('w \<times> 'r list, 'a) state \<Rightarrow> bool" where
  "emits P m \<longleftrightarrow>
     (\<forall>w l. \<exists>l'. snd (snd (run_state m (w, l))) = l @ l' \<and> P (fst (run_state m (w, l))) l')"

section \<open>Rules for the record\<close>

named_theorems emits_rules \<open>composition rules for recorded requests\<close>

lemma traced_simps [simp]:
  "Get_CiscoAciAim (traced c) k = logged (RGet ''CiscoAciAim'' k) (Get_CiscoAciAim c k)"
  "Get_ConfigMap (traced c) k = logged (RGet ''ConfigMap'' k) (Get_ConfigMap c k)"
  "Get_Secret (traced c) k = logged (RGet ''Secret'' k) (Get_Secret c k)"
  "Get_StatefulSet (traced c) k = logged (RGet ''StatefulSet'' k) (Get_StatefulSet c k)"
  "Get_NeutronAPI (traced c) k = logged (RGet ''NeutronAPI'' k) (Get_NeutronAPI c k)"
  "Get_MariaDBDatabase (traced c) k = logged (RGet ''MariaDBDatabase'' k) (Get_MariaDBDatabase c k)"
  "Get_MariaDBAccount (traced c) k = logged (RGet ''MariaDBAccount'' k) (Get_MariaDBAccount c k)"
  "Get_TransportURL (traced c) k = logged (RGet ''TransportURL'' k) (Get_TransportURL c k)"
  "List_CiscoAciAim (traced c) ns = logged (RList ''CiscoAciAim'' ns) (List_CiscoAciAim c ns)"
  "List_PersistentVolumeClaim (traced c) ns ls =
     logged (RList ''PersistentVolumeClaim'' ns) (List_PersistentVolumeClaim c ns ls)"
  "Create_ConfigMap (traced c) cm = logged (RCreateConfigMap cm) (Create_ConfigMap c cm)"
  "Create_Secret (traced c) sec = logged (RCreateSecret sec) (Create_Secret c sec)"
  "Create_StatefulSet (traced c) sts = logged (RCreateStatefulSet sts) (Create_StatefulSet c sts)"
  "Update_ConfigMap (traced c) cm = logged (RUpdateConfigMap cm) (Update_ConfigMap c cm)"
  "Update_Secret (traced c) sec = logged (RUpdateSecret sec) (Update_Secret c sec)"
  "Update_StatefulSet (traced c) sts = logged (RUpdateStatefulSet sts) (Update_StatefulSet c sts)"
  "Update_PersistentVolumeClaim (traced c) pvc =
     logged (RUpdateClaim pvc) (Update_PersistentVolumeClaim c pvc)"
  "Delete_StatefulSet (traced c) sts = logged (RDeleteStatefulSet sts) (Delete_StatefulSet c sts)"
  "UpdateStatus_CiscoAciAim (traced c) aim = logged (RUpdateStatus aim) (UpdateStatus_CiscoAciAim c aim)"
  by (simp_all add: traced_def)

lemma run_logged [simp]:
  "run_state (logged rq m) (w, l) =
     (case run_state m w of (r, w') \<Rightarrow> (r, (w', l @ [(rq, \<not> isl r)])))"
  by (simp add: logged_def)

lemma emits_return [emits_rules]: "P x [] \<Longrightarrow> emits P (State_Monad.return x)"
  by (simp add: emits_def)

lemma emits_logged [emits_rules]: "(\<And>r. P r [(rq, \<not> isl r)]) \<Longrightarrow> emits P (logged rq m)"
  by (simp add: emits_def split: prod.split)

lemma emits_bind:
  assumes m: "emits P m" and f: "\<And>r l. P r l \<Longrightarrow> emits (\<lambda>x l'. Q x (l @ l')) (f r)"
  shows "emits Q (State_Monad.bind m f)"
  unfolding emits_def
proof (intro allI)
  fix w l
  obtain r w1 l1 where run: "run_state m (w, l) = (r, (w1, l1))"
    by (metis surj_pair)
  with m obtain l' where l': "l1 = l @ l'" "P r l'"
    unfolding emits_def by (metis fst_conv snd_conv)
  with f [of r l'] obtain l'' where "snd (snd (run_state (f r) (w1, l1))) = l1 @ l''"
      and "Q (fst (run_state (f r) (w1, l1))) (l' @ l'')"
    unfolding emits_def by blast
  with run l' show "\<exists>l'. snd (snd (run_state (m \<bind> f) (w, l))) = l @ l' \<and>
      Q (fst (run_state (m \<bind> f) (w, l))) l'"
    by auto
qed

lemma emits_mono: "emits P m \<Longrightarrow> (\<And>r l. P r l \<Longrightarrow> Q r l) \<Longrightarrow> emits Q m"
  unfolding emits_def by blast

lemma emits_bindI [emits_rules]:
  "emits (\<lambda>r l. emits (\<lambda>x l'. Q x (l @ l')) (f r)) m \<Longrightarrow> emits Q (State_Monad.bind m f)"
  by (rule emits_bind)

lemma emits_checkI [emits_rules]:
  assumes "emits (\<lambda>r l. case r of Inl e \<Rightarrow> Q (Inl e) l | Inr x \<Rightarrow> emits (\<lambda>y l'. Q y (l @ l')) (f x)) m"
  shows "emits Q (check m f)"
  unfolding check_def
  by (rule emits_bind [OF assms]) (auto split: sum.splits intro!: emits_return)

lemma emits_entries: "emits P m \<Longrightarrow> P (fst (run_state m (w, []))) (entries m w)"
  unfolding emits_def entries_def by (metis append_Nil)

lemma emits_conj: "emits P m \<Longrightarrow> emits Q m \<Longrightarrow> emits (\<lambda>r l. P r l \<and> Q r l) m"
  unfolding emits_def by (metis same_append_eq)

lemma writes_simps [simp]:
  "writes [] = []"
  "writes (e # l) = (if is_write (fst e) then e # writes l else writes l)"
  "writes (l @ l') = writes l @ writes l'"
  by (simp_all add: writes_def)

end
