(* ===== verification/Sample.thy ===== *)
theory Sample
  imports K8s_Client
begin

text \<open>
  One concrete instance of the parameters of the model, on which theorems with hypotheses are
  evaluated: library functions on natural numbers as quantities (\<open>demo_lib\<close>), an API server that
  keeps its objects in maps (\<open>demo_client\<close>), and a custom resource (\<open>demo_aim\<close>). The documented
  behaviour that the theorems assume holds of it.
\<close>

section \<open>Libraries\<close>

fun demo_set_condition :: "Condition list \<Rightarrow> Condition \<Rightarrow> Condition list" where
  "demo_set_condition [] c = [c]"
| "demo_set_condition (x # xs) c = (if cond_Type x = cond_Type c then c # xs else x # demo_set_condition xs c)"

text \<open>Quantities: a digit and the suffix \<open>Gi\<close>.\<close>

fun demo_parse :: "string \<Rightarrow> go_error + nat" where
  "demo_parse (c # r) =
     (if is_digit c \<and> r = ''Gi'' then Inr (of_char c - 48) else Inl (LibError ''quantity''))"
| "demo_parse [] = Inl (LibError ''quantity'')"

definition demo_lib :: "nat Lib" where
  "demo_lib =
     \<lparr>IsNotFound = \<lambda>e. e = ApiError ''NotFound'',
      SetControllerReference = \<lambda>ow m. Inr (m\<lparr>OwnerReferences := [JStr (Name ow)]\<rparr>),
      SetStatusCondition = demo_set_condition,
      ParseQuantity = demo_parse,
      Cmp = \<lambda>p q. if p < q then -1 else if p = q then 0 else 1,
      QString = \<lambda>q. utoa q,
      RequestedStorage = \<lambda>rl. Some (case gm_get rl ResourceStorage of None \<Rightarrow> 0 | Some q \<Rightarrow> q),
      DistributePods = \<lambda>lk vs tk. Some (JObj [(tk, JArr (map JStr vs))]),
      SetValue = \<lambda>v e. e\<lparr>env_Value := v\<rparr>,
      MergeEnvs = \<lambda>es m. es,
      DatabasePasswordSelector = ''DatabasePassword''\<rparr>"

lemma find_demo_set_condition:
  "find_cond (demo_set_condition cs c) ty = (if ty = cond_Type c then Some c else find_cond cs ty)"
  by (induction cs) (auto simp: find_cond_def)

lemma demo_lib_doc:
  "owner_ref_doc demo_lib" "status_condition_doc demo_lib" "cmp_doc demo_lib" "storage_doc demo_lib"
  by (simp_all add: owner_ref_doc_def status_condition_doc_def cmp_doc_def storage_doc_def demo_lib_def
      find_demo_set_condition)

section \<open>An API server in memory\<close>

type_synonym 'a objects = "NamespacedName \<Rightarrow> 'a option"

record cluster =
  st_aims :: "CiscoAciAim objects"
  st_aim_keys :: "NamespacedName list"
  st_config_maps :: "ConfigMap objects"
  st_secrets :: "Secret objects"
  st_stateful_sets :: "nat StatefulSet objects"
  st_claims :: "nat PersistentVolumeClaim list"
  st_neutrons :: "NeutronAPI objects"
  st_databases :: "MariaDBDatabase objects"
  st_accounts :: "MariaDBAccount objects"
  st_transport_urls :: "TransportURL objects"

definition mem_fetch :: "('w \<Rightarrow> 'a objects) \<Rightarrow> NamespacedName \<Rightarrow> ('w, go_error, 'a) call" where
  "mem_fetch sel k = State (\<lambda>w. (case sel w k of None \<Rightarrow> Inl (ApiError ''NotFound'') | Some x \<Rightarrow> Inr x, w))"

definition mem_effect :: "('w \<Rightarrow> 'w) \<Rightarrow> 'a \<Rightarrow> ('w, go_error, 'a) call" where
  "mem_effect f x = State (\<lambda>w. (Inr x, f w))"

abbreviation meta_key :: "ObjectMeta \<Rightarrow> NamespacedName" where
  "meta_key m \<equiv> key (Namespace m) (Name m)"

definition replace_claim ::
    "nat PersistentVolumeClaim \<Rightarrow> nat PersistentVolumeClaim \<Rightarrow> nat PersistentVolumeClaim" where
  "replace_claim p x = (if meta_key (pvc_Meta x) = meta_key (pvc_Meta p) then p else x)"

definition demo_client :: "(cluster, nat) Client" where
  "demo_client =
     \<lparr>Get_CiscoAciAim = mem_fetch st_aims,
      Get_ConfigMap = mem_fetch st_config_maps,
      Get_Secret = mem_fetch st_secrets,
      Get_StatefulSet = mem_fetch st_stateful_sets,
      Get_NeutronAPI = mem_fetch st_neutrons,
      Get_MariaDBDatabase = mem_fetch st_databases,
      Get_MariaDBAccount = mem_fetch st_accounts,
      Get_TransportURL = mem_fetch st_transport_urls,
      List_CiscoAciAim = \<lambda>ns. State (\<lambda>w.
        (Inr \<lparr>Items = List.map_filter (st_aims w) (filter (\<lambda>k. nn_Namespace k = ns) (st_aim_keys w))\<rparr>, w)),
      List_PersistentVolumeClaim = \<lambda>ns ls. State (\<lambda>w.
        (Inr (filter (\<lambda>p. Namespace (pvc_Meta p) = ns \<and> labels_match ls (Labels (pvc_Meta p))) (st_claims w)), w)),
      Create_ConfigMap = \<lambda>x. mem_effect (\<lambda>w. w\<lparr>st_config_maps := (st_config_maps w)(meta_key (cm_Meta x) := Some x)\<rparr>) x,
      Create_Secret = \<lambda>x. mem_effect (\<lambda>w. w\<lparr>st_secrets := (st_secrets w)(meta_key (sec_Meta x) := Some x)\<rparr>) (),
      Create_StatefulSet = \<lambda>x.
        mem_effect (\<lambda>w. w\<lparr>st_stateful_sets := (st_stateful_sets w)(meta_key (sts_Meta x) := Some x)\<rparr>) (),
      Update_ConfigMap = \<lambda>x. mem_effect (\<lambda>w. w\<lparr>st_config_maps := (st_config_maps w)(meta_key (cm_Meta x) := Some x)\<rparr>) (),
      Update_Secret = \<lambda>x. mem_effect (\<lambda>w. w\<lparr>st_secrets := (st_secrets w)(meta_key (sec_Meta x) := Some x)\<rparr>) (),
      Update_StatefulSet = \<lambda>x.
        mem_effect (\<lambda>w. w\<lparr>st_stateful_sets := (st_stateful_sets w)(meta_key (sts_Meta x) := Some x)\<rparr>) (),
      Update_PersistentVolumeClaim = \<lambda>x. mem_effect (\<lambda>w. w\<lparr>st_claims := map (replace_claim x) (st_claims w)\<rparr>) (),
      Delete_StatefulSet = \<lambda>x.
        mem_effect (\<lambda>w. w\<lparr>st_stateful_sets := (st_stateful_sets w)(meta_key (sts_Meta x) := None)\<rparr>) (),
      UpdateStatus_CiscoAciAim = \<lambda>x. mem_effect (\<lambda>w. w\<lparr>st_aims := (st_aims w)(meta_key (aim_Meta x) := Some x)\<rparr>) ()\<rparr>"

section \<open>A custom resource\<close>

definition demo_meta :: "string \<Rightarrow> ObjectMeta" where
  "demo_meta n = zero_meta\<lparr>Name := n, Namespace := ''openstack''\<rparr>"

text \<open>An instance with every field at its default, and one with persistent logs.\<close>

definition demo_aim :: CiscoAciAim where
  "demo_aim = \<lparr>aim_Meta = demo_meta ''aim'', Spec = default_spec ''img'', Status = \<lparr>Conditions = []\<rparr>\<rparr>"

definition demo_log_aim :: CiscoAciAim where
  "demo_log_aim =
     demo_aim\<lparr>Spec := (default_spec ''img'')\<lparr>LogPersistence := Some \<lparr>Size = ''2Gi'', StorageClassName = []\<rparr>\<rparr>\<rparr>"

definition demo_secret :: "string \<Rightarrow> (string \<times> string) list \<Rightarrow> Secret" where
  "demo_secret n kvs = \<lparr>sec_Meta = demo_meta n, sec_Type = ''Opaque'', sec_Data = gm_of kvs, sec_rest = JNull\<rparr>"

definition demo_cluster :: cluster where
  "demo_cluster =
     \<lparr>st_aims = [key ''openstack'' ''aim'' \<mapsto> demo_aim],
      st_aim_keys = [key ''openstack'' ''aim''],
      st_config_maps = Map.empty,
      st_secrets =
        [key ''openstack'' ''neutron-db-secret'' \<mapsto> demo_secret ''neutron-db-secret'' [(''DatabasePassword'', ''pw'')],
         key ''openstack'' ''rootca-internal'' \<mapsto> demo_secret ''rootca-internal'' [(''ca.crt'', ''CA'')],
         key ''openstack'' ''rabbitmq-transport-url-neutron-neutron-transport'' \<mapsto>
           demo_secret ''rabbitmq-transport-url-neutron-neutron-transport'' [(''transport_url'', ''rabbit://u'')]],
      st_stateful_sets = Map.empty,
      st_claims = [],
      st_neutrons = [key ''openstack'' ''neutron'' \<mapsto>
        \<lparr>neutron_Meta = demo_meta ''neutron'', DatabaseAccount = ''neutron'', DatabaseHostname = ''db''\<rparr>],
      st_databases = [key ''openstack'' ''neutron'' \<mapsto> \<lparr>mdb_Meta = demo_meta ''neutron''\<rparr>],
      st_accounts = [key ''openstack'' ''neutron'' \<mapsto> \<lparr>acc_Meta = demo_meta ''neutron'', UserName = ''nu''\<rparr>],
      st_transport_urls = [key ''openstack'' ''neutron-neutron-transport'' \<mapsto>
        \<lparr>turl_Meta = demo_meta ''neutron-neutron-transport''\<rparr>]\<rparr>"

lemmas demo_defs = demo_lib_def demo_client_def demo_aim_def demo_log_aim_def demo_meta_def demo_secret_def
  zero_meta_def default_spec_def

end
