(* ===== verification/Go_Sha256.thy ===== *)
theory Go_Sha256
  imports Go_Prelude
begin

text \<open>
  \<open>crypto/sha256\<close> and \<open>encoding/hex\<close>: the SHA-256 function of FIPS 180-4 on byte strings, and the
  lower-case hexadecimal text of the digest. Writing to the hasher in several pieces hashes their
  concatenation, so a hasher is the string of the bytes written so far.
\<close>

unbundle bit_operations_syntax

section \<open>Constants\<close>

definition sha256_K :: "32 word list" where
  "sha256_K =
     [0x428A2F98, 0x71374491, 0xB5C0FBCF, 0xE9B5DBA5, 0x3956C25B, 0x59F111F1, 0x923F82A4, 0xAB1C5ED5,
      0xD807AA98, 0x12835B01, 0x243185BE, 0x550C7DC3, 0x72BE5D74, 0x80DEB1FE, 0x9BDC06A7, 0xC19BF174,
      0xE49B69C1, 0xEFBE4786, 0x0FC19DC6, 0x240CA1CC, 0x2DE92C6F, 0x4A7484AA, 0x5CB0A9DC, 0x76F988DA,
      0x983E5152, 0xA831C66D, 0xB00327C8, 0xBF597FC7, 0xC6E00BF3, 0xD5A79147, 0x06CA6351, 0x14292967,
      0x27B70A85, 0x2E1B2138, 0x4D2C6DFC, 0x53380D13, 0x650A7354, 0x766A0ABB, 0x81C2C92E, 0x92722C85,
      0xA2BFE8A1, 0xA81A664B, 0xC24B8B70, 0xC76C51A3, 0xD192E819, 0xD6990624, 0xF40E3585, 0x106AA070,
      0x19A4C116, 0x1E376C08, 0x2748774C, 0x34B0BCB5, 0x391C0CB3, 0x4ED8AA4A, 0x5B9CCA4F, 0x682E6FF3,
      0x748F82EE, 0x78A5636F, 0x84C87814, 0x8CC70208, 0x90BEFFFA, 0xA4506CEB, 0xBEF9A3F7, 0xC67178F2]"

type_synonym sha_state =
  "32 word \<times> 32 word \<times> 32 word \<times> 32 word \<times> 32 word \<times> 32 word \<times> 32 word \<times> 32 word"

definition sha256_init :: sha_state where
  "sha256_init = (0x6A09E667, 0xBB67AE85, 0x3C6EF372, 0xA54FF53A, 0x510E527F, 0x9B05688C, 0x1F83D9AB, 0x5BE0CD19)"

section \<open>Compression\<close>

definition sha_ch :: "32 word \<Rightarrow> 32 word \<Rightarrow> 32 word \<Rightarrow> 32 word" where
  "sha_ch x y z = ((x AND y) XOR (NOT x AND z))"

definition sha_maj :: "32 word \<Rightarrow> 32 word \<Rightarrow> 32 word \<Rightarrow> 32 word" where
  "sha_maj x y z = ((x AND y) XOR (x AND z) XOR (y AND z))"

definition big_sigma0 :: "32 word \<Rightarrow> 32 word" where
  "big_sigma0 x = (word_rotr 2 x XOR word_rotr 13 x XOR word_rotr 22 x)"

definition big_sigma1 :: "32 word \<Rightarrow> 32 word" where
  "big_sigma1 x = (word_rotr 6 x XOR word_rotr 11 x XOR word_rotr 25 x)"

definition small_sigma0 :: "32 word \<Rightarrow> 32 word" where
  "small_sigma0 x = (word_rotr 7 x XOR word_rotr 18 x XOR drop_bit 3 x)"

definition small_sigma1 :: "32 word \<Rightarrow> 32 word" where
  "small_sigma1 x = (word_rotr 17 x XOR word_rotr 19 x XOR drop_bit 10 x)"

text \<open>The message schedule, extended by \<open>n\<close> words.\<close>

fun extend_schedule :: "nat \<Rightarrow> 32 word list \<Rightarrow> 32 word list" where
  "extend_schedule 0 ws = ws"
| "extend_schedule (Suc n) ws =
     (let t = length ws
      in extend_schedule n
           (ws @ [small_sigma1 (ws ! (t - 2)) + ws ! (t - 7) + small_sigma0 (ws ! (t - 15)) + ws ! (t - 16)]))"

fun sha_round :: "32 word \<times> 32 word \<Rightarrow> sha_state \<Rightarrow> sha_state" where
  "sha_round (k, w) (a, b, c, d, e, f, g, h) =
     (let t1 = h + big_sigma1 e + sha_ch e f g + k + w;
          t2 = big_sigma0 a + sha_maj a b c
      in (t1 + t2, a, b, c, d + t1, e, f, g))"

fun sha_add :: "sha_state \<Rightarrow> sha_state \<Rightarrow> sha_state" where
  "sha_add (a, b, c, d, e, f, g, h) (a', b', c', d', e', f', g', h') =
     (a + a', b + b', c + c', d + d', e + e', f + f', g + g', h + h')"

definition sha_block :: "32 word list \<Rightarrow> sha_state \<Rightarrow> sha_state" where
  "sha_block ws st = sha_add st (fold sha_round (zip sha256_K (extend_schedule 48 ws)) st)"

section \<open>Padding and hashing\<close>

definition be_bytes :: "64 word \<Rightarrow> string" where
  "be_bytes n = map (\<lambda>i. char_of (unat (drop_bit (56 - 8 * i) n AND 255))) [0..<8]"

definition sha_pad :: "string \<Rightarrow> string" where
  "sha_pad m =
     (let l = length m
      in m @ CHR 0x80 # replicate ((119 - l mod 64) mod 64) (CHR 0x00) @ be_bytes (8 * of_nat l))"

definition word_of_bytes :: "char \<Rightarrow> char \<Rightarrow> char \<Rightarrow> char \<Rightarrow> 32 word" where
  "word_of_bytes a b c d = of_char a * 16777216 + of_char b * 65536 + of_char c * 256 + of_char d"

fun words_of_bytes :: "string \<Rightarrow> 32 word list" where
  "words_of_bytes (a # b # c # d # s) = word_of_bytes a b c d # words_of_bytes s"
| "words_of_bytes _ = []"

fun sha_blocks :: "nat \<Rightarrow> 32 word list \<Rightarrow> sha_state \<Rightarrow> sha_state" where
  "sha_blocks 0 ws st = st"
| "sha_blocks (Suc n) ws st = sha_blocks n (drop 16 ws) (sha_block (take 16 ws) st)"

fun digest_words :: "sha_state \<Rightarrow> 32 word list" where
  "digest_words (a, b, c, d, e, f, g, h) = [a, b, c, d, e, f, g, h]"

definition sha256_words :: "string \<Rightarrow> 32 word list" where
  "sha256_words m =
     (let ws = words_of_bytes (sha_pad m)
      in digest_words (sha_blocks (length ws div 16) ws sha256_init))"

section \<open>Hexadecimal text\<close>

definition hex_digit :: "nat \<Rightarrow> char" where
  "hex_digit d = (if d < 10 then char_of (48 + d) else char_of (87 + d))"

definition hex_of_word :: "32 word \<Rightarrow> string" where
  "hex_of_word w = map (\<lambda>i. hex_digit (unat (drop_bit (28 - 4 * i) w AND 15))) [0..<8]"

text \<open>\<open>hex.EncodeToString(h.Sum(nil))\<close> after the bytes \<open>m\<close> were written to a new hasher \<open>h\<close>.\<close>

definition sha256_hex :: "string \<Rightarrow> string" where
  "sha256_hex m = concat (map hex_of_word (sha256_words m))"

section \<open>Shape of the digest\<close>

definition hex_chars :: "char set" where
  "hex_chars = set ''0123456789abcdef''"

lemma hex_digit_table: "list_all (\<lambda>d. hex_digit d \<in> hex_chars) [0..<16]"
  by code_simp

lemma hex_digit_chars: "d < 16 \<Longrightarrow> hex_digit d \<in> hex_chars"
  using hex_digit_table by (auto simp: list_all_iff)

lemma hex_of_word_length [simp]: "length (hex_of_word w) = 8"
  by (simp add: hex_of_word_def)

lemma nibble_less: "unat (w AND 15 :: 32 word) < 16"
proof -
  have "w AND 15 \<le> 15"
    by (rule word_and_le1)
  then have "unat (w AND 15) \<le> unat (15 :: 32 word)"
    by (simp add: word_le_nat_alt)
  then show ?thesis
    by simp
qed

lemma hex_of_word_chars: "set (hex_of_word w) \<subseteq> hex_chars"
  by (auto simp: hex_of_word_def intro!: hex_digit_chars nibble_less)

lemma digest_words_length [simp]: "length (digest_words st) = 8"
  by (cases st rule: digest_words.cases) simp

lemma sha256_words_length [simp]: "length (sha256_words m) = 8"
  by (simp add: sha256_words_def Let_def)

lemma sha256_hex_length: "length (sha256_hex m) = 64"
proof -
  have "sum_list (map (\<lambda>w. length (hex_of_word w)) ws) = 8 * length ws" for ws
    by (induction ws) simp_all
  then show ?thesis
    by (simp add: sha256_hex_def length_concat comp_def)
qed

lemma sha256_hex_chars: "set (sha256_hex m) \<subseteq> hex_chars"
  using hex_of_word_chars by (auto simp: sha256_hex_def)

text \<open>The padded message is a whole number of blocks: no input byte is left over.\<close>

lemma pad_arith: "(l + 1 + (119 - l mod 64) mod 64 + 8) mod 64 = (0 :: nat)"
proof -
  define r where "r = l mod 64"
  have "r < 64" and l: "l = 64 * (l div 64) + r"
    by (simp_all add: r_def)
  have "(119 - r) mod 64 = (if r \<le> 55 then 55 - r else 119 - r)"
    using \<open>r < 64\<close> by (auto simp: mod_if)
  then have "l + 1 + (119 - r) mod 64 + 8 = 64 * (l div 64 + (if r \<le> 55 then 1 else 2))"
    using \<open>r < 64\<close> l by auto
  then show ?thesis
    unfolding r_def by (metis mod_mult_self1_is_0)
qed

lemma sha_pad_length: "length (sha_pad m) mod 64 = 0"
  using pad_arith [of "length m"]
  by (simp add: sha_pad_def Let_def be_bytes_def add.commute add.left_commute)

end
