(* ===== verification/Config_Map.thy ===== *)
theory Config_Map
  imports Sample Go_Sha256
begin

text \<open>
  The ConfigMap of an instance (\<open>src/pkg/ciscoaciaim/configmap.go\<close>), the checksum of its contents,
  and the two functions of the reconciler that create an object or bring it up to date:
  \<open>ensureConfigMap\<close> and \<open>ensureRabbitMQCaSecret\<close>. Both follow the scheme of the locale \<open>upsert\<close>.
\<close>

definition ConfigMap :: "CiscoAciAim \<Rightarrow> string gomap \<Rightarrow> ConfigMap" where
  "ConfigMap a configData =
     (let configMapName = aim_Name a @ ''-config''
      in \<lparr>cm_Meta = zero_meta\<lparr>Name := configMapName, Namespace := aim_Namespace a,
                               Labels := gm_of [(''app'', aim_Name a)]\<rparr>,
          cm_Data = configData, cm_rest = JNull\<rparr>)"

definition gm_index :: "string gomap \<Rightarrow> string \<Rightarrow> string" where
  "gm_index m k = (case gm_get m k of None \<Rightarrow> [] | Some v \<Rightarrow> v)"

text \<open>The bytes written to the hasher, for the keys in the given order.\<close>

definition checksum_bytes :: "string gomap \<Rightarrow> string list \<Rightarrow> string" where
  "checksum_bytes configData keys = concat (map (\<lambda>k. k @ gm_index configData k) keys)"

definition GenerateConfigMapChecksum :: "range_order \<Rightarrow> string gomap \<Rightarrow> string" where
  "GenerateConfigMapChecksum rng configData =
     (let keys = sort (rng [''checksum''] (gm_keys configData))
      in sha256_hex (checksum_bytes configData keys))"

section \<open>Create or update\<close>

definition applyConfigMap ::
    "'q Lib \<Rightarrow> ('w, 'q) Client \<Rightarrow> string \<times> ConfigMap \<Rightarrow> ('w, go_error, ConfigMap) call" where
  "applyConfigMap L c x =
     (case x of (ns, configMap) \<Rightarrow>
       State_Monad.bind (Get_ConfigMap c (key ns (Name (cm_Meta configMap)))) (\<lambda>r.
         case r of
           Inl err \<Rightarrow> if IsNotFound L err then Create_ConfigMap c configMap else fail err
         | Inr found \<Rightarrow>
             if cm_Data found \<noteq> cm_Data configMap then
               check (Update_ConfigMap c (found\<lparr>cm_Data := cm_Data configMap\<rparr>)) (\<lambda>_. ok configMap)
             else ok configMap))"

definition ensureConfigMap ::
    "'q Lib \<Rightarrow> ('w, 'q) Client \<Rightarrow> CiscoAciAim \<Rightarrow> string gomap \<Rightarrow> ('w, go_error, ConfigMap) call" where
  "ensureConfigMap L c a configData =
     (let configMap = ConfigMap a configData
      in case SetControllerReference L (aim_Meta a) (cm_Meta configMap) of
           Inl err \<Rightarrow> fail err
         | Inr meta \<Rightarrow> applyConfigMap L c (aim_Namespace a, configMap\<lparr>cm_Meta := meta\<rparr>))"

definition ca_secret :: "string \<Rightarrow> string \<Rightarrow> Secret" where
  "ca_secret ns caCrt =
     \<lparr>sec_Meta = zero_meta\<lparr>Name := ''rabbitmq-ca-secret'', Namespace := ns\<rparr>,
      sec_Type = ''Opaque'', sec_Data = gm_of [(''tls-ca-bundle.pem'', caCrt)], sec_rest = JNull\<rparr>"

definition applyCaSecret ::
    "'q Lib \<Rightarrow> ('w, 'q) Client \<Rightarrow> string \<times> Secret \<Rightarrow> ('w, go_error, unit) call" where
  "applyCaSecret L c x =
     (case x of (ns, dstSecret) \<Rightarrow>
       State_Monad.bind (Get_Secret c (key ns ''rabbitmq-ca-secret'')) (\<lambda>r.
         case r of
           Inl err \<Rightarrow> if IsNotFound L err then Create_Secret c dstSecret else fail err
         | Inr existing \<Rightarrow>
             if sec_Data existing \<noteq> sec_Data dstSecret then
               Update_Secret c (existing\<lparr>sec_Data := sec_Data dstSecret\<rparr>)
             else ok ()))"

definition ensureRabbitMQCaSecret ::
    "'q Lib \<Rightarrow> ('w, 'q) Client \<Rightarrow> CiscoAciAim \<Rightarrow> ('w, go_error, unit) call" where
  "ensureRabbitMQCaSecret L c a =
     check (Get_Secret c (key (aim_Namespace a) ''rootca-internal'')) (\<lambda>srcSecret.
       case gm_get (sec_Data srcSecret) ''ca.crt'' of
         None \<Rightarrow> fail CaCrtNotFound
       | Some caCrt \<Rightarrow> applyCaSecret L c (aim_Namespace a, ca_secret (aim_Namespace a) caCrt))"

section \<open>The scheme of both functions\<close>

text \<open>
  \<open>x\<close> is what is wanted; \<open>lookup\<close> fetches the object, \<open>current x ob\<close> says that it needs no change and
  \<open>amend x ob\<close> is the object that is written back.
\<close>

locale upsert =
  fixes ensure :: "'q Lib \<Rightarrow> ('w, 'q) Client \<Rightarrow> 'x \<Rightarrow> ('w, go_error, 'r) call"
    and lookup :: "('w, 'q) Client \<Rightarrow> 'x \<Rightarrow> ('w, go_error, 'o) call"
    and create :: "('w, 'q) Client \<Rightarrow> 'x \<Rightarrow> ('w, go_error, 'r) call"
    and update :: "('w, 'q) Client \<Rightarrow> 'o \<Rightarrow> ('w, go_error, unit) call"
    and current :: "'x \<Rightarrow> 'o \<Rightarrow> bool"
    and amend :: "'x \<Rightarrow> 'o \<Rightarrow> 'o"
    and result :: "'x \<Rightarrow> 'r"
  assumes absent: "run_state (lookup c x) w = (Inl e, w1) \<Longrightarrow> IsNotFound L e \<Longrightarrow>
      run_state (ensure L c x) w = run_state (create c x) w1"
    and unreadable: "run_state (lookup c x) w = (Inl e, w1) \<Longrightarrow> \<not> IsNotFound L e \<Longrightarrow>
      run_state (ensure L c x) w = (Inl e, w1)"
    and fresh: "run_state (lookup c x) w = (Inr ob, w1) \<Longrightarrow> current x ob \<Longrightarrow>
      run_state (ensure L c x) w = (Inr (result x), w1)"
    and stale: "run_state (lookup c x) w = (Inr ob, w1) \<Longrightarrow> \<not> current x ob \<Longrightarrow>
      run_state (ensure L c x) w =
        (case run_state (update c (amend x ob)) w1 of
           (Inl e, w2) \<Rightarrow> (Inl e, w2) | (Inr u, w2) \<Rightarrow> (Inr (result x), w2))"
    and amend_current: "current x (amend x ob)"
begin

text \<open>An object that needs no change is a fixed point: nothing is written and the state stays.\<close>

lemma fixed_point:
  "run_state (lookup c x) w = (Inr ob, w) \<Longrightarrow> current x ob \<Longrightarrow> run_state (ensure L c x) w = (Inr (result x), w)"
  by (rule fresh)

text \<open>
  A run that succeeds, when reads change nothing: what holds before and is kept by a successful write
  holds after it, and if a read after a write finds an object that needs no change, so does the next
  run.
\<close>

lemma successful:
  assumes run: "run_state (ensure L c x) w = (Inr r, w')" and pure: "\<And>v. snd (run_state (lookup c x) v) = v"
  obtains (made) u where "run_state (create c x) w = (Inr u, w')"
  | (changed) ob u where "run_state (lookup c x) w = (Inr ob, w)" "run_state (update c (amend x ob)) w = (Inr u, w')"
  | (left) ob where "run_state (lookup c x) w = (Inr ob, w)" "current x ob" "w' = w"
proof (cases "fst (run_state (lookup c x) w)")
  case (Inl e)
  then have "run_state (lookup c x) w = (Inl e, w)"
    using pure [of w] by (metis prod.collapse)
  then show ?thesis
    using run absent [of c x w e w L] unreadable [of c x w e w L] made by (cases "IsNotFound L e") auto
next
  case (Inr ob)
  then have look: "run_state (lookup c x) w = (Inr ob, w)"
    using pure [of w] by (metis prod.collapse)
  show ?thesis
  proof (cases "current x ob")
    case True
    then show ?thesis
      using run fresh [OF look True, of L] left [OF look True] by simp
  next
    case False
    obtain ru w2 where ru: "run_state (update c (amend x ob)) w = (ru, w2)"
      by fastforce
    then show ?thesis
      using run stale [OF look False, of L] changed [OF look] by (cases ru) simp_all
  qed
qed

lemma converges:
  assumes run: "run_state (ensure L c x) w = (Inr r, w')" and pure: "\<And>v. snd (run_state (lookup c x) v) = v"
    and created: "\<And>u. run_state (create c x) w = (Inr u, w') \<Longrightarrow> \<exists>ob. run_state (lookup c x) w' = (Inr ob, w') \<and> current x ob"
    and updated: "\<And>ob u. run_state (lookup c x) w = (Inr ob, w) \<Longrightarrow> run_state (update c (amend x ob)) w = (Inr u, w') \<Longrightarrow>
      \<exists>ob'. run_state (lookup c x) w' = (Inr ob', w') \<and> current x ob'"
  shows "\<exists>ob. run_state (lookup c x) w' = (Inr ob, w') \<and> current x ob"
  using run pure by (cases rule: successful) (auto dest: created updated)

lemma preserved:
  assumes run: "run_state (ensure L c x) w = (Inr r, w')" and pure: "\<And>v. snd (run_state (lookup c x) v) = v" and "P w"
    and created: "\<And>u. run_state (create c x) w = (Inr u, w') \<Longrightarrow> P w'"
    and updated: "\<And>ob u. run_state (lookup c x) w = (Inr ob, w) \<Longrightarrow> run_state (update c (amend x ob)) w = (Inr u, w') \<Longrightarrow> P w'"
  shows "P w'"
  using run pure
proof (cases rule: successful)
  case (made u)
  then show ?thesis
    by (rule created)
next
  case (changed ob u)
  then show ?thesis
    by (rule updated)
next
  case left
  with \<open>P w\<close> show ?thesis
    by simp
qed

text \<open>Every error of the function is an error of one of its calls.\<close>

lemma error_origin:
  assumes "run_state (ensure L c x) w = (Inl e, w')"
  shows "run_state (lookup c x) w = (Inl e, w') \<and> \<not> IsNotFound L e \<or>
    (\<exists>e0 w1. run_state (lookup c x) w = (Inl e0, w1) \<and> IsNotFound L e0 \<and>
       run_state (create c x) w1 = (Inl e, w')) \<or>
    (\<exists>ob w1. run_state (lookup c x) w = (Inr ob, w1) \<and> \<not> current x ob \<and>
       run_state (update c (amend x ob)) w1 = (Inl e, w'))"
proof (cases "run_state (lookup c x) w")
  case (Pair r w1)
  show ?thesis
  proof (cases r)
    case (Inl e0)
    with Pair assms show ?thesis
      using absent [of c x w e0 w1 L] unreadable [of c x w e0 w1 L] by (cases "IsNotFound L e0") auto
  next
    case (Inr ob)
    with Pair assms show ?thesis
      using fresh [of c x w ob w1 L] stale [of c x w ob w1 L]
      by (cases "current x ob") (auto split: prod.splits sum.splits)
  qed
qed

end

interpretation config_map: upsert applyConfigMap
  "\<lambda>c (ns, cm). Get_ConfigMap c (key ns (Name (cm_Meta cm)))" "\<lambda>c (ns, cm). Create_ConfigMap c cm"
  Update_ConfigMap "\<lambda>(ns, cm) ob. cm_Data ob = cm_Data cm" "\<lambda>(ns, cm) ob. ob\<lparr>cm_Data := cm_Data cm\<rparr>" snd
  by unfold_locales
    (auto simp: applyConfigMap_def split: prod.splits sum.splits)

interpretation ca_sec: upsert applyCaSecret
  "\<lambda>c (ns, sec). Get_Secret c (key ns ''rabbitmq-ca-secret'')" "\<lambda>c (ns, sec). Create_Secret c sec"
  Update_Secret "\<lambda>(ns, sec) ob. sec_Data ob = sec_Data sec" "\<lambda>(ns, sec) ob. ob\<lparr>sec_Data := sec_Data sec\<rparr>"
  "\<lambda>_. ()"
  by unfold_locales
    (auto simp: applyCaSecret_def split: prod.splits sum.splits)

section \<open>Requests of the two functions\<close>

text \<open>
  At most one write, of the kind \<open>P\<close>; the function reports the outcome of that write.
\<close>

definition one_write :: "('q request \<Rightarrow> bool) \<Rightarrow> 'e + 'a \<Rightarrow> 'q entry list \<Rightarrow> bool" where
  "one_write P r l \<longleftrightarrow> writes l = [] \<or> (\<exists>rq. P rq \<and> writes l = [(rq, \<not> isl r)])"

fun config_map_request :: "'q request \<Rightarrow> bool" where
  "config_map_request (RCreateConfigMap cm) = True"
| "config_map_request (RUpdateConfigMap cm) = True"
| "config_map_request _ = False"

fun secret_request :: "'q request \<Rightarrow> bool" where
  "secret_request (RCreateSecret sec) = True"
| "secret_request (RUpdateSecret sec) = True"
| "secret_request _ = False"

lemma applyConfigMap_emits: "emits (one_write config_map_request) (applyConfigMap L (traced c) (ns, cm))"
  by (auto simp: applyConfigMap_def one_write_def split: sum.split intro!: emits_rules)

lemma ensureConfigMap_emits: "emits (one_write config_map_request) (ensureConfigMap L (traced c) a data)"
  by (auto simp: ensureConfigMap_def Let_def split: sum.split intro!: applyConfigMap_emits)
    (auto simp: one_write_def intro!: emits_rules)

lemma applyCaSecret_emits: "emits (one_write secret_request) (applyCaSecret L (traced c) (ns, sec))"
  by (auto simp: applyCaSecret_def one_write_def split: sum.split intro!: emits_rules)

lemma one_write_read: "one_write P r l \<Longrightarrow> one_write P r ((RGet k n, b) # l)"
  by (simp add: one_write_def)

lemma ensureRabbitMQCaSecret_emits: "emits (one_write secret_request) (ensureRabbitMQCaSecret L (traced c) a)"
  unfolding ensureRabbitMQCaSecret_def
  by (auto split: sum.split option.split intro!: emits_rules emits_mono [OF applyCaSecret_emits])
    (auto simp: one_write_def)

section \<open>The checksum\<close>

interpretation checksum: sorted_range GenerateConfigMapChecksum gm_keys
  "\<lambda>m ks. sha256_hex (checksum_bytes m ks)" "\<lambda>_. [''checksum'']"
  by unfold_locales (simp add: GenerateConfigMapChecksum_def)

section \<open>Properties\<close>

text \<open>
  C30: the checksum of the files does not depend on the order in which Go visits the map, and it is
  64 hexadecimal digits.
\<close>

theorem checksum_deterministic:
  assumes "range_ok rng" and "range_ok rng'"
  shows "GenerateConfigMapChecksum rng files = GenerateConfigMapChecksum rng' files \<and>
    length (GenerateConfigMapChecksum rng files) = 64 \<and>
    set (GenerateConfigMapChecksum rng files) \<subseteq> hex_chars"
  using checksum.deterministic [OF assms, of files]
  by (simp add: GenerateConfigMapChecksum_def sha256_hex_length sha256_hex_chars)

theorem checksum_deterministic_witness:
  "GenerateConfigMapChecksum sorted_order (gm_of [(''a'', ''1''), (''b'', ''2'')]) =
   GenerateConfigMapChecksum (\<lambda>p K. rev (sorted_order p K)) (gm_of [(''a'', ''1''), (''b'', ''2'')])"
  using checksum_deterministic [OF sorted_order_ok] by blast

text \<open>
  C40: the hashed text is the keys and values without separators, so the checksum does not identify
  the files: for any map and two keys that are neighbours in the sorted order, the name of the second
  key can be moved from the end of the first value to the start of the second value, which gives
  another map with the same keys and the same checksum.
\<close>

theorem checksum_collision:
  assumes "range_ok rng" and "sorted_list_of_fset (fmdom files) = ks @ k # k' # ks'" and "k' \<noteq> []"
  shows "fmupd k (v @ k') (fmupd k' u files) \<noteq> fmupd k v (fmupd k' (k' @ u) files) \<and>
    fmdom (fmupd k (v @ k') (fmupd k' u files)) = fmdom (fmupd k v (fmupd k' (k' @ u) files)) \<and>
    GenerateConfigMapChecksum rng (Some (fmupd k (v @ k') (fmupd k' u files))) =
    GenerateConfigMapChecksum rng (Some (fmupd k v (fmupd k' (k' @ u) files)))"
proof -
  let ?f = "fmupd k (v @ k') (fmupd k' u files)" and ?g = "fmupd k v (fmupd k' (k' @ u) files)"
  have "distinct (sorted_list_of_fset (fmdom files))"
    by (simp add: sorted_list_of_fset.rep_eq)
  then have dist: "k \<noteq> k'" "k \<notin> set ks" "k' \<notin> set ks" "k \<notin> set ks'" "k' \<notin> set ks'"
    unfolding assms(2) by auto
  have "set (sorted_list_of_fset (fmdom files)) = fset (fmdom files)"
    by simp
  then have "k |\<in>| fmdom files" "k' |\<in>| fmdom files"
    unfolding assms(2) by auto
  then have dom: "fmdom ?f = fmdom files" "fmdom ?g = fmdom files"
    by auto
  have "fmlookup ?f k \<noteq> fmlookup ?g k"
    using assms(3) dist by simp
  then have "?f \<noteq> ?g"
    by metis
  moreover have "checksum_bytes (Some ?f) (ks @ k # k' # ks') = checksum_bytes (Some ?g) (ks @ k # k' # ks')"
  proof -
    have "gm_index (Some ?f) x = gm_index (Some ?g) x" if "x \<in> set ks \<union> set ks'" for x
      using that dist by (auto simp: gm_index_def)
    then have rest: "map (\<lambda>x. x @ gm_index (Some ?f) x) ks = map (\<lambda>x. x @ gm_index (Some ?g) x) ks"
        "map (\<lambda>x. x @ gm_index (Some ?f) x) ks' = map (\<lambda>x. x @ gm_index (Some ?g) x) ks'"
      by simp_all
    have "gm_index (Some ?f) k = v @ k'" "gm_index (Some ?f) k' = u" "gm_index (Some ?g) k = v" "gm_index (Some ?g) k' = k' @ u"
      using dist(1) by (simp_all add: gm_index_def)
    then show ?thesis
      unfolding checksum_bytes_def map_append list.map concat_append concat.simps rest by simp
  qed
  ultimately show ?thesis
    using dom by (simp add: checksum.canonical [OF assms(1)] gm_keys_def assms(2))
qed

text \<open>Two different sets of the six files of the operator with the same checksum.\<close>

theorem checksum_collision_witness:
  "\<exists>f g. f \<noteq> g \<and> fmdom f = fset_of_list [''aim.conf'', ''aim_healthcheck.sh'', ''aim_supervisord.conf'', ''aimctl.conf'', ''init.sh'', ''kolla_config.json''] \<and>
     fmdom g = fmdom f \<and> GenerateConfigMapChecksum sorted_order (Some f) = GenerateConfigMapChecksum sorted_order (Some g)"
proof -
  let ?ks = "[''aim.conf'', ''aim_healthcheck.sh'', ''aim_supervisord.conf'', ''aimctl.conf'', ''init.sh'', ''kolla_config.json'']"
  let ?files = "fmap_of_list (map (\<lambda>k. (k, ''x'')) ?ks)"
  have dom: "fmdom ?files = fset_of_list ?ks"
    by simp
  have "sorted_list_of_fset (fmdom ?files) = ?ks"
    unfolding dom sorted_list_of_fset.rep_eq fset_of_list.rep_eq
    by (rule sorted_list_of_set.idem_if_sorted_distinct) (code_simp, simp)
  then have "sorted_list_of_fset (fmdom ?files) = [] @ ''aim.conf'' # ''aim_healthcheck.sh'' # drop 2 ?ks"
    by simp
  note hit = checksum_collision [OF sorted_order_ok(1) this list.simps(3), of "''a''" "''b''"]
  let ?f = "fmupd ''aim.conf'' (''a'' @ ''aim_healthcheck.sh'') (fmupd ''aim_healthcheck.sh'' ''b'' ?files)"
  let ?g = "fmupd ''aim.conf'' ''a'' (fmupd ''aim_healthcheck.sh'' (''aim_healthcheck.sh'' @ ''b'') ?files)"
  have keys: "fmdom ?f = fset_of_list ?ks"
    by (auto simp: dom)
  show ?thesis
    by (rule exI [of _ ?f], rule exI [of _ ?g], intro conjI)
      (rule conjunct1 [OF hit], rule keys, rule conjunct1 [OF conjunct2 [OF hit], symmetric], rule conjunct2 [OF conjunct2 [OF hit]])
qed

text \<open>
  What is assumed of reading and writing the objects of one kind, with their name and data: a read
  changes nothing and returns the object of the name that was asked for; after a write that succeeds, a
  read of its name returns an object with the data that was sent (everything else, such as the metadata,
  is the server's choice), and reads of other names are as before.
\<close>

definition reads_by_name :: "(NamespacedName \<Rightarrow> ('w, go_error, 'o) call) \<Rightarrow> ('o \<Rightarrow> NamespacedName) \<Rightarrow> bool" where
  "reads_by_name get name \<longleftrightarrow>
     (\<forall>k w. snd (run_state (get k) w) = w \<and> (\<forall>ob. fst (run_state (get k) w) = Inr ob \<longrightarrow> name ob = k))"

definition stores_data ::
    "(NamespacedName \<Rightarrow> ('w, go_error, 'o) call) \<Rightarrow> ('o \<Rightarrow> NamespacedName) \<Rightarrow> ('o \<Rightarrow> 'd) \<Rightarrow>
     ('o \<Rightarrow> ('w, go_error, 'u) call) \<Rightarrow> bool" where
  "stores_data get name data put \<longleftrightarrow>
     (\<forall>x w u w'. run_state (put x) w = (Inr u, w') \<longrightarrow>
        (\<exists>ob. run_state (get (name x)) w' = (Inr ob, w') \<and> data ob = data x) \<and>
        (\<forall>k. k \<noteq> name x \<longrightarrow> fst (run_state (get k) w') = fst (run_state (get k) w)))"

lemma reads_by_nameD:
  assumes "reads_by_name get name"
  shows "snd (run_state (get k) w) = w" and "run_state (get k) w = (Inr ob, w') \<Longrightarrow> name ob = k"
  using assms by (auto simp: reads_by_name_def) (metis fst_conv)

lemma stores_dataD:
  assumes "stores_data get name data put" and "run_state (put x) w = (Inr u, w')"
  shows "\<exists>ob. run_state (get (name x)) w' = (Inr ob, w') \<and> data ob = data x"
    and "k \<noteq> name x \<Longrightarrow> fst (run_state (get k) w') = fst (run_state (get k) w)"
  using assms unfolding stores_data_def by blast+

abbreviation map_name :: "ConfigMap \<Rightarrow> NamespacedName" where
  "map_name x \<equiv> meta_key (cm_Meta x)"

abbreviation secret_name :: "Secret \<Rightarrow> NamespacedName" where
  "secret_name x \<equiv> meta_key (sec_Meta x)"

text \<open>
  C31: the ConfigMap converges in one reconciliation, whether it has to be created, updated or left: the
  reconciliation after one that succeeded finds the wanted data and makes no request but the read.
\<close>

theorem config_map_converges:
  assumes "owner_ref_doc L" and "reads_by_name (Get_ConfigMap c) map_name"
    and "stores_data (Get_ConfigMap c) map_name cm_Data (Create_ConfigMap c)"
    and "stores_data (Get_ConfigMap c) map_name cm_Data (Update_ConfigMap c)"
    and "run_state (ensureConfigMap L c a files) w = (Inr cm, w')"
  shows "\<exists>ob cm'. run_state (Get_ConfigMap c (key (aim_Namespace a) (aim_Name a @ ''-config''))) w' = (Inr ob, w') \<and>
    cm_Data ob = files \<and>
    run_state (ensureConfigMap L (traced c) a files) (w', []) =
      (Inr cm', (w', [(RGet ''ConfigMap'' (key (aim_Namespace a) (aim_Name a @ ''-config'')), True)]))"
proof -
  let ?k = "key (aim_Namespace a) (aim_Name a @ ''-config'')"
  obtain meta where meta: "SetControllerReference L (aim_Meta a) (cm_Meta (ConfigMap a files)) = Inr meta"
    using assms(5) by (cases "SetControllerReference L (aim_Meta a) (cm_Meta (ConfigMap a files))") (simp_all add: ensureConfigMap_def)
  let ?x = "(ConfigMap a files)\<lparr>cm_Meta := meta\<rparr>"
  have data: "cm_Data ?x = files" and names: "Name meta = aim_Name a @ ''-config''" "map_name ?x = ?k"
    using owner_ref_names [OF assms(1) meta] by (simp_all add: ConfigMap_def)
  have run: "run_state (applyConfigMap L c (aim_Namespace a, ?x)) w = (Inr cm, w')"
    using assms(5) by (simp add: ensureConfigMap_def meta Let_def)
  have created: "\<exists>ob. run_state (Get_ConfigMap c ?k) v' = (Inr ob, v') \<and> cm_Data ob = files"
    if "run_state (Create_ConfigMap c ?x) v = (Inr u, v')" for v u v'
    using stores_dataD(1) [OF assms(3) that] unfolding names(2) data .
  have updated: "\<exists>ob'. run_state (Get_ConfigMap c ?k) v' = (Inr ob', v') \<and> cm_Data ob' = files"
    if "run_state (Get_ConfigMap c ?k) v = (Inr ob, v)" "run_state (Update_ConfigMap c (ob\<lparr>cm_Data := files\<rparr>)) v = (Inr u, v')" for ob v u v'
    using stores_dataD(1) [OF assms(4) that(2)] reads_by_nameD(2) [OF assms(2) that(1)] by simp
  have "Name (cm_Meta ?x) = aim_Name a @ ''-config''"
    by (simp add: names)
  from config_map.converges [of L c "(aim_Namespace a, ?x)" w cm w', unfolded prod.case data this, OF run reads_by_nameD(1) [OF assms(2)]]
  have "\<exists>ob. run_state (Get_ConfigMap c ?k) w' = (Inr ob, w') \<and> cm_Data ob = files"
    using created updated by blast
  then obtain ob where ob: "run_state (Get_ConfigMap c ?k) w' = (Inr ob, w')" "cm_Data ob = files"
    by blast
  then have "run_state (ensureConfigMap L (traced c) a files) (w', []) = (Inr ?x, (w', [(RGet ''ConfigMap'' ?k, True)]))"
    using config_map.fresh [of "traced c" "(aim_Namespace a, ?x)" "(w', [])" ob] by (simp add: ensureConfigMap_def meta names data)
  with ob show ?thesis
    by blast
qed

text \<open>The sample server with reads that look at the name of the object.\<close>

definition named_fetch :: "('o \<Rightarrow> NamespacedName) \<Rightarrow> (cluster \<Rightarrow> 'o objects) \<Rightarrow> NamespacedName \<Rightarrow> (cluster, go_error, 'o) call" where
  "named_fetch name sel k = State (\<lambda>w.
     (case sel w k of None \<Rightarrow> Inl (ApiError ''NotFound'')
      | Some x \<Rightarrow> if name x = k then Inr x else Inl (ApiError ''NotFound''), w))"

definition named_client :: "(cluster, nat) Client" where
  "named_client = demo_client\<lparr>Get_ConfigMap := named_fetch map_name st_config_maps,
     Get_Secret := named_fetch secret_name st_secrets\<rparr>"

lemma named_client_simps [simp]:
  "Get_Secret named_client = named_fetch secret_name st_secrets"
  "Create_Secret named_client = (\<lambda>x. mem_effect (\<lambda>w. w\<lparr>st_secrets := (st_secrets w)(secret_name x := Some x)\<rparr>) ())"
  by (simp_all add: named_client_def demo_client_def)

lemma named_client_doc:
  "reads_by_name (Get_ConfigMap named_client) map_name"
  "stores_data (Get_ConfigMap named_client) map_name cm_Data (Create_ConfigMap named_client)"
  "stores_data (Get_ConfigMap named_client) map_name cm_Data (Update_ConfigMap named_client)"
  "reads_by_name (Get_Secret named_client) secret_name"
  "stores_data (Get_Secret named_client) secret_name sec_Data (Create_Secret named_client)"
  "stores_data (Get_Secret named_client) secret_name sec_Data (Update_Secret named_client)"
  by (auto simp: named_client_def demo_client_def named_fetch_def mem_effect_def reads_by_name_def stores_data_def
      split: option.splits if_splits)

definition stale_map :: ConfigMap where
  "stale_map = \<lparr>cm_Meta = demo_meta ''aim-config'', cm_Data = gm_of [(''aim.conf'', ''old'')], cm_rest = JNull\<rparr>"

definition stale_cluster :: cluster where
  "stale_cluster = demo_cluster\<lparr>st_config_maps := [key ''openstack'' ''aim-config'' \<mapsto> stale_map]\<rparr>"

theorem config_map_converges_witness:
  "\<exists>w cm cm'. run_state (ensureConfigMap demo_lib named_client demo_aim (gm_of [(''aim.conf'', ''new'')])) stale_cluster = (Inr cm, w) \<and>
     map_option cm_Data (st_config_maps w (key ''openstack'' ''aim-config'')) = Some (gm_of [(''aim.conf'', ''new'')]) \<and>
     run_state (ensureConfigMap demo_lib (traced named_client) demo_aim (gm_of [(''aim.conf'', ''new'')])) (w, []) =
       (Inr cm', (w, [(RGet ''ConfigMap'' (key ''openstack'' ''aim-config''), True)]))"
proof -
  let ?new = "gm_of [(''aim.conf'', ''new'')] :: string gomap"
  have "cm_Data stale_map \<noteq> ?new"
  proof
    assume "cm_Data stale_map = ?new"
    then have "gm_get (cm_Data stale_map) ''aim.conf'' = gm_get ?new ''aim.conf''"
      by simp
    then show False
      by (simp add: stale_map_def)
  qed
  then have "\<exists>cm. run_state (ensureConfigMap demo_lib named_client demo_aim ?new) stale_cluster =
      (Inr cm, stale_cluster\<lparr>st_config_maps := [key ''openstack'' ''aim-config'' \<mapsto> stale_map\<lparr>cm_Data := ?new\<rparr>]\<rparr>)"
    by (simp add: ensureConfigMap_def applyConfigMap_def ConfigMap_def demo_lib_def demo_aim_def named_client_def demo_client_def
        named_fetch_def mem_effect_def stale_cluster_def Let_def demo_meta_def) (simp add: stale_map_def demo_meta_def)
  then obtain cm where run: "run_state (ensureConfigMap demo_lib named_client demo_aim ?new) stale_cluster =
      (Inr cm, stale_cluster\<lparr>st_config_maps := [key ''openstack'' ''aim-config'' \<mapsto> stale_map\<lparr>cm_Data := ?new\<rparr>]\<rparr>)"
    by blast
  then show ?thesis
    using config_map_converges [OF demo_lib_doc(1) named_client_doc(1-3) run] run by (auto simp: demo_aim_def demo_meta_def)
qed

text \<open>
  C32: the copy of the CA certificate converges in one reconciliation as well, whether the secret has
  to be created, updated or left: after a reconciliation that succeeded its data is the certificate of
  \<open>rootca-internal\<close>, and the next one makes no request but the two reads.
\<close>

theorem ca_secret_converges:
  assumes "reads_by_name (Get_Secret c) secret_name"
    and "stores_data (Get_Secret c) secret_name sec_Data (Create_Secret c)"
    and "stores_data (Get_Secret c) secret_name sec_Data (Update_Secret c)"
    and "run_state (ensureRabbitMQCaSecret L c a) w = (Inr (), w')"
  shows "\<exists>src crt ob. run_state (Get_Secret c (key (aim_Namespace a) ''rootca-internal'')) w' = (Inr src, w') \<and>
    gm_get (sec_Data src) ''ca.crt'' = Some crt \<and>
    run_state (Get_Secret c (key (aim_Namespace a) ''rabbitmq-ca-secret'')) w' = (Inr ob, w') \<and>
    sec_Data ob = gm_of [(''tls-ca-bundle.pem'', crt)] \<and>
    run_state (ensureRabbitMQCaSecret L (traced c) a) (w', []) =
      (Inr (), (w', [(RGet ''Secret'' (key (aim_Namespace a) ''rootca-internal''), True),
                     (RGet ''Secret'' (key (aim_Namespace a) ''rabbitmq-ca-secret''), True)]))"
proof -
  let ?ns = "aim_Namespace a"
  let ?k = "key ?ns ''rabbitmq-ca-secret''" and ?root = "key ?ns ''rootca-internal''"
  note pure = reads_by_nameD(1) [OF assms(1)]
  obtain src crt where src: "run_state (Get_Secret c ?root) w = (Inr src, w)" "gm_get (sec_Data src) ''ca.crt'' = Some crt"
    and run: "run_state (applyCaSecret L c (?ns, ca_secret ?ns crt)) w = (Inr (), w')"
    using assms(4) pure [of ?root w] by (auto simp: ensureRabbitMQCaSecret_def split: prod.splits sum.splits option.splits)
  have name: "secret_name (ca_secret ?ns crt) = ?k"
    by (simp add: ca_secret_def)
  have created: "\<exists>ob. run_state (Get_Secret c ?k) v' = (Inr ob, v') \<and> sec_Data ob = sec_Data (ca_secret ?ns crt)"
    if "run_state (Create_Secret c (ca_secret ?ns crt)) v = (Inr u, v')" for v u v'
    using stores_dataD(1) [OF assms(2) that] unfolding name .
  have updated: "\<exists>ob'. run_state (Get_Secret c ?k) v' = (Inr ob', v') \<and> sec_Data ob' = sec_Data (ca_secret ?ns crt)"
    if "run_state (Get_Secret c ?k) v = (Inr ob, v)" "run_state (Update_Secret c (ob\<lparr>sec_Data := sec_Data (ca_secret ?ns crt)\<rparr>)) v = (Inr u, v')" for ob v u v'
    using stores_dataD(1) [OF assms(3) that(2)] reads_by_nameD(2) [OF assms(1) that(1)] by simp
  obtain ob where ob: "run_state (Get_Secret c ?k) w' = (Inr ob, w')" "sec_Data ob = sec_Data (ca_secret ?ns crt)"
    using ca_sec.converges [of L c "(?ns, ca_secret ?ns crt)" w "()" w', unfolded prod.case, OF run pure] created updated by blast
  have other: "?root \<noteq> ?k"
    by simp
  have "fst (run_state (Get_Secret c ?root) w') = Inr src"
  proof (rule ca_sec.preserved [of L c "(?ns, ca_secret ?ns crt)" w "()" w' "\<lambda>v. fst (run_state (Get_Secret c ?root) v) = Inr src",
        unfolded prod.case, OF run pure], goal_cases)
    case (2 u)
    then show ?case
      using stores_dataD(2) [OF assms(2) 2, of ?root] other src(1) unfolding name by simp
  next
    case (3 ob u)
    then show ?case
      using stores_dataD(2) [OF assms(3) 3(2), of ?root] reads_by_nameD(2) [OF assms(1) 3(1)] other src(1) by simp
  qed (simp add: src)
  then have root: "run_state (Get_Secret c ?root) w' = (Inr src, w')"
    using pure [of ?root w'] by (metis prod.collapse)
  have "run_state (ensureRabbitMQCaSecret L (traced c) a) (w', []) = (Inr (), (w', [(RGet ''Secret'' ?root, True), (RGet ''Secret'' ?k, True)]))"
    using ca_sec.fresh [of "traced c" "(?ns, ca_secret ?ns crt)" "(w', [(RGet ''Secret'' ?root, True)])" ob] ob root src(2)
    by (simp add: ensureRabbitMQCaSecret_def)
  with root src(2) ob show ?thesis
    by (auto simp: ca_secret_def)
qed

theorem ca_secret_converges_witness:
  "\<exists>w. run_state (ensureRabbitMQCaSecret demo_lib named_client demo_aim) demo_cluster = (Inr (), w) \<and>
     st_secrets demo_cluster (key ''openstack'' ''rabbitmq-ca-secret'') = None \<and>
     st_secrets w (key ''openstack'' ''rabbitmq-ca-secret'') \<noteq> None \<and>
     run_state (ensureRabbitMQCaSecret demo_lib (traced named_client) demo_aim) (w, []) =
       (Inr (), (w, [(RGet ''Secret'' (key ''openstack'' ''rootca-internal''), True),
                     (RGet ''Secret'' (key ''openstack'' ''rabbitmq-ca-secret''), True)]))"
proof -
  let ?w = "demo_cluster\<lparr>st_secrets := (st_secrets demo_cluster)(key ''openstack'' ''rabbitmq-ca-secret'' \<mapsto> ca_secret ''openstack'' ''CA'')\<rparr>"
  have run: "run_state (ensureRabbitMQCaSecret demo_lib named_client demo_aim) demo_cluster = (Inr (), ?w)"
    by (simp add: ensureRabbitMQCaSecret_def named_fetch_def demo_cluster_def demo_secret_def demo_meta_def demo_aim_def)
      (simp add: applyCaSecret_def named_fetch_def mem_effect_def ca_secret_def demo_lib_def)
  have "st_secrets demo_cluster (key ''openstack'' ''rabbitmq-ca-secret'') = None"
    by (simp add: demo_cluster_def)
  with ca_secret_converges [OF named_client_doc(4-6) run] run show ?thesis
    by (auto simp: demo_aim_def demo_meta_def)
qed

end
