(* ===== verification/Aim_Volumes.thy ===== *)
theory Aim_Volumes
  imports Sample
begin

text \<open>
  \<open>src/pkg/ciscoaciaim/volumes.go\<close> and \<open>const.go\<close>: the volumes of the AIM pod and where its
  container mounts them. The two Go functions append to a slice under the same conditions; here
  each appended group is a definition of its own and the functions concatenate them in the order of
  the code.
\<close>

definition NeutronUID :: int64 where
  "NeutronUID = 42435"

definition NeutronGID :: int64 where
  "NeutronGID = 42435"

definition ConditionDBReady :: string where
  "ConditionDBReady = ''DBReady''"

definition ConditionRabbitMQReady :: string where
  "ConditionRabbitMQReady = ''RabbitMQReady''"

definition ConditionAimReady :: string where
  "ConditionAimReady = ''AimReady''"

definition ServiceCommand :: string where
  "ServiceCommand = ''/usr/local/bin/kolla_start''"

section \<open>Mounts\<close>

definition base_mounts :: "VolumeMount list" where
  "base_mounts =
     [\<lparr>vm_Name = ''config-volume'', vm_MountPath = ''/var/lib/kolla/config_files/src/etc/aim'',
       vm_SubPath = [], vm_ReadOnly = True\<rparr>,
      \<lparr>vm_Name = ''config-kolla'', vm_MountPath = ''/var/lib/kolla/config_files/'',
       vm_SubPath = [], vm_ReadOnly = True\<rparr>,
      \<lparr>vm_Name = ''rabbitmq-ca'', vm_MountPath = ''/etc/pki/ca-trust/extracted/pem/'',
       vm_SubPath = [], vm_ReadOnly = True\<rparr>,
      \<lparr>vm_Name = ''init-script-volume'', vm_MountPath = ''/etc/aim/scripts'',
       vm_SubPath = [], vm_ReadOnly = True\<rparr>]"

definition log_mount :: VolumeMount where
  "log_mount =
     \<lparr>vm_Name = ''aim-logs'', vm_MountPath = ''/var/log/aim'', vm_SubPath = [], vm_ReadOnly = False\<rparr>"

text \<open>The CA bundle is mounted when the setting is a file path.\<close>

definition verify_ssl_is_path :: "CiscoAciAim \<Rightarrow> bool" where
  "verify_ssl_is_path a \<longleftrightarrow> HasPrefix (ACIVerifySslCertificate (aim_Conn a)) ''/''"

definition ca_mount :: "CiscoAciAim \<Rightarrow> VolumeMount" where
  "ca_mount a =
     (let verifySsl = ACIVerifySslCertificate (aim_Conn a); filename = filepath_Base verifySsl
      in \<lparr>vm_Name = ''apic-ca-cert'', vm_MountPath = verifySsl, vm_SubPath = filename,
          vm_ReadOnly = True\<rparr>)"

definition private_key_file :: "CiscoAciAim \<Rightarrow> string" where
  "private_key_file a =
     (let username = ACIApicUsername (aim_Conn a);
          username = (if username = [] then ''admin'' else username)
      in username @ ''_private_key'')"

definition key_mount :: "CiscoAciAim \<Rightarrow> VolumeMount" where
  "key_mount a =
     \<lparr>vm_Name = ''apic-auth-private-key'', vm_MountPath = ''/etc/aim/'' @ private_key_file a,
      vm_SubPath = private_key_file a, vm_ReadOnly = True\<rparr>"

definition cert_file :: "CiscoAciAim \<Rightarrow> string" where
  "cert_file a =
     (let certName = ACIApicCertName (aim_Conn a)
      in if certName = [] then ''certificate.pem'' else certName)"

definition cert_mount :: "CiscoAciAim \<Rightarrow> VolumeMount" where
  "cert_mount a =
     \<lparr>vm_Name = ''apic-auth-certificate'', vm_MountPath = ''/etc/aim/'' @ cert_file a,
      vm_SubPath = cert_file a, vm_ReadOnly = True\<rparr>"

definition GetVolumeMounts :: "CiscoAciAim \<Rightarrow> VolumeMount list" where
  "GetVolumeMounts a =
     base_mounts
     @ (if log_spec a \<noteq> None then [log_mount] else [])
     @ (if verify_ssl_is_path a then [ca_mount a] else [])
     @ (if ACIApicPrivateKeySecretRef (aim_Conn a) \<noteq> None then [key_mount a] else [])
     @ (if ACIApicCertificateSecretRef (aim_Conn a) \<noteq> None then [cert_mount a] else [])"

section \<open>Volumes\<close>

definition base_volumes :: "string \<Rightarrow> Volume list" where
  "base_volumes configMapName =
     [\<lparr>vol_Name = ''config-volume'',
       vol_Source = ConfigMapSource configMapName
         [\<lparr>ktp_Key = ''aim.conf'', ktp_Path = ''aim.conf''\<rparr>,
          \<lparr>ktp_Key = ''aim_supervisord.conf'', ktp_Path = ''aim_supervisord.conf''\<rparr>,
          \<lparr>ktp_Key = ''aim_healthcheck.sh'', ktp_Path = ''aim_healthcheck''\<rparr>,
          \<lparr>ktp_Key = ''aimctl.conf'', ktp_Path = ''aimctl.conf''\<rparr>] (Some 493)\<rparr>,
      \<lparr>vol_Name = ''init-script-volume'',
       vol_Source = ConfigMapSource configMapName
         [\<lparr>ktp_Key = ''init.sh'', ktp_Path = ''init.sh''\<rparr>] (Some 493)\<rparr>,
      \<lparr>vol_Name = ''config-kolla'',
       vol_Source = ConfigMapSource configMapName
         [\<lparr>ktp_Key = ''kolla_config.json'', ktp_Path = ''config.json''\<rparr>] None\<rparr>,
      \<lparr>vol_Name = ''rabbitmq-ca'', vol_Source = SecretSource ''rabbitmq-ca-secret'' [] None\<rparr>]"

definition ca_volume :: "CiscoAciAim \<Rightarrow> Volume" where
  "ca_volume a =
     (let filename = filepath_Base (ACIVerifySslCertificate (aim_Conn a))
      in \<lparr>vol_Name = ''apic-ca-cert'',
          vol_Source = SecretSource ''apic-ca-certificate''
            [\<lparr>ktp_Key = filename, ktp_Path = filename\<rparr>] None\<rparr>)"

definition key_volume :: "CiscoAciAim \<Rightarrow> SecretKeySelector \<Rightarrow> Volume" where
  "key_volume a r =
     \<lparr>vol_Name = ''apic-auth-private-key'',
      vol_Source = SecretSource (ref_Name r)
        [\<lparr>ktp_Key = ref_Key r, ktp_Path = private_key_file a\<rparr>] (Some 384)\<rparr>"

definition cert_volume :: "CiscoAciAim \<Rightarrow> SecretKeySelector \<Rightarrow> Volume" where
  "cert_volume a r =
     \<lparr>vol_Name = ''apic-auth-certificate'',
      vol_Source = SecretSource (ref_Name r)
        [\<lparr>ktp_Key = ref_Key r, ktp_Path = cert_file a\<rparr>] (Some 420)\<rparr>"

definition GetVolumes :: "string \<Rightarrow> CiscoAciAim \<Rightarrow> Volume list" where
  "GetVolumes configMapName a =
     base_volumes configMapName
     @ (if verify_ssl_is_path a then [ca_volume a] else [])
     @ (case ACIApicPrivateKeySecretRef (aim_Conn a) of
          None \<Rightarrow> [] | Some r \<Rightarrow> [key_volume a r])
     @ (case ACIApicCertificateSecretRef (aim_Conn a) of
          None \<Rightarrow> [] | Some r \<Rightarrow> [cert_volume a r])"

section \<open>What mounts and volumes have to agree on\<close>

fun source_items :: "VolumeSource \<Rightarrow> KeyToPath list" where
  "source_items (ConfigMapSource n is md) = is"
| "source_items (SecretSource n is md) = is"
| "source_items (OtherSource j) = []"

text \<open>
  A mount is backed by a volume: same name, and a mount of a single file names a file that the
  volume projects.
\<close>

definition backed_by :: "VolumeMount \<Rightarrow> Volume \<Rightarrow> bool" where
  "backed_by m v \<longleftrightarrow>
     vm_Name m = vol_Name v \<and>
     (vm_SubPath m = [] \<or> vm_SubPath m \<in> set (map ktp_Path (source_items (vol_Source v))))"

text \<open>The contract of an optional feature that mounts one file of a secret.\<close>

locale secret_file =
  fixes enabled :: "CiscoAciAim \<Rightarrow> bool"
    and mounts :: "CiscoAciAim \<Rightarrow> VolumeMount list"
    and volumes :: "CiscoAciAim \<Rightarrow> Volume list"
    and fname :: "CiscoAciAim \<Rightarrow> string"
    and vname :: string
  assumes mounts_off: "\<not> enabled a \<Longrightarrow> mounts a = [] \<and> volumes a = []"
    and mounts_on: "enabled a \<Longrightarrow>
      \<exists>m v. mounts a = [m] \<and> volumes a = [v] \<and> vm_Name m = vname \<and> vol_Name v = vname \<and>
        vm_SubPath m = fname a \<and> map ktp_Path (source_items (vol_Source v)) = [fname a] \<and> vm_ReadOnly m"
begin

lemma feature_backed: "m \<in> set (mounts a) \<Longrightarrow> \<exists>v \<in> set (volumes a). backed_by m v"
  using mounts_off [of a] mounts_on [of a] by (cases "enabled a") (auto simp: backed_by_def)

lemma feature_names: "map vm_Name (mounts a) = (if enabled a then [vname] else [])"
  and feature_volume_names: "map vol_Name (volumes a) = (if enabled a then [vname] else [])"
  using mounts_off [of a] mounts_on [of a] by auto

lemma feature_read_only: "m \<in> set (mounts a) \<Longrightarrow> vm_ReadOnly m"
  using mounts_off [of a] mounts_on [of a] by (cases "enabled a") auto

end

definition ca_mounts :: "CiscoAciAim \<Rightarrow> VolumeMount list" where
  "ca_mounts a = (if verify_ssl_is_path a then [ca_mount a] else [])"

definition ca_volumes :: "CiscoAciAim \<Rightarrow> Volume list" where
  "ca_volumes a = (if verify_ssl_is_path a then [ca_volume a] else [])"

definition key_mounts :: "CiscoAciAim \<Rightarrow> VolumeMount list" where
  "key_mounts a = (if ACIApicPrivateKeySecretRef (aim_Conn a) \<noteq> None then [key_mount a] else [])"

definition key_volumes :: "CiscoAciAim \<Rightarrow> Volume list" where
  "key_volumes a =
     (case ACIApicPrivateKeySecretRef (aim_Conn a) of None \<Rightarrow> [] | Some r \<Rightarrow> [key_volume a r])"

definition cert_mounts :: "CiscoAciAim \<Rightarrow> VolumeMount list" where
  "cert_mounts a = (if ACIApicCertificateSecretRef (aim_Conn a) \<noteq> None then [cert_mount a] else [])"

definition cert_volumes :: "CiscoAciAim \<Rightarrow> Volume list" where
  "cert_volumes a =
     (case ACIApicCertificateSecretRef (aim_Conn a) of None \<Rightarrow> [] | Some r \<Rightarrow> [cert_volume a r])"

interpretation ca: secret_file verify_ssl_is_path ca_mounts ca_volumes
  "\<lambda>a. filepath_Base (ACIVerifySslCertificate (aim_Conn a))" "''apic-ca-cert''"
  by unfold_locales (simp_all add: ca_mounts_def ca_volumes_def ca_mount_def ca_volume_def Let_def)

interpretation key: secret_file "\<lambda>a. ACIApicPrivateKeySecretRef (aim_Conn a) \<noteq> None"
  key_mounts key_volumes private_key_file "''apic-auth-private-key''"
  by unfold_locales (auto simp: key_mounts_def key_volumes_def key_mount_def key_volume_def)

interpretation cert: secret_file "\<lambda>a. ACIApicCertificateSecretRef (aim_Conn a) \<noteq> None"
  cert_mounts cert_volumes cert_file "''apic-auth-certificate''"
  by unfold_locales (auto simp: cert_mounts_def cert_volumes_def cert_mount_def cert_volume_def)

lemma GetVolumeMounts_groups:
  "GetVolumeMounts a =
     base_mounts @ (if log_spec a \<noteq> None then [log_mount] else []) @ ca_mounts a @ key_mounts a
     @ cert_mounts a"
  by (simp add: GetVolumeMounts_def ca_mounts_def key_mounts_def cert_mounts_def)

lemma GetVolumes_groups:
  "GetVolumes cm a = base_volumes cm @ ca_volumes a @ key_volumes a @ cert_volumes a"
  by (simp add: GetVolumes_def ca_volumes_def key_volumes_def cert_volumes_def)

lemmas feature_names =
  ca.feature_names key.feature_names cert.feature_names
  ca.feature_volume_names key.feature_volume_names cert.feature_volume_names

lemmas feature_backed = ca.feature_backed key.feature_backed cert.feature_backed

lemma base_backed: "m \<in> set base_mounts \<Longrightarrow> \<exists>v \<in> set (base_volumes cm). backed_by m v"
  by (auto simp: base_mounts_def base_volumes_def backed_by_def)

lemma mount_backed:
  assumes "m \<in> set (GetVolumeMounts a)"
  shows "(m = log_mount \<and> log_spec a \<noteq> None) \<or> (\<exists>v \<in> set (GetVolumes cm a). backed_by m v)"
  using assms base_backed [of m cm] feature_backed [of m a]
  by (auto simp: GetVolumeMounts_groups GetVolumes_groups split: if_splits)

text \<open>Two strings that differ before the first one ends are different whatever follows.\<close>

lemma etc_aim_paths:
  "''/etc/aim/'' @ x = ''/etc/aim/'' @ y \<longleftrightarrow> x = y"
  "''/etc/aim/'' @ x = ''/etc/aim/scripts'' \<longleftrightarrow> x = ''scripts''"
  "''/etc/aim/'' @ x \<noteq> ''/var/log/aim''"
  "''/etc/aim/'' @ x \<noteq> ''/var/lib/kolla/config_files/src/etc/aim''"
  "''/etc/aim/'' @ x \<noteq> ''/var/lib/kolla/config_files/''"
  "''/etc/aim/'' @ x \<noteq> ''/etc/pki/ca-trust/extracted/pem/''"
  by auto

lemma key_not_scripts: "private_key_file a \<noteq> ''scripts''"
proof
  assume "private_key_file a = ''scripts''"
  then have "length (private_key_file a) = 7"
    by simp
  then show False
    by (simp add: private_key_file_def Let_def)
qed

section \<open>Properties\<close>

text \<open>
  C33: every mount of the AIM container has something to mount: a volume of the pod of the same name
  that projects the mounted file, or, for the log directory, the claim of the StatefulSet, which
  exists exactly when logs are kept.
\<close>

theorem mounts_are_backed:
  assumes "m \<in> set (GetVolumeMounts a)"
  shows "(\<exists>v \<in> set (GetVolumes configMapName a). backed_by m v) \<or> m = log_mount \<and> log_spec a \<noteq> None"
  using mount_backed [OF assms, of configMapName] by blast

theorem mounts_are_backed_witness:
  "log_mount \<in> set (GetVolumeMounts demo_log_aim) \<and> log_spec demo_log_aim \<noteq> None \<and>
   ((\<exists>v \<in> set (GetVolumes ''aim-config'' demo_log_aim). backed_by log_mount v) \<or>
    log_mount = log_mount \<and> log_spec demo_log_aim \<noteq> None)"
proof -
  have "log_mount \<in> set (GetVolumeMounts demo_log_aim)"
    by (simp add: GetVolumeMounts_def demo_log_aim_def)
  then show ?thesis
    using mounts_are_backed [of log_mount demo_log_aim "''aim-config''"] by (simp add: demo_log_aim_def)
qed

text \<open>
  Volume names and mount names are unique, as the API server requires of a pod, whatever
  features an instance turns on.
\<close>

lemma pod_names_unique:
  "distinct (map vol_Name (GetVolumes configMapName a)) \<and> distinct (map vm_Name (GetVolumeMounts a))"
  by (simp add: GetVolumes_groups GetVolumeMounts_groups feature_names base_volumes_def base_mounts_def
      log_mount_def)

text \<open>
  C34: exactly when two mounts share a path, which the API server rejects: the certificate is named
  \<open>scripts\<close> or like the private key file, or the CA bundle path is one of the other paths.
\<close>

definition mount_conflict :: "CiscoAciAim \<Rightarrow> bool" where
  "mount_conflict a \<longleftrightarrow>
     (let key_on = ACIApicPrivateKeySecretRef (aim_Conn a) \<noteq> None;
          cert_on = ACIApicCertificateSecretRef (aim_Conn a) \<noteq> None;
          ca_path = ACIVerifySslCertificate (aim_Conn a)
      in cert_on \<and> cert_file a = ''scripts'' \<or>
         cert_on \<and> key_on \<and> cert_file a = private_key_file a \<or>
         verify_ssl_is_path a \<and>
           (ca_path \<in> set (map vm_MountPath base_mounts) \<or>
            log_spec a \<noteq> None \<and> ca_path = vm_MountPath log_mount \<or>
            key_on \<and> ca_path = ''/etc/aim/'' @ private_key_file a \<or>
            cert_on \<and> ca_path = ''/etc/aim/'' @ cert_file a))"

theorem mount_paths_unique: "distinct (map vm_MountPath (GetVolumeMounts a)) \<longleftrightarrow> \<not> mount_conflict a"
proof -
  define ca where "ca = ACIVerifySslCertificate (aim_Conn a)"
  show ?thesis
    using key_not_scripts [of a]
    by (cases "log_spec a = None"; cases "verify_ssl_is_path a";
        cases "ACIApicPrivateKeySecretRef (aim_Conn a) = None";
        cases "ACIApicCertificateSecretRef (aim_Conn a) = None")
      (auto simp: GetVolumeMounts_def mount_conflict_def Let_def ca_mount_def key_mount_def cert_mount_def
        base_mounts_def log_mount_def simp flip: ca_def)
qed

text \<open>The log directory is the only mount the container can write to.\<close>

lemma only_logs_writable:
  assumes "m \<in> set (GetVolumeMounts a)"
  shows "vm_ReadOnly m \<longleftrightarrow> m \<noteq> log_mount"
proof -
  have "m \<in> set base_mounts \<Longrightarrow> vm_ReadOnly m" "\<not> vm_ReadOnly log_mount"
    by (auto simp: base_mounts_def log_mount_def)
  then show ?thesis
    using assms ca.feature_read_only [of m a] key.feature_read_only [of m a] cert.feature_read_only [of m a]
    by (auto simp: GetVolumeMounts_groups split: if_splits)
qed

end
