(* ===== verification/Dependencies.thy ===== *)
theory Dependencies
  imports Sample Aim_Volumes
begin

text \<open>
  What the reconciler reads from the cluster before it builds the configuration: the database
  connection (\<open>ensureDB\<close>), the message bus (\<open>ensureMessageBus\<close>) and the queue settings of the neutron
  configuration (\<open>getNeutronRabbitConfig\<close>), all of
  \<open>src/internal/controller/ciscoaciaim_controller.go\<close>. The two \<open>ensure\<close> functions also record a
  condition on the instance they are given, so they return the changed instance.
\<close>

definition setCondition :: "'q Lib \<Rightarrow> CiscoAciAim \<Rightarrow> string \<Rightarrow> string \<Rightarrow> string \<Rightarrow> string \<Rightarrow> CiscoAciAim" where
  "setCondition L aim condType status reason message =
     aim\<lparr>Status := (Status aim)\<lparr>Conditions :=
       SetStatusCondition L (Conditions (Status aim))
         \<lparr>cond_Type = condType, cond_Status = status, cond_Reason = reason, cond_Message = message\<rparr>\<rparr>\<rparr>"

definition db_connection :: "string \<Rightarrow> string \<Rightarrow> string \<Rightarrow> string \<Rightarrow> string" where
  "db_connection dbUser dbPassword dbHost dbName =
     ''mysql+pymysql://'' @ dbUser @ '':'' @ dbPassword @ ''@'' @ dbHost @ ''/'' @ dbName
     @ ''?read_default_file=/etc/my.cnf''"

definition ensureDB ::
    "'q Lib \<Rightarrow> ('w, 'q) Client \<Rightarrow> CiscoAciAim \<Rightarrow> ('w, go_error, string \<times> CiscoAciAim) call" where
  "ensureDB L c a =
     (let namespace = aim_Namespace a
      in check (Get_NeutronAPI c (key namespace ''neutron'')) (\<lambda>neutronAPI.
         let dbAccountName = DatabaseAccount neutronAPI
         in check (Get_MariaDBDatabase c (key namespace dbAccountName)) (\<lambda>db.
            check (Get_MariaDBAccount c (key namespace dbAccountName)) (\<lambda>dbAccount.
            check (Get_Secret c (key namespace (dbAccountName @ ''-db-secret''))) (\<lambda>secret.
              case gm_get (sec_Data secret) (DatabasePasswordSelector L) of
                None \<Rightarrow> ok ([], a)
              | Some dbPassword \<Rightarrow>
                  ok (db_connection (UserName dbAccount) dbPassword (DatabaseHostname neutronAPI) ''neutron'',
                      setCondition L a ConditionDBReady ''True'' ''DBReady'' ''Database connection is ready''))))))"

definition rabbit_secret_name :: string where
  "rabbit_secret_name = ''rabbitmq-transport-url-neutron-neutron-transport''"

definition ensureMessageBus ::
    "'q Lib \<Rightarrow> ('w, 'q) Client \<Rightarrow> CiscoAciAim \<Rightarrow> ('w, go_error, string \<times> CiscoAciAim) call" where
  "ensureMessageBus L c a =
     (let namespace = aim_Namespace a
      in check (Get_NeutronAPI c (key namespace ''neutron'')) (\<lambda>neutronAPI.
         let transportURLName = Name (neutron_Meta neutronAPI) @ ''-neutron-transport''
         in check (Get_TransportURL c (key namespace transportURLName)) (\<lambda>transportURL.
            check (Get_Secret c (key namespace rabbit_secret_name)) (\<lambda>secret.
              case gm_get (sec_Data secret) ''transport_url'' of
                None \<Rightarrow> ok ([], a)
              | Some transportURLStr \<Rightarrow>
                  ok (transportURLStr,
                      setCondition L a ConditionRabbitMQReady ''True'' ''RabbitMQReady''
                        ''RabbitMQ transport URL is ready'')))))"

type_synonym rabbit_settings = "string \<times> string \<times> string"

text \<open>One line of the neutron configuration, with its surrounding space trimmed.\<close>

definition rabbit_line :: "rabbit_settings \<Rightarrow> string \<Rightarrow> rabbit_settings" where
  "rabbit_line st raw =
     (case st of (quorum, transient, durable) \<Rightarrow>
       let line = TrimSpace raw
       in if HasPrefix line ''rabbit_quorum_queue=''
          then (TrimPrefix line ''rabbit_quorum_queue='', transient, durable)
          else if HasPrefix line ''rabbit_transient_quorum_queue=''
          then (quorum, TrimPrefix line ''rabbit_transient_quorum_queue='', durable)
          else if HasPrefix line ''amqp_durable_queues=''
          then (quorum, transient, TrimPrefix line ''amqp_durable_queues='')
          else st)"

definition rabbit_defaults :: rabbit_settings where
  "rabbit_defaults = (''false'', ''false'', ''false'')"

definition scan_rabbit_config :: "string \<Rightarrow> rabbit_settings" where
  "scan_rabbit_config confData = foldl rabbit_line rabbit_defaults (scan_lines confData)"

definition getNeutronRabbitConfig :: "('w, 'q) Client \<Rightarrow> CiscoAciAim \<Rightarrow> ('w, rabbit_settings) state" where
  "getNeutronRabbitConfig c a =
     State_Monad.bind (Get_Secret c (key (aim_Namespace a) ''neutron-dhcp-agent-neutron-config'')) (\<lambda>r.
       case r of
         Inl err \<Rightarrow> State_Monad.return rabbit_defaults
       | Inr secret \<Rightarrow>
           (case gm_get (sec_Data secret) ''10-neutron-dhcp.conf'' of
              None \<Rightarrow> State_Monad.return rabbit_defaults
            | Some confData \<Rightarrow> State_Monad.return (scan_rabbit_config confData)))"

section \<open>Reference meaning of the queue settings\<close>

text \<open>The value of the last line that sets a key, or the default.\<close>

fun last_setting :: "string \<Rightarrow> string \<Rightarrow> string list \<Rightarrow> string" where
  "last_setting k d [] = d"
| "last_setting k d (raw # ls) =
     (let line = TrimSpace raw
      in last_setting k (if HasPrefix line k then TrimPrefix line k else d) ls)"

text \<open>A line sets at most one of the three keys: none of them is a prefix of a line for another.\<close>

lemma prefixes_disjoint:
  "HasPrefix s ''rabbit_quorum_queue='' \<Longrightarrow> \<not> HasPrefix s ''rabbit_transient_quorum_queue=''"
  "HasPrefix s ''rabbit_quorum_queue='' \<Longrightarrow> \<not> HasPrefix s ''amqp_durable_queues=''"
  "HasPrefix s ''rabbit_transient_quorum_queue='' \<Longrightarrow> \<not> HasPrefix s ''amqp_durable_queues=''"
  by (auto simp: HasPrefix_iff)

lemma rabbit_line_parts:
  "rabbit_line (q, t, d) raw =
     (last_setting ''rabbit_quorum_queue='' q [raw],
      last_setting ''rabbit_transient_quorum_queue='' t [raw],
      last_setting ''amqp_durable_queues='' d [raw])"
  using prefixes_disjoint [of "TrimSpace raw"] by (auto simp: rabbit_line_def Let_def)

lemma rabbit_lines_parts:
  "foldl rabbit_line (q, t, d) ls =
     (last_setting ''rabbit_quorum_queue='' q ls,
      last_setting ''rabbit_transient_quorum_queue='' t ls,
      last_setting ''amqp_durable_queues='' d ls)"
  by (induction ls arbitrary: q t d) (simp_all add: rabbit_line_parts Let_def)

section \<open>Conditions\<close>

lemma setCondition_frame [simp]:
  "aim_Meta (setCondition L a ty st rs ms) = aim_Meta a"
  "Spec (setCondition L a ty st rs ms) = Spec a"
  by (simp_all add: setCondition_def)

lemma setCondition_find:
  assumes "status_condition_doc L"
  shows "find_cond (Conditions (Status (setCondition L a ty st rs ms))) ty' =
    (if ty' = ty then Some \<lparr>cond_Type = ty, cond_Status = st, cond_Reason = rs, cond_Message = ms\<rparr>
     else find_cond (Conditions (Status a)) ty')"
  using assms by (simp add: status_condition_doc_def setCondition_def)

section \<open>The dependency phases only read\<close>

lemma db_connection_nonempty [simp]: "db_connection u p h n \<noteq> []"
  by (simp add: db_connection_def)

definition same_instance :: "CiscoAciAim \<Rightarrow> CiscoAciAim \<Rightarrow> bool" where
  "same_instance a b \<longleftrightarrow> aim_Meta b = aim_Meta a \<and> Spec b = Spec a"

lemma ensureDB_emits:
  "emits (\<lambda>r l. writes l = [] \<and> (case r of Inl e \<Rightarrow> True
      | Inr (s, b) \<Rightarrow> same_instance a b \<and>
          (s = [] \<and> b = a \<or>
           s \<noteq> [] \<and> b = setCondition L a ConditionDBReady ''True'' ''DBReady'' ''Database connection is ready'')))
    (ensureDB L (traced c) a)"
  unfolding ensureDB_def Let_def traced_simps
  by (auto simp: same_instance_def split: sum.split option.split intro!: emits_rules)

lemma ensureMessageBus_emits:
  "emits (\<lambda>r l. writes l = [] \<and> (case r of Inl e \<Rightarrow> True
      | Inr (s, b) \<Rightarrow> same_instance a b \<and>
          (s = [] \<and> b = a \<or> b = setCondition L a ConditionRabbitMQReady ''True'' ''RabbitMQReady''
             ''RabbitMQ transport URL is ready'')))
    (ensureMessageBus L (traced c) a)"
  unfolding ensureMessageBus_def Let_def traced_simps
  by (auto simp: same_instance_def split: sum.split option.split intro!: emits_rules)

lemma getNeutronRabbitConfig_emits:
  "emits (\<lambda>r l. writes l = []) (getNeutronRabbitConfig (traced c) a)"
  unfolding getNeutronRabbitConfig_def traced_simps
  by (auto split: sum.split option.split intro!: emits_rules)

section \<open>Properties\<close>

text \<open>
  C35: the queue settings are those of the last line of the neutron configuration that sets them,
  \<open>false\<close> when no line does; a line for one setting is never taken for another.
\<close>

theorem rabbit_settings_last_line:
  "scan_rabbit_config conf =
     (last_setting ''rabbit_quorum_queue='' ''false'' (scan_lines conf),
      last_setting ''rabbit_transient_quorum_queue='' ''false'' (scan_lines conf),
      last_setting ''amqp_durable_queues='' ''false'' (scan_lines conf))"
  by (simp add: scan_rabbit_config_def rabbit_defaults_def rabbit_lines_parts)

end
