(* ===== verification/Go_Json.thy ===== *)
theory Go_Json
  imports Go_Prelude
begin

text \<open>
  \<open>encoding/json\<close>, as far as the operator uses it: \<open>json.Unmarshal\<close> into a
  \<open>map[string]map[string]string\<close>. The decoder first checks the syntax of the whole input (with its
  limit on the nesting depth) and then stores the value; a value of the wrong kind is an error,
  \<open>null\<close> stores the zero value, and a repeated key overwrites the earlier entry. Strings are bytes;
  escapes are expanded to UTF-8 and bytes that are not well-formed UTF-8 become U+FFFD.

  The parser carries fuel. \<open>json_fuel\<close> is enough for every input of its length: each call consumes at
  least one byte, except that the call for an array's elements hands its input to the call for a
  value, so two units per byte suffice (proved in \<open>Json_Decode\<close>).
\<close>

datatype jval =
    JvNull
  | JvBool bool
  | JvNum string
  | JvStr string
  | JvArr "jval list"
  | JvObj "(string \<times> jval) list"

definition maxNestingDepth :: nat where
  "maxNestingDepth = 10000"

definition json_space :: "char \<Rightarrow> bool" where
  "json_space c \<longleftrightarrow> c = CHR 0x20 \<or> c = CHR 0x09 \<or> c = CHR 0x0A \<or> c = CHR 0x0D"

definition skip_ws :: "string \<Rightarrow> string" where
  "skip_ws s = dropWhile json_space s"

abbreviation quote :: char where
  "quote \<equiv> CHR 0x22"

abbreviation backslash :: char where
  "backslash \<equiv> CHR 0x5C"

definition hex_val :: "char \<Rightarrow> nat option" where
  "hex_val c =
     (let n = of_char c :: nat
      in if 48 \<le> n \<and> n \<le> 57 then Some (n - 48)
         else if 97 \<le> n \<and> n \<le> 102 then Some (n - 87)
         else if 65 \<le> n \<and> n \<le> 70 then Some (n - 55)
         else None)"

definition is_hex :: "char \<Rightarrow> bool" where
  "is_hex c \<longleftrightarrow> hex_val c \<noteq> None"

section \<open>UTF-8\<close>

definition utf8_encode :: "nat \<Rightarrow> string" where
  "utf8_encode r =
     (if r \<le> 127 then [char_of r]
      else if r \<le> 2047 then [char_of (192 + r div 64), char_of (128 + r mod 64)]
      else if r > 1114111 \<or> (55296 \<le> r \<and> r \<le> 57343) then [CHR 0xEF, CHR 0xBF, CHR 0xBD]
      else if r \<le> 65535 then
        [char_of (224 + r div 4096), char_of (128 + r div 64 mod 64), char_of (128 + r mod 64)]
      else
        [char_of (240 + r div 262144), char_of (128 + r div 4096 mod 64),
         char_of (128 + r div 64 mod 64), char_of (128 + r mod 64)])"

definition in_range :: "nat \<Rightarrow> nat \<Rightarrow> char \<Rightarrow> bool" where
  "in_range lo hi c \<longleftrightarrow> lo \<le> (of_char c :: nat) \<and> (of_char c :: nat) \<le> hi"

definition cont :: "char \<Rightarrow> bool" where
  "cont = in_range 128 191"

text \<open>The length of the well-formed UTF-8 sequence at the head of a string, 0 when there is none.\<close>

definition utf8_len :: "string \<Rightarrow> nat" where
  "utf8_len s =
     (case s of
        [] \<Rightarrow> 0
      | a # t \<Rightarrow>
          if in_range 0 127 a then 1
          else if in_range 194 223 a then (case t of b # _ \<Rightarrow> if cont b then 2 else 0 | [] \<Rightarrow> 0)
          else if in_range 224 239 a then
            (case t of
               b # c # _ \<Rightarrow>
                 if cont c \<and> (if a = CHR 0xE0 then in_range 160 191 b
                               else if a = CHR 0xED then in_range 128 159 b else cont b) then 3 else 0
             | _ \<Rightarrow> 0)
          else if in_range 240 244 a then
            (case t of
               b # c # d # _ \<Rightarrow>
                 if cont c \<and> cont d \<and> (if a = CHR 0xF0 then in_range 144 191 b
                               else if a = CHR 0xF4 then in_range 128 143 b else cont b) then 4 else 0
             | _ \<Rightarrow> 0)
          else 0)"

section \<open>Strings\<close>

text \<open>The raw contents of a string literal, up to its closing quote.\<close>

fun lex_string :: "string \<Rightarrow> string \<Rightarrow> (string \<times> string) option" where
  "lex_string acc [] = None"
| "lex_string acc (c # cs) =
     (if c = quote then Some (rev acc, cs)
      else if c = backslash then
        (case cs of
           [] \<Rightarrow> None
         | e # cs' \<Rightarrow>
             if e \<in> set [CHR ''b'', CHR ''f'', CHR ''n'', CHR ''r'', CHR ''t'', backslash, slash, quote]
             then lex_string (e # c # acc) cs'
             else if e = CHR ''u'' then
               (case cs' of
                  h1 # h2 # h3 # h4 # r \<Rightarrow>
                    if list_all is_hex [h1, h2, h3, h4] then lex_string (h4 # h3 # h2 # h1 # e # c # acc) r
                    else None
                | _ \<Rightarrow> None)
             else None)
      else if (of_char c :: nat) < 32 then None
      else lex_string (c # acc) cs)"

definition getu4 :: "string \<Rightarrow> nat option" where
  "getu4 s =
     (case s of
        b # u # h1 # h2 # h3 # h4 # _ \<Rightarrow>
          if b = backslash \<and> u = CHR ''u'' then
            (case (hex_val h1, hex_val h2, hex_val h3, hex_val h4) of
               (Some x1, Some x2, Some x3, Some x4) \<Rightarrow> Some (((x1 * 16 + x2) * 16 + x3) * 16 + x4)
             | _ \<Rightarrow> None)
          else None
      | _ \<Rightarrow> None)"

definition surrogate :: "nat \<Rightarrow> bool" where
  "surrogate r \<longleftrightarrow> 55296 \<le> r \<and> r \<le> 57343"

text \<open>\<open>utf16.DecodeRune\<close> of a surrogate pair.\<close>

definition utf16_pair :: "nat \<Rightarrow> nat \<Rightarrow> nat option" where
  "utf16_pair r1 r2 =
     (if 55296 \<le> r1 \<and> r1 < 56320 \<and> 56320 \<le> r2 \<and> r2 < 57344
      then Some ((r1 - 55296) * 1024 + (r2 - 56320) + 65536) else None)"

definition simple_escape :: "char \<Rightarrow> char" where
  "simple_escape e =
     (if e = CHR ''b'' then CHR 0x08 else if e = CHR ''f'' then CHR 0x0C
      else if e = CHR ''n'' then CHR 0x0A else if e = CHR ''r'' then CHR 0x0D
      else if e = CHR ''t'' then CHR 0x09 else e)"

text \<open>
  \<open>unquote\<close> of the raw contents; the first argument is fuel, one unit per byte is enough. In the raw
  contents every backslash starts a valid escape.
\<close>

fun unquote_fuel :: "nat \<Rightarrow> string \<Rightarrow> string" where
  "unquote_fuel 0 s = []"
| "unquote_fuel (Suc n) s =
     (case s of
        [] \<Rightarrow> []
      | c # cs \<Rightarrow>
          if c = backslash then
            (case getu4 s of
               Some r1 \<Rightarrow>
                 (if surrogate r1 then
                    (case getu4 (drop 6 s) of
                       Some r2 \<Rightarrow>
                         (case utf16_pair r1 r2 of
                            Some r \<Rightarrow> utf8_encode r @ unquote_fuel n (drop 12 s)
                          | None \<Rightarrow> utf8_encode 65533 @ unquote_fuel n (drop 6 s))
                     | None \<Rightarrow> utf8_encode 65533 @ unquote_fuel n (drop 6 s))
                  else utf8_encode r1 @ unquote_fuel n (drop 6 s))
             | None \<Rightarrow>
                 (case cs of
                    [] \<Rightarrow> []
                  | e # r \<Rightarrow> simple_escape e # unquote_fuel n r))
          else let k = utf8_len s
               in if k = 0 then utf8_encode 65533 @ unquote_fuel n cs
                  else take k s @ unquote_fuel n (drop k s))"

definition unquote :: "string \<Rightarrow> string" where
  "unquote s = unquote_fuel (length s) s"

section \<open>Numbers and literals\<close>

definition json_digit :: "char \<Rightarrow> bool" where
  "json_digit = in_range 48 57"

definition lex_digits1 :: "string \<Rightarrow> (string \<times> string) option" where
  "lex_digits1 s =
     (let d = takeWhile json_digit s in if d = [] then None else Some (d, dropWhile json_digit s))"

definition lex_int :: "string \<Rightarrow> (string \<times> string) option" where
  "lex_int s =
     (case s of
        [] \<Rightarrow> None
      | c # cs \<Rightarrow> if c = CHR ''0'' then Some ([c], cs) else lex_digits1 s)"

definition lex_frac :: "string \<Rightarrow> (string \<times> string) option" where
  "lex_frac s =
     (case s of
        c # cs \<Rightarrow> if c = CHR ''.'' then map_option (\<lambda>(d, r). (c # d, r)) (lex_digits1 cs) else Some ([], s)
      | [] \<Rightarrow> Some ([], s))"

definition lex_exp :: "string \<Rightarrow> (string \<times> string) option" where
  "lex_exp s =
     (case s of
        c # cs \<Rightarrow>
          if c = CHR ''e'' \<or> c = CHR ''E'' then
            (case cs of
               d # ds \<Rightarrow>
                 if d = CHR ''+'' \<or> d = CHR ''-''
                 then map_option (\<lambda>(x, r). (c # d # x, r)) (lex_digits1 ds)
                 else map_option (\<lambda>(x, r). (c # x, r)) (lex_digits1 cs)
             | [] \<Rightarrow> None)
          else Some ([], s)
      | [] \<Rightarrow> Some ([], s))"

definition lex_number :: "string \<Rightarrow> (string \<times> string) option" where
  "lex_number s =
     (let (sign, t) = (case s of c # cs \<Rightarrow> if c = CHR ''-'' then ([c], cs) else ([], s) | [] \<Rightarrow> ([], s))
      in case lex_int t of
           None \<Rightarrow> None
         | Some (i, t1) \<Rightarrow>
             (case lex_frac t1 of
                None \<Rightarrow> None
              | Some (f, t2) \<Rightarrow>
                  (case lex_exp t2 of None \<Rightarrow> None | Some (e, t3) \<Rightarrow> Some (sign @ i @ f @ e, t3))))"

section \<open>Values\<close>

definition lex_key :: "string \<Rightarrow> (string \<times> string) option" where
  "lex_key s =
     (case s of
        c # cs \<Rightarrow>
          if c = quote then
            (case lex_string [] cs of
               None \<Rightarrow> None
             | Some (raw, t) \<Rightarrow>
                 (case skip_ws t of
                    d # ds \<Rightarrow> if d = CHR '':'' then Some (unquote raw, skip_ws ds) else None
                  | [] \<Rightarrow> None))
          else None
      | [] \<Rightarrow> None)"

fun parse_value :: "nat \<Rightarrow> nat \<Rightarrow> string \<Rightarrow> (jval \<times> string) option"
  and parse_members :: "nat \<Rightarrow> nat \<Rightarrow> string \<Rightarrow> ((string \<times> jval) list \<times> string) option"
  and parse_elems :: "nat \<Rightarrow> nat \<Rightarrow> string \<Rightarrow> (jval list \<times> string) option" where
  "parse_value 0 d s = None"
| "parse_value (Suc n) d s =
     (case s of
        [] \<Rightarrow> None
      | c # cs \<Rightarrow>
          if c = CHR ''{'' then
            (if maxNestingDepth \<le> d then None
             else case skip_ws cs of
                    [] \<Rightarrow> None
                  | e # es \<Rightarrow>
                      if e = CHR ''}'' then Some (JvObj [], es)
                      else map_option (\<lambda>(ms, r). (JvObj ms, r)) (parse_members n (Suc d) (e # es)))
          else if c = CHR ''['' then
            (if maxNestingDepth \<le> d then None
             else case skip_ws cs of
                    [] \<Rightarrow> None
                  | e # es \<Rightarrow>
                      if e = CHR '']'' then Some (JvArr [], es)
                      else map_option (\<lambda>(vs, r). (JvArr vs, r)) (parse_elems n (Suc d) (e # es)))
          else if c = quote then map_option (\<lambda>(raw, r). (JvStr (unquote raw), r)) (lex_string [] cs)
          else if HasPrefix s ''null'' then Some (JvNull, drop 4 s)
          else if HasPrefix s ''true'' then Some (JvBool True, drop 4 s)
          else if HasPrefix s ''false'' then Some (JvBool False, drop 5 s)
          else map_option (\<lambda>(t, r). (JvNum t, r)) (lex_number s))"
| "parse_members 0 d s = None"
| "parse_members (Suc n) d s =
     (case lex_key s of
        None \<Rightarrow> None
      | Some (k, t) \<Rightarrow>
          (case parse_value n d t of
             None \<Rightarrow> None
           | Some (v, t1) \<Rightarrow>
               (case skip_ws t1 of
                  [] \<Rightarrow> None
                | c # cs \<Rightarrow>
                    if c = CHR ''}'' then Some ([(k, v)], cs)
                    else if c = CHR '','' then
                      map_option (\<lambda>(ms, r). ((k, v) # ms, r)) (parse_members n d (skip_ws cs))
                    else None)))"
| "parse_elems 0 d s = None"
| "parse_elems (Suc n) d s =
     (case parse_value n d s of
        None \<Rightarrow> None
      | Some (v, t) \<Rightarrow>
          (case skip_ws t of
             [] \<Rightarrow> None
           | c # cs \<Rightarrow>
               if c = CHR '']'' then Some ([v], cs)
               else if c = CHR '','' then
                 map_option (\<lambda>(vs, r). (v # vs, r)) (parse_elems n d (skip_ws cs))
               else None))"

definition json_fuel :: "string \<Rightarrow> nat" where
  "json_fuel s = 2 * length s + 2"

definition json_parse :: "string \<Rightarrow> jval option" where
  "json_parse s =
     (case parse_value (json_fuel s) 0 (skip_ws s) of
        None \<Rightarrow> None
      | Some (v, r) \<Rightarrow> if skip_ws r = [] then Some v else None)"

section \<open>Storing into \<open>map[string]map[string]string\<close>\<close>

fun store_string :: "jval \<Rightarrow> string option" where
  "store_string (JvStr s) = Some s"
| "store_string JvNull = Some []"
| "store_string _ = None"

text \<open>The entries are stored in order, so that the last one of a repeated key stays.\<close>

fun store_entries :: "(jval \<Rightarrow> 'v option) \<Rightarrow> (string, 'v) fmap \<Rightarrow> (string \<times> jval) list \<Rightarrow> (string, 'v) fmap option" where
  "store_entries f m [] = Some m"
| "store_entries f m ((k, v) # kvs) =
     (case f v of None \<Rightarrow> None | Some x \<Rightarrow> store_entries f (fmupd k x m) kvs)"

definition store_map :: "(jval \<Rightarrow> 'v option) \<Rightarrow> jval \<Rightarrow> 'v gomap option" where
  "store_map f v =
     (case v of
        JvObj kvs \<Rightarrow> map_option Some (store_entries f fmempty kvs)
      | JvNull \<Rightarrow> Some None
      | _ \<Rightarrow> None)"

datatype json_error = SyntaxError | UnmarshalTypeError

definition json_Unmarshal_map2 :: "string \<Rightarrow> json_error + string gomap gomap" where
  "json_Unmarshal_map2 raw =
     (case json_parse raw of
        None \<Rightarrow> Inl SyntaxError
      | Some v \<Rightarrow>
          (case store_map (store_map store_string) v of
             None \<Rightarrow> Inl UnmarshalTypeError
           | Some m \<Rightarrow> Inr m))"

end
