(* ===== verification/Config_Data.thy ===== *)
theory Config_Data
  imports Sample Go_Json
begin

text \<open>
  The data of the configuration files (\<open>src/internal/controller/ciscoaciaim_controller.go\<close>):
  \<open>AimConfData\<close> and \<open>AimCtlConfData\<close> with the functions that fill them from the custom resource, and
  \<open>buildSwitchConfigs\<close>, which turns the host links into an ordered list.

  The last part of the theory gives the reference meaning of the two computations with loops: the
  grouped host links and the list of physical domains.
\<close>

record PhysDomConfig =
  PhysDomName :: string

record HostLink =
  Hosts :: string
  Port :: string

record SwitchConfig =
  SwitchID :: string
  HostLinks :: "HostLink list"

record AimConfData =
  DatabaseConnection :: string
  MessageBusConnection :: string
  acd_ACIAimDebug :: bool
  acd_ACIScopeNames :: bool
  acd_ACIGen1HwGratArps :: bool
  acd_ACIEnableFaultSubscription :: bool
  acd_LogFileMaxSizeMB :: int64
  acd_LogFileMaxCount :: int64
  acd_ACIApicHosts :: string
  acd_ACIApicUsername :: string
  acd_ACIApicPassword :: string
  acd_ACIApicCertName :: string
  acd_ACIApicSystemId :: string
  AgentIDBase :: string
  acd_ACIVerifySslCertificate :: string
  RabbitQuorumQueue :: string
  RabbitTransientQuorumQueue :: string
  AmqpDurableQueues :: string

record AimCtlConfData =
  ctl_ACIApicSystemId :: string
  ctl_ACIApicSystemIdMaxLength :: int64
  ctl_ACIOpflexEncapMode :: string
  ctl_AciVmmMcastRanges :: string
  ctl_AciVmmMulticastAddress :: string
  ctl_AciVmmDomainName :: string
  ctl_ACIOpflexVlanRange :: string
  ctl_ACIApicEntityProfile :: string
  ctl_AciExternalRoutedDomain :: string
  ctl_ACIVpcPairs :: string
  ctl_ACIScopeInfra :: bool
  ACISwitchConfigs :: "SwitchConfig list"
  PhysDomConfigs :: "PhysDomConfig list"

definition populateAimConfData ::
    "string \<Rightarrow> string \<Rightarrow> string \<Rightarrow> string \<Rightarrow> string \<Rightarrow> CiscoAciAim \<Rightarrow> go_error + AimConfData" where
  "populateAimConfData dbConn busConn rabbitQuorumQueue rabbitTransientQuorumQueue amqpDurableQueues a =
     Inr \<lparr>DatabaseConnection = dbConn,
          MessageBusConnection = busConn,
          acd_ACIAimDebug = ACIAimDebug (Spec a),
          acd_ACIScopeNames = ACIScopeNames (Spec a),
          acd_ACIGen1HwGratArps = AciGen1HwGratArps (Spec a),
          acd_ACIEnableFaultSubscription = AciEnableFaultSubscription (Spec a),
          acd_LogFileMaxSizeMB = LogFileMaxSizeMB (Spec a),
          acd_LogFileMaxCount = LogFileMaxCount (Spec a),
          acd_ACIApicHosts = ACIApicHosts (aim_Conn a),
          acd_ACIApicUsername = ACIApicUsername (aim_Conn a),
          acd_ACIApicPassword = ACIApicPassword (aim_Conn a),
          acd_ACIApicCertName = ACIApicCertName (aim_Conn a),
          acd_ACIApicSystemId = ACIApicSystemId (aim_Conn a),
          AgentIDBase = aim_Name a,
          acd_ACIVerifySslCertificate = ACIVerifySslCertificate (aim_Conn a),
          RabbitQuorumQueue = rabbitQuorumQueue,
          RabbitTransientQuorumQueue = rabbitTransientQuorumQueue,
          AmqpDurableQueues = amqpDurableQueues\<rparr>"

section \<open>Host links\<close>

text \<open>\<open>m[k]\<close> of a Go map whose values have a zero value \<open>z\<close>.\<close>

definition fm_index :: "'v \<Rightarrow> (string, 'v) fmap \<Rightarrow> string \<Rightarrow> 'v" where
  "fm_index z m k = (case fmlookup m k of None \<Rightarrow> z | Some v \<Rightarrow> v)"

text \<open>The loop that groups the hosts of one switch by port; \<open>hs\<close> is the order \<open>range\<close> visits them in.\<close>

fun group_hosts :: "string gomap \<Rightarrow> string list \<Rightarrow> (string, string list) fmap \<Rightarrow> (string, string list) fmap" where
  "group_hosts links [] hostsByPort = hostsByPort"
| "group_hosts links (host # hs) hostsByPort =
     (case gm_get links host of
        None \<Rightarrow> group_hosts links hs hostsByPort
      | Some port \<Rightarrow>
          group_hosts links hs (fmupd port (fm_index [] hostsByPort port @ [host]) hostsByPort))"

definition switch_host_links :: "range_order \<Rightarrow> string \<Rightarrow> string gomap \<Rightarrow> HostLink list" where
  "switch_host_links rng switchID links =
     (let hostsByPort = group_hosts links (rng [''hosts'', switchID] (gm_keys links)) fmempty;
          ports = sort (rng [''ports'', switchID] (fmdom hostsByPort))
      in map (\<lambda>port. \<lparr>Hosts = strings_Join (sort (fm_index [] hostsByPort port)) '','', Port = port\<rparr>) ports)"

definition buildSwitchConfigs :: "range_order \<Rightarrow> string gomap gomap \<Rightarrow> SwitchConfig list" where
  "buildSwitchConfigs rng hostLinksMap =
     (let switchIDs = sort (rng [''switches''] (gm_keys hostLinksMap))
      in map (\<lambda>switchID.
           \<lparr>SwitchID = switchID,
            HostLinks = switch_host_links rng switchID
              (case gm_get hostLinksMap switchID of None \<Rightarrow> None | Some links \<Rightarrow> links)\<rparr>) switchIDs)"

section \<open>Physical domains\<close>

fun pdom_mapping :: "string list \<Rightarrow> (string, string) fmap \<Rightarrow> (string, string) fmap" where
  "pdom_mapping [] m = m"
| "pdom_mapping (mappingStr # ms) m =
     (case SplitN2 (CHR '':'') mappingStr of
        [k, v] \<Rightarrow> pdom_mapping ms (fmupd k v m)
      | _ \<Rightarrow> pdom_mapping ms m)"

definition phys_dom_name :: "(string, string) fmap \<Rightarrow> string \<Rightarrow> string" where
  "phys_dom_name pdomMapping vlanRangeStr =
     (let physNetName = hd (SplitN2 (CHR '':'') vlanRangeStr)
      in case fmlookup pdomMapping physNetName of
           Some customPdom \<Rightarrow> customPdom
         | None \<Rightarrow> ''pdom_'' @ physNetName)"

text \<open>The loop over the VLAN ranges; \<open>seen\<close> is the Go map \<open>physDomSet\<close>.\<close>

fun collect_phys_doms ::
    "(string, string) fmap \<Rightarrow> string list \<Rightarrow> string fset \<Rightarrow> PhysDomConfig list \<Rightarrow> PhysDomConfig list" where
  "collect_phys_doms m [] seen acc = acc"
| "collect_phys_doms m (r # rs) seen acc =
     (let physDomName = phys_dom_name m r
      in if physDomName |\<notin>| seen
         then collect_phys_doms m rs (finsert physDomName seen) (acc @ [\<lparr>PhysDomName = physDomName\<rparr>])
         else collect_phys_doms m rs seen acc)"

fun json_go_error :: "json_error \<Rightarrow> go_error" where
  "json_go_error SyntaxError = JsonError ''syntax''"
| "json_go_error UnmarshalTypeError = JsonError ''type''"

definition populateAimCtlConfData :: "range_order \<Rightarrow> CiscoAciAim \<Rightarrow> go_error + AimCtlConfData" where
  "populateAimCtlConfData rng a =
     (let data =
        \<lparr>ctl_ACIApicSystemId = ACIApicSystemId (aim_Conn a),
         ctl_ACIApicSystemIdMaxLength = ACIApicSystemIdMaxLength (aim_Conn a),
         ctl_ACIOpflexEncapMode = [], ctl_AciVmmMcastRanges = [], ctl_AciVmmMulticastAddress = [],
         ctl_AciVmmDomainName = ACIApicSystemId (aim_Conn a),
         ctl_ACIOpflexVlanRange = [], ctl_ACIApicEntityProfile = [],
         ctl_AciExternalRoutedDomain = [], ctl_ACIVpcPairs = [],
         ctl_ACIScopeInfra = ACIScopeInfra (Spec a),
         ACISwitchConfigs = [], PhysDomConfigs = []\<rparr>
      in case AciFabric (Spec a) of
           None \<Rightarrow> Inr data
         | Some fab \<Rightarrow>
             (let data = data
                \<lparr>ctl_ACIOpflexEncapMode := ACIOpflexEncapMode fab,
                 ctl_AciVmmMcastRanges := AciVmmMcastRanges fab,
                 ctl_AciVmmMulticastAddress := AciVmmMulticastAddress fab,
                 ctl_AciVmmDomainName :=
                   (if AciVmmDomainName fab \<noteq> [] then AciVmmDomainName fab else ctl_AciVmmDomainName data),
                 ctl_ACIApicEntityProfile := ACIApicEntityProfile fab,
                 ctl_AciExternalRoutedDomain := AciExternalRoutedDomain fab,
                 ctl_ACIVpcPairs := strings_Join (ACIVpcPairs fab) '','',
                 ctl_ACIOpflexVlanRange := strings_Join (ACIOpflexVlanRange fab) '',''\<rparr>;
                  switches =
                    (case ACIHostLinks fab of
                       None \<Rightarrow> Inr []
                     | Some raw \<Rightarrow>
                         if raw = [] then Inr []
                         else (case json_Unmarshal_map2 raw of
                                 Inl err \<Rightarrow> Inl (ParseHostLinksFailed (json_go_error err))
                               | Inr hostLinksMap \<Rightarrow> Inr (buildSwitchConfigs rng hostLinksMap)))
              in case switches of
                   Inl err \<Rightarrow> Inl err
                 | Inr sc \<Rightarrow>
                     Inr (data\<lparr>ACISwitchConfigs := sc,
                               PhysDomConfigs := collect_phys_doms
                                 (pdom_mapping (AciPhysDomMappings fab) fmempty)
                                 (NeutronNetworkVLANRanges fab) {||} []\<rparr>)))"

section \<open>Reference meaning of the host links\<close>

lemma fm_index_upd [simp]: "fm_index z (fmupd k v m) k' = (if k = k' then v else fm_index z m k')"
  by (simp add: fm_index_def)

lemma fm_index_empty [simp]: "fm_index z fmempty k = z"
  by (simp add: fm_index_def)

lemma group_hosts_index:
  "set hs \<subseteq> fset (gm_keys links) \<Longrightarrow>
   fm_index [] (group_hosts links hs m) p = fm_index [] m p @ filter (\<lambda>h. gm_get links h = Some p) hs"
  by (induction hs arbitrary: m) (auto split: option.splits)

lemma group_hosts_dom:
  "set hs \<subseteq> fset (gm_keys links) \<Longrightarrow>
   fset (fmdom (group_hosts links hs m)) = fset (fmdom m) \<union> {p. \<exists>h \<in> set hs. gm_get links h = Some p}"
  by (induction hs arbitrary: m) (auto split: option.splits)

text \<open>The hosts linked to a port of one switch, and the ports in use.\<close>

definition hosts_of_port :: "string gomap \<Rightarrow> string \<Rightarrow> string list" where
  "hosts_of_port links p = filter (\<lambda>h. gm_get links h = Some p) (sorted_list_of_fset (gm_keys links))"

definition ports_of :: "string gomap \<Rightarrow> string fset" where
  "ports_of links = (case links of None \<Rightarrow> {||} | Some m \<Rightarrow> fmran m)"

lemma ports_of_iff: "p |\<in>| ports_of links \<longleftrightarrow> (\<exists>h. gm_get links h = Some p)"
  by (auto simp: ports_of_def fmlookup_ran_iff split: option.splits)

lemma grouped_ports:
  assumes "range_ok rng"
  shows "fmdom (group_hosts links (rng lp (gm_keys links)) fmempty) = ports_of links"
proof -
  have "set (rng lp (gm_keys links)) = fset (gm_keys links)"
    using assms by (simp add: range_ok_def)
  then have "fset (fmdom (group_hosts links (rng lp (gm_keys links)) fmempty)) = fset (ports_of links)"
    by (auto simp: group_hosts_dom ports_of_iff Bex_def) blast
  then show ?thesis
    by (simp add: fset_inject)
qed

lemma grouped_hosts:
  assumes "range_ok rng"
  shows "sort (fm_index [] (group_hosts links (rng lp (gm_keys links)) fmempty) p) = hosts_of_port links p"
proof -
  have keys: "set (rng lp (gm_keys links)) = fset (gm_keys links)"
    using assms by (simp add: range_ok_def)
  have "sort (filter P (rng lp K)) = filter P (sorted_list_of_fset K)" for P K
    using sort_range [OF assms, of lp K] by (metis filter_sort)
  then show ?thesis
    by (simp add: group_hosts_index keys hosts_of_port_def)
qed

definition switch_links_body :: "string \<times> string gomap \<Rightarrow> string list \<Rightarrow> HostLink list" where
  "switch_links_body m ports =
     map (\<lambda>port. \<lparr>Hosts = strings_Join (hosts_of_port (snd m) port) '','', Port = port\<rparr>) ports"

interpretation ports: sorted_range "\<lambda>rng m. switch_host_links rng (fst m) (snd m)"
  "\<lambda>m. ports_of (snd m)" switch_links_body "\<lambda>m. [''ports'', fst m]"
  by unfold_locales
    (simp add: switch_host_links_def switch_links_body_def Let_def grouped_ports grouped_hosts)

definition link_table :: "string gomap \<Rightarrow> HostLink list" where
  "link_table links =
     map (\<lambda>port. \<lparr>Hosts = strings_Join (hosts_of_port links port) '','', Port = port\<rparr>)
       (sorted_list_of_fset (ports_of links))"

lemma switch_host_links_table: "range_ok rng \<Longrightarrow> switch_host_links rng sid links = link_table links"
  using ports.canonical [of rng "(sid, links)"] by (simp add: switch_links_body_def link_table_def)

definition links_of :: "string gomap gomap \<Rightarrow> string \<Rightarrow> string gomap" where
  "links_of m sid = (case gm_get m sid of None \<Rightarrow> None | Some links \<Rightarrow> links)"

definition switch_body :: "string gomap gomap \<Rightarrow> string list \<Rightarrow> SwitchConfig list" where
  "switch_body m sids = map (\<lambda>sid. \<lparr>SwitchID = sid, HostLinks = link_table (links_of m sid)\<rparr>) sids"

interpretation switches: sorted_range buildSwitchConfigs gm_keys switch_body "\<lambda>_. [''switches'']"
  by unfold_locales
    (simp add: buildSwitchConfigs_def switch_body_def links_of_def switch_host_links_table)

section \<open>The physical domains, without a loop\<close>

text \<open>The distinct elements of a list, each at its first position.\<close>

definition first_occurrences :: "'a list \<Rightarrow> 'a list" where
  "first_occurrences xs = rev (remdups (rev xs))"

lemma first_occurrences_snoc:
  "first_occurrences (xs @ [x]) = (if x \<in> set xs then first_occurrences xs else first_occurrences xs @ [x])"
  by (simp add: first_occurrences_def)

lemma collect_phys_doms_names:
  assumes "fset seen = set xs" and "map PhysDomName acc = first_occurrences xs"
  shows "map PhysDomName (collect_phys_doms m rs seen acc) = first_occurrences (xs @ map (phys_dom_name m) rs)"
  using assms
proof (induction rs arbitrary: seen acc xs)
  case Nil
  then show ?case
    by simp
next
  case (Cons r rs)
  show ?case
  proof (cases "phys_dom_name m r |\<in>| seen")
    case True
    with Cons.prems have "phys_dom_name m r \<in> set xs"
      by auto
    with True Cons.prems show ?thesis
      using Cons.IH [of seen "xs @ [phys_dom_name m r]" acc]
      by (simp add: insert_absorb first_occurrences_snoc)
  next
    case False
    with Cons.prems have "phys_dom_name m r \<notin> set xs"
      by auto
    with False Cons.prems show ?thesis
      using Cons.IH [of "finsert (phys_dom_name m r) seen" "xs @ [phys_dom_name m r]"
          "acc @ [\<lparr>PhysDomName = phys_dom_name m r\<rparr>]"]
      by (simp add: first_occurrences_snoc Let_def)
  qed
qed

text \<open>A custom domain is the last mapping given for the network.\<close>

definition is_mapping :: "string \<Rightarrow> string \<Rightarrow> string \<Rightarrow> bool" where
  "is_mapping net pd mp \<longleftrightarrow> CHR '':'' \<notin> set net \<and> mp = net @ CHR '':'' # pd"

lemma pdom_mapping_snoc:
  "pdom_mapping (ms @ [mp]) m =
     (case SplitN2 (CHR '':'') mp of [k, v] \<Rightarrow> fmupd k v (pdom_mapping ms m) | _ \<Rightarrow> pdom_mapping ms m)"
  by (induction ms arbitrary: m) (auto split: list.splits)

section \<open>Properties\<close>

text \<open>
  C28: the switch sections do not depend on the order in which Go visits the maps: switches are in
  order, the links of a switch are in the order of the ports, and the hosts of a port are in order.
\<close>

theorem switch_configs_canonical:
  assumes "range_ok rng"
  shows "buildSwitchConfigs rng m =
    map (\<lambda>sid. \<lparr>SwitchID = sid, HostLinks = link_table (links_of m sid)\<rparr>) (sorted_list_of_fset (gm_keys m))"
  using switches.canonical [OF assms, of m] by (simp add: switch_body_def)

theorem switch_configs_canonical_witness:
  "map SwitchID (buildSwitchConfigs sorted_order
     (gm_of [(''102'', gm_of [(''h1'', ''1/1'')]), (''101'', gm_of [(''h1'', ''1/2'')])])) = [''101'', ''102'']"
  unfolding switch_configs_canonical [OF sorted_order_ok(1)]
  by (simp add: comp_def gm_keys_def gm_of_def sorted_list_of_fset.rep_eq)

text \<open>
  No host link is lost or invented: a host is linked to a port of a switch in the given map
  exactly when the section of that switch has a line for that port which lists the host.
\<close>

lemma host_links_complete:
  assumes "range_ok rng"
  shows "gm_get (links_of m sid) h = Some p \<longleftrightarrow>
    (\<exists>sc \<in> set (buildSwitchConfigs rng m). \<exists>hl \<in> set (HostLinks sc). SwitchID sc = sid \<and> Port hl = p \<and>
       (\<exists>hosts. Hosts hl = strings_Join hosts '','' \<and> hosts = hosts_of_port (links_of m sid) p \<and> h \<in> set hosts))"
proof -
  have "gm_get m sid \<noteq> None" if "gm_get (links_of m sid) h = Some p"
    using that by (auto simp: links_of_def split: option.splits)
  then show ?thesis
    unfolding switches.canonical [OF assms] switch_body_def
    by (auto simp: link_table_def hosts_of_port_def ports_of_iff)
qed

text \<open>
  C29: the physical domains are those of the VLAN ranges, each once, in the order of the first range
  that names it.
\<close>

theorem physical_domains_listed:
  assumes "populateAimCtlConfData rng a = Inr d" and "AciFabric (Spec a) = Some fab"
  shows "map PhysDomName (PhysDomConfigs d) =
      first_occurrences (map (phys_dom_name (pdom_mapping (AciPhysDomMappings fab) fmempty))
        (NeutronNetworkVLANRanges fab)) \<and>
    distinct (map PhysDomName (PhysDomConfigs d))"
proof -
  have "PhysDomConfigs d = collect_phys_doms (pdom_mapping (AciPhysDomMappings fab) fmempty)
      (NeutronNetworkVLANRanges fab) {||} []"
    using assms by (auto simp: populateAimCtlConfData_def Let_def split: option.splits if_splits sum.splits)
  then show ?thesis
    using collect_phys_doms_names [of "{||}" "[]" "[]"] by (simp add: first_occurrences_def)
qed

definition demo_fabric_aim :: CiscoAciAim where
  "demo_fabric_aim = demo_aim\<lparr>Spec := (default_spec ''img'')\<lparr>AciFabric := Some (default_fabric
     \<lparr>NeutronNetworkVLANRanges := [''p1:1:9'', ''p2:1:9'', ''p1:20:29''], AciPhysDomMappings := [''p2:pd'']\<rparr>)\<rparr>\<rparr>"

theorem physical_domains_listed_witness:
  "\<exists>d. populateAimCtlConfData sorted_order demo_fabric_aim = Inr d \<and>
     map PhysDomName (PhysDomConfigs d) = [''pdom_p1'', ''pd'']"
proof -
  obtain d where d: "populateAimCtlConfData sorted_order demo_fabric_aim = Inr d"
    by (simp add: populateAimCtlConfData_def demo_fabric_aim_def default_fabric_def)
  have "phys_dom_name (pdom_mapping [''p2:pd''] fmempty) ''p1:1:9'' = ''pdom_p1''"
    "phys_dom_name (pdom_mapping [''p2:pd''] fmempty) ''p1:20:29'' = ''pdom_p1''"
    "phys_dom_name (pdom_mapping [''p2:pd''] fmempty) ''p2:1:9'' = ''pd''"
    by (simp_all add: phys_dom_name_def SplitN2_def)
  with physical_domains_listed [OF d, of "the (AciFabric (Spec demo_fabric_aim))"] d show ?thesis
    by (simp add: demo_fabric_aim_def first_occurrences_def)
qed

text \<open>
  The domain of a network is the one of the last mapping that names it, whatever other mappings
  there are, and \<open>pdom_\<close> with its name when there is none.
\<close>

lemma pdom_mapping_other:
  "\<forall>mp \<in> set ms. \<forall>pd. \<not> is_mapping net pd mp \<Longrightarrow> fmlookup (pdom_mapping ms m) net = fmlookup m net"
proof (induction ms arbitrary: m)
  case (Cons mp ms)
  have "k \<noteq> net" if "SplitN2 (CHR '':'') mp = [k, v]" for k v
    using that Cons.prems SplitN2_cases [of "CHR '':''" mp] by (fastforce simp: is_mapping_def)
  with Cons show ?case
    by (auto split: list.split)
qed simp

lemma last_domain_mapping_wins:
  assumes "CHR '':'' \<notin> set net" and "\<forall>mp \<in> set later. \<forall>pd. \<not> is_mapping net pd mp"
  shows "phys_dom_name (pdom_mapping (earlier @ (net @ '':'' @ custom) # later) fmempty) (net @ '':'' @ vlans) = custom \<and>
    phys_dom_name (pdom_mapping later fmempty) (net @ '':'' @ vlans) = ''pdom_'' @ net"
proof -
  have split: "pdom_mapping (ms @ ms') m = pdom_mapping ms' (pdom_mapping ms m)" for ms ms' m
    by (induction ms arbitrary: m) (auto split: list.split)
  show ?thesis
    using assms(1) by (simp add: phys_dom_name_def split pdom_mapping_other [OF assms(2)])
qed

text \<open>The only way the data of \<open>aimctl.conf\<close> can fail is a host link value that does not decode.\<close>

lemma aimctl_data_failure:
  "(\<exists>e. populateAimCtlConfData rng a = Inl e) \<longleftrightarrow>
     (\<exists>fab raw e. AciFabric (Spec a) = Some fab \<and> ACIHostLinks fab = Some raw \<and> raw \<noteq> [] \<and>
        json_Unmarshal_map2 raw = Inl e)"
  by (auto simp: populateAimCtlConfData_def Let_def split: option.splits if_splits sum.splits)

end
