(* ===== verification/Go_Template.thy ===== *)
theory Go_Template
  imports Go_Prelude
begin

text \<open>
  \<open>text/template\<close>, for the actions the operator's templates use: \<open>{{.F}}\<close>, \<open>{{if P}}\<close>, \<open>{{else}}\<close>,
  \<open>{{else if P}}\<close>, \<open>{{range .F}}\<close> and \<open>{{end}}\<close>, where the pipeline \<open>P\<close> is \<open>.F\<close> or
  \<open>eq .F "literal"\<close>. Everything else of the template language (trim markers, comments, variables,
  other functions, nested fields) is outside the model and is reported as a syntax error.

  The parser carries fuel; \<open>template_fuel\<close> is enough for a template of its length, since every call
  consumes a token but for the call that starts the body of an \<open>if\<close>.
\<close>

text \<open>The values a template is executed on: the exported fields of the Go structs.\<close>

datatype tval = TStr string | TBool bool | TInt int | TList "tval list" | TStruct "(string \<times> tval) list"

datatype tpipe = PField string | PEq string string

datatype tnode = NText string | NField string | NIf tpipe "tnode list" "tnode list" | NRange string "tnode list"

section \<open>Parsing\<close>

datatype ttoken = TokText string | TokAction string

text \<open>The text up to the first occurrence of a two-character delimiter, and what follows it.\<close>

fun cut_at :: "char \<Rightarrow> string \<Rightarrow> (string \<times> string) option" where
  "cut_at d [] = None"
| "cut_at d [c] = None"
| "cut_at d (c # c' # s) =
     (if c = d \<and> c' = d then Some ([], s)
      else map_option (\<lambda>(a, r). (c # a, r)) (cut_at d (c' # s)))"

lemma cut_at_length: "cut_at d s = Some (a, r) \<Longrightarrow> length r + 2 \<le> length s"
  by (induction d s arbitrary: a r rule: cut_at.induct) (fastforce split: if_splits)+

function lex_template :: "string \<Rightarrow> ttoken list option" where
  "lex_template s =
     (case cut_at (CHR ''{'') s of
        None \<Rightarrow> Some (if s = [] then [] else [TokText s])
      | Some (txt, r) \<Rightarrow>
          (case cut_at (CHR ''}'') r of
             None \<Rightarrow> None
           | Some (act, r') \<Rightarrow>
               map_option (\<lambda>ts. (if txt = [] then [] else [TokText txt]) @ TokAction act # ts)
                 (lex_template r')))"
  by pat_completeness auto
termination
  by (relation "measure length") (auto dest!: cut_at_length)

declare lex_template.simps [simp del]

definition tmpl_space :: "char \<Rightarrow> bool" where
  "tmpl_space c \<longleftrightarrow> c = CHR 0x20 \<or> c = CHR 0x09 \<or> c = CHR 0x0A \<or> c = CHR 0x0D"

fun split_words :: "string \<Rightarrow> string \<Rightarrow> string list" where
  "split_words acc [] = (if acc = [] then [] else [rev acc])"
| "split_words acc (c # cs) =
     (if tmpl_space c then (if acc = [] then split_words [] cs else rev acc # split_words [] cs)
      else split_words (c # acc) cs)"

definition ident_char :: "char \<Rightarrow> bool" where
  "ident_char c \<longleftrightarrow>
     (let n = of_char c :: nat
      in 48 \<le> n \<and> n \<le> 57 \<or> 65 \<le> n \<and> n \<le> 90 \<or> 97 \<le> n \<and> n \<le> 122 \<or> n = 95)"

definition field_of :: "string \<Rightarrow> string option" where
  "field_of w =
     (case w of
        c # f \<Rightarrow> if c = CHR ''.'' \<and> f \<noteq> [] \<and> list_all ident_char f then Some f else None
      | [] \<Rightarrow> None)"

definition literal_of :: "string \<Rightarrow> string option" where
  "literal_of w =
     (if 2 \<le> length w \<and> hd w = CHR 0x22 \<and> last w = CHR 0x22 \<and> list_all ident_char (butlast (tl w))
      then Some (butlast (tl w)) else None)"

definition pipe_of :: "string list \<Rightarrow> tpipe option" where
  "pipe_of ws =
     (case ws of
        [w] \<Rightarrow> map_option PField (field_of w)
      | [e, w, q] \<Rightarrow>
          if e = ''eq'' then
            (case (field_of w, literal_of q) of (Some f, Some s) \<Rightarrow> Some (PEq f s) | _ \<Rightarrow> None)
          else None
      | _ \<Rightarrow> None)"

datatype taction = AField string | AIf tpipe | AElse | AElseIf tpipe | ARange string | AEnd

definition action_of :: "string \<Rightarrow> taction option" where
  "action_of s =
     (case split_words [] s of
        [] \<Rightarrow> None
      | w # ws \<Rightarrow>
          if w = ''end'' then (if ws = [] then Some AEnd else None)
          else if w = ''else'' then
            (case ws of
               [] \<Rightarrow> Some AElse
             | v # vs \<Rightarrow> if v = ''if'' then map_option AElseIf (pipe_of vs) else None)
          else if w = ''if'' then map_option AIf (pipe_of ws)
          else if w = ''range'' then
            (case ws of [v] \<Rightarrow> map_option ARange (field_of v) | _ \<Rightarrow> None)
          else if ws = [] then map_option AField (field_of w)
          else None)"

datatype tend = EndOfInput | EndAction | ElseAction | ElseIfAction tpipe

fun parse_nodes :: "nat \<Rightarrow> ttoken list \<Rightarrow> (tnode list \<times> tend \<times> ttoken list) option"
  and parse_if :: "nat \<Rightarrow> tpipe \<Rightarrow> ttoken list \<Rightarrow> (tnode \<times> ttoken list) option" where
  "parse_nodes 0 ts = None"
| "parse_nodes (Suc n) [] = Some ([], EndOfInput, [])"
| "parse_nodes (Suc n) (TokText s # ts) =
     map_option (\<lambda>(ns, e, r). (NText s # ns, e, r)) (parse_nodes n ts)"
| "parse_nodes (Suc n) (TokAction s # ts) =
     (case action_of s of
        None \<Rightarrow> None
      | Some (AField f) \<Rightarrow> map_option (\<lambda>(ns, e, r). (NField f # ns, e, r)) (parse_nodes n ts)
      | Some AEnd \<Rightarrow> Some ([], EndAction, ts)
      | Some AElse \<Rightarrow> Some ([], ElseAction, ts)
      | Some (AElseIf p) \<Rightarrow> Some ([], ElseIfAction p, ts)
      | Some (AIf p) \<Rightarrow>
          (case parse_if n p ts of
             None \<Rightarrow> None
           | Some (nd, r) \<Rightarrow> map_option (\<lambda>(ns, e, r'). (nd # ns, e, r')) (parse_nodes n r))
      | Some (ARange f) \<Rightarrow>
          (case parse_nodes n ts of
             Some (body, EndAction, r) \<Rightarrow>
               map_option (\<lambda>(ns, e, r'). (NRange f body # ns, e, r')) (parse_nodes n r)
           | _ \<Rightarrow> None))"
| "parse_if 0 p ts = None"
| "parse_if (Suc n) p ts =
     (case parse_nodes n ts of
        Some (body, EndAction, r) \<Rightarrow> Some (NIf p body [], r)
      | Some (body, ElseAction, r) \<Rightarrow>
          (case parse_nodes n r of
             Some (els, EndAction, r') \<Rightarrow> Some (NIf p body els, r')
           | _ \<Rightarrow> None)
      | Some (body, ElseIfAction q, r) \<Rightarrow>
          map_option (\<lambda>(nd, r'). (NIf p body [nd], r')) (parse_if n q r)
      | _ \<Rightarrow> None)"

definition template_fuel :: "ttoken list \<Rightarrow> nat" where
  "template_fuel ts = 2 * length ts + 2"

definition template_Parse :: "string \<Rightarrow> tnode list option" where
  "template_Parse content =
     (case lex_template content of
        None \<Rightarrow> None
      | Some ts \<Rightarrow>
          (case parse_nodes (template_fuel ts) ts of
             Some (ns, EndOfInput, r) \<Rightarrow> Some ns
           | _ \<Rightarrow> None))"

section \<open>Execution\<close>

definition field_value :: "tval \<Rightarrow> string \<Rightarrow> tval option" where
  "field_value v f = (case v of TStruct fs \<Rightarrow> map_of fs f | _ \<Rightarrow> None)"

definition print_value :: "tval \<Rightarrow> string option" where
  "print_value v =
     (case v of TStr s \<Rightarrow> Some s | TBool b \<Rightarrow> Some (btoa b) | TInt i \<Rightarrow> Some (itoa i) | _ \<Rightarrow> None)"

text \<open>The truth of a value: whether it is not the zero value of its kind; a struct is always true.\<close>

definition truth :: "tval \<Rightarrow> bool" where
  "truth v =
     (case v of TStr s \<Rightarrow> s \<noteq> [] | TBool b \<Rightarrow> b | TInt i \<Rightarrow> i \<noteq> 0 | TList vs \<Rightarrow> vs \<noteq> [] | TStruct _ \<Rightarrow> True)"

fun eval_pipe :: "tval \<Rightarrow> tpipe \<Rightarrow> bool option" where
  "eval_pipe dot (PField f) = map_option truth (field_value dot f)"
| "eval_pipe dot (PEq f s) =
     (case field_value dot f of Some (TStr t) \<Rightarrow> Some (t = s) | _ \<Rightarrow> None)"

fun concat_opt :: "string option list \<Rightarrow> string option" where
  "concat_opt [] = Some []"
| "concat_opt (x # xs) =
     (case x of None \<Rightarrow> None | Some s \<Rightarrow> map_option (\<lambda>t. s @ t) (concat_opt xs))"

fun exec_node :: "tval \<Rightarrow> tnode \<Rightarrow> string option"
  and exec_nodes :: "tval \<Rightarrow> tnode list \<Rightarrow> string option" where
  "exec_node dot (NText s) = Some s"
| "exec_node dot (NField f) =
     (case field_value dot f of None \<Rightarrow> None | Some v \<Rightarrow> print_value v)"
| "exec_node dot (NIf p a b) =
     (case eval_pipe dot p of
        None \<Rightarrow> None
      | Some t \<Rightarrow> if t then exec_nodes dot a else exec_nodes dot b)"
| "exec_node dot (NRange f body) =
     (case field_value dot f of
        Some (TList vs) \<Rightarrow> concat_opt (map (\<lambda>v. exec_nodes v body) vs)
      | _ \<Rightarrow> None)"
| "exec_nodes dot [] = Some []"
| "exec_nodes dot (n # ns) =
     (case exec_node dot n of
        None \<Rightarrow> None
      | Some s \<Rightarrow> map_option (\<lambda>t. s @ t) (exec_nodes dot ns))"

section \<open>Lexing a rendered token list\<close>

text \<open>
  The source text of a list of tokens, and when lexing it gives the tokens back: the texts are not
  empty and hold no opening delimiter, no two texts are adjacent, and the actions hold no closing
  delimiter.
\<close>

fun token_text :: "ttoken \<Rightarrow> string" where
  "token_text (TokText s) = s"
| "token_text (TokAction a) = ''{{'' @ a @ ''}}''"

definition tokens_text :: "ttoken list \<Rightarrow> string" where
  "tokens_text ts = concat (map token_text ts)"

definition delim_free :: "char \<Rightarrow> string \<Rightarrow> bool" where
  "delim_free d s \<longleftrightarrow> cut_at d (s @ [d, d]) = Some (s, [])"

fun wf_tokens :: "ttoken list \<Rightarrow> bool" where
  "wf_tokens [] = True"
| "wf_tokens [TokText s] \<longleftrightarrow> s \<noteq> [] \<and> cut_at (CHR ''{'') s = None"
| "wf_tokens (TokText s # TokText t # ts) = False"
| "wf_tokens (TokText s # TokAction a # ts) \<longleftrightarrow>
     s \<noteq> [] \<and> delim_free (CHR ''{'') s \<and> delim_free (CHR ''}'') a \<and> wf_tokens ts"
| "wf_tokens (TokAction a # ts) \<longleftrightarrow> delim_free (CHR ''}'') a \<and> wf_tokens ts"

lemma cut_at_append: "cut_at d (s @ [d, d]) = Some (a, []) \<Longrightarrow> cut_at d (s @ d # d # r) = Some (a, r)"
proof (induction s arbitrary: a)
  case Nil
  then show ?case by simp
next
  case (Cons x s)
  show ?case
  proof (cases s)
    case Nil
    with Cons.prems show ?thesis by (auto split: if_splits)
  next
    case (Cons y t)
    with Cons.prems obtain a' where "cut_at d (s @ [d, d]) = Some (a', [])" "a = x # a'" "\<not> (x = d \<and> y = d)"
      by (auto split: if_splits)
    with Cons.IH Cons show ?thesis by simp
  qed
qed

lemma delim_freeD: "delim_free d s \<Longrightarrow> cut_at d (s @ d # d # r) = Some (s, r)"
  unfolding delim_free_def by (rule cut_at_append)

lemma lex_tokens: "wf_tokens ts \<Longrightarrow> lex_template (tokens_text ts) = Some ts"
proof (induction ts rule: wf_tokens.induct)
  case 1
  show ?case
    by (subst lex_template.simps) (simp add: tokens_text_def)
next
  case (2 s)
  then show ?case
    by (subst lex_template.simps) (simp add: tokens_text_def)
next
  case (3 s t ts)
  then show ?case by simp
next
  case (4 s a ts)
  then have "cut_at (CHR ''{'') (tokens_text (TokText s # TokAction a # ts)) =
      Some (s, a @ CHR ''}'' # CHR ''}'' # tokens_text ts)"
    by (simp add: tokens_text_def delim_freeD)
  with 4 show ?case
    by (subst lex_template.simps) (simp add: delim_freeD)
next
  case (5 a ts)
  then have "cut_at (CHR ''{'') (tokens_text (TokAction a # ts)) =
      Some ([], a @ CHR ''}'' # CHR ''}'' # tokens_text ts)"
    by (simp add: tokens_text_def)
  with 5 show ?case
    by (subst lex_template.simps) (simp add: delim_freeD)
qed

section \<open>Fuel\<close>

declare parse_nodes.simps [simp del] parse_if.simps [simp del]

lemmas parse_splits = option.splits taction.splits tend.splits prod.splits

text \<open>What is left after a body that was closed by an action is shorter than the input.\<close>

lemma parse_rest:
  "parse_nodes n ts = Some (ns, e, r) \<Longrightarrow> length r \<le> length ts \<and> (e \<noteq> EndOfInput \<longrightarrow> length r < length ts)"
  "parse_if n p ts = Some (nd, r) \<Longrightarrow> length r < length ts"
proof (induction n ts and n p ts arbitrary: ns e r and nd r rule: parse_nodes_parse_if.induct)
  case (3 n s ts)
  then show ?case
    by (fastforce simp: parse_nodes.simps)
next
  case (4 n s ts)
  show ?case
  proof (cases "action_of s")
    case None
    with 4 show ?thesis by (simp add: parse_nodes.simps)
  next
    case (Some act)
    show ?thesis
    proof (cases act)
      case (AField f)
      with Some 4 show ?thesis by (fastforce simp: parse_nodes.simps)
    next
      case (AIf p)
      with Some 4 show ?thesis by (fastforce simp: parse_nodes.simps split: option.splits)
    next
      case (ARange f)
      with Some 4 show ?thesis by (fastforce simp: parse_nodes.simps split: option.splits tend.splits)
    qed (use Some 4 in \<open>auto simp: parse_nodes.simps\<close>)
  qed
next
  case (6 n p ts)
  then show ?case
    by (fastforce simp: parse_if.simps split: option.splits tend.splits)
qed (auto simp: parse_nodes.simps parse_if.simps)

text \<open>
  With \<open>template_fuel\<close> the parser never runs out: one more unit gives the same result, and so by
  induction does any number.
\<close>

lemma nodes_fuel_step:
  assumes nodes: "\<And>ts. 2 * length ts + 1 \<le> n \<Longrightarrow> parse_nodes (Suc n) ts = parse_nodes n ts"
    and ifs: "\<And>p ts. 2 * length ts + 2 \<le> n \<Longrightarrow> parse_if (Suc n) p ts = parse_if n p ts"
    and bound: "2 * length ts + 1 \<le> Suc n"
  shows "parse_nodes (Suc (Suc n)) ts = parse_nodes (Suc n) ts"
proof (cases ts)
  case Nil
  then show ?thesis by (simp add: parse_nodes.simps)
next
  case (Cons t ts')
  with bound have n1: "parse_nodes (Suc n) ts' = parse_nodes n ts'"
    and i1: "parse_if (Suc n) p ts' = parse_if n p ts'" for p
    by (simp_all add: nodes ifs)
  have n2: "parse_nodes (Suc n) r = parse_nodes n r" if "length r < length ts'" for r
    using that bound Cons by (simp add: nodes)
  show ?thesis
  proof (cases t)
    case (TokText s)
    then show ?thesis by (simp add: Cons parse_nodes.simps(3) n1)
  next
    case (TokAction s)
    then show ?thesis
      unfolding Cons TokAction parse_nodes.simps(4) n1 i1
      by (auto split: parse_splits intro!: arg_cong [where f = "map_option _"] n2 dest: parse_rest)
  qed
qed

lemma if_fuel_step:
  assumes nodes: "\<And>ts. 2 * length ts + 1 \<le> n \<Longrightarrow> parse_nodes (Suc n) ts = parse_nodes n ts"
    and ifs: "\<And>p ts. 2 * length ts + 2 \<le> n \<Longrightarrow> parse_if (Suc n) p ts = parse_if n p ts"
    and bound: "2 * length ts + 2 \<le> Suc n"
  shows "parse_if (Suc (Suc n)) p ts = parse_if (Suc n) p ts"
proof -
  have n1: "parse_nodes (Suc n) ts = parse_nodes n ts"
    using bound by (simp add: nodes)
  have n2: "parse_nodes (Suc n) r = parse_nodes n r" and i2: "parse_if (Suc n) q r = parse_if n q r"
    if "length r < length ts" for q r
    using that bound by (simp_all add: nodes ifs)
  show ?thesis
  proof (cases "parse_nodes n ts")
    case None
    then show ?thesis by (simp add: parse_if.simps n1)
  next
    case (Some x)
    obtain body e r where x: "x = (body, e, r)"
      by (cases x) auto
    with Some have "e \<noteq> EndOfInput \<Longrightarrow> length r < length ts"
      using parse_rest(1) by blast
    then show ?thesis
      unfolding parse_if.simps(2) [of "Suc n" p ts] parse_if.simps(2) [of n p ts] n1 Some x
      by (cases e) (simp_all add: n2 i2)
  qed
qed

lemma parse_fuel_step:
  "(\<forall>ts. 2 * length ts + 1 \<le> n \<longrightarrow> parse_nodes (Suc n) ts = parse_nodes n ts) \<and>
   (\<forall>p ts. 2 * length ts + 2 \<le> n \<longrightarrow> parse_if (Suc n) p ts = parse_if n p ts)"
proof (induction n)
  case 0
  show ?case by simp
next
  case (Suc n)
  then show ?case
    using nodes_fuel_step [of n] if_fuel_step [of n] by blast
qed

lemma template_fuel_enough: "parse_nodes (template_fuel ts + k) ts = parse_nodes (template_fuel ts) ts"
  using parse_fuel_step by (induction k) (simp_all add: template_fuel_def)

end
