(* ===== verification/Aim_Templates.thy ===== *)
theory Aim_Templates
  imports Go_Template
begin

text \<open>
  The files of \<open>src/templates\<close> that the operator reads at run time, line by line, with their token
  lists and syntax trees. The image serves them under \<open>/templates\<close> (\<open>src/Dockerfile\<close>).
\<close>

abbreviation nl :: char where
  "nl \<equiv> CHR 0x0A"

abbreviation dq :: char where
  "dq \<equiv> CHR 0x22"

abbreviation bs :: char where
  "bs \<equiv> CHR 0x5C"

abbreviation sq :: char where
  "sq \<equiv> CHR 0x27"

definition unlines :: "string list \<Rightarrow> string" where
  "unlines ls = concat (map (\<lambda>l. l @ [nl]) ls)"

section \<open>\<open>aim.conf.tmpl\<close>\<close>

definition aim_conf_tmpl :: string where
  "aim_conf_tmpl =
     unlines
     [''[DEFAULT]'',
      ''debug={{.ACIAimDebug}}'',
      ''rpc_backend=rabbit'',
      ''control_exchange=neutron'',
      ''default_log_levels=neutron.context=ERROR'',
      ''logging_default_format_string='' @ [dq] @ ''%(asctime)s.%(msecs)03d %(process)d %(thread)d %(levelname)s %(name)s [-] %(instance)s%(message)s'' @ [dq],
      ''log_rotation_type=size'',
      ''max_logfile_size_mb={{.LogFileMaxSizeMB}}'',
      ''max_logfile_count={{.LogFileMaxCount}}'',
      ''transport_url={{ .MessageBusConnection }}'',
      [],
      ''[oslo_messaging_rabbit]'',
      ''ssl=True'',
      ''rabbit_ha_queues=False'',
      ''rabbit_quorum_queue={{.RabbitQuorumQueue}}'',
      ''rabbit_transient_quorum_queue={{.RabbitTransientQuorumQueue}}'',
      ''amqp_durable_queues={{.AmqpDurableQueues}}'',
      [],
      ''[database]'',
      ''connection = {{ .DatabaseConnection }}'',
      [],
      ''[aim]'',
      ''# Seconds to regard the agent is down; should be at least twice report_interval.'',
      ''agent_down_time = 75'',
      ''poll_config = False'',
      ''aim_system_id = {{.ACIApicSystemId}}'',
      ''support_gen1_hw_gratarps={{.ACIGen1HwGratArps}}'',
      ''enable_faults_subscriptions={{.ACIEnableFaultSubscription}}'',
      ''aim_agentid_base = {{.AgentIDBase}}'',
      [],
      ''[apic]'',
      ''#apic_hosts = <ip:port>,<ip:port>,<ip:port>'',
      ''apic_hosts={{.ACIApicHosts}}'',
      ''apic_username={{.ACIApicUsername}}'',
      ''{{if .ACIApicPassword}}'',
      ''apic_password = {{.ACIApicPassword}}'',
      ''{{else if .ACIApicCertName}}'',
      ''private_key_file = /etc/aim/{{.ACIApicUsername}}_private_key'',
      ''certificate_name = {{.ACIApicCertName}}'',
      ''{{end}}'',
      ''apic_use_ssl=True'',
      ''{{if .ACIVerifySslCertificate}}'',
      ''verify_ssl_certificate={{.ACIVerifySslCertificate}}'',
      ''{{else}}'',
      ''verify_ssl_certificate=false'',
      ''{{end}}'',
      ''scope_names={{.ACIScopeNames}}'']"

definition aim_conf_tmpl_tokens :: "ttoken list" where
  "aim_conf_tmpl_tokens =
     [TokText (''[DEFAULT]'' @ [nl] @ ''debug=''),
      TokAction (''.ACIAimDebug''),
      TokText ([nl] @ ''rpc_backend=rabbit'' @ [nl] @ ''control_exchange=neutron'' @ [nl] @ ''default_log_levels=neutron.context=ERROR'' @ [nl] @ ''logging_default_format_string='' @ [dq] @ ''%(asctime)s.%(msecs)03d %(process)d %(thread)d %(levelname)s %(name)s [-] %(instance)s%(message)s'' @ [dq] @ [nl] @ ''log_rotation_type=size'' @ [nl] @ ''max_logfile_size_mb=''),
      TokAction (''.LogFileMaxSizeMB''),
      TokText ([nl] @ ''max_logfile_count=''),
      TokAction (''.LogFileMaxCount''),
      TokText ([nl] @ ''transport_url=''),
      TokAction ('' .MessageBusConnection ''),
      TokText ([nl] @ [nl] @ ''[oslo_messaging_rabbit]'' @ [nl] @ ''ssl=True'' @ [nl] @ ''rabbit_ha_queues=False'' @ [nl] @ ''rabbit_quorum_queue=''),
      TokAction (''.RabbitQuorumQueue''),
      TokText ([nl] @ ''rabbit_transient_quorum_queue=''),
      TokAction (''.RabbitTransientQuorumQueue''),
      TokText ([nl] @ ''amqp_durable_queues=''),
      TokAction (''.AmqpDurableQueues''),
      TokText ([nl] @ [nl] @ ''[database]'' @ [nl] @ ''connection = ''),
      TokAction ('' .DatabaseConnection ''),
      TokText ([nl] @ [nl] @ ''[aim]'' @ [nl] @ ''# Seconds to regard the agent is down; should be at least twice report_interval.'' @ [nl] @ ''agent_down_time = 75'' @ [nl] @ ''poll_config = False'' @ [nl] @ ''aim_system_id = ''),
      TokAction (''.ACIApicSystemId''),
      TokText ([nl] @ ''support_gen1_hw_gratarps=''),
      TokAction (''.ACIGen1HwGratArps''),
      TokText ([nl] @ ''enable_faults_subscriptions=''),
      TokAction (''.ACIEnableFaultSubscription''),
      TokText ([nl] @ ''aim_agentid_base = ''),
      TokAction (''.AgentIDBase''),
      TokText ([nl] @ [nl] @ ''[apic]'' @ [nl] @ ''#apic_hosts = <ip:port>,<ip:port>,<ip:port>'' @ [nl] @ ''apic_hosts=''),
      TokAction (''.ACIApicHosts''),
      TokText ([nl] @ ''apic_username=''),
      TokAction (''.ACIApicUsername''),
      TokText ([nl]),
      TokAction (''if .ACIApicPassword''),
      TokText ([nl] @ ''apic_password = ''),
      TokAction (''.ACIApicPassword''),
      TokText ([nl]),
      TokAction (''else if .ACIApicCertName''),
      TokText ([nl] @ ''private_key_file = /etc/aim/''),
      TokAction (''.ACIApicUsername''),
      TokText (''_private_key'' @ [nl] @ ''certificate_name = ''),
      TokAction (''.ACIApicCertName''),
      TokText ([nl]),
      TokAction (''end''),
      TokText ([nl] @ ''apic_use_ssl=True'' @ [nl]),
      TokAction (''if .ACIVerifySslCertificate''),
      TokText ([nl] @ ''verify_ssl_certificate=''),
      TokAction (''.ACIVerifySslCertificate''),
      TokText ([nl]),
      TokAction (''else''),
      TokText ([nl] @ ''verify_ssl_certificate=false'' @ [nl]),
      TokAction (''end''),
      TokText ([nl] @ ''scope_names=''),
      TokAction (''.ACIScopeNames''),
      TokText ([nl])]"

definition aim_conf_tmpl_tree :: "tnode list" where
  "aim_conf_tmpl_tree =
  [NText (''[DEFAULT]'' @ [nl] @ ''debug=''),
   NField ''ACIAimDebug'',
   NText ([nl] @ ''rpc_backend=rabbit'' @ [nl] @ ''control_exchange=neutron'' @ [nl] @ ''default_log_levels=neutron.context=ERROR'' @ [nl] @ ''logging_default_format_string='' @ [dq] @ ''%(asctime)s.%(msecs)03d %(process)d %(thread)d %(levelname)s %(name)s [-] %(instance)s%(message)s'' @ [dq] @ [nl] @ ''log_rotation_type=size'' @ [nl] @ ''max_logfile_size_mb=''),
   NField ''LogFileMaxSizeMB'',
   NText ([nl] @ ''max_logfile_count=''),
   NField ''LogFileMaxCount'',
   NText ([nl] @ ''transport_url=''),
   NField ''MessageBusConnection'',
   NText ([nl] @ [nl] @ ''[oslo_messaging_rabbit]'' @ [nl] @ ''ssl=True'' @ [nl] @ ''rabbit_ha_queues=False'' @ [nl] @ ''rabbit_quorum_queue=''),
   NField ''RabbitQuorumQueue'',
   NText ([nl] @ ''rabbit_transient_quorum_queue=''),
   NField ''RabbitTransientQuorumQueue'',
   NText ([nl] @ ''amqp_durable_queues=''),
   NField ''AmqpDurableQueues'',
   NText ([nl] @ [nl] @ ''[database]'' @ [nl] @ ''connection = ''),
   NField ''DatabaseConnection'',
   NText ([nl] @ [nl] @ ''[aim]'' @ [nl] @ ''# Seconds to regard the agent is down; should be at least twice report_interval.'' @ [nl] @ ''agent_down_time = 75'' @ [nl] @ ''poll_config = False'' @ [nl] @ ''aim_system_id = ''),
   NField ''ACIApicSystemId'',
   NText ([nl] @ ''support_gen1_hw_gratarps=''),
   NField ''ACIGen1HwGratArps'',
   NText ([nl] @ ''enable_faults_subscriptions=''),
   NField ''ACIEnableFaultSubscription'',
   NText ([nl] @ ''aim_agentid_base = ''),
   NField ''AgentIDBase'',
   NText ([nl] @ [nl] @ ''[apic]'' @ [nl] @ ''#apic_hosts = <ip:port>,<ip:port>,<ip:port>'' @ [nl] @ ''apic_hosts=''),
   NField ''ACIApicHosts'',
   NText ([nl] @ ''apic_username=''),
   NField ''ACIApicUsername'',
   NText ([nl]),
   NIf (PField ''ACIApicPassword'') [NText ([nl] @ ''apic_password = ''),
 NField ''ACIApicPassword'',
 NText ([nl])] [NIf (PField ''ACIApicCertName'') [NText ([nl] @ ''private_key_file = /etc/aim/''),
 NField ''ACIApicUsername'',
 NText (''_private_key'' @ [nl] @ ''certificate_name = ''),
 NField ''ACIApicCertName'',
 NText ([nl])] []],
   NText ([nl] @ ''apic_use_ssl=True'' @ [nl]),
   NIf (PField ''ACIVerifySslCertificate'') [NText ([nl] @ ''verify_ssl_certificate=''),
 NField ''ACIVerifySslCertificate'',
 NText ([nl])] [NText ([nl] @ ''verify_ssl_certificate=false'' @ [nl])],
   NText ([nl] @ ''scope_names=''),
   NField ''ACIScopeNames'',
   NText ([nl])]"

section \<open>\<open>aimctl.conf.tmpl\<close>\<close>

definition aimctl_conf_tmpl :: string where
  "aimctl_conf_tmpl =
     unlines
     [''[DEFAULT]'',
      ''apic_system_id={{.ACIApicSystemId}}'',
      ''apic_system_id_length= {{.ACIApicSystemIdMaxLength}}'',
      [],
      ''[apic]'',
      ''# Note: When deploying multiple clouds against one APIC,'',
      ''#       these names must be unique between the clouds.'',
      ''apic_entity_profile={{.ACIApicEntityProfile}}'',
      ''scope_infra={{.ACIScopeInfra}}'',
      ''apic_provision_infra = False'',
      ''apic_provision_hostlinks = False'',
      ''{{if .AciExternalRoutedDomain}}'',
      ''apic_external_routed_domain_name = {{.AciExternalRoutedDomain}}'',
      ''{{end}}'',
      ''{{if .ACIVpcPairs}}'',
      ''apic_vpc_pairs = {{.ACIVpcPairs}}'',
      ''{{end}}'',
      [],
      ''[apic_vmdom:{{.AciVmmDomainName}}]'',
      ''encap_mode = {{.ACIOpflexEncapMode}}'',
      ''mcast_ranges = {{.AciVmmMcastRanges}}'',
      ''multicast_address = {{.AciVmmMulticastAddress}}'',
      ''{{if eq .ACIOpflexEncapMode '' @ [dq] @ ''vlan'' @ [dq] @ ''}}'',
      ''vlan_ranges = {{.ACIOpflexVlanRange}}'',
      ''{{end}}'',
      ''{{range .PhysDomConfigs}}'',
      ''[apic_physdom:{{.PhysDomName}}]'',
      ''encap_mode=vlan'',
      ''{{end}}'',
      ''{{range .ACISwitchConfigs}}'',
      ''[apic_switch:{{.SwitchID}}]'',
      ''{{range .HostLinks}}{{.Hosts}} = {{.Port}}'',
      ''{{end}}{{end}}'']"

definition aimctl_conf_tmpl_tokens :: "ttoken list" where
  "aimctl_conf_tmpl_tokens =
     [TokText (''[DEFAULT]'' @ [nl] @ ''apic_system_id=''),
      TokAction (''.ACIApicSystemId''),
      TokText ([nl] @ ''apic_system_id_length= ''),
      TokAction (''.ACIApicSystemIdMaxLength''),
      TokText ([nl] @ [nl] @ ''[apic]'' @ [nl] @ ''# Note: When deploying multiple clouds against one APIC,'' @ [nl] @ ''#       these names must be unique between the clouds.'' @ [nl] @ ''apic_entity_profile=''),
      TokAction (''.ACIApicEntityProfile''),
      TokText ([nl] @ ''scope_infra=''),
      TokAction (''.ACIScopeInfra''),
      TokText ([nl] @ ''apic_provision_infra = False'' @ [nl] @ ''apic_provision_hostlinks = False'' @ [nl]),
      TokAction (''if .AciExternalRoutedDomain''),
      TokText ([nl] @ ''apic_external_routed_domain_name = ''),
      TokAction (''.AciExternalRoutedDomain''),
      TokText ([nl]),
      TokAction (''end''),
      TokText ([nl]),
      TokAction (''if .ACIVpcPairs''),
      TokText ([nl] @ ''apic_vpc_pairs = ''),
      TokAction (''.ACIVpcPairs''),
      TokText ([nl]),
      TokAction (''end''),
      TokText ([nl] @ [nl] @ ''[apic_vmdom:''),
      TokAction (''.AciVmmDomainName''),
      TokText ('']'' @ [nl] @ ''encap_mode = ''),
      TokAction (''.ACIOpflexEncapMode''),
      TokText ([nl] @ ''mcast_ranges = ''),
      TokAction (''.AciVmmMcastRanges''),
      TokText ([nl] @ ''multicast_address = ''),
      TokAction (''.AciVmmMulticastAddress''),
      TokText ([nl]),
      TokAction (''if eq .ACIOpflexEncapMode '' @ [dq] @ ''vlan'' @ [dq]),
      TokText ([nl] @ ''vlan_ranges = ''),
      TokAction (''.ACIOpflexVlanRange''),
      TokText ([nl]),
      TokAction (''end''),
      TokText ([nl]),
      TokAction (''range .PhysDomConfigs''),
      TokText ([nl] @ ''[apic_physdom:''),
      TokAction (''.PhysDomName''),
      TokText ('']'' @ [nl] @ ''encap_mode=vlan'' @ [nl]),
      TokAction (''end''),
      TokText ([nl]),
      TokAction (''range .ACISwitchConfigs''),
      TokText ([nl] @ ''[apic_switch:''),
      TokAction (''.SwitchID''),
      TokText ('']'' @ [nl]),
      TokAction (''range .HostLinks''),
      TokAction (''.Hosts''),
      TokText ('' = ''),
      TokAction (''.Port''),
      TokText ([nl]),
      TokAction (''end''),
      TokAction (''end''),
      TokText ([nl])]"

definition aimctl_conf_tmpl_tree :: "tnode list" where
  "aimctl_conf_tmpl_tree =
  [NText (''[DEFAULT]'' @ [nl] @ ''apic_system_id=''),
   NField ''ACIApicSystemId'',
   NText ([nl] @ ''apic_system_id_length= ''),
   NField ''ACIApicSystemIdMaxLength'',
   NText ([nl] @ [nl] @ ''[apic]'' @ [nl] @ ''# Note: When deploying multiple clouds against one APIC,'' @ [nl] @ ''#       these names must be unique between the clouds.'' @ [nl] @ ''apic_entity_profile=''),
   NField ''ACIApicEntityProfile'',
   NText ([nl] @ ''scope_infra=''),
   NField ''ACIScopeInfra'',
   NText ([nl] @ ''apic_provision_infra = False'' @ [nl] @ ''apic_provision_hostlinks = False'' @ [nl]),
   NIf (PField ''AciExternalRoutedDomain'') [NText ([nl] @ ''apic_external_routed_domain_name = ''),
 NField ''AciExternalRoutedDomain'',
 NText ([nl])] [],
   NText ([nl]),
   NIf (PField ''ACIVpcPairs'') [NText ([nl] @ ''apic_vpc_pairs = ''),
 NField ''ACIVpcPairs'',
 NText ([nl])] [],
   NText ([nl] @ [nl] @ ''[apic_vmdom:''),
   NField ''AciVmmDomainName'',
   NText ('']'' @ [nl] @ ''encap_mode = ''),
   NField ''ACIOpflexEncapMode'',
   NText ([nl] @ ''mcast_ranges = ''),
   NField ''AciVmmMcastRanges'',
   NText ([nl] @ ''multicast_address = ''),
   NField ''AciVmmMulticastAddress'',
   NText ([nl]),
   NIf (PEq ''ACIOpflexEncapMode'' ''vlan'') [NText ([nl] @ ''vlan_ranges = ''),
 NField ''ACIOpflexVlanRange'',
 NText ([nl])] [],
   NText ([nl]),
   NRange ''PhysDomConfigs'' [NText ([nl] @ ''[apic_physdom:''),
 NField ''PhysDomName'',
 NText ('']'' @ [nl] @ ''encap_mode=vlan'' @ [nl])],
   NText ([nl]),
   NRange ''ACISwitchConfigs'' [NText ([nl] @ ''[apic_switch:''),
 NField ''SwitchID'',
 NText ('']'' @ [nl]),
 NRange ''HostLinks'' [NField ''Hosts'',
 NText ('' = ''),
 NField ''Port'',
 NText ([nl])]],
   NText ([nl])]"

section \<open>\<open>kolla_config.json\<close>\<close>

definition kolla_config_json :: string where
  "kolla_config_json =
     unlines
     [''{'',
      ''  '' @ [dq] @ ''command'' @ [dq] @ '': '' @ [dq] @ ''/bin/supervisord -c /etc/aim/aim_supervisord.conf'' @ [dq] @ '','',
      ''  '' @ [dq] @ ''config_files'' @ [dq] @ '': ['',
      ''    {'',
      ''      '' @ [dq] @ ''source'' @ [dq] @ '': '' @ [dq] @ ''/var/lib/kolla/config_files/src/*'' @ [dq] @ '','',
      ''      '' @ [dq] @ ''dest'' @ [dq] @ '': '' @ [dq] @ ''/'' @ [dq] @ '','',
      ''      '' @ [dq] @ ''merge'' @ [dq] @ '': true,'',
      ''      '' @ [dq] @ ''preserve_properties'' @ [dq] @ '': true'',
      ''    }'',
      ''  ]{{if .LogToDisk}},'',
      ''  '' @ [dq] @ ''permissions'' @ [dq] @ '': ['',
      ''    {'',
      ''      '' @ [dq] @ ''path'' @ [dq] @ '': '' @ [dq] @ ''/var/log/aim'' @ [dq] @ '','',
      ''      '' @ [dq] @ ''owner'' @ [dq] @ '': '' @ [dq] @ ''neutron:neutron'' @ [dq] @ '','',
      ''      '' @ [dq] @ ''recurse'' @ [dq] @ '': true'',
      ''    }'',
      ''  ]{{end}}'',
      ''}'']"

definition kolla_config_json_tokens :: "ttoken list" where
  "kolla_config_json_tokens =
     [TokText (''{'' @ [nl] @ ''  '' @ [dq] @ ''command'' @ [dq] @ '': '' @ [dq] @ ''/bin/supervisord -c /etc/aim/aim_supervisord.conf'' @ [dq] @ '','' @ [nl] @ ''  '' @ [dq] @ ''config_files'' @ [dq] @ '': ['' @ [nl] @ ''    {'' @ [nl] @ ''      '' @ [dq] @ ''source'' @ [dq] @ '': '' @ [dq] @ ''/var/lib/kolla/config_files/src/*'' @ [dq] @ '','' @ [nl] @ ''      '' @ [dq] @ ''dest'' @ [dq] @ '': '' @ [dq] @ ''/'' @ [dq] @ '','' @ [nl] @ ''      '' @ [dq] @ ''merge'' @ [dq] @ '': true,'' @ [nl] @ ''      '' @ [dq] @ ''preserve_properties'' @ [dq] @ '': true'' @ [nl] @ ''    }'' @ [nl] @ ''  ]''),
      TokAction (''if .LogToDisk''),
      TokText ('','' @ [nl] @ ''  '' @ [dq] @ ''permissions'' @ [dq] @ '': ['' @ [nl] @ ''    {'' @ [nl] @ ''      '' @ [dq] @ ''path'' @ [dq] @ '': '' @ [dq] @ ''/var/log/aim'' @ [dq] @ '','' @ [nl] @ ''      '' @ [dq] @ ''owner'' @ [dq] @ '': '' @ [dq] @ ''neutron:neutron'' @ [dq] @ '','' @ [nl] @ ''      '' @ [dq] @ ''recurse'' @ [dq] @ '': true'' @ [nl] @ ''    }'' @ [nl] @ ''  ]''),
      TokAction (''end''),
      TokText ([nl] @ ''}'' @ [nl])]"

definition kolla_config_json_tree :: "tnode list" where
  "kolla_config_json_tree =
  [NText (''{'' @ [nl] @ ''  '' @ [dq] @ ''command'' @ [dq] @ '': '' @ [dq] @ ''/bin/supervisord -c /etc/aim/aim_supervisord.conf'' @ [dq] @ '','' @ [nl] @ ''  '' @ [dq] @ ''config_files'' @ [dq] @ '': ['' @ [nl] @ ''    {'' @ [nl] @ ''      '' @ [dq] @ ''source'' @ [dq] @ '': '' @ [dq] @ ''/var/lib/kolla/config_files/src/*'' @ [dq] @ '','' @ [nl] @ ''      '' @ [dq] @ ''dest'' @ [dq] @ '': '' @ [dq] @ ''/'' @ [dq] @ '','' @ [nl] @ ''      '' @ [dq] @ ''merge'' @ [dq] @ '': true,'' @ [nl] @ ''      '' @ [dq] @ ''preserve_properties'' @ [dq] @ '': true'' @ [nl] @ ''    }'' @ [nl] @ ''  ]''),
   NIf (PField ''LogToDisk'') [NText ('','' @ [nl] @ ''  '' @ [dq] @ ''permissions'' @ [dq] @ '': ['' @ [nl] @ ''    {'' @ [nl] @ ''      '' @ [dq] @ ''path'' @ [dq] @ '': '' @ [dq] @ ''/var/log/aim'' @ [dq] @ '','' @ [nl] @ ''      '' @ [dq] @ ''owner'' @ [dq] @ '': '' @ [dq] @ ''neutron:neutron'' @ [dq] @ '','' @ [nl] @ ''      '' @ [dq] @ ''recurse'' @ [dq] @ '': true'' @ [nl] @ ''    }'' @ [nl] @ ''  ]'')] [],
   NText ([nl] @ ''}'' @ [nl])]"

section \<open>\<open>aim_healthcheck.sh\<close>\<close>

definition aim_healthcheck_sh :: string where
  "aim_healthcheck_sh =
     unlines
     [''#!/bin/sh'',
      [],
      ''aim_aid_status=$(supervisorctl -c /etc/aim/aim_supervisord.conf status aim-aid | awk -F ' ' '{print $2}')'',
      ''aim_event_status=$(supervisorctl -c /etc/aim/aim_supervisord.conf status aim-event | awk -F ' ' '{print $2}')'',
      ''aim_rpc_status=$(supervisorctl -c /etc/aim/aim_supervisord.conf status aim-rpc | awk -F ' ' '{print $2}')'',
      [],
      ''if [ '' @ [dq] @ ''$aim_aid_status'' @ [dq] @ '' != '' @ [dq] @ ''RUNNING'' @ [dq] @ '' ] || [ '' @ [dq] @ ''$aim_event_status'' @ [dq] @ '' != '' @ [dq] @ ''RUNNING'' @ [dq] @ '' ] || [ '' @ [dq] @ ''$aim_rpc_status'' @ [dq] @ '' != '' @ [dq] @ ''RUNNING'' @ [dq] @ '' ]; then'',
      ''   echo '' @ [dq] @ ''fail'' @ [dq],
      ''   exit 1'',
      ''fi'']"

section \<open>\<open>aim_supervisord.conf\<close>\<close>

definition aim_supervisord_conf :: string where
  "aim_supervisord_conf =
     unlines
     [''[rpcinterface:supervisor]'',
      ''supervisor.rpcinterface_factory = supervisor.rpcinterface:make_main_rpcinterface'',
      [],
      ''[unix_http_server]'',
      ''file = /tmp/aim-supervisord.sock'',
      [],
      ''[supervisorctl]'',
      ''serverurl = unix:///tmp/aim-supervisord.sock'',
      ''prompt = ciscoaci-aim'',
      [],
      ''[supervisord]'',
      ''identifier = aim-supervisor'',
      ''pidfile = /run/aid/aim-supervisor.pid'',
      ''{{if .LogToDisk}}logfile = /var/log/aim/aim-supervisor-%(ENV_POD_ORDINAL)s.log'',
      ''logfile_maxbytes = 10MB'',
      ''logfile_backups = 3'',
      ''childlogdir = /var/log/aim'',
      ''{{else}}logfile = /dev/stdout'',
      ''logfile_maxbytes = 0'',
      ''logfile_backups = 0'',
      ''childlogdir = /tmp'',
      ''{{end}}loglevel = debug'',
      ''umask = 022'',
      ''minfds = 1024'',
      ''minprocs = 200'',
      ''nodaemon = true'',
      ''nocleanup = false'',
      ''strip_ansi = false'',
      [],
      ''[program:aim-aid]'',
      ''command=/usr/bin/aim-aid --config-file=/etc/aim/aim.conf{{if .LogToDisk}} --log-file=/var/log/aim/aim-aid-%(ENV_POD_ORDINAL)s.log{{end}}'',
      ''exitcodes=0,2'',
      ''stopasgroup=true'',
      ''startsecs=0'',
      ''startretries=3'',
      ''stopwaitsecs=10'',
      ''autorestart=true'',
      ''{{if .LogToDisk}}stdout_logfile=NONE'',
      ''stderr_logfile=NONE'',
      ''{{else}}stdout_logfile=/dev/fd/1'',
      ''stdout_logfile_maxbytes=0'',
      ''stderr_logfile=/dev/fd/2'',
      ''stderr_logfile_maxbytes=0'',
      ''{{end}}'',
      ''[program:aim-event]'',
      ''command=/usr/bin/aim-event-service-polling --config-file=/etc/aim/aim.conf{{if .LogToDisk}} --log-file=/var/log/aim/aim-event-service-polling-%(ENV_POD_ORDINAL)s.log{{end}}'',
      ''exitcodes=0,2'',
      ''stopasgroup=true'',
      ''startsecs=10'',
      ''startretries=3'',
      ''stopwaitsecs=10'',
      ''autorestart=true'',
      ''{{if .LogToDisk}}stdout_logfile=NONE'',
      ''stderr_logfile=NONE'',
      ''{{else}}stdout_logfile=/dev/fd/1'',
      ''stdout_logfile_maxbytes=0'',
      ''stderr_logfile=/dev/fd/2'',
      ''stderr_logfile_maxbytes=0'',
      ''{{end}}'',
      ''[program:aim-rpc]'',
      ''command=/usr/bin/aim-event-service-rpc --config-file=/etc/aim/aim.conf{{if .LogToDisk}} --log-file=/var/log/aim/aim-event-service-rpc-%(ENV_POD_ORDINAL)s.log{{end}}'',
      ''exitcodes=0,2'',
      ''stopasgroup=true'',
      ''startsecs=10'',
      ''startretries=3'',
      ''stopwaitsecs=10'',
      ''autorestart=true'',
      ''{{if .LogToDisk}}stdout_logfile=NONE'',
      ''stderr_logfile=NONE'',
      ''{{else}}stdout_logfile=/dev/fd/1'',
      ''stdout_logfile_maxbytes=0'',
      ''stderr_logfile=/dev/fd/2'',
      ''stderr_logfile_maxbytes=0'',
      ''{{end}}'']"

definition aim_supervisord_conf_tokens :: "ttoken list" where
  "aim_supervisord_conf_tokens =
     [TokText (''[rpcinterface:supervisor]'' @ [nl] @ ''supervisor.rpcinterface_factory = supervisor.rpcinterface:make_main_rpcinterface'' @ [nl] @ [nl] @ ''[unix_http_server]'' @ [nl] @ ''file = /tmp/aim-supervisord.sock'' @ [nl] @ [nl] @ ''[supervisorctl]'' @ [nl] @ ''serverurl = unix:///tmp/aim-supervisord.sock'' @ [nl] @ ''prompt = ciscoaci-aim'' @ [nl] @ [nl] @ ''[supervisord]'' @ [nl] @ ''identifier = aim-supervisor'' @ [nl] @ ''pidfile = /run/aid/aim-supervisor.pid'' @ [nl]),
      TokAction (''if .LogToDisk''),
      TokText (''logfile = /var/log/aim/aim-supervisor-%(ENV_POD_ORDINAL)s.log'' @ [nl] @ ''logfile_maxbytes = 10MB'' @ [nl] @ ''logfile_backups = 3'' @ [nl] @ ''childlogdir = /var/log/aim'' @ [nl]),
      TokAction (''else''),
      TokText (''logfile = /dev/stdout'' @ [nl] @ ''logfile_maxbytes = 0'' @ [nl] @ ''logfile_backups = 0'' @ [nl] @ ''childlogdir = /tmp'' @ [nl]),
      TokAction (''end''),
      TokText (''loglevel = debug'' @ [nl] @ ''umask = 022'' @ [nl] @ ''minfds = 1024'' @ [nl] @ ''minprocs = 200'' @ [nl] @ ''nodaemon = true'' @ [nl] @ ''nocleanup = false'' @ [nl] @ ''strip_ansi = false'' @ [nl] @ [nl] @ ''[program:aim-aid]'' @ [nl] @ ''command=/usr/bin/aim-aid --config-file=/etc/aim/aim.conf''),
      TokAction (''if .LogToDisk''),
      TokText ('' --log-file=/var/log/aim/aim-aid-%(ENV_POD_ORDINAL)s.log''),
      TokAction (''end''),
      TokText ([nl] @ ''exitcodes=0,2'' @ [nl] @ ''stopasgroup=true'' @ [nl] @ ''startsecs=0'' @ [nl] @ ''startretries=3'' @ [nl] @ ''stopwaitsecs=10'' @ [nl] @ ''autorestart=true'' @ [nl]),
      TokAction (''if .LogToDisk''),
      TokText (''stdout_logfile=NONE'' @ [nl] @ ''stderr_logfile=NONE'' @ [nl]),
      TokAction (''else''),
      TokText (''stdout_logfile=/dev/fd/1'' @ [nl] @ ''stdout_logfile_maxbytes=0'' @ [nl] @ ''stderr_logfile=/dev/fd/2'' @ [nl] @ ''stderr_logfile_maxbytes=0'' @ [nl]),
      TokAction (''end''),
      TokText ([nl] @ ''[program:aim-event]'' @ [nl] @ ''command=/usr/bin/aim-event-service-polling --config-file=/etc/aim/aim.conf''),
      TokAction (''if .LogToDisk''),
      TokText ('' --log-file=/var/log/aim/aim-event-service-polling-%(ENV_POD_ORDINAL)s.log''),
      TokAction (''end''),
      TokText ([nl] @ ''exitcodes=0,2'' @ [nl] @ ''stopasgroup=true'' @ [nl] @ ''startsecs=10'' @ [nl] @ ''startretries=3'' @ [nl] @ ''stopwaitsecs=10'' @ [nl] @ ''autorestart=true'' @ [nl]),
      TokAction (''if .LogToDisk''),
      TokText (''stdout_logfile=NONE'' @ [nl] @ ''stderr_logfile=NONE'' @ [nl]),
      TokAction (''else''),
      TokText (''stdout_logfile=/dev/fd/1'' @ [nl] @ ''stdout_logfile_maxbytes=0'' @ [nl] @ ''stderr_logfile=/dev/fd/2'' @ [nl] @ ''stderr_logfile_maxbytes=0'' @ [nl]),
      TokAction (''end''),
      TokText ([nl] @ ''[program:aim-rpc]'' @ [nl] @ ''command=/usr/bin/aim-event-service-rpc --config-file=/etc/aim/aim.conf''),
      TokAction (''if .LogToDisk''),
      TokText ('' --log-file=/var/log/aim/aim-event-service-rpc-%(ENV_POD_ORDINAL)s.log''),
      TokAction (''end''),
      TokText ([nl] @ ''exitcodes=0,2'' @ [nl] @ ''stopasgroup=true'' @ [nl] @ ''startsecs=10'' @ [nl] @ ''startretries=3'' @ [nl] @ ''stopwaitsecs=10'' @ [nl] @ ''autorestart=true'' @ [nl]),
      TokAction (''if .LogToDisk''),
      TokText (''stdout_logfile=NONE'' @ [nl] @ ''stderr_logfile=NONE'' @ [nl]),
      TokAction (''else''),
      TokText (''stdout_logfile=/dev/fd/1'' @ [nl] @ ''stdout_logfile_maxbytes=0'' @ [nl] @ ''stderr_logfile=/dev/fd/2'' @ [nl] @ ''stderr_logfile_maxbytes=0'' @ [nl]),
      TokAction (''end''),
      TokText ([nl])]"

definition aim_supervisord_conf_tree :: "tnode list" where
  "aim_supervisord_conf_tree =
  [NText (''[rpcinterface:supervisor]'' @ [nl] @ ''supervisor.rpcinterface_factory = supervisor.rpcinterface:make_main_rpcinterface'' @ [nl] @ [nl] @ ''[unix_http_server]'' @ [nl] @ ''file = /tmp/aim-supervisord.sock'' @ [nl] @ [nl] @ ''[supervisorctl]'' @ [nl] @ ''serverurl = unix:///tmp/aim-supervisord.sock'' @ [nl] @ ''prompt = ciscoaci-aim'' @ [nl] @ [nl] @ ''[supervisord]'' @ [nl] @ ''identifier = aim-supervisor'' @ [nl] @ ''pidfile = /run/aid/aim-supervisor.pid'' @ [nl]),
   NIf (PField ''LogToDisk'') [NText (''logfile = /var/log/aim/aim-supervisor-%(ENV_POD_ORDINAL)s.log'' @ [nl] @ ''logfile_maxbytes = 10MB'' @ [nl] @ ''logfile_backups = 3'' @ [nl] @ ''childlogdir = /var/log/aim'' @ [nl])] [NText (''logfile = /dev/stdout'' @ [nl] @ ''logfile_maxbytes = 0'' @ [nl] @ ''logfile_backups = 0'' @ [nl] @ ''childlogdir = /tmp'' @ [nl])],
   NText (''loglevel = debug'' @ [nl] @ ''umask = 022'' @ [nl] @ ''minfds = 1024'' @ [nl] @ ''minprocs = 200'' @ [nl] @ ''nodaemon = true'' @ [nl] @ ''nocleanup = false'' @ [nl] @ ''strip_ansi = false'' @ [nl] @ [nl] @ ''[program:aim-aid]'' @ [nl] @ ''command=/usr/bin/aim-aid --config-file=/etc/aim/aim.conf''),
   NIf (PField ''LogToDisk'') [NText ('' --log-file=/var/log/aim/aim-aid-%(ENV_POD_ORDINAL)s.log'')] [],
   NText ([nl] @ ''exitcodes=0,2'' @ [nl] @ ''stopasgroup=true'' @ [nl] @ ''startsecs=0'' @ [nl] @ ''startretries=3'' @ [nl] @ ''stopwaitsecs=10'' @ [nl] @ ''autorestart=true'' @ [nl]),
   NIf (PField ''LogToDisk'') [NText (''stdout_logfile=NONE'' @ [nl] @ ''stderr_logfile=NONE'' @ [nl])] [NText (''stdout_logfile=/dev/fd/1'' @ [nl] @ ''stdout_logfile_maxbytes=0'' @ [nl] @ ''stderr_logfile=/dev/fd/2'' @ [nl] @ ''stderr_logfile_maxbytes=0'' @ [nl])],
   NText ([nl] @ ''[program:aim-event]'' @ [nl] @ ''command=/usr/bin/aim-event-service-polling --config-file=/etc/aim/aim.conf''),
   NIf (PField ''LogToDisk'') [NText ('' --log-file=/var/log/aim/aim-event-service-polling-%(ENV_POD_ORDINAL)s.log'')] [],
   NText ([nl] @ ''exitcodes=0,2'' @ [nl] @ ''stopasgroup=true'' @ [nl] @ ''startsecs=10'' @ [nl] @ ''startretries=3'' @ [nl] @ ''stopwaitsecs=10'' @ [nl] @ ''autorestart=true'' @ [nl]),
   NIf (PField ''LogToDisk'') [NText (''stdout_logfile=NONE'' @ [nl] @ ''stderr_logfile=NONE'' @ [nl])] [NText (''stdout_logfile=/dev/fd/1'' @ [nl] @ ''stdout_logfile_maxbytes=0'' @ [nl] @ ''stderr_logfile=/dev/fd/2'' @ [nl] @ ''stderr_logfile_maxbytes=0'' @ [nl])],
   NText ([nl] @ ''[program:aim-rpc]'' @ [nl] @ ''command=/usr/bin/aim-event-service-rpc --config-file=/etc/aim/aim.conf''),
   NIf (PField ''LogToDisk'') [NText ('' --log-file=/var/log/aim/aim-event-service-rpc-%(ENV_POD_ORDINAL)s.log'')] [],
   NText ([nl] @ ''exitcodes=0,2'' @ [nl] @ ''stopasgroup=true'' @ [nl] @ ''startsecs=10'' @ [nl] @ ''startretries=3'' @ [nl] @ ''stopwaitsecs=10'' @ [nl] @ ''autorestart=true'' @ [nl]),
   NIf (PField ''LogToDisk'') [NText (''stdout_logfile=NONE'' @ [nl] @ ''stderr_logfile=NONE'' @ [nl])] [NText (''stdout_logfile=/dev/fd/1'' @ [nl] @ ''stdout_logfile_maxbytes=0'' @ [nl] @ ''stderr_logfile=/dev/fd/2'' @ [nl] @ ''stderr_logfile_maxbytes=0'' @ [nl])],
   NText ([nl])]"

section \<open>\<open>init.sh\<close>\<close>

definition init_sh :: string where
  "init_sh =
     unlines
     [''#!/bin/sh'',
      ''# This script initializes AIM whenever the aimctl configuration changes.'',
      [],
      ''# Exit immediately if any command fails.'',
      ''set -e'',
      [],
      ''POD_ORDINAL='' @ [dq] @ ''${POD_NAME##*-}'' @ [dq],
      ''if [ '' @ [dq] @ ''$POD_ORDINAL'' @ [dq] @ '' != '' @ [dq] @ ''0'' @ [dq] @ '' ]; then'',
      ''    echo '' @ [dq] @ ''Skipping AIM initialization on pod ordinal $POD_ORDINAL.'' @ [dq],
      ''    exit 0'',
      ''fi'',
      [],
      ''{{if .LogToDisk}}STATE_DIR='' @ [dq] @ ''/var/log/aim'' @ [dq] @ ''{{else}}STATE_DIR='' @ [dq] @ ''/tmp/aim'' @ [dq] @ ''{{end}}'',
      ''CONFIG_HASH_FILE='' @ [dq] @ ''$STATE_DIR/aimctl.conf.sha256'' @ [dq],
      ''# Use the source config path since postStart may run before kolla copies configs to /etc/aim/.'',
      ''CONFIG_DIR='' @ [dq] @ ''/var/lib/kolla/config_files/src/etc/aim'' @ [dq],
      ''CONFIG_FILES='' @ [dq] @ ''--config-file=$CONFIG_DIR/aim.conf --config-file=$CONFIG_DIR/aimctl.conf'' @ [dq],
      ''mkdir -p '' @ [dq] @ ''$STATE_DIR'' @ [dq],
      [],
      ''CONFIG_HASH=$(sha256sum '' @ [dq] @ ''$CONFIG_DIR/aimctl.conf'' @ [dq] @ '' | cut -d ' ' -f 1)'',
      ''if [ -f '' @ [dq] @ ''$CONFIG_HASH_FILE'' @ [dq] @ '' ] && [ '' @ [dq] @ ''$(cat '' @ [dq] @ ''$CONFIG_HASH_FILE'' @ [dq] @ '')'' @ [dq] @ '' = '' @ [dq] @ ''$CONFIG_HASH'' @ [dq] @ '' ]; then'',
      ''    echo '' @ [dq] @ ''AIM CLI configuration unchanged. Exiting.'' @ [dq],
      ''    exit 0'',
      ''fi'',
      [],
      ''# Apply AIM configuration when the aimctl configuration changes.'',
      ''aimctl $CONFIG_FILES config update'',
      [],
      ''# infra create may fail if the VMM domain already exists with EPGs (APIC error 1579).'',
      ''# This is expected on redeployments, so allow it to fail.'',
      ''aimctl $CONFIG_FILES infra create || echo '' @ [dq] @ ''Warning: infra create failed (may already exist)'' @ [dq],
      [],
      ''aimctl $CONFIG_FILES manager load-domains'',
      [],
      ''# Record the applied configuration only after all setup commands succeed.'',
      ''printf '%s'' @ [bs] @ ''n' '' @ [dq] @ ''$CONFIG_HASH'' @ [dq] @ '' > '' @ [dq] @ ''$CONFIG_HASH_FILE'' @ [dq]]"

definition init_sh_tokens :: "ttoken list" where
  "init_sh_tokens =
     [TokText (''#!/bin/sh'' @ [nl] @ ''# This script initializes AIM whenever the aimctl configuration changes.'' @ [nl] @ [nl] @ ''# Exit immediately if any command fails.'' @ [nl] @ ''set -e'' @ [nl] @ [nl] @ ''POD_ORDINAL='' @ [dq] @ ''${POD_NAME##*-}'' @ [dq] @ [nl] @ ''if [ '' @ [dq] @ ''$POD_ORDINAL'' @ [dq] @ '' != '' @ [dq] @ ''0'' @ [dq] @ '' ]; then'' @ [nl] @ ''    echo '' @ [dq] @ ''Skipping AIM initialization on pod ordinal $POD_ORDINAL.'' @ [dq] @ [nl] @ ''    exit 0'' @ [nl] @ ''fi'' @ [nl] @ [nl]),
      TokAction (''if .LogToDisk''),
      TokText (''STATE_DIR='' @ [dq] @ ''/var/log/aim'' @ [dq]),
      TokAction (''else''),
      TokText (''STATE_DIR='' @ [dq] @ ''/tmp/aim'' @ [dq]),
      TokAction (''end''),
      TokText ([nl] @ ''CONFIG_HASH_FILE='' @ [dq] @ ''$STATE_DIR/aimctl.conf.sha256'' @ [dq] @ [nl] @ ''# Use the source config path since postStart may run before kolla copies configs to /etc/aim/.'' @ [nl] @ ''CONFIG_DIR='' @ [dq] @ ''/var/lib/kolla/config_files/src/etc/aim'' @ [dq] @ [nl] @ ''CONFIG_FILES='' @ [dq] @ ''--config-file=$CONFIG_DIR/aim.conf --config-file=$CONFIG_DIR/aimctl.conf'' @ [dq] @ [nl] @ ''mkdir -p '' @ [dq] @ ''$STATE_DIR'' @ [dq] @ [nl] @ [nl] @ ''CONFIG_HASH=$(sha256sum '' @ [dq] @ ''$CONFIG_DIR/aimctl.conf'' @ [dq] @ '' | cut -d ' ' -f 1)'' @ [nl] @ ''if [ -f '' @ [dq] @ ''$CONFIG_HASH_FILE'' @ [dq] @ '' ] && [ '' @ [dq] @ ''$(cat '' @ [dq] @ ''$CONFIG_HASH_FILE'' @ [dq] @ '')'' @ [dq] @ '' = '' @ [dq] @ ''$CONFIG_HASH'' @ [dq] @ '' ]; then'' @ [nl] @ ''    echo '' @ [dq] @ ''AIM CLI configuration unchanged. Exiting.'' @ [dq] @ [nl] @ ''    exit 0'' @ [nl] @ ''fi'' @ [nl] @ [nl] @ ''# Apply AIM configuration when the aimctl configuration changes.'' @ [nl] @ ''aimctl $CONFIG_FILES config update'' @ [nl] @ [nl] @ ''# infra create may fail if the VMM domain already exists with EPGs (APIC error 1579).'' @ [nl] @ ''# This is expected on redeployments, so allow it to fail.'' @ [nl] @ ''aimctl $CONFIG_FILES infra create || echo '' @ [dq] @ ''Warning: infra create failed (may already exist)'' @ [dq] @ [nl] @ [nl] @ ''aimctl $CONFIG_FILES manager load-domains'' @ [nl] @ [nl] @ ''# Record the applied configuration only after all setup commands succeed.'' @ [nl] @ ''printf '%s'' @ [bs] @ ''n' '' @ [dq] @ ''$CONFIG_HASH'' @ [dq] @ '' > '' @ [dq] @ ''$CONFIG_HASH_FILE'' @ [dq] @ [nl])]"

definition init_sh_tree :: "tnode list" where
  "init_sh_tree =
  [NText (''#!/bin/sh'' @ [nl] @ ''# This script initializes AIM whenever the aimctl configuration changes.'' @ [nl] @ [nl] @ ''# Exit immediately if any command fails.'' @ [nl] @ ''set -e'' @ [nl] @ [nl] @ ''POD_ORDINAL='' @ [dq] @ ''${POD_NAME##*-}'' @ [dq] @ [nl] @ ''if [ '' @ [dq] @ ''$POD_ORDINAL'' @ [dq] @ '' != '' @ [dq] @ ''0'' @ [dq] @ '' ]; then'' @ [nl] @ ''    echo '' @ [dq] @ ''Skipping AIM initialization on pod ordinal $POD_ORDINAL.'' @ [dq] @ [nl] @ ''    exit 0'' @ [nl] @ ''fi'' @ [nl] @ [nl]),
   NIf (PField ''LogToDisk'') [NText (''STATE_DIR='' @ [dq] @ ''/var/log/aim'' @ [dq])] [NText (''STATE_DIR='' @ [dq] @ ''/tmp/aim'' @ [dq])],
   NText ([nl] @ ''CONFIG_HASH_FILE='' @ [dq] @ ''$STATE_DIR/aimctl.conf.sha256'' @ [dq] @ [nl] @ ''# Use the source config path since postStart may run before kolla copies configs to /etc/aim/.'' @ [nl] @ ''CONFIG_DIR='' @ [dq] @ ''/var/lib/kolla/config_files/src/etc/aim'' @ [dq] @ [nl] @ ''CONFIG_FILES='' @ [dq] @ ''--config-file=$CONFIG_DIR/aim.conf --config-file=$CONFIG_DIR/aimctl.conf'' @ [dq] @ [nl] @ ''mkdir -p '' @ [dq] @ ''$STATE_DIR'' @ [dq] @ [nl] @ [nl] @ ''CONFIG_HASH=$(sha256sum '' @ [dq] @ ''$CONFIG_DIR/aimctl.conf'' @ [dq] @ '' | cut -d ' ' -f 1)'' @ [nl] @ ''if [ -f '' @ [dq] @ ''$CONFIG_HASH_FILE'' @ [dq] @ '' ] && [ '' @ [dq] @ ''$(cat '' @ [dq] @ ''$CONFIG_HASH_FILE'' @ [dq] @ '')'' @ [dq] @ '' = '' @ [dq] @ ''$CONFIG_HASH'' @ [dq] @ '' ]; then'' @ [nl] @ ''    echo '' @ [dq] @ ''AIM CLI configuration unchanged. Exiting.'' @ [dq] @ [nl] @ ''    exit 0'' @ [nl] @ ''fi'' @ [nl] @ [nl] @ ''# Apply AIM configuration when the aimctl configuration changes.'' @ [nl] @ ''aimctl $CONFIG_FILES config update'' @ [nl] @ [nl] @ ''# infra create may fail if the VMM domain already exists with EPGs (APIC error 1579).'' @ [nl] @ ''# This is expected on redeployments, so allow it to fail.'' @ [nl] @ ''aimctl $CONFIG_FILES infra create || echo '' @ [dq] @ ''Warning: infra create failed (may already exist)'' @ [dq] @ [nl] @ [nl] @ ''aimctl $CONFIG_FILES manager load-domains'' @ [nl] @ [nl] @ ''# Record the applied configuration only after all setup commands succeed.'' @ [nl] @ ''printf '%s'' @ [bs] @ ''n' '' @ [dq] @ ''$CONFIG_HASH'' @ [dq] @ '' > '' @ [dq] @ ''$CONFIG_HASH_FILE'' @ [dq] @ [nl])]"

section \<open>The trees are what the parser returns\<close>

lemma aim_conf_tmpl_text: "aim_conf_tmpl = tokens_text aim_conf_tmpl_tokens"
  by (simp add: aim_conf_tmpl_def aim_conf_tmpl_tokens_def tokens_text_def unlines_def)

lemma aim_conf_tmpl_wf: "wf_tokens aim_conf_tmpl_tokens"
  by code_simp

lemma aim_conf_tmpl_nodes:
  "parse_nodes (template_fuel aim_conf_tmpl_tokens) aim_conf_tmpl_tokens = Some (aim_conf_tmpl_tree, EndOfInput, [])"
  by code_simp

lemma aim_conf_tmpl_parse: "template_Parse aim_conf_tmpl = Some aim_conf_tmpl_tree"
  by (simp add: template_Parse_def aim_conf_tmpl_text lex_tokens [OF aim_conf_tmpl_wf] aim_conf_tmpl_nodes)

lemma aimctl_conf_tmpl_text: "aimctl_conf_tmpl = tokens_text aimctl_conf_tmpl_tokens"
  by (simp add: aimctl_conf_tmpl_def aimctl_conf_tmpl_tokens_def tokens_text_def unlines_def)

lemma aimctl_conf_tmpl_wf: "wf_tokens aimctl_conf_tmpl_tokens"
  by code_simp

lemma aimctl_conf_tmpl_nodes:
  "parse_nodes (template_fuel aimctl_conf_tmpl_tokens) aimctl_conf_tmpl_tokens = Some (aimctl_conf_tmpl_tree, EndOfInput, [])"
  by code_simp

lemma aimctl_conf_tmpl_parse: "template_Parse aimctl_conf_tmpl = Some aimctl_conf_tmpl_tree"
  by (simp add: template_Parse_def aimctl_conf_tmpl_text lex_tokens [OF aimctl_conf_tmpl_wf] aimctl_conf_tmpl_nodes)

lemma kolla_config_json_text: "kolla_config_json = tokens_text kolla_config_json_tokens"
  by (simp add: kolla_config_json_def kolla_config_json_tokens_def tokens_text_def unlines_def)

lemma kolla_config_json_wf: "wf_tokens kolla_config_json_tokens"
  by code_simp

lemma kolla_config_json_nodes:
  "parse_nodes (template_fuel kolla_config_json_tokens) kolla_config_json_tokens = Some (kolla_config_json_tree, EndOfInput, [])"
  by code_simp

lemma kolla_config_json_parse: "template_Parse kolla_config_json = Some kolla_config_json_tree"
  by (simp add: template_Parse_def kolla_config_json_text lex_tokens [OF kolla_config_json_wf] kolla_config_json_nodes)

lemma aim_supervisord_conf_text: "aim_supervisord_conf = tokens_text aim_supervisord_conf_tokens"
  by (simp add: aim_supervisord_conf_def aim_supervisord_conf_tokens_def tokens_text_def unlines_def)

lemma aim_supervisord_conf_wf: "wf_tokens aim_supervisord_conf_tokens"
  by code_simp

lemma aim_supervisord_conf_nodes:
  "parse_nodes (template_fuel aim_supervisord_conf_tokens) aim_supervisord_conf_tokens = Some (aim_supervisord_conf_tree, EndOfInput, [])"
  by code_simp

lemma aim_supervisord_conf_parse: "template_Parse aim_supervisord_conf = Some aim_supervisord_conf_tree"
  by (simp add: template_Parse_def aim_supervisord_conf_text lex_tokens [OF aim_supervisord_conf_wf] aim_supervisord_conf_nodes)

lemma init_sh_text: "init_sh = tokens_text init_sh_tokens"
  by (simp add: init_sh_def init_sh_tokens_def tokens_text_def unlines_def)

lemma init_sh_wf: "wf_tokens init_sh_tokens"
  by code_simp

lemma init_sh_nodes:
  "parse_nodes (template_fuel init_sh_tokens) init_sh_tokens = Some (init_sh_tree, EndOfInput, [])"
  by code_simp

lemma init_sh_parse: "template_Parse init_sh = Some init_sh_tree"
  by (simp add: template_Parse_def init_sh_text lex_tokens [OF init_sh_wf] init_sh_nodes)

lemmas template_parses =
  aim_conf_tmpl_parse aimctl_conf_tmpl_parse kolla_config_json_parse aim_supervisord_conf_parse init_sh_parse

end
