(* ===== verification/Config_Files.thy ===== *)
theory Config_Files
  imports Config_Data Aim_Templates Aim_Volumes
begin

text \<open>
  Rendering the configuration files: \<open>getTemplateContent\<close>, \<open>executeTemplate\<close> and
  \<open>generateConfigFiles\<close> of \<open>src/internal/controller/ciscoaciaim_controller.go\<close>. The file system is a
  parameter \<open>fs\<close> (\<open>os.ReadFile\<close>); \<open>shipped\<close> says that it serves the files of \<open>src/templates\<close>.
\<close>

type_synonym file_system = "string \<Rightarrow> go_error + string"

definition templatePath :: string where
  "templatePath = ''/templates''"

definition getTemplateContent :: "file_system \<Rightarrow> string \<Rightarrow> go_error + string" where
  "getTemplateContent fs templateName = fs (filepath_Join [templatePath, templateName])"

definition executeTemplate :: "string \<Rightarrow> string \<Rightarrow> tval \<Rightarrow> go_error + string" where
  "executeTemplate name tmplContent data =
     (case template_Parse tmplContent of
        None \<Rightarrow> Inl (ParseTemplateFailed name (TemplateSyntax name))
      | Some t \<Rightarrow>
          (case exec_nodes data t of
             None \<Rightarrow> Inl (ExecuteTemplateFailed name (TemplateExec name))
           | Some s \<Rightarrow> Inr s))"

section \<open>The data as the template engine sees it\<close>

definition aim_conf_fields :: "AimConfData \<Rightarrow> tval" where
  "aim_conf_fields d =
     TStruct
       [(''DatabaseConnection'', TStr (DatabaseConnection d)),
        (''MessageBusConnection'', TStr (MessageBusConnection d)),
        (''ACIAimDebug'', TBool (acd_ACIAimDebug d)),
        (''ACIScopeNames'', TBool (acd_ACIScopeNames d)),
        (''ACIGen1HwGratArps'', TBool (acd_ACIGen1HwGratArps d)),
        (''ACIEnableFaultSubscription'', TBool (acd_ACIEnableFaultSubscription d)),
        (''LogFileMaxSizeMB'', TInt (sint (acd_LogFileMaxSizeMB d))),
        (''LogFileMaxCount'', TInt (sint (acd_LogFileMaxCount d))),
        (''ACIApicHosts'', TStr (acd_ACIApicHosts d)),
        (''ACIApicUsername'', TStr (acd_ACIApicUsername d)),
        (''ACIApicPassword'', TStr (acd_ACIApicPassword d)),
        (''ACIApicCertName'', TStr (acd_ACIApicCertName d)),
        (''ACIApicSystemId'', TStr (acd_ACIApicSystemId d)),
        (''AgentIDBase'', TStr (AgentIDBase d)),
        (''ACIVerifySslCertificate'', TStr (acd_ACIVerifySslCertificate d)),
        (''RabbitQuorumQueue'', TStr (RabbitQuorumQueue d)),
        (''RabbitTransientQuorumQueue'', TStr (RabbitTransientQuorumQueue d)),
        (''AmqpDurableQueues'', TStr (AmqpDurableQueues d))]"

definition host_link_fields :: "HostLink \<Rightarrow> tval" where
  "host_link_fields h = TStruct [(''Hosts'', TStr (Hosts h)), (''Port'', TStr (Port h))]"

definition switch_fields :: "SwitchConfig \<Rightarrow> tval" where
  "switch_fields s =
     TStruct [(''SwitchID'', TStr (SwitchID s)), (''HostLinks'', TList (map host_link_fields (HostLinks s)))]"

definition phys_dom_fields :: "PhysDomConfig \<Rightarrow> tval" where
  "phys_dom_fields p = TStruct [(''PhysDomName'', TStr (PhysDomName p))]"

definition aimctl_fields :: "AimCtlConfData \<Rightarrow> tval" where
  "aimctl_fields d =
     TStruct
       [(''ACIApicSystemId'', TStr (ctl_ACIApicSystemId d)),
        (''ACIApicSystemIdMaxLength'', TInt (sint (ctl_ACIApicSystemIdMaxLength d))),
        (''ACIOpflexEncapMode'', TStr (ctl_ACIOpflexEncapMode d)),
        (''AciVmmMcastRanges'', TStr (ctl_AciVmmMcastRanges d)),
        (''AciVmmMulticastAddress'', TStr (ctl_AciVmmMulticastAddress d)),
        (''AciVmmDomainName'', TStr (ctl_AciVmmDomainName d)),
        (''ACIOpflexVlanRange'', TStr (ctl_ACIOpflexVlanRange d)),
        (''ACIApicEntityProfile'', TStr (ctl_ACIApicEntityProfile d)),
        (''AciExternalRoutedDomain'', TStr (ctl_AciExternalRoutedDomain d)),
        (''ACIVpcPairs'', TStr (ctl_ACIVpcPairs d)),
        (''ACIScopeInfra'', TBool (ctl_ACIScopeInfra d)),
        (''ACISwitchConfigs'', TList (map switch_fields (ACISwitchConfigs d))),
        (''PhysDomConfigs'', TList (map phys_dom_fields (PhysDomConfigs d)))]"

definition logConfigData :: "bool \<Rightarrow> tval" where
  "logConfigData logToDisk = TStruct [(''LogToDisk'', TBool logToDisk)]"

section \<open>All the files\<close>

text \<open>Reading a file and rendering it, with the two error wrappings of the code.\<close>

definition read_template :: "file_system \<Rightarrow> string \<Rightarrow> go_error + string" where
  "read_template fs name =
     (case getTemplateContent fs name of
        Inl err \<Rightarrow> Inl (ReadTemplateFailed name err)
      | Inr content \<Rightarrow> Inr content)"

definition sum_bind :: "'e + 'a \<Rightarrow> ('a \<Rightarrow> 'e + 'b) \<Rightarrow> 'e + 'b" where
  "sum_bind r f = (case r of Inl e \<Rightarrow> Inl e | Inr x \<Rightarrow> f x)"

definition generateConfigFiles ::
    "file_system \<Rightarrow> range_order \<Rightarrow> CiscoAciAim \<Rightarrow> string \<Rightarrow> string \<Rightarrow> string \<times> string \<times> string
     \<Rightarrow> go_error + string gomap" where
  "generateConfigFiles fs rng a dbConn busConn rabbit =
     (case rabbit of (rabbitQuorumQueue, rabbitTransientQuorumQueue, amqpDurableQueues) \<Rightarrow>
      sum_bind (populateAimConfData dbConn busConn rabbitQuorumQueue rabbitTransientQuorumQueue
                  amqpDurableQueues a) (\<lambda>aimConfData.
      sum_bind (populateAimCtlConfData rng a) (\<lambda>aimCtlConfData.
      sum_bind (read_template fs ''aim.conf.tmpl'') (\<lambda>aimConfTmplContent.
      sum_bind (read_template fs ''aimctl.conf.tmpl'') (\<lambda>aimCtlConfTmplContent.
      sum_bind (executeTemplate ''aim.conf'' aimConfTmplContent (aim_conf_fields aimConfData)) (\<lambda>aimConf.
      sum_bind (executeTemplate ''aimctl.conf'' aimCtlConfTmplContent (aimctl_fields aimCtlConfData)) (\<lambda>aimCtlConf.
      sum_bind (read_template fs ''kolla_config.json'') (\<lambda>kollaConfigJSONContent.
      let logData = logConfigData (log_spec a \<noteq> None) in
      sum_bind (executeTemplate ''kolla_config.json'' kollaConfigJSONContent logData) (\<lambda>kolla.
      sum_bind (read_template fs ''aim_healthcheck.sh'') (\<lambda>healthcheckContent.
      sum_bind (read_template fs ''aim_supervisord.conf'') (\<lambda>supervisordConfContent.
      sum_bind (executeTemplate ''aim_supervisord.conf'' supervisordConfContent logData) (\<lambda>supervisord.
      sum_bind (read_template fs ''init.sh'') (\<lambda>initScriptTemplateContent.
      sum_bind (executeTemplate ''init.sh'' initScriptTemplateContent logData) (\<lambda>initScript.
        Inr (gm_of [(''aim.conf'', aimConf), (''aimctl.conf'', aimCtlConf), (''kolla_config.json'', kolla),
                    (''aim_healthcheck.sh'', healthcheckContent), (''aim_supervisord.conf'', supervisord),
                    (''init.sh'', initScript)])))))))))))))))"

text \<open>The image holds the files of \<open>src/templates\<close>.\<close>

definition shipped :: "file_system \<Rightarrow> bool" where
  "shipped fs \<longleftrightarrow>
     fs ''/templates/aim.conf.tmpl'' = Inr aim_conf_tmpl \<and>
     fs ''/templates/aimctl.conf.tmpl'' = Inr aimctl_conf_tmpl \<and>
     fs ''/templates/kolla_config.json'' = Inr kolla_config_json \<and>
     fs ''/templates/aim_healthcheck.sh'' = Inr aim_healthcheck_sh \<and>
     fs ''/templates/aim_supervisord.conf'' = Inr aim_supervisord_conf \<and>
     fs ''/templates/init.sh'' = Inr init_sh"

section \<open>Reading the shipped files\<close>

lemma template_paths:
  "filepath_Join [templatePath, ''aim.conf.tmpl''] = ''/templates/aim.conf.tmpl''"
  "filepath_Join [templatePath, ''aimctl.conf.tmpl''] = ''/templates/aimctl.conf.tmpl''"
  "filepath_Join [templatePath, ''kolla_config.json''] = ''/templates/kolla_config.json''"
  "filepath_Join [templatePath, ''aim_healthcheck.sh''] = ''/templates/aim_healthcheck.sh''"
  "filepath_Join [templatePath, ''aim_supervisord.conf''] = ''/templates/aim_supervisord.conf''"
  "filepath_Join [templatePath, ''init.sh''] = ''/templates/init.sh''"
  by code_simp+

lemma read_shipped:
  assumes "shipped fs"
  shows "read_template fs ''aim.conf.tmpl'' = Inr aim_conf_tmpl"
    and "read_template fs ''aimctl.conf.tmpl'' = Inr aimctl_conf_tmpl"
    and "read_template fs ''kolla_config.json'' = Inr kolla_config_json"
    and "read_template fs ''aim_healthcheck.sh'' = Inr aim_healthcheck_sh"
    and "read_template fs ''aim_supervisord.conf'' = Inr aim_supervisord_conf"
    and "read_template fs ''init.sh'' = Inr init_sh"
  using assms by (simp_all add: shipped_def read_template_def getTemplateContent_def template_paths)

lemma sum_bind_simps [simp]:
  "sum_bind (Inl e) f = Inl e"
  "sum_bind (Inr x) f = f x"
  by (simp_all add: sum_bind_def)

lemma sum_bind_Inr: "sum_bind r f = Inr y \<longleftrightarrow> (\<exists>x. r = Inr x \<and> f x = Inr y)"
  by (auto simp: sum_bind_def split: sum.splits)

lemma fields_simps [simp]:
  "field_value (TStruct fs) f = map_of fs f"
  "print_value (TStr s) = Some s"
  "print_value (TBool b) = Some (btoa b)"
  "print_value (TInt i) = Some (itoa i)"
  "truth (TStr s) \<longleftrightarrow> s \<noteq> []"
  "truth (TBool b) \<longleftrightarrow> b"
  by (simp_all add: field_value_def print_value_def truth_def)

section \<open>What the files hold\<close>

text \<open>
  \<open>aim.conf\<close> written out: the sections of the file with the settings of the instance. The APIC
  credentials are the password when there is one, else the private key and the certificate name
  when a certificate is named, else nothing.
\<close>

definition aim_conf_credentials :: "AimConfData \<Rightarrow> string" where
  "aim_conf_credentials d =
     (if acd_ACIApicPassword d \<noteq> [] then unlines [[], ''apic_password = '' @ acd_ACIApicPassword d]
      else if acd_ACIApicCertName d \<noteq> [] then
        unlines [[], ''private_key_file = /etc/aim/'' @ acd_ACIApicUsername d @ ''_private_key'',
                 ''certificate_name = '' @ acd_ACIApicCertName d]
      else [])"

definition aim_conf_text :: "AimConfData \<Rightarrow> string" where
  "aim_conf_text d =
     unlines
       [''[DEFAULT]'',
        ''debug='' @ btoa (acd_ACIAimDebug d),
        ''rpc_backend=rabbit'',
        ''control_exchange=neutron'',
        ''default_log_levels=neutron.context=ERROR'',
        ''logging_default_format_string='' @ [dq] @ ''%(asctime)s.%(msecs)03d %(process)d %(thread)d %(levelname)s %(name)s [-] %(instance)s%(message)s'' @ [dq],
        ''log_rotation_type=size'',
        ''max_logfile_size_mb='' @ itoa (sint (acd_LogFileMaxSizeMB d)),
        ''max_logfile_count='' @ itoa (sint (acd_LogFileMaxCount d)),
        ''transport_url='' @ MessageBusConnection d,
        [],
        ''[oslo_messaging_rabbit]'',
        ''ssl=True'',
        ''rabbit_ha_queues=False'',
        ''rabbit_quorum_queue='' @ RabbitQuorumQueue d,
        ''rabbit_transient_quorum_queue='' @ RabbitTransientQuorumQueue d,
        ''amqp_durable_queues='' @ AmqpDurableQueues d,
        [],
        ''[database]'',
        ''connection = '' @ DatabaseConnection d,
        [],
        ''[aim]'',
        ''# Seconds to regard the agent is down; should be at least twice report_interval.'',
        ''agent_down_time = 75'',
        ''poll_config = False'',
        ''aim_system_id = '' @ acd_ACIApicSystemId d,
        ''support_gen1_hw_gratarps='' @ btoa (acd_ACIGen1HwGratArps d),
        ''enable_faults_subscriptions='' @ btoa (acd_ACIEnableFaultSubscription d),
        ''aim_agentid_base = '' @ AgentIDBase d,
        [],
        ''[apic]'',
        ''#apic_hosts = <ip:port>,<ip:port>,<ip:port>'',
        ''apic_hosts='' @ acd_ACIApicHosts d,
        ''apic_username='' @ acd_ACIApicUsername d]
     @ aim_conf_credentials d
     @ unlines
       [[],
        ''apic_use_ssl=True'',
        [],
        ''verify_ssl_certificate='' @
          (if acd_ACIVerifySslCertificate d \<noteq> [] then acd_ACIVerifySslCertificate d else ''false''),
        [],
        ''scope_names='' @ btoa (acd_ACIScopeNames d)]"

lemma aim_conf_rendered: "executeTemplate n aim_conf_tmpl (aim_conf_fields d) = Inr (aim_conf_text d)"
  by (simp add: executeTemplate_def template_parses aim_conf_tmpl_tree_def aim_conf_fields_def
      aim_conf_text_def aim_conf_credentials_def unlines_def)

text \<open>\<open>aimctl.conf\<close> written out.\<close>

definition phys_dom_section :: "PhysDomConfig \<Rightarrow> string" where
  "phys_dom_section p = unlines [[], ''[apic_physdom:'' @ PhysDomName p @ '']'', ''encap_mode=vlan'']"

definition switch_section :: "SwitchConfig \<Rightarrow> string" where
  "switch_section s =
     unlines ([[], ''[apic_switch:'' @ SwitchID s @ '']'']
              @ map (\<lambda>h. Hosts h @ '' = '' @ Port h) (HostLinks s))"

definition aimctl_text :: "AimCtlConfData \<Rightarrow> string" where
  "aimctl_text d =
     unlines
       [''[DEFAULT]'',
        ''apic_system_id='' @ ctl_ACIApicSystemId d,
        ''apic_system_id_length= '' @ itoa (sint (ctl_ACIApicSystemIdMaxLength d)),
        [],
        ''[apic]'',
        ''# Note: When deploying multiple clouds against one APIC,'',
        ''#       these names must be unique between the clouds.'',
        ''apic_entity_profile='' @ ctl_ACIApicEntityProfile d,
        ''scope_infra='' @ btoa (ctl_ACIScopeInfra d),
        ''apic_provision_infra = False'',
        ''apic_provision_hostlinks = False'']
     @ (if ctl_AciExternalRoutedDomain d \<noteq> []
        then unlines [[], ''apic_external_routed_domain_name = '' @ ctl_AciExternalRoutedDomain d] else [])
     @ unlines [[]]
     @ (if ctl_ACIVpcPairs d \<noteq> [] then unlines [[], ''apic_vpc_pairs = '' @ ctl_ACIVpcPairs d] else [])
     @ unlines
       [[], [],
        ''[apic_vmdom:'' @ ctl_AciVmmDomainName d @ '']'',
        ''encap_mode = '' @ ctl_ACIOpflexEncapMode d,
        ''mcast_ranges = '' @ ctl_AciVmmMcastRanges d,
        ''multicast_address = '' @ ctl_AciVmmMulticastAddress d]
     @ (if ctl_ACIOpflexEncapMode d = ''vlan''
        then unlines [[], ''vlan_ranges = '' @ ctl_ACIOpflexVlanRange d] else [])
     @ unlines [[]]
     @ concat (map phys_dom_section (PhysDomConfigs d))
     @ unlines [[]]
     @ concat (map switch_section (ACISwitchConfigs d))
     @ unlines [[]]"

lemma concat_opt_Some: "concat_opt (map (\<lambda>v. Some (f v)) vs) = Some (concat (map f vs))"
  by (induction vs) simp_all

lemma unlines_simps [simp]:
  "unlines [] = []"
  "unlines (l # ls) = l @ [nl] @ unlines ls"
  by (simp_all add: unlines_def)

lemma unlines_append [simp]: "unlines (xs @ ys) = unlines xs @ unlines ys"
  by (simp add: unlines_def)

lemma exec_range:
  assumes "field_value dot f = Some (TList vs)" "concat_opt (map (\<lambda>v. exec_nodes v body) vs) = Some t"
  shows "exec_node dot (NRange f body) = Some t"
  using assms by simp

lemma exec_host_links:
  "concat_opt (map (\<lambda>v. exec_nodes v [NField ''Hosts'', NText '' = '', NField ''Port'', NText [nl]])
     (map host_link_fields hs)) = Some (unlines (map (\<lambda>h. Hosts h @ '' = '' @ Port h) hs))"
  by (induction hs) (simp_all add: host_link_fields_def)

lemma exec_switches:
  "concat_opt (map (\<lambda>v. exec_nodes v
       [NText ([nl] @ ''[apic_switch:''), NField ''SwitchID'', NText ('']'' @ [nl]),
        NRange ''HostLinks'' [NField ''Hosts'', NText '' = '', NField ''Port'', NText [nl]]])
     (map switch_fields ss)) = Some (concat (map switch_section ss))"
proof (induction ss)
  case (Cons s ss)
  have "exec_node (switch_fields s) (NRange ''HostLinks'' [NField ''Hosts'', NText '' = '', NField ''Port'', NText [nl]]) =
      Some (unlines (map (\<lambda>h. Hosts h @ '' = '' @ Port h) (HostLinks s)))"
    by (rule exec_range [OF _ exec_host_links]) (simp add: switch_fields_def)
  with Cons.IH show ?case
    by (simp add: switch_section_def switch_fields_def del: exec_node.simps(4))
qed simp

lemma exec_phys_doms:
  "concat_opt (map (\<lambda>v. exec_nodes v
       [NText ([nl] @ ''[apic_physdom:''), NField ''PhysDomName'', NText ('']'' @ [nl] @ ''encap_mode=vlan'' @ [nl])])
     (map phys_dom_fields ps)) = Some (concat (map phys_dom_section ps))"
  by (induction ps) (simp_all add: phys_dom_fields_def phys_dom_section_def)

lemma aimctl_field:
  "field_value (aimctl_fields d) ''ACISwitchConfigs'' = Some (TList (map switch_fields (ACISwitchConfigs d)))"
  "field_value (aimctl_fields d) ''PhysDomConfigs'' = Some (TList (map phys_dom_fields (PhysDomConfigs d)))"
  by (simp_all add: aimctl_fields_def)

lemmas exec_aimctl_ranges =
  exec_range [OF aimctl_field(1) exec_switches] exec_range [OF aimctl_field(2) exec_phys_doms]

lemma aimctl_rendered: "executeTemplate n aimctl_conf_tmpl (aimctl_fields d) = Inr (aimctl_text d)"
proof -
  have "exec_nodes (aimctl_fields d) aimctl_conf_tmpl_tree = Some (aimctl_text d)"
    unfolding aimctl_conf_tmpl_tree_def exec_nodes.simps exec_aimctl_ranges
    by (simp add: aimctl_text_def aimctl_fields_def del: exec_node.simps(4))
  then show ?thesis
    by (simp add: executeTemplate_def template_parses)
qed

end
