(* ===== verification/Log_Files.thy ===== *)
theory Log_Files
  imports Config_Files "HOL-Library.Sublist"
begin

text \<open>
  The three files that depend on whether logs are kept (\<open>logConfigData\<close>): \<open>kolla_config.json\<close>,
  \<open>aim_supervisord.conf\<close> and \<open>init.sh\<close>, written out line by line for both settings, and which of
  them mention the mount point of the log volume.
\<close>

definition kolla_lines :: "bool \<Rightarrow> string list" where
  "kolla_lines logToDisk =
     [''{'',
       ''  '' @ [dq] @ ''command'' @ [dq] @ '': '' @ [dq] @ ''/bin/supervisord -c /etc/aim/aim_supervisord.conf'' @ [dq] @ '','',
       ''  '' @ [dq] @ ''config_files'' @ [dq] @ '': ['',
       ''    {'',
       ''      '' @ [dq] @ ''source'' @ [dq] @ '': '' @ [dq] @ ''/var/lib/kolla/config_files/src/*'' @ [dq] @ '','',
       ''      '' @ [dq] @ ''dest'' @ [dq] @ '': '' @ [dq] @ ''/'' @ [dq] @ '','',
       ''      '' @ [dq] @ ''merge'' @ [dq] @ '': true,'',
       ''      '' @ [dq] @ ''preserve_properties'' @ [dq] @ '': true'',
       ''    }'']
     @ (if logToDisk
       then [''  ],'',
             ''  '' @ [dq] @ ''permissions'' @ [dq] @ '': ['',
             ''    {'',
             ''      '' @ [dq] @ ''path'' @ [dq] @ '': '' @ [dq] @ ''/var/log/aim'' @ [dq] @ '','',
             ''      '' @ [dq] @ ''owner'' @ [dq] @ '': '' @ [dq] @ ''neutron:neutron'' @ [dq] @ '','',
             ''      '' @ [dq] @ ''recurse'' @ [dq] @ '': true'',
             ''    }'']
       else [])
     @ [''  ]'',
       ''}'']"

definition supervisord_lines :: "bool \<Rightarrow> string list" where
  "supervisord_lines logToDisk =
     [''[rpcinterface:supervisor]'',
       ''supervisor.rpcinterface_factory = supervisor.rpcinterface:make_main_rpcinterface'',
       [],
       ''[unix_http_server]'',
       ''file = /tmp/aim-supervisord.sock'',
       [],
       ''[supervisorctl]'',
       ''serverurl = unix:///tmp/aim-supervisord.sock'',
       ''prompt = ciscoaci-aim'',
       [],
       ''[supervisord]'',
       ''identifier = aim-supervisor'',
       ''pidfile = /run/aid/aim-supervisor.pid'']
     @ (if logToDisk
       then [''logfile = /var/log/aim/aim-supervisor-%(ENV_POD_ORDINAL)s.log'',
             ''logfile_maxbytes = 10MB'',
             ''logfile_backups = 3'',
             ''childlogdir = /var/log/aim'']
       else [''logfile = /dev/stdout'',
             ''logfile_maxbytes = 0'',
             ''logfile_backups = 0'',
             ''childlogdir = /tmp''])
     @ [''loglevel = debug'',
       ''umask = 022'',
       ''minfds = 1024'',
       ''minprocs = 200'',
       ''nodaemon = true'',
       ''nocleanup = false'',
       ''strip_ansi = false'',
       [],
       ''[program:aim-aid]'']
     @ (if logToDisk
       then [''command=/usr/bin/aim-aid --config-file=/etc/aim/aim.conf --log-file=/var/log/aim/aim-aid-%(ENV_POD_ORDINAL)s.log'']
       else [''command=/usr/bin/aim-aid --config-file=/etc/aim/aim.conf''])
     @ [''exitcodes=0,2'',
       ''stopasgroup=true'',
       ''startsecs=0'',
       ''startretries=3'',
       ''stopwaitsecs=10'',
       ''autorestart=true'']
     @ (if logToDisk
       then [''stdout_logfile=NONE'',
             ''stderr_logfile=NONE'']
       else [''stdout_logfile=/dev/fd/1'',
             ''stdout_logfile_maxbytes=0'',
             ''stderr_logfile=/dev/fd/2'',
             ''stderr_logfile_maxbytes=0''])
     @ [[],
       ''[program:aim-event]'']
     @ (if logToDisk
       then [''command=/usr/bin/aim-event-service-polling --config-file=/etc/aim/aim.conf --log-file=/var/log/aim/aim-event-service-polling-%(ENV_POD_ORDINAL)s.log'']
       else [''command=/usr/bin/aim-event-service-polling --config-file=/etc/aim/aim.conf''])
     @ [''exitcodes=0,2'',
       ''stopasgroup=true'',
       ''startsecs=10'',
       ''startretries=3'',
       ''stopwaitsecs=10'',
       ''autorestart=true'']
     @ (if logToDisk
       then [''stdout_logfile=NONE'',
             ''stderr_logfile=NONE'']
       else [''stdout_logfile=/dev/fd/1'',
             ''stdout_logfile_maxbytes=0'',
             ''stderr_logfile=/dev/fd/2'',
             ''stderr_logfile_maxbytes=0''])
     @ [[],
       ''[program:aim-rpc]'']
     @ (if logToDisk
       then [''command=/usr/bin/aim-event-service-rpc --config-file=/etc/aim/aim.conf --log-file=/var/log/aim/aim-event-service-rpc-%(ENV_POD_ORDINAL)s.log'']
       else [''command=/usr/bin/aim-event-service-rpc --config-file=/etc/aim/aim.conf''])
     @ [''exitcodes=0,2'',
       ''stopasgroup=true'',
       ''startsecs=10'',
       ''startretries=3'',
       ''stopwaitsecs=10'',
       ''autorestart=true'']
     @ (if logToDisk
       then [''stdout_logfile=NONE'',
             ''stderr_logfile=NONE'']
       else [''stdout_logfile=/dev/fd/1'',
             ''stdout_logfile_maxbytes=0'',
             ''stderr_logfile=/dev/fd/2'',
             ''stderr_logfile_maxbytes=0''])
     @ [[]]"

definition init_lines :: "bool \<Rightarrow> string list" where
  "init_lines logToDisk =
     [''#!/bin/sh'',
       ''# This script initializes AIM whenever the aimctl configuration changes.'',
       [],
       ''# Exit immediately if any command fails.'',
       ''set -e'',
       [],
       ''POD_ORDINAL='' @ [dq] @ ''${POD_NAME##*-}'' @ [dq],
       ''if [ '' @ [dq] @ ''$POD_ORDINAL'' @ [dq] @ '' != '' @ [dq] @ ''0'' @ [dq] @ '' ]; then'',
       ''    echo '' @ [dq] @ ''Skipping AIM initialization on pod ordinal $POD_ORDINAL.'' @ [dq],
       ''    exit 0'',
       ''fi'',
       []]
     @ (if logToDisk
       then [''STATE_DIR='' @ [dq] @ ''/var/log/aim'' @ [dq]]
       else [''STATE_DIR='' @ [dq] @ ''/tmp/aim'' @ [dq]])
     @ [''CONFIG_HASH_FILE='' @ [dq] @ ''$STATE_DIR/aimctl.conf.sha256'' @ [dq],
       ''# Use the source config path since postStart may run before kolla copies configs to /etc/aim/.'',
       ''CONFIG_DIR='' @ [dq] @ ''/var/lib/kolla/config_files/src/etc/aim'' @ [dq],
       ''CONFIG_FILES='' @ [dq] @ ''--config-file=$CONFIG_DIR/aim.conf --config-file=$CONFIG_DIR/aimctl.conf'' @ [dq],
       ''mkdir -p '' @ [dq] @ ''$STATE_DIR'' @ [dq],
       [],
       ''CONFIG_HASH=$(sha256sum '' @ [dq] @ ''$CONFIG_DIR/aimctl.conf'' @ [dq] @ '' | cut -d '' @ [sq] @ '' '' @ [sq] @ '' -f 1)'',
       ''if [ -f '' @ [dq] @ ''$CONFIG_HASH_FILE'' @ [dq] @ '' ] && [ '' @ [dq] @ ''$(cat '' @ [dq] @ ''$CONFIG_HASH_FILE'' @ [dq] @ '')'' @ [dq] @ '' = '' @ [dq] @ ''$CONFIG_HASH'' @ [dq] @ '' ]; then'',
       ''    echo '' @ [dq] @ ''AIM CLI configuration unchanged. Exiting.'' @ [dq],
       ''    exit 0'',
       ''fi'',
       [],
       ''# Apply AIM configuration when the aimctl configuration changes.'',
       ''aimctl $CONFIG_FILES config update'',
       [],
       ''# infra create may fail if the VMM domain already exists with EPGs (APIC error 1579).'',
       ''# This is expected on redeployments, so allow it to fail.'',
       ''aimctl $CONFIG_FILES infra create || echo '' @ [dq] @ ''Warning: infra create failed (may already exist)'' @ [dq],
       [],
       ''aimctl $CONFIG_FILES manager load-domains'',
       [],
       ''# Record the applied configuration only after all setup commands succeed.'',
       ''printf '' @ [sq] @ ''%s'' @ [bs] @ ''n'' @ [sq] @ '' '' @ [dq] @ ''$CONFIG_HASH'' @ [dq] @ '' > '' @ [dq] @ ''$CONFIG_HASH_FILE'' @ [dq]]"

section \<open>The templates render to these lines\<close>

lemma log_field: "field_value (logConfigData b) ''LogToDisk'' = Some (TBool b)"
  by (simp add: logConfigData_def)

lemma kolla_rendered: "executeTemplate n kolla_config_json (logConfigData b) = Inr (unlines (kolla_lines b))"
  by (simp add: executeTemplate_def template_parses kolla_config_json_tree_def log_field kolla_lines_def)

lemma supervisord_rendered:
  "executeTemplate n aim_supervisord_conf (logConfigData b) = Inr (unlines (supervisord_lines b))"
  by (cases b)
    (simp_all add: executeTemplate_def template_parses aim_supervisord_conf_tree_def log_field supervisord_lines_def)

lemma init_rendered: "executeTemplate n init_sh (logConfigData b) = Inr (unlines (init_lines b))"
  by (simp add: executeTemplate_def template_parses init_sh_tree_def log_field init_lines_def)

section \<open>Mentions of the log volume\<close>

fun strings_Contains :: "string \<Rightarrow> string \<Rightarrow> bool" where
  "strings_Contains [] substr \<longleftrightarrow> substr = []"
| "strings_Contains (c # s) substr \<longleftrightarrow> HasPrefix (c # s) substr \<or> strings_Contains s substr"

lemma strings_Contains_sublist: "strings_Contains s p \<longleftrightarrow> sublist p s"
proof (induction s)
  case (Cons c s)
  then show ?case
    by (simp add: sublist_Cons_right HasPrefix_iff prefix_def)
qed auto

text \<open>A pattern without a newline occurs in a text when it occurs in one of its lines.\<close>

lemma sublist_across:
  assumes "p \<noteq> []" "c \<notin> set p"
  shows "sublist p (l @ c # ls) \<longleftrightarrow> sublist p l \<or> sublist p ls"
  using assms suffix_imp_sublist [of p l]
  by (simp add: sublist_append sublist_Cons_right) (auto simp: prefix_Cons)

lemma contains_unlines:
  assumes "p \<noteq> []" "nl \<notin> set p"
  shows "strings_Contains (unlines ls) p \<longleftrightarrow> (\<exists>l \<in> set ls. strings_Contains l p)"
  using assms by (induction ls) (simp_all add: strings_Contains_sublist sublist_across)

definition LogDir :: string where
  "LogDir = ''/var/log/aim''"

lemma log_dir_on:
  "\<exists>l \<in> set (kolla_lines True). strings_Contains l LogDir"
  "\<exists>l \<in> set (supervisord_lines True). strings_Contains l LogDir"
  "\<exists>l \<in> set (init_lines True). strings_Contains l LogDir"
  by code_simp+

lemma log_dir_off:
  "\<not> (\<exists>l \<in> set (kolla_lines False). strings_Contains l LogDir)"
  "\<not> (\<exists>l \<in> set (supervisord_lines False). strings_Contains l LogDir)"
  "\<not> (\<exists>l \<in> set (init_lines False). strings_Contains l LogDir)"
  by code_simp+

lemma log_dir_mentions:
  "strings_Contains (unlines (kolla_lines b)) LogDir \<longleftrightarrow> b"
  "strings_Contains (unlines (supervisord_lines b)) LogDir \<longleftrightarrow> b"
  "strings_Contains (unlines (init_lines b)) LogDir \<longleftrightarrow> b"
  using log_dir_on log_dir_off
  by (cases b; simp add: contains_unlines [where p = LogDir, unfolded LogDir_def] LogDir_def del: strings_Contains.simps)+

end
