(* ===== verification/Config_Output.thy ===== *)
theory Config_Output
  imports Log_Files
begin

text \<open>
  The generated configuration as a whole: what \<open>generateConfigFiles\<close> returns when the image serves
  the files of \<open>src/templates\<close>, and how the files agree with the volumes and mounts of the pod
  (\<open>src/pkg/ciscoaciaim/volumes.go\<close>).
\<close>

definition conf_data :: "CiscoAciAim \<Rightarrow> string \<Rightarrow> string \<Rightarrow> string \<times> string \<times> string \<Rightarrow> AimConfData" where
  "conf_data a dbConn busConn rabbit =
     (case rabbit of (q, t, d) \<Rightarrow>
       (case populateAimConfData dbConn busConn q t d a of Inr x \<Rightarrow> x))"

text \<open>The six files, by name.\<close>

definition config_files :: "AimConfData \<Rightarrow> AimCtlConfData \<Rightarrow> bool \<Rightarrow> string gomap" where
  "config_files conf ctl logToDisk =
     gm_of [(''aim.conf'', aim_conf_text conf), (''aimctl.conf'', aimctl_text ctl),
            (''kolla_config.json'', unlines (kolla_lines logToDisk)),
            (''aim_healthcheck.sh'', aim_healthcheck_sh),
            (''aim_supervisord.conf'', unlines (supervisord_lines logToDisk)),
            (''init.sh'', unlines (init_lines logToDisk))]"

lemma generate_shipped:
  assumes "shipped fs"
  shows "generateConfigFiles fs rng a dbConn busConn rabbit =
    (case populateAimCtlConfData rng a of
       Inl e \<Rightarrow> Inl e
     | Inr ctl \<Rightarrow> Inr (config_files (conf_data a dbConn busConn rabbit) ctl (log_spec a \<noteq> None)))"
proof (cases rabbit)
  case (fields q t d)
  have conf: "populateAimConfData dbConn busConn q t d a = Inr (conf_data a dbConn busConn rabbit)"
    by (simp add: conf_data_def fields populateAimConfData_def)
  show ?thesis
    by (simp add: generateConfigFiles_def fields conf [unfolded fields] read_shipped [OF assms] Let_def
        aim_conf_rendered aimctl_rendered kolla_rendered supervisord_rendered init_rendered config_files_def
        split: sum.split)
qed

lemma config_files_get:
  "gm_get (config_files conf ctl b) ''aim.conf'' = Some (aim_conf_text conf)"
  "gm_get (config_files conf ctl b) ''aimctl.conf'' = Some (aimctl_text ctl)"
  "gm_get (config_files conf ctl b) ''kolla_config.json'' = Some (unlines (kolla_lines b))"
  "gm_get (config_files conf ctl b) ''aim_healthcheck.sh'' = Some aim_healthcheck_sh"
  "gm_get (config_files conf ctl b) ''aim_supervisord.conf'' = Some (unlines (supervisord_lines b))"
  "gm_get (config_files conf ctl b) ''init.sh'' = Some (unlines (init_lines b))"
  by (simp_all add: config_files_def)

text \<open>A file system that serves the shipped files, for concrete runs.\<close>

definition image :: file_system where
  "image p =
     (case map_of
        [(''/templates/aim.conf.tmpl'', aim_conf_tmpl), (''/templates/aimctl.conf.tmpl'', aimctl_conf_tmpl),
         (''/templates/kolla_config.json'', kolla_config_json),
         (''/templates/aim_healthcheck.sh'', aim_healthcheck_sh),
         (''/templates/aim_supervisord.conf'', aim_supervisord_conf), (''/templates/init.sh'', init_sh)] p of
        None \<Rightarrow> Inl (IoError p) | Some t \<Rightarrow> Inr t)"

lemma image_shipped: "shipped image"
  by (simp add: shipped_def image_def)

lemma demo_ctl: "\<exists>ctl. populateAimCtlConfData sorted_order demo_log_aim = Inr ctl"
  by (simp add: populateAimCtlConfData_def demo_log_aim_def default_spec_def)

text \<open>The block of \<open>aim.conf\<close> that certificate authentication writes.\<close>

lemma unlines_glue:
  assumes "xs \<noteq> []" and "last xs = l"
  shows "unlines xs @ unlines ys @ t = unlines (butlast xs) @ unlines (l # ys) @ t"
proof -
  have "xs = butlast xs @ [l]"
    using assms by (metis append_butlast_last_id)
  then have "unlines xs = unlines (butlast xs @ [l])"
    by (rule arg_cong)
  then show ?thesis
    by (simp add: unlines_def)
qed

lemma aim_conf_certificate:
  assumes "acd_ACIApicPassword d = []" and "acd_ACIApicCertName d \<noteq> []"
  shows "\<exists>pre post. aim_conf_text d =
    pre @ unlines [''apic_username='' @ acd_ACIApicUsername d, [],
                   ''private_key_file = /etc/aim/'' @ acd_ACIApicUsername d @ ''_private_key'',
                   ''certificate_name = '' @ acd_ACIApicCertName d] @ post"
proof -
  have "aim_conf_credentials d =
      unlines [[], ''private_key_file = /etc/aim/'' @ acd_ACIApicUsername d @ ''_private_key'',
               ''certificate_name = '' @ acd_ACIApicCertName d]"
    using assms by (simp add: aim_conf_credentials_def)
  then show ?thesis
    unfolding aim_conf_text_def
    by (simp only:) (intro exI, rule unlines_glue, simp_all del: unlines_simps)
qed

lemma conf_data_credentials:
  "acd_ACIApicPassword (conf_data a dbConn busConn rabbit) = ACIApicPassword (aim_Conn a)"
  "acd_ACIApicCertName (conf_data a dbConn busConn rabbit) = ACIApicCertName (aim_Conn a)"
  "acd_ACIApicUsername (conf_data a dbConn busConn rabbit) = ACIApicUsername (aim_Conn a)"
  by (cases rabbit; simp add: conf_data_def populateAimConfData_def Let_def)+

text \<open>An instance that authenticates with a certificate and leaves the user name empty.\<close>

definition demo_cert_aim :: CiscoAciAim where
  "demo_cert_aim = demo_aim\<lparr>Spec := (default_spec ''img'')\<lparr>AciConnection :=
     default_connection\<lparr>ACIApicUsername := [], ACIApicPassword := [], ACIApicCertName := ''c'',
       ACIApicPrivateKeySecretRef := Some \<lparr>ref_Name = ''apic'', ref_Key = ''key''\<rparr>\<rparr>\<rparr>\<rparr>"

lemma demo_cert_ctl: "\<exists>ctl. populateAimCtlConfData sorted_order demo_cert_aim = Inr ctl"
  by (simp add: populateAimCtlConfData_def demo_cert_aim_def default_spec_def)

section \<open>Properties\<close>

text \<open>
  C21: with the shipped templates, generating the files succeeds exactly when the data of
  \<open>aimctl.conf\<close> can be built, and the files then are the written-out texts: none of the six templates
  has a syntax error or names a field that its data does not have.
\<close>

theorem generated_files:
  assumes "shipped fs"
  shows "generateConfigFiles fs rng a dbConn busConn rabbit =
    (case populateAimCtlConfData rng a of
       Inl e \<Rightarrow> Inl e
     | Inr ctl \<Rightarrow> Inr (config_files (conf_data a dbConn busConn rabbit) ctl (log_spec a \<noteq> None)))"
  by (rule generate_shipped [OF assms])

theorem generated_files_witness:
  "\<exists>files. generateConfigFiles image sorted_order demo_log_aim ''db'' ''bus'' (''false'', ''false'', ''false'') = Inr files \<and>
     gm_get files ''aim_healthcheck.sh'' = Some aim_healthcheck_sh"
  unfolding generated_files [OF image_shipped] using demo_ctl by (auto simp: config_files_get)

text \<open>
  C22: every key of the ConfigMap that a volume of the pod projects is one of the generated files, so
  that no pod waits for a missing key.
\<close>

theorem projected_keys_exist:
  assumes "shipped fs" and "generateConfigFiles fs rng a dbConn busConn rabbit = Inr files"
    and "v \<in> set (GetVolumes configMapName a)" and "vol_Source v = ConfigMapSource n items md"
  shows "\<forall>i \<in> set items. gm_get files (ktp_Key i) \<noteq> None"
proof -
  obtain ctl where "files = config_files (conf_data a dbConn busConn rabbit) ctl (log_spec a \<noteq> None)"
    using assms(1,2) by (auto simp: generate_shipped split: sum.splits)
  moreover have "v \<in> set (base_volumes configMapName)"
    using assms(3,4) by (auto simp: GetVolumes_def ca_volume_def key_volume_def cert_volume_def Let_def
        split: if_splits option.splits)
  ultimately show ?thesis
    using assms(4) by (auto simp: base_volumes_def config_files_get)
qed

theorem projected_keys_exist_witness:
  "\<exists>files. generateConfigFiles image sorted_order demo_log_aim ''db'' ''bus'' (''false'', ''false'', ''false'') = Inr files \<and>
     gm_get files ''init.sh'' \<noteq> None"
proof -
  obtain files where f: "generateConfigFiles image sorted_order demo_log_aim ''db'' ''bus'' (''false'', ''false'', ''false'') = Inr files"
    using demo_ctl by (auto simp: generate_shipped [OF image_shipped])
  have "(base_volumes ''aim-config'') ! 1 \<in> set (GetVolumes ''aim-config'' demo_log_aim)"
    by (simp add: GetVolumes_def base_volumes_def)
  from projected_keys_exist [OF image_shipped f this] f show ?thesis
    by (auto simp: base_volumes_def)
qed

text \<open>
  C23: the files name the log directory exactly when it is mounted: the programs write their logs to
  the persistent volume when there is one, and never to the root file system of the container.
\<close>

theorem log_files_follow_mount:
  assumes "shipped fs" and "generateConfigFiles fs rng a dbConn busConn rabbit = Inr files"
    and "gm_get files n = Some text" and "n \<in> {''kolla_config.json'', ''aim_supervisord.conf'', ''init.sh''}"
  shows "strings_Contains text (vm_MountPath log_mount) \<longleftrightarrow> log_mount \<in> set (GetVolumeMounts a)"
proof -
  obtain ctl where "files = config_files (conf_data a dbConn busConn rabbit) ctl (log_spec a \<noteq> None)"
    using assms(1,2) by (auto simp: generate_shipped split: sum.splits)
  moreover have "vm_MountPath log_mount = LogDir"
    by (simp add: log_mount_def LogDir_def)
  moreover have "log_mount \<in> set (GetVolumeMounts a) \<longleftrightarrow> log_spec a \<noteq> None"
    by (auto simp: GetVolumeMounts_def base_mounts_def log_mount_def ca_mount_def key_mount_def cert_mount_def Let_def)
  ultimately show ?thesis
    using assms(3,4) by (auto simp: config_files_get log_dir_mentions simp del: unlines_simps strings_Contains.simps)
qed

theorem log_files_follow_mount_witness:
  "\<exists>files text. generateConfigFiles image sorted_order demo_log_aim ''db'' ''bus'' (''false'', ''false'', ''false'') = Inr files \<and>
     gm_get files ''init.sh'' = Some text \<and> strings_Contains text (vm_MountPath log_mount)"
proof -
  obtain ctl where ctl: "populateAimCtlConfData sorted_order demo_log_aim = Inr ctl"
    using demo_ctl by blast
  let ?files = "config_files (conf_data demo_log_aim ''db'' ''bus'' (''false'', ''false'', ''false'')) ctl True"
  have f: "generateConfigFiles image sorted_order demo_log_aim ''db'' ''bus'' (''false'', ''false'', ''false'') = Inr ?files"
    by (simp add: generate_shipped [OF image_shipped] ctl) (simp add: demo_log_aim_def)
  have "log_mount \<in> set (GetVolumeMounts demo_log_aim)"
    by (simp add: GetVolumeMounts_def demo_log_aim_def)
  with log_files_follow_mount [OF image_shipped f config_files_get(6)] f config_files_get(6) show ?thesis
    by blast
qed

text \<open>
  C37: with certificate authentication (no password, a certificate name, and a secret reference for the
  private key), the generated \<open>aim.conf\<close> has, after the user name, the line
  \<open>private_key_file = /etc/aim/<user name>_private_key\<close> and the line of the certificate; the key is
  mounted in the pod; and the path in the file is the path of that mount exactly when the user name is
  not empty: for an empty one the mount falls back to \<open>admin\<close>, the file does not.
\<close>

theorem private_key_path:
  assumes "shipped fs" and "generateConfigFiles fs rng a dbConn busConn rabbit = Inr files"
    and "ACIApicPassword (aim_Conn a) = []" and "ACIApicCertName (aim_Conn a) \<noteq> []"
    and "ACIApicPrivateKeySecretRef (aim_Conn a) \<noteq> None"
  shows "let user = ACIApicUsername (aim_Conn a); path = ''/etc/aim/'' @ user @ ''_private_key'' in
    (\<exists>pre post. gm_get files ''aim.conf'' =
       Some (pre @ unlines [''apic_username='' @ user, [], ''private_key_file = '' @ path,
                            ''certificate_name = '' @ ACIApicCertName (aim_Conn a)] @ post)) \<and>
    key_mount a \<in> set (GetVolumeMounts a) \<and>
    (path = vm_MountPath (key_mount a) \<longleftrightarrow> user \<noteq> [])"
proof -
  obtain ctl where "files = config_files (conf_data a dbConn busConn rabbit) ctl (log_spec a \<noteq> None)"
    using assms(1,2) by (auto simp: generate_shipped split: sum.splits)
  moreover note aim_conf_certificate [of "conf_data a dbConn busConn rabbit", unfolded conf_data_credentials,
    OF assms(3,4)]
  moreover have "key_mount a \<in> set (GetVolumeMounts a)"
    using assms(5) by (simp add: GetVolumeMounts_def)
  ultimately show ?thesis
    by (simp add: config_files_get key_mount_def private_key_file_def Let_def del: unlines_simps)
qed

theorem private_key_path_witness:
  "\<exists>files pre post. generateConfigFiles image sorted_order demo_cert_aim ''db'' ''bus'' (''false'', ''false'', ''false'') = Inr files \<and>
     gm_get files ''aim.conf'' =
       Some (pre @ unlines [''apic_username='', [], ''private_key_file = /etc/aim/_private_key'',
                            ''certificate_name = c''] @ post) \<and>
     key_mount demo_cert_aim \<in> set (GetVolumeMounts demo_cert_aim) \<and>
     vm_MountPath (key_mount demo_cert_aim) \<noteq> ''/etc/aim/_private_key''"
proof -
  obtain files where f: "generateConfigFiles image sorted_order demo_cert_aim ''db'' ''bus'' (''false'', ''false'', ''false'') = Inr files"
    using demo_cert_ctl by (auto simp: generate_shipped [OF image_shipped])
  from private_key_path [OF image_shipped f] f show ?thesis
    by (auto simp: demo_cert_aim_def default_connection_def Let_def simp del: unlines_simps)
qed

end
