(* ===== verification/Log_Claims.thy ===== *)
theory Log_Claims
  imports Sample
begin

text \<open>
  Persistent log storage: the claim template of \<open>src/pkg/ciscoaciaim/pvc.go\<close> and the in-place
  expansion of existing claims of \<open>src/internal/controller/log_pvc_resize.go\<close>.

  The Go functions get the object and the libraries through receivers and imports; here the library
  functions are the argument \<open>L\<close> and the client the argument \<open>c\<close>.
\<close>

definition LogVolumeClaimTemplate ::
    "'q Lib \<Rightarrow> CiscoAciAim \<Rightarrow> go_error + 'q PersistentVolumeClaim" where
  "LogVolumeClaimTemplate L a =
     (case log_spec a of
        None \<Rightarrow> Inl LogPersistenceDisabled
      | Some lp \<Rightarrow>
          (case ParseQuantity L (Size lp) of
             Inl err \<Rightarrow> Inl err
           | Inr storageSize \<Rightarrow>
               Inr \<lparr>pvc_Meta = zero_meta\<lparr>Name := ''aim-logs'', Labels := gm_of [(''app'', aim_Name a)]\<rparr>,
                    pvc_AccessModes = Some [''ReadWriteOnce''],
                    pvc_Requests = gm_of [(ResourceStorage, storageSize)],
                    pvc_StorageClassName =
                      (if StorageClassName lp \<noteq> [] then Some (StorageClassName lp) else None),
                    pvc_rest = JNull\<rparr>))"

text \<open>
  \<open>prepareLogPVCResize\<close> mutates the claim: the result pairs the \<open>changed\<close> flag with the claim after
  the call.
\<close>

definition set_request :: "'q \<Rightarrow> 'q gomap \<Rightarrow> 'q gomap" where
  "set_request q rl = (case rl of None \<Rightarrow> gm_of [(ResourceStorage, q)] | Some m \<Rightarrow> Some (fmupd ResourceStorage q m))"

definition prepareLogPVCResize ::
    "'q Lib \<Rightarrow> 'q PersistentVolumeClaim \<Rightarrow> 'q \<Rightarrow> string \<Rightarrow> go_error + bool \<times> 'q PersistentVolumeClaim" where
  "prepareLogPVCResize L claim desiredSize desiredStorageClass =
     (if desiredStorageClass \<noteq> [] \<and> pvc_StorageClassName claim \<noteq> Some desiredStorageClass
      then Inl (ClaimStorageClassChanged desiredStorageClass)
      else
        let grow = Inr (True, claim\<lparr>pvc_Requests := set_request desiredSize (pvc_Requests claim)\<rparr>)
        in case RequestedStorage L (pvc_Requests claim) of
             None \<Rightarrow> grow
           | Some currentSize \<Rightarrow>
               (let ord = Cmp L currentSize desiredSize
                in if ord = 1 then Inl (ClaimShrunk (QString L currentSize) (QString L desiredSize))
                   else if ord = 0 then Inr (False, claim)
                   else grow))"

text \<open>The loop over the listed claims; \<open>lp\<close> is the log persistence block of the spec.\<close>

fun resize_claims ::
    "'q Lib \<Rightarrow> ('w, 'q) Client \<Rightarrow> string \<Rightarrow> 'q \<Rightarrow> string \<Rightarrow> 'q PersistentVolumeClaim list
     \<Rightarrow> ('w, go_error, unit) call" where
  "resize_claims L c claimPrefix desiredSize cls [] = ok ()"
| "resize_claims L c claimPrefix desiredSize cls (claim # claims) =
     (if \<not> HasPrefix (Name (pvc_Meta claim)) claimPrefix
      then resize_claims L c claimPrefix desiredSize cls claims
      else case prepareLogPVCResize L claim desiredSize cls of
             Inl err \<Rightarrow> fail (PrepareClaimFailed (Name (pvc_Meta claim)) err)
           | Inr (changed, claim') \<Rightarrow>
               (if \<not> changed then resize_claims L c claimPrefix desiredSize cls claims
                else State_Monad.bind (Update_PersistentVolumeClaim c claim') (\<lambda>r.
                  case r of
                    Inl err \<Rightarrow> fail (ResizeClaimFailed (Name (pvc_Meta claim')) err)
                  | Inr _ \<Rightarrow> resize_claims L c claimPrefix desiredSize cls claims)))"

definition log_claim_prefix :: "CiscoAciAim \<Rightarrow> string" where
  "log_claim_prefix a = ''aim-logs-'' @ aim_Name a @ ''-''"

definition ensureLogPVCStorage ::
    "'q Lib \<Rightarrow> ('w, 'q) Client \<Rightarrow> CiscoAciAim \<Rightarrow> ('w, go_error, unit) call" where
  "ensureLogPVCStorage L c a =
     (case log_spec a of
        None \<Rightarrow> ok ()
      | Some lp \<Rightarrow>
          (case ParseQuantity L (Size lp) of
             Inl err \<Rightarrow> fail (InvalidLogSize (Size lp) err)
           | Inr desiredSize \<Rightarrow>
               State_Monad.bind
                 (List_PersistentVolumeClaim c (aim_Namespace a) (gm_of [(''app'', aim_Name a)]))
                 (\<lambda>r. case r of
                    Inl err \<Rightarrow> fail (ListClaimsFailed err)
                  | Inr claims \<Rightarrow>
                      resize_claims L c (log_claim_prefix a) desiredSize (StorageClassName lp) claims)))"

section \<open>The claim template\<close>

lemma LogVolumeClaimTemplate_Inr:
  assumes "LogVolumeClaimTemplate L a = Inr t"
  obtains lp q where "log_spec a = Some lp" and "ParseQuantity L (Size lp) = Inr q"
    and "Name (pvc_Meta t) = ''aim-logs''" and "gm_get (pvc_Requests t) ResourceStorage = Some q"
    and "Labels (pvc_Meta t) = gm_of [(''app'', aim_Name a)]"
    and "pvc_StorageClassName t = (if StorageClassName lp = [] then None else Some (StorageClassName lp))"
  using assms by (auto simp: LogVolumeClaimTemplate_def split: option.splits sum.splits)

section \<open>Resizing one claim\<close>

lemma gm_get_set_request [simp]:
  "gm_get (set_request q rl) k = (if k = ResourceStorage then Some q else gm_get rl k)"
  by (auto simp: set_request_def split: option.splits)

lemma prepare_changed:
  assumes "prepareLogPVCResize L claim q cls = Inr (True, claim')"
  shows "claim' = claim\<lparr>pvc_Requests := set_request q (pvc_Requests claim)\<rparr>"
    and "cls = [] \<or> pvc_StorageClassName claim = Some cls"
    and "RequestedStorage L (pvc_Requests claim) = Some cur \<Longrightarrow> Cmp L cur q \<notin> {0, 1}"
  using assms by (auto simp: prepareLogPVCResize_def Let_def split: if_splits option.splits)

lemma prepare_unchanged:
  assumes "prepareLogPVCResize L claim q cls = Inr (False, claim')"
  shows "claim' = claim"
    and "\<exists>cur. RequestedStorage L (pvc_Requests claim) = Some cur \<and> Cmp L cur q = 0"
  using assms by (auto simp: prepareLogPVCResize_def Let_def split: if_splits option.splits)

text \<open>When the claim is unsized or smaller and its class is not being changed, it is resized.\<close>

lemma prepare_total:
  "prepareLogPVCResize L claim q cls =
     (if cls \<noteq> [] \<and> pvc_StorageClassName claim \<noteq> Some cls then Inl (ClaimStorageClassChanged cls)
      else case RequestedStorage L (pvc_Requests claim) of
          Some cur \<Rightarrow>
            (if Cmp L cur q = 1 then Inl (ClaimShrunk (QString L cur) (QString L q))
             else if Cmp L cur q = 0 then Inr (False, claim)
             else Inr (True, claim\<lparr>pvc_Requests := set_request q (pvc_Requests claim)\<rparr>))
        | None \<Rightarrow> Inr (True, claim\<lparr>pvc_Requests := set_request q (pvc_Requests claim)\<rparr>))"
  by (simp add: prepareLogPVCResize_def Let_def split: option.split)

section \<open>The loop over the claims\<close>

text \<open>
  The reference for the loop: which of the listed claims have to grow, and what they become. A
  claim is the operator's when its name has the prefix of the instance's log claims.
\<close>

definition needs_growth :: "'q Lib \<Rightarrow> string \<Rightarrow> 'q \<Rightarrow> 'q PersistentVolumeClaim \<Rightarrow> bool" where
  "needs_growth L pre q claim \<longleftrightarrow>
     HasPrefix (Name (pvc_Meta claim)) pre \<and>
     (case RequestedStorage L (pvc_Requests claim) of None \<Rightarrow> True | Some cur \<Rightarrow> Cmp L cur q \<notin> {0, 1})"

definition growable :: "'q Lib \<Rightarrow> string \<Rightarrow> 'q \<Rightarrow> string \<Rightarrow> 'q PersistentVolumeClaim \<Rightarrow> bool" where
  "growable L pre q cls claim \<longleftrightarrow>
     \<not> HasPrefix (Name (pvc_Meta claim)) pre \<or>
     (cls = [] \<or> pvc_StorageClassName claim = Some cls) \<and>
     (case RequestedStorage L (pvc_Requests claim) of None \<Rightarrow> True | Some cur \<Rightarrow> Cmp L cur q \<noteq> 1)"

definition grown :: "'q \<Rightarrow> 'q PersistentVolumeClaim \<Rightarrow> 'q PersistentVolumeClaim" where
  "grown q claim = claim\<lparr>pvc_Requests := set_request q (pvc_Requests claim)\<rparr>"

definition growth :: "'q Lib \<Rightarrow> string \<Rightarrow> 'q \<Rightarrow> 'q PersistentVolumeClaim list \<Rightarrow> 'q PersistentVolumeClaim list" where
  "growth L pre q claims = map (grown q) (filter (needs_growth L pre q) claims)"

lemma prepare_cases:
  assumes "HasPrefix (Name (pvc_Meta claim)) pre"
  shows "(\<exists>err. prepareLogPVCResize L claim q cls = Inl err) \<and> \<not> growable L pre q cls claim \<or>
    prepareLogPVCResize L claim q cls = Inr (False, claim) \<and> growable L pre q cls claim
      \<and> \<not> needs_growth L pre q claim \<or>
    prepareLogPVCResize L claim q cls = Inr (True, grown q claim) \<and> growable L pre q cls claim
      \<and> needs_growth L pre q claim"
  using assms by (auto simp: prepare_total growable_def needs_growth_def grown_def split: option.splits)

lemma resize_claims_step:
  obtains (rejected) err where "\<not> growable L pre q cls x" "resize_claims L c pre q cls (x # xs) = fail err"
  | (kept) "growable L pre q cls x" "\<not> needs_growth L pre q x"
      "resize_claims L c pre q cls (x # xs) = resize_claims L c pre q cls xs"
  | (grows) "growable L pre q cls x" "needs_growth L pre q x"
      "resize_claims L c pre q cls (x # xs) = State_Monad.bind (Update_PersistentVolumeClaim c (grown q x)) (\<lambda>r.
         case r of Inl err \<Rightarrow> fail (ResizeClaimFailed (Name (pvc_Meta x)) err) | Inr _ \<Rightarrow> resize_claims L c pre q cls xs)"
proof (cases "HasPrefix (Name (pvc_Meta x)) pre")
  case False
  then show ?thesis
    by (intro kept) (simp_all add: growable_def needs_growth_def)
next
  case True
  moreover have "Name (pvc_Meta (grown q x)) = Name (pvc_Meta x)"
    by (simp add: grown_def)
  ultimately show ?thesis
    using prepare_cases [OF True, of L q cls] rejected kept grows by fastforce
qed

text \<open>
  The requests of the loop are the updates of a prefix of the claims that have to grow; without an
  error it is all of them, and no claim was rejected.
\<close>

definition resize_outcome ::
    "'q Lib \<Rightarrow> string \<Rightarrow> 'q \<Rightarrow> string \<Rightarrow> 'q PersistentVolumeClaim list \<Rightarrow> go_error + unit \<Rightarrow> 'q entry list \<Rightarrow> bool" where
  "resize_outcome L pre q cls claims r l \<longleftrightarrow>
     (\<exists>n. map fst l = map RUpdateClaim (take n (growth L pre q claims))) \<and>
     (case r of
        Inl err \<Rightarrow> True
      | Inr _ \<Rightarrow> l = map (\<lambda>x. (RUpdateClaim x, True)) (growth L pre q claims) \<and>
                 list_all (growable L pre q cls) claims)"

lemma resize_outcome_Nil: "resize_outcome L pre q cls [] (Inr ()) []"
  by (simp add: resize_outcome_def growth_def)

lemma resize_outcome_fail: "resize_outcome L pre q cls claims (Inl e) []"
  by (auto simp: resize_outcome_def intro!: exI [of _ 0])

lemma resize_outcome_skip:
  "resize_outcome L pre q cls claims r l \<Longrightarrow> \<not> needs_growth L pre q claim \<Longrightarrow> growable L pre q cls claim
   \<Longrightarrow> resize_outcome L pre q cls (claim # claims) r l"
  by (auto simp: resize_outcome_def growth_def split: sum.splits)

lemma resize_outcome_update_failed:
  "needs_growth L pre q claim \<Longrightarrow>
   resize_outcome L pre q cls (claim # claims) (Inl e) [(RUpdateClaim (grown q claim), b)]"
  by (auto simp: resize_outcome_def growth_def intro!: exI [of _ 1])

lemma resize_outcome_update:
  assumes "resize_outcome L pre q cls claims r l" and "needs_growth L pre q claim"
    and "growable L pre q cls claim"
  shows "resize_outcome L pre q cls (claim # claims) r ((RUpdateClaim (grown q claim), True) # l)"
proof -
  from assms(1) obtain n where "map fst l = map RUpdateClaim (take n (growth L pre q claims))"
    by (auto simp: resize_outcome_def)
  with assms show ?thesis
    by (auto simp: resize_outcome_def growth_def split: sum.splits intro!: exI [of _ "Suc n"])
qed

lemma resize_claims_emits:
  "emits (resize_outcome L pre q cls claims) (resize_claims L (traced c) pre q cls claims)"
proof (induction claims)
  case Nil
  show ?case
    by (auto intro!: emits_rules simp: resize_outcome_Nil)
next
  case (Cons claim claims)
  show ?case
  proof (cases rule: resize_claims_step [where L = L and pre = pre and q = q and cls = cls and x = claim and c = "traced c" and xs = claims])
    case (rejected err)
    then show ?thesis
      by (auto intro!: emits_rules resize_outcome_fail)
  next
    case kept
    then show ?thesis
      by (auto intro: emits_mono [OF Cons.IH] resize_outcome_skip)
  next
    case grows
    then show ?thesis
      by (auto intro!: emits_rules resize_outcome_update_failed split: sum.split)
        (rule emits_mono [OF Cons.IH], simp add: resize_outcome_update)
  qed
qed

section \<open>The requests of the storage phase\<close>

fun claim_request :: "'q request \<Rightarrow> bool" where
  "claim_request (RList k ns) \<longleftrightarrow> k = ''PersistentVolumeClaim''"
| "claim_request (RUpdateClaim x) = True"
| "claim_request _ = False"

abbreviation claim_entry :: "'q entry \<Rightarrow> bool" where
  "claim_entry e \<equiv> claim_request (fst e)"

lemma resize_outcome_claim_entries:
  "resize_outcome L pre q cls claims r l \<Longrightarrow> list_all claim_entry l"
proof -
  assume "resize_outcome L pre q cls claims r l"
  then obtain n where "map fst l = map RUpdateClaim (take n (growth L pre q claims))"
    by (auto simp: resize_outcome_def)
  then have "list_all claim_request (map fst l)"
    by (auto simp: list_all_iff)
  then show ?thesis
    by (simp add: list_all_iff)
qed

lemma ensureLogPVCStorage_emits:
  "emits (\<lambda>r l. list_all claim_entry l) (ensureLogPVCStorage L (traced c) a)"
  by (auto simp: ensureLogPVCStorage_def split: option.split sum.split intro!: emits_rules)
    (rule emits_mono [OF resize_claims_emits], erule resize_outcome_claim_entries)

section \<open>Properties\<close>

text \<open>
  C10: resizing never shrinks a claim and changes nothing but its storage request: an accepted claim
  keeps its size or grows to the wanted size, and its storage class is the wanted one if one is
  named.
\<close>

theorem resize_never_shrinks:
  assumes "cmp_doc L" and "storage_doc L"
    and "gm_get (pvc_Requests claim) ResourceStorage = Some cur"
    and "prepareLogPVCResize L claim q cls = Inr (changed, claim')"
  shows "(\<exists>new. gm_get (pvc_Requests claim') ResourceStorage = Some new \<and>
            (if changed then new = q \<and> Cmp L cur new = -1 else new = cur \<and> Cmp L cur q = 0)) \<and>
         claim' = claim\<lparr>pvc_Requests := pvc_Requests claim'\<rparr> \<and>
         (\<forall>k. k = ResourceStorage \<or> gm_get (pvc_Requests claim') k = gm_get (pvc_Requests claim) k) \<and>
         (cls = [] \<or> pvc_StorageClassName claim' = Some cls)"
proof -
  have cur: "RequestedStorage L (pvc_Requests claim) = Some cur"
    using assms(2,3) by (simp add: storage_doc_def)
  with assms(3,4) show ?thesis
    using cmp_docD(1) [OF assms(1), of cur q] by (auto simp: prepare_total split: if_splits)
qed

definition demo_claim :: "string \<Rightarrow> nat \<Rightarrow> nat PersistentVolumeClaim" where
  "demo_claim n q =
     \<lparr>pvc_Meta = (demo_meta n)\<lparr>Labels := gm_of [(''app'', ''aim'')]\<rparr>, pvc_AccessModes = Some [''ReadWriteOnce''],
      pvc_Requests = gm_of [(ResourceStorage, q)], pvc_StorageClassName = None, pvc_rest = JNull\<rparr>"

theorem resize_never_shrinks_witness:
  "gm_get (set_request 2 (pvc_Requests (demo_claim ''aim-logs-aim-0'' 1))) ResourceStorage = Some 2 \<and>
   Cmp demo_lib 1 2 = -1"
proof -
  have "prepareLogPVCResize demo_lib (demo_claim ''aim-logs-aim-0'' 1) 2 [] =
      Inr (True, grown 2 (demo_claim ''aim-logs-aim-0'' 1))"
    by (simp add: prepare_total demo_lib_def demo_claim_def grown_def)
  from resize_never_shrinks [OF demo_lib_doc(3,4) _ this, of 1] show ?thesis
    by (simp add: demo_claim_def grown_def)
qed

text \<open>
  C11: the loop over the claims, on any cluster: its requests update, one after the other, the
  claims of the instance that are too small, each to the wanted size; if it returns without error
  all of them were updated and no claim was too large or of another storage class.
\<close>

theorem resize_claims_outcome:
  "resize_outcome L pre q cls claims
     (fst (run_state (resize_claims L (traced c) pre q cls claims) (w, [])))
     (entries (resize_claims L (traced c) pre q cls claims) w)"
  by (rule emits_entries [OF resize_claims_emits])

lemma grown_done:
  assumes "cmp_doc L" "storage_doc L" "growable L pre q cls x"
  shows "growable L pre q cls (grown q x)" and "\<not> needs_growth L pre q (grown q x)"
  using assms(2,3) cmp_docD(2) [OF assms(1)] by (auto simp: growable_def needs_growth_def grown_def storage_doc_def)

lemma resize_claims_idle:
  "list_all (\<lambda>x. growable L pre q cls x \<and> \<not> needs_growth L pre q x) claims \<Longrightarrow>
   resize_claims L c pre q cls claims = ok ()"
proof (induction claims)
  case (Cons x xs)
  then show ?case
    by (cases rule: resize_claims_step [where L = L and pre = pre and q = q and cls = cls and x = x and c = c and xs = xs]) auto
qed simp

text \<open>
  C12: resizing converges, provided that no log claim of the instance is larger than wanted or of
  another storage class than the one that is named (such a claim makes the loop fail): once every claim
  that has to grow is at its new size, the loop makes no request and succeeds.
\<close>

theorem resize_converges:
  assumes "cmp_doc L" and "storage_doc L" and "list_all (growable L pre q cls) claims"
  shows "resize_claims L c pre q cls
           (map (\<lambda>x. if needs_growth L pre q x then grown q x else x) claims) = ok ()"
  using assms by (intro resize_claims_idle) (auto simp: list_all_iff grown_done)

theorem resize_converges_witness:
  "growth demo_lib ''aim-logs-aim-'' 2 [demo_claim ''aim-logs-aim-0'' 1] =
     [grown 2 (demo_claim ''aim-logs-aim-0'' 1)] \<and>
   resize_claims demo_lib demo_client ''aim-logs-aim-'' 2 [] [grown 2 (demo_claim ''aim-logs-aim-0'' 1)] = ok ()"
proof -
  have *: "list_all (growable demo_lib ''aim-logs-aim-'' 2 []) [demo_claim ''aim-logs-aim-0'' 1]"
      "needs_growth demo_lib ''aim-logs-aim-'' 2 (demo_claim ''aim-logs-aim-0'' 1)"
    by (simp_all add: growable_def needs_growth_def demo_claim_def demo_lib_def demo_meta_def zero_meta_def
        HasPrefix_def)
  show ?thesis
    using resize_converges [OF demo_lib_doc(3,4) *(1), of demo_client] *(2)
    by (simp add: growth_def del: resize_claims.simps)
qed

end
