(* ===== verification/Workload.thy ===== *)
theory Workload
  imports Aim_Volumes Log_Claims
begin

text \<open>
  \<open>src/pkg/ciscoaciaim/statefulset.go\<close>: the StatefulSet the operator wants for an instance. The
  fields the builder does not set have their zero values.
\<close>

definition DefaultReplicas :: int32 where
  "DefaultReplicas = 2"

definition desired_replicas :: "CiscoAciAim \<Rightarrow> int32" where
  "desired_replicas a = (case Replicas (Spec a) of None \<Rightarrow> DefaultReplicas | Some n \<Rightarrow> n)"

text \<open>A probe parameter: the user's value when it is positive, else the default.\<close>

definition override :: "int32 \<Rightarrow> int32 \<Rightarrow> int32" where
  "override dflt v = (if 0 < sint v then v else dflt)"

definition liveness_probe :: "CiscoAciAim \<Rightarrow> Probe option" where
  "liveness_probe a =
     (let lp = LivenessProbe (Spec a)
      in if lp = None \<or> \<not> DisableProbe (the lp) then
           Some \<lparr>pr_Command = [''/etc/aim/aim_healthcheck''],
                 pr_InitialDelaySeconds =
                   (case lp of None \<Rightarrow> 30 | Some p \<Rightarrow> override 30 (InitialDelaySeconds p)),
                 pr_TimeoutSeconds = (case lp of None \<Rightarrow> 5 | Some p \<Rightarrow> override 5 (TimeoutSeconds p)),
                 pr_PeriodSeconds = (case lp of None \<Rightarrow> 10 | Some p \<Rightarrow> override 10 (PeriodSeconds p)),
                 pr_SuccessThreshold =
                   (case lp of None \<Rightarrow> 1 | Some p \<Rightarrow> override 1 (SuccessThreshold p)),
                 pr_FailureThreshold =
                   (case lp of None \<Rightarrow> 3 | Some p \<Rightarrow> override 3 (FailureThreshold p)),
                 pr_rest = JNull\<rparr>
         else None)"

definition container_args :: "string list" where
  "container_args =
     [''-c'',
      ''export POD_ORDINAL=$(echo $POD_NAME | rev | cut -d'-' -f1 | rev); '' @
      ''/etc/aim/scripts/init.sh && exec '' @ ServiceCommand]"

definition aim_container :: "'q Lib \<Rightarrow> CiscoAciAim \<Rightarrow> Container" where
  "aim_container L a =
     \<lparr>ctr_Name = ''aciaim'',
      ctr_Image = ContainerImage (Spec a),
      ctr_VolumeMounts = GetVolumeMounts a,
      ctr_Command = [''/bin/bash''],
      ctr_Args = container_args,
      ctr_Env = MergeEnvs L
        [\<lparr>env_Name = ''POD_NAME'', env_Value = [], env_FieldPath = Some ''metadata.name'',
          env_rest = JNull\<rparr>]
        (gm_of [(''KOLLA_CONFIG_STRATEGY'', SetValue L ''COPY_ALWAYS'')]),
      ctr_ImagePullPolicy = ''Always'',
      ctr_SecurityContext = Some
        \<lparr>RunAsUser = Some NeutronUID, RunAsGroup = Some NeutronGID, RunAsNonRoot = Some True,
         sc_rest = JNull\<rparr>,
      ctr_LivenessProbe = liveness_probe a,
      ctr_rest = JNull\<rparr>"

definition retain_policy :: PVCRetentionPolicy where
  "retain_policy = \<lparr>WhenDeleted = ''Retain'', WhenScaled = ''Retain''\<rparr>"

definition pod_template :: "'q Lib \<Rightarrow> CiscoAciAim \<Rightarrow> string \<Rightarrow> string \<Rightarrow> PodTemplateSpec" where
  "pod_template L a configMapName configMapChecksum =
     \<lparr>pt_Labels = gm_of [(''app'', aim_Name a)],
      pt_Annotations = gm_of [(''configmap-checksum'', configMapChecksum)],
      pt_Spec =
        \<lparr>pod_Affinity = DistributePods L ''app'' [aim_Name a] ''kubernetes.io/hostname'',
         pod_FSGroup = Some NeutronUID,
         pod_ServiceAccountName = ''neutron-neutron'',
         pod_Containers = [aim_container L a],
         pod_Volumes = GetVolumes configMapName a,
         pod_rest = JNull\<rparr>,
      pt_rest = JNull\<rparr>"

definition StatefulSet :: "'q Lib \<Rightarrow> CiscoAciAim \<Rightarrow> string \<Rightarrow> string \<Rightarrow> go_error + 'q StatefulSet" where
  "StatefulSet L a configMapName configMapChecksum =
     (let statefulSet =
        \<lparr>sts_Meta = zero_meta\<lparr>Name := aim_Name a, Namespace := aim_Namespace a,
                               Labels := gm_of [(''app'', aim_Name a)]\<rparr>,
         sts_Spec =
           \<lparr>sts_Replicas = Some (desired_replicas a),
            sts_Selector = Some \<lparr>MatchLabels = gm_of [(''app'', aim_Name a)], sel_rest = JNull\<rparr>,
            sts_Template = pod_template L a configMapName configMapChecksum,
            sts_VolumeClaimTemplates = [],
            sts_ServiceName = aim_Name a,
            sts_PodManagementPolicy = ''OrderedReady'',
            sts_UpdateStrategy = JNull,
            sts_RevisionHistoryLimit = None,
            sts_MinReadySeconds = 0,
            sts_RetentionPolicy = None,
            sts_rest = JNull\<rparr>,
         sts_Status = JNull\<rparr>
      in case log_spec a of
           None \<Rightarrow> Inr statefulSet
         | Some lp \<Rightarrow>
             (case LogVolumeClaimTemplate L a of
                Inl err \<Rightarrow> Inl err
              | Inr claim \<Rightarrow>
                  Inr (statefulSet\<lparr>sts_Spec := (sts_Spec statefulSet)
                    \<lparr>sts_VolumeClaimTemplates := [claim],
                     sts_RetentionPolicy := Some retain_policy\<rparr>\<rparr>)))"

section \<open>What the builder guarantees\<close>

abbreviation sts_pod :: "'q StatefulSet \<Rightarrow> PodSpec" where
  "sts_pod s \<equiv> pt_Spec (sts_Template (sts_Spec s))"

lemma StatefulSet_fields:
  assumes "StatefulSet L a cmn csum = Inr s"
  shows "Name (sts_Meta s) = aim_Name a" and "Namespace (sts_Meta s) = aim_Namespace a"
    and "Labels (sts_Meta s) = gm_of [(''app'', aim_Name a)]"
    and "sts_Replicas (sts_Spec s) = Some (desired_replicas a)"
    and "sts_Template (sts_Spec s) = pod_template L a cmn csum"
    and "sts_Selector (sts_Spec s) = Some \<lparr>MatchLabels = gm_of [(''app'', aim_Name a)], sel_rest = JNull\<rparr>"
    and "sts_ServiceName (sts_Spec s) = aim_Name a"
    and "sts_PodManagementPolicy (sts_Spec s) = ''OrderedReady''"
    and "sts_RevisionHistoryLimit (sts_Spec s) = None"
    and "sts_UpdateStrategy (sts_Spec s) = JNull"
    and "sts_MinReadySeconds (sts_Spec s) = 0"
    and "DeletionTimestamp (sts_Meta s) = None"
  using assms by (auto simp: StatefulSet_def zero_meta_def Let_def split: option.splits sum.splits)

lemma StatefulSet_claims:
  assumes "StatefulSet L a cmn csum = Inr s"
  shows "log_spec a = None \<Longrightarrow> sts_VolumeClaimTemplates (sts_Spec s) = [] \<and> sts_RetentionPolicy (sts_Spec s) = None"
    and "log_spec a \<noteq> None \<Longrightarrow>
      \<exists>t. LogVolumeClaimTemplate L a = Inr t \<and> sts_VolumeClaimTemplates (sts_Spec s) = [t] \<and>
          sts_RetentionPolicy (sts_Spec s) = Some retain_policy"
  using assms by (auto simp: StatefulSet_def Let_def split: option.splits sum.splits)

lemma StatefulSet_error_iff:
  "(\<exists>e. StatefulSet L a cmn csum = Inl e) \<longleftrightarrow>
     (\<exists>lp e. log_spec a = Some lp \<and> ParseQuantity L (Size lp) = Inl e)"
  by (auto simp: StatefulSet_def LogVolumeClaimTemplate_def Let_def split: option.splits sum.splits)

lemma override_pos: "0 < sint d \<Longrightarrow> 0 < sint (override d v)"
  by (simp add: override_def)

lemma override_valid: "1 \<le> sint v \<Longrightarrow> override d v = v"
  by (simp add: override_def)

section \<open>Properties\<close>

text \<open>
  C24: a built StatefulSet is consistent: its selector and its pods carry the same labels, its name,
  service and namespace are those of the instance, its pods are annotated with the checksum, and
  every mount of its container is provided by a volume of the pod or by a claim template.
\<close>

theorem built_statefulset_consistent:
  assumes "StatefulSet L a configMapName csum = Inr s"
  shows "(\<exists>sel. sts_Selector (sts_Spec s) = Some sel \<and> MatchLabels sel = pt_Labels (sts_Template (sts_Spec s))) \<and>
    Name (sts_Meta s) = aim_Name a \<and> sts_ServiceName (sts_Spec s) = aim_Name a \<and>
    Namespace (sts_Meta s) = aim_Namespace a \<and>
    gm_get (pt_Annotations (sts_Template (sts_Spec s))) ''configmap-checksum'' = Some csum \<and>
    (\<forall>ctr \<in> set (pod_Containers (sts_pod s)). \<forall>m \<in> set (ctr_VolumeMounts ctr).
       (\<exists>v \<in> set (pod_Volumes (sts_pod s)). backed_by m v) \<or>
       (\<exists>t \<in> set (sts_VolumeClaimTemplates (sts_Spec s)). Name (pvc_Meta t) = vm_Name m))"
proof -
  have claim: "\<exists>t \<in> set (sts_VolumeClaimTemplates (sts_Spec s)). Name (pvc_Meta t) = vm_Name log_mount"
    if "log_spec a \<noteq> None"
    using StatefulSet_claims(2) [OF assms that] by (auto simp: log_mount_def elim: LogVolumeClaimTemplate_Inr)
  show ?thesis
    using claim mount_backed [of _ a configMapName]
    by (auto simp: StatefulSet_fields [OF assms] pod_template_def aim_container_def)
qed

theorem built_statefulset_consistent_witness:
  "\<exists>s. StatefulSet demo_lib demo_log_aim ''aim-config'' ''00'' = Inr s \<and> Name (sts_Meta s) = ''aim'' \<and>
     gm_get (pt_Annotations (sts_Template (sts_Spec s))) ''configmap-checksum'' = Some ''00''"
proof -
  obtain s where s: "StatefulSet demo_lib demo_log_aim ''aim-config'' ''00'' = Inr s"
    by (simp add: StatefulSet_def LogVolumeClaimTemplate_def demo_defs is_digit_def)
  with built_statefulset_consistent [OF s] show ?thesis
    by (auto simp: demo_log_aim_def demo_aim_def demo_meta_def)
qed

text \<open>
  Whatever numbers a probe block holds, the probe of the container has positive parameters, and
  there is no probe exactly when it is disabled.
\<close>

lemma liveness_probe_sound:
  "case liveness_probe a of
     None \<Rightarrow> (\<exists>p. LivenessProbe (Spec a) = Some p \<and> DisableProbe p)
   | Some pr \<Rightarrow>
       (LivenessProbe (Spec a) = None \<or> (\<exists>p. LivenessProbe (Spec a) = Some p \<and> \<not> DisableProbe p)) \<and>
       0 < sint (pr_InitialDelaySeconds pr) \<and> 0 < sint (pr_TimeoutSeconds pr) \<and>
       0 < sint (pr_PeriodSeconds pr) \<and> 0 < sint (pr_SuccessThreshold pr) \<and>
       0 < sint (pr_FailureThreshold pr)"
  by (auto simp: liveness_probe_def Let_def override_pos split: option.splits)

text \<open>
  C38: a probe block that satisfies the limits of the schema is used as it is, but for an initial
  delay of 0, which the schema allows and which becomes 30 seconds.
\<close>

theorem liveness_probe_values:
  assumes "LivenessProbe (Spec a) = Some p" and "valid_probe p" and "\<not> DisableProbe p"
  shows "liveness_probe a = Some
    \<lparr>pr_Command = [''/etc/aim/aim_healthcheck''],
     pr_InitialDelaySeconds = (if InitialDelaySeconds p = 0 then 30 else InitialDelaySeconds p),
     pr_TimeoutSeconds = TimeoutSeconds p, pr_PeriodSeconds = PeriodSeconds p,
     pr_SuccessThreshold = SuccessThreshold p, pr_FailureThreshold = FailureThreshold p, pr_rest = JNull\<rparr>"
proof -
  have "override 30 (InitialDelaySeconds p) = (if InitialDelaySeconds p = 0 then 30 else InitialDelaySeconds p)"
    using assms(2) by (auto simp: override_def valid_probe_def) (metis order.not_eq_order_implies_strict signed_eq_0_iff)
  with assms show ?thesis
    by (simp add: liveness_probe_def valid_probe_def override_valid)
qed

theorem liveness_probe_values_witness:
  "pr_PeriodSeconds (the (liveness_probe
     (demo_aim\<lparr>Spec := (default_spec ''img'')\<lparr>LivenessProbe := Some (default_probe\<lparr>PeriodSeconds := 7\<rparr>)\<rparr>\<rparr>))) = 7"
  by (subst liveness_probe_values [where p = "default_probe\<lparr>PeriodSeconds := 7\<rparr>"])
    (simp_all add: valid_probe_def default_probe_def)

text \<open>
  The number of replicas is the one of the spec; without one the builder falls back to 2, but
  an instance that went through the API server always has one, 1 by the schema.
\<close>

lemma replicas_of_statefulset:
  "desired_replicas (a\<lparr>Spec := (Spec a)\<lparr>Replicas := None\<rparr>\<rparr>) = 2 \<and>
   desired_replicas (a\<lparr>Spec := (Spec a)\<lparr>Replicas := default_replicas r\<rparr>\<rparr>) = (case r of None \<Rightarrow> 1 | Some n \<Rightarrow> n)"
  by (simp add: desired_replicas_def DefaultReplicas_def default_replicas_def split: option.split)

end
