(* ===== verification/Sts_Reconcile.thy ===== *)
theory Sts_Reconcile
  imports Workload
begin

text \<open>
  The StatefulSet phase of the reconciler (\<open>src/internal/controller/ciscoaciaim_controller.go\<close>):
  comparing the StatefulSet found in the cluster with the one the builder wants, rejecting changes
  of the storage class, and creating, updating or deleting it.
\<close>

definition stringPointersEqual :: "string option \<Rightarrow> string option \<Rightarrow> bool" where
  "stringPointersEqual current desired =
     (if current = None \<or> desired = None then current = desired else the current = the desired)"

definition storageClassName :: "string option \<Rightarrow> string" where
  "storageClassName v = (case v of None \<Rightarrow> ''<default>'' | Some s \<Rightarrow> s)"

definition validateVolumeClaimTemplateStorageClassChange ::
    "'q PersistentVolumeClaim list \<Rightarrow> 'q PersistentVolumeClaim list \<Rightarrow> go_error option" where
  "validateVolumeClaimTemplateStorageClassChange current desired =
     (if length current \<noteq> 1 \<or> length desired \<noteq> 1
         \<or> Name (pvc_Meta (current ! 0)) \<noteq> Name (pvc_Meta (desired ! 0)) then None
      else let currentClass = pvc_StorageClassName (current ! 0);
               desiredClass = pvc_StorageClassName (desired ! 0)
           in if stringPointersEqual currentClass desiredClass then None
              else Some (TemplateStorageClassChanged (storageClassName currentClass)
                           (storageClassName desiredClass)))"

text \<open>The map from names to templates that the loop over \<open>current\<close> builds: later entries win.\<close>

definition currentByName :: "'q PersistentVolumeClaim list \<Rightarrow> string \<Rightarrow> 'q PersistentVolumeClaim option" where
  "currentByName current = map_of (rev (map (\<lambda>t. (Name (pvc_Meta t), t)) current))"

definition same_template :: "'q PersistentVolumeClaim \<Rightarrow> 'q PersistentVolumeClaim \<Rightarrow> bool" where
  "same_template t d \<longleftrightarrow>
     Labels (pvc_Meta t) = Labels (pvc_Meta d) \<and> pvc_AccessModes t = pvc_AccessModes d \<and>
     stringPointersEqual (pvc_StorageClassName t) (pvc_StorageClassName d)"

definition volumeClaimTemplatesEqual ::
    "'q PersistentVolumeClaim list \<Rightarrow> 'q PersistentVolumeClaim list \<Rightarrow> bool" where
  "volumeClaimTemplatesEqual current desired \<longleftrightarrow>
     (if length current \<noteq> length desired then False
      else list_all (\<lambda>d. case currentByName current (Name (pvc_Meta d)) of
                            None \<Rightarrow> False
                          | Some t \<Rightarrow> same_template t d) desired)"

definition statefulSetRequiresRecreation :: "'q StatefulSet \<Rightarrow> 'q StatefulSet \<Rightarrow> bool" where
  "statefulSetRequiresRecreation current desired \<longleftrightarrow>
     (if sts_ServiceName (sts_Spec current) \<noteq> sts_ServiceName (sts_Spec desired)
         \<or> sts_PodManagementPolicy (sts_Spec current) \<noteq> sts_PodManagementPolicy (sts_Spec desired)
         \<or> sts_Selector (sts_Spec current) \<noteq> sts_Selector (sts_Spec desired)
      then True
      else \<not> volumeClaimTemplatesEqual (sts_VolumeClaimTemplates (sts_Spec current))
               (sts_VolumeClaimTemplates (sts_Spec desired)))"

text \<open>The object that is written back: the found one with the mutable fields of the wanted one.\<close>

definition updated_sts :: "'q StatefulSet \<Rightarrow> 'q StatefulSet \<Rightarrow> 'q StatefulSet" where
  "updated_sts found desired =
     found\<lparr>sts_Meta := (sts_Meta found)\<lparr>Labels := Labels (sts_Meta desired)\<rparr>,
           sts_Spec := (sts_Spec found)
             \<lparr>sts_Replicas := sts_Replicas (sts_Spec desired),
              sts_Template := sts_Template (sts_Spec desired),
              sts_UpdateStrategy := sts_UpdateStrategy (sts_Spec desired),
              sts_RevisionHistoryLimit := sts_RevisionHistoryLimit (sts_Spec desired),
              sts_MinReadySeconds := sts_MinReadySeconds (sts_Spec desired),
              sts_RetentionPolicy := sts_RetentionPolicy (sts_Spec desired)\<rparr>\<rparr>"

text \<open>
  The two parts of \<open>ensureStatefulSet\<close> that deal with a StatefulSet that exists: after the storage
  checks, replace it when an immutable field has to change and update it otherwise.
\<close>

definition replaceOrUpdateStatefulSet ::
    "'q Lib \<Rightarrow> ('w, 'q) Client \<Rightarrow> 'q StatefulSet \<Rightarrow> 'q StatefulSet \<Rightarrow> ('w, go_error, bool) call" where
  "replaceOrUpdateStatefulSet L c statefulSet found =
     (if statefulSetRequiresRecreation found statefulSet then
        (if IsZero (DeletionTimestamp (sts_Meta found)) then
           State_Monad.bind (Delete_StatefulSet c found) (\<lambda>r.
             case r of
               Inl err \<Rightarrow> if \<not> IsNotFound L err then fail err else ok True
             | Inr _ \<Rightarrow> ok True)
         else ok True)
      else
        let updated = updated_sts found statefulSet
        in if sts_Spec found \<noteq> sts_Spec updated
              \<or> Labels (sts_Meta found) \<noteq> Labels (sts_Meta updated)
           then check (Update_StatefulSet c updated) (\<lambda>_. ok False)
           else ok False)"

definition ensureExistingStatefulSet ::
    "'q Lib \<Rightarrow> ('w, 'q) Client \<Rightarrow> CiscoAciAim \<Rightarrow> 'q StatefulSet \<Rightarrow> 'q StatefulSet
     \<Rightarrow> ('w, go_error, bool) call" where
  "ensureExistingStatefulSet L c a statefulSet found =
     (case validateVolumeClaimTemplateStorageClassChange
             (sts_VolumeClaimTemplates (sts_Spec found)) (sts_VolumeClaimTemplates (sts_Spec statefulSet)) of
        Some err \<Rightarrow> fail err
      | None \<Rightarrow>
          check (ensureLogPVCStorage L c a) (\<lambda>_. replaceOrUpdateStatefulSet L c statefulSet found))"

definition ensureStatefulSet ::
    "'q Lib \<Rightarrow> ('w, 'q) Client \<Rightarrow> CiscoAciAim \<Rightarrow> ConfigMap \<Rightarrow> string \<Rightarrow> ('w, go_error, bool) call" where
  "ensureStatefulSet L c a configMap configMapChecksum =
     (case StatefulSet L a (Name (cm_Meta configMap)) configMapChecksum of
        Inl err \<Rightarrow> fail (BuildStatefulSetFailed err)
      | Inr built \<Rightarrow>
          (case SetControllerReference L (aim_Meta a) (sts_Meta built) of
             Inl err \<Rightarrow> fail err
           | Inr meta \<Rightarrow>
               let statefulSet = built\<lparr>sts_Meta := meta\<rparr>
               in State_Monad.bind (Get_StatefulSet c (key (aim_Namespace a) (aim_Name a))) (\<lambda>r.
                    case r of
                      Inl err \<Rightarrow>
                        if IsNotFound L err then check (Create_StatefulSet c statefulSet) (\<lambda>_. ok False)
                        else fail err
                    | Inr found \<Rightarrow> ensureExistingStatefulSet L c a statefulSet found)))"

section \<open>Comparing claim templates\<close>

lemma stringPointersEqual_eq [simp]: "stringPointersEqual p q \<longleftrightarrow> p = q"
  by (cases p; cases q) (auto simp: stringPointersEqual_def)

text \<open>The fields of a claim template that the comparison looks at: all but the requested size.\<close>

definition template_shape :: "'q PersistentVolumeClaim \<Rightarrow> string \<times> string gomap \<times> string list option \<times> string option" where
  "template_shape t = (Name (pvc_Meta t), Labels (pvc_Meta t), pvc_AccessModes t, pvc_StorageClassName t)"

definition template_names :: "'q PersistentVolumeClaim list \<Rightarrow> string list" where
  "template_names ts = map (\<lambda>t. Name (pvc_Meta t)) ts"

lemma currentByName_iff:
  assumes "distinct (template_names ts)"
  shows "currentByName ts n = Some t \<longleftrightarrow> t \<in> set ts \<and> Name (pvc_Meta t) = n"
proof -
  have "distinct (map fst (rev (map (\<lambda>t. (Name (pvc_Meta t), t)) ts)))"
    using assms by (simp add: rev_map [symmetric] comp_def template_names_def)
  then show ?thesis
    unfolding currentByName_def by (subst map_of_eq_Some_iff) auto
qed

lemma same_template_shape:
  "Name (pvc_Meta t) = Name (pvc_Meta d) \<Longrightarrow> same_template t d \<longleftrightarrow> template_shape t = template_shape d"
  by (auto simp: same_template_def template_shape_def)

lemma card_template_shapes:
  "distinct (template_names ts) \<Longrightarrow> card (set (map template_shape ts)) = length ts"
proof -
  assume "distinct (template_names ts)"
  then have "distinct (map fst (map template_shape ts))"
    by (simp add: template_names_def template_shape_def comp_def)
  then have "distinct (map template_shape ts)"
    by (metis distinct_map)
  then show ?thesis
    by (metis distinct_card length_map)
qed

lemma template_found_iff:
  assumes "distinct (template_names cur)"
  shows "(case currentByName cur (Name (pvc_Meta d)) of None \<Rightarrow> False | Some t \<Rightarrow> same_template t d) \<longleftrightarrow>
    template_shape d \<in> template_shape ` set cur"
proof (cases "currentByName cur (Name (pvc_Meta d))")
  case None
  then have "\<forall>t \<in> set cur. Name (pvc_Meta t) \<noteq> Name (pvc_Meta d)"
    using currentByName_iff [OF assms] by (metis option.distinct(1))
  with None show ?thesis
    by (auto simp: template_shape_def)
next
  case (Some t)
  then have t: "t \<in> set cur" "Name (pvc_Meta t) = Name (pvc_Meta d)"
    using currentByName_iff [OF assms] by blast+
  have "template_shape d \<in> template_shape ` set cur \<longleftrightarrow> template_shape d = template_shape t"
  proof
    assume "template_shape d \<in> template_shape ` set cur"
    then obtain u where u: "u \<in> set cur" "template_shape d = template_shape u"
      by blast
    then have "Name (pvc_Meta u) = Name (pvc_Meta d)"
      by (simp add: template_shape_def)
    with u Some have "u = t"
      using currentByName_iff [OF assms] by (metis option.inject)
    with u show "template_shape d = template_shape t"
      by simp
  qed (use t in auto)
  with Some t show ?thesis
    using same_template_shape [of t d] by auto
qed

lemma templates_equal_subset:
  assumes "distinct (template_names cur)"
  shows "volumeClaimTemplatesEqual cur des \<longleftrightarrow>
    length cur = length des \<and> set (map template_shape des) \<subseteq> set (map template_shape cur)"
  by (auto simp: volumeClaimTemplatesEqual_def list_all_iff template_found_iff [OF assms])

section \<open>The object written back\<close>

lemma updated_sts_immutable [simp]:
  "sts_ServiceName (sts_Spec (updated_sts f d)) = sts_ServiceName (sts_Spec f)"
  "sts_PodManagementPolicy (sts_Spec (updated_sts f d)) = sts_PodManagementPolicy (sts_Spec f)"
  "sts_Selector (sts_Spec (updated_sts f d)) = sts_Selector (sts_Spec f)"
  "sts_VolumeClaimTemplates (sts_Spec (updated_sts f d)) = sts_VolumeClaimTemplates (sts_Spec f)"
  "sts_rest (sts_Spec (updated_sts f d)) = sts_rest (sts_Spec f)"
  "sts_Status (updated_sts f d) = sts_Status f"
  "Name (sts_Meta (updated_sts f d)) = Name (sts_Meta f)"
  "Namespace (sts_Meta (updated_sts f d)) = Namespace (sts_Meta f)"
  "DeletionTimestamp (sts_Meta (updated_sts f d)) = DeletionTimestamp (sts_Meta f)"
  by (simp_all add: updated_sts_def)

lemma updated_limit:
  "sts_RevisionHistoryLimit (sts_Spec (updated_sts f d)) = sts_RevisionHistoryLimit (sts_Spec d)"
  by (simp add: updated_sts_def)

lemma updated_sts_idem [simp]: "updated_sts (updated_sts f d) d = updated_sts f d"
  by (simp add: updated_sts_def)

lemma recreation_updated [simp]:
  "statefulSetRequiresRecreation (updated_sts f d) d = statefulSetRequiresRecreation f d"
  by (simp add: statefulSetRequiresRecreation_def)

lemma updated_sts_same_iff:
  "updated_sts f d = f \<longleftrightarrow>
     sts_Spec f = sts_Spec (updated_sts f d) \<and> Labels (sts_Meta f) = Labels (sts_Meta (updated_sts f d))"
  by (cases f; cases "sts_Meta f") (auto simp: updated_sts_def)

text \<open>A StatefulSet whose pods carry a checksum.\<close>

definition annotated :: "string \<Rightarrow> 'q StatefulSet \<Rightarrow> bool" where
  "annotated csum s \<longleftrightarrow> pt_Annotations (sts_Template (sts_Spec s)) = gm_of [(''configmap-checksum'', csum)]"

lemma built_annotated: "StatefulSet L a n csum = Inr s \<Longrightarrow> annotated csum (s\<lparr>sts_Meta := m\<rparr>)"
  by (simp add: annotated_def StatefulSet_fields pod_template_def)

lemma updated_annotated: "annotated csum d \<Longrightarrow> annotated csum (updated_sts f d)"
  by (simp add: annotated_def updated_sts_def)

section \<open>Decision table\<close>

text \<open>
  What the phase is meant to do with a StatefulSet that exists, as a table without calls: reject the
  spec, leave the object, write a new version, delete it, or wait for a deletion under way.
\<close>

datatype 'q sts_action = Reject go_error | Keep | Write "'q StatefulSet" | Remove "'q StatefulSet" | AwaitRemoval

definition sts_decision :: "'q StatefulSet \<Rightarrow> 'q StatefulSet \<Rightarrow> 'q sts_action" where
  "sts_decision desired found =
     (case validateVolumeClaimTemplateStorageClassChange
             (sts_VolumeClaimTemplates (sts_Spec found)) (sts_VolumeClaimTemplates (sts_Spec desired)) of
        Some err \<Rightarrow> Reject err
      | None \<Rightarrow>
          if statefulSetRequiresRecreation found desired then
            (if IsZero (DeletionTimestamp (sts_Meta found)) then Remove found else AwaitRemoval)
          else if updated_sts found desired = found then Keep else Write (updated_sts found desired))"

fun action_requests :: "'q sts_action \<Rightarrow> 'q request list" where
  "action_requests (Write s) = [RUpdateStatefulSet s]"
| "action_requests (Remove s) = [RDeleteStatefulSet s]"
| "action_requests _ = []"

fun action_recreates :: "'q sts_action \<Rightarrow> bool" where
  "action_recreates (Remove s) = True"
| "action_recreates AwaitRemoval = True"
| "action_recreates _ = False"

text \<open>
  The calls of the phase refine the table: first requests on claims only, then the requests of the
  decision. A rejection makes no call at all; without an error the decision is carried out and the
  result tells whether the StatefulSet is being replaced.
\<close>

definition sts_outcome :: "'q sts_action \<Rightarrow> go_error + bool \<Rightarrow> 'q entry list \<Rightarrow> bool" where
  "sts_outcome act r l \<longleftrightarrow>
     (case act of Reject err \<Rightarrow> r = Inl err \<and> l = []
      | _ \<Rightarrow> (\<exists>lc lw. l = lc @ lw \<and> list_all claim_entry lc \<and>
               (case r of
                  Inl err \<Rightarrow> lw = [] \<or> map fst lw = action_requests act
                | Inr b \<Rightarrow> map fst lw = action_requests act \<and> b = action_recreates act)))"

lemma sts_outcome_split:
  "list_all claim_entry lc \<Longrightarrow> (\<And>err. act \<noteq> Reject err) \<Longrightarrow>
   (case r of Inl err \<Rightarrow> lw = [] \<or> map fst lw = action_requests act
    | Inr b \<Rightarrow> map fst lw = action_requests act \<and> b = action_recreates act) \<Longrightarrow>
   sts_outcome act r (lc @ lw)"
  unfolding sts_outcome_def by (cases act) (simp_all, blast+)

lemma replaceOrUpdate_alt:
  "replaceOrUpdateStatefulSet L c d f =
     (if statefulSetRequiresRecreation f d then
        (if IsZero (DeletionTimestamp (sts_Meta f)) then
           State_Monad.bind (Delete_StatefulSet c f) (\<lambda>r.
             case r of Inl err \<Rightarrow> if \<not> IsNotFound L err then fail err else ok True | Inr _ \<Rightarrow> ok True)
         else ok True)
      else if updated_sts f d = f then ok False
      else check (Update_StatefulSet c (updated_sts f d)) (\<lambda>_. ok False))"
proof -
  have "(sts_Spec f \<noteq> sts_Spec (updated_sts f d) \<or> Labels (sts_Meta f) \<noteq> Labels (sts_Meta (updated_sts f d)))
      = (updated_sts f d \<noteq> f)"
    unfolding updated_sts_same_iff by blast
  then show ?thesis
    unfolding replaceOrUpdateStatefulSet_def Let_def by (simp only: if_not_P if_P split: if_split) blast
qed

lemma replaceOrUpdate_emits:
  assumes valid: "validateVolumeClaimTemplateStorageClassChange
      (sts_VolumeClaimTemplates (sts_Spec f)) (sts_VolumeClaimTemplates (sts_Spec d)) = None"
    and lc: "list_all claim_entry lc"
  shows "emits (\<lambda>r l. sts_outcome (sts_decision d f) r (lc @ l)) (replaceOrUpdateStatefulSet L (traced c) d f)"
proof -
  have act: "sts_decision d f = (if statefulSetRequiresRecreation f d then
      (if IsZero (DeletionTimestamp (sts_Meta f)) then Remove f else AwaitRemoval)
      else if updated_sts f d = f then Keep else Write (updated_sts f d))"
    using valid by (simp add: sts_decision_def)
  show ?thesis
    unfolding act replaceOrUpdate_alt
    by (auto intro!: emits_rules sts_outcome_split [OF lc] split: sum.split)
qed

lemma ensureExisting_emits:
  "emits (sts_outcome (sts_decision d f)) (ensureExistingStatefulSet L (traced c) a d f)"
proof (cases "validateVolumeClaimTemplateStorageClassChange
    (sts_VolumeClaimTemplates (sts_Spec f)) (sts_VolumeClaimTemplates (sts_Spec d))")
  case (Some err)
  then show ?thesis
    by (auto simp: ensureExistingStatefulSet_def sts_decision_def sts_outcome_def intro!: emits_rules)
next
  case None
  then have not_rejected: "sts_decision d f \<noteq> Reject err" for err
    by (simp add: sts_decision_def)
  have failed: "sts_outcome (sts_decision d f) (Inl e) l" if "list_all claim_entry l" for e l
    using sts_outcome_split [where r = "Inl e" and lw = "[]", OF that not_rejected] by simp
  show ?thesis
    unfolding ensureExistingStatefulSet_def None option.case
    by (rule emits_checkI, rule emits_mono [OF ensureLogPVCStorage_emits])
      (simp add: failed replaceOrUpdate_emits [OF None] split: sum.split)
qed

section \<open>What the API server may complete\<close>

text \<open>
  The API server fills in fields of an object that is written, such as the revision history limit. Two
  versions of a StatefulSet have the same identity when they agree on the fields that cannot be changed
  in place, as far as the operator looks at them: the builder sets all of these, but for a storage class
  that is left open, which the server leaves open in a claim template too.
\<close>

definition same_identity :: "'q StatefulSet \<Rightarrow> 'q StatefulSet \<Rightarrow> bool" where
  "same_identity s s' \<longleftrightarrow>
     sts_ServiceName (sts_Spec s') = sts_ServiceName (sts_Spec s) \<and>
     sts_PodManagementPolicy (sts_Spec s') = sts_PodManagementPolicy (sts_Spec s) \<and>
     sts_Selector (sts_Spec s') = sts_Selector (sts_Spec s) \<and>
     map template_shape (sts_VolumeClaimTemplates (sts_Spec s')) = map template_shape (sts_VolumeClaimTemplates (sts_Spec s))"

lemma same_identity_refl [simp]: "same_identity s s"
  by (simp add: same_identity_def)

lemma same_identity_updated [simp]: "same_identity f (updated_sts f d)"
  by (simp add: same_identity_def)

lemma currentByName_shape:
  "map_option template_shape (currentByName ts n) = map_of (rev (map (\<lambda>sh. (fst sh, sh)) (map template_shape ts))) n"
proof -
  have "rev (map (\<lambda>sh. (fst sh, sh)) (map template_shape ts)) =
      map (\<lambda>(k, t). (k, template_shape t)) (rev (map (\<lambda>t. (Name (pvc_Meta t), t)) ts))"
    by (simp add: rev_map template_shape_def)
  then show ?thesis
    unfolding currentByName_def by (simp only: map_of_map) simp
qed

lemma currentByName_name: "currentByName ts n = Some t \<Longrightarrow> Name (pvc_Meta t) = n"
  unfolding currentByName_def by (auto dest!: map_of_SomeD)

lemma template_found_shape:
  "(case currentByName ts (Name (pvc_Meta d)) of None \<Rightarrow> False | Some t \<Rightarrow> same_template t d) \<longleftrightarrow>
     map_option template_shape (currentByName ts (Name (pvc_Meta d))) = Some (template_shape d)"
proof (cases "currentByName ts (Name (pvc_Meta d))")
  case (Some t)
  then show ?thesis
    using same_template_shape [OF currentByName_name [OF Some]] by simp
qed simp

lemma templates_equal_shape:
  assumes "map template_shape ts' = map template_shape ts"
  shows "volumeClaimTemplatesEqual ts' des = volumeClaimTemplatesEqual ts des"
proof -
  have len: "length ts' = length ts"
    using map_eq_imp_length_eq [OF assms] .
  show ?thesis
    unfolding volumeClaimTemplatesEqual_def template_found_shape currentByName_shape assms len by (rule refl)
qed

lemma recreation_identity:
  assumes "same_identity f f'"
  shows "statefulSetRequiresRecreation f' d = statefulSetRequiresRecreation f d"
proof -
  have fields: "sts_ServiceName (sts_Spec f') = sts_ServiceName (sts_Spec f)"
      "sts_PodManagementPolicy (sts_Spec f') = sts_PodManagementPolicy (sts_Spec f)"
      "sts_Selector (sts_Spec f') = sts_Selector (sts_Spec f)"
      "map template_shape (sts_VolumeClaimTemplates (sts_Spec f')) = map template_shape (sts_VolumeClaimTemplates (sts_Spec f))"
    using assms by (simp_all only: same_identity_def)
  show ?thesis
    unfolding statefulSetRequiresRecreation_def templates_equal_shape [OF fields(4)] fields(1-3) by (rule refl)
qed

lemma validate_identity:
  assumes "same_identity f f'"
  shows "validateVolumeClaimTemplateStorageClassChange (sts_VolumeClaimTemplates (sts_Spec f')) ts =
    validateVolumeClaimTemplateStorageClassChange (sts_VolumeClaimTemplates (sts_Spec f)) ts"
proof -
  let ?c = "sts_VolumeClaimTemplates (sts_Spec f)" and ?c' = "sts_VolumeClaimTemplates (sts_Spec f')"
  have len: "length ?c' = length ?c" and "map template_shape ?c' = map template_shape ?c"
    using assms map_eq_imp_length_eq unfolding same_identity_def by blast+
  then have "length ?c = 1 \<Longrightarrow> template_shape (?c' ! 0) = template_shape (?c ! 0)"
    by (metis less_numeral_extra(1) nth_map)
  then show ?thesis
    using len by (auto simp: validateVolumeClaimTemplateStorageClassChange_def template_shape_def Let_def)
qed

lemma decision_identity:
  assumes "sts_decision d f = Write s" and "same_identity s s'"
  shows "sts_decision d s' = (if updated_sts s' d = s' then Keep else Write (updated_sts s' d))"
proof -
  have s: "s = updated_sts f d" "\<not> statefulSetRequiresRecreation f d"
      "validateVolumeClaimTemplateStorageClassChange (sts_VolumeClaimTemplates (sts_Spec f)) (sts_VolumeClaimTemplates (sts_Spec d)) = None"
    using assms(1) by (auto simp: sts_decision_def split: option.splits if_splits)
  then show ?thesis
    using recreation_identity [OF assms(2)] validate_identity [OF assms(2)] by (simp add: sts_decision_def)
qed

section \<open>Sizes do not matter\<close>

text \<open>A StatefulSet with other sizes in its claim templates.\<close>

definition resized :: "('q PersistentVolumeClaim \<Rightarrow> 'q) \<Rightarrow> 'q StatefulSet \<Rightarrow> 'q StatefulSet" where
  "resized q s = s\<lparr>sts_Spec := (sts_Spec s)\<lparr>sts_VolumeClaimTemplates :=
     map (\<lambda>t. grown (q t) t) (sts_VolumeClaimTemplates (sts_Spec s))\<rparr>\<rparr>"

lemma grown_fields [simp]:
  "pvc_Meta (grown q t) = pvc_Meta t" "pvc_AccessModes (grown q t) = pvc_AccessModes t"
  "pvc_StorageClassName (grown q t) = pvc_StorageClassName t"
  by (simp_all add: grown_def)

lemma currentByName_grown:
  "currentByName (map (\<lambda>t. grown (q t) t) ts) n = map_option (\<lambda>t. grown (q t) t) (currentByName ts n)"
proof -
  have "rev (map (\<lambda>t. (Name (pvc_Meta t), t)) (map (\<lambda>t. grown (q t) t) ts)) =
      map (\<lambda>(k, t). (k, grown (q t) t)) (rev (map (\<lambda>t. (Name (pvc_Meta t), t)) ts))"
    by (simp add: rev_map)
  then show ?thesis
    unfolding currentByName_def by (simp only: map_of_map) simp
qed

lemma templates_equal_grown:
  "volumeClaimTemplatesEqual (map (\<lambda>t. grown (p t) t) cur) (map (\<lambda>t. grown (q t) t) des) =
   volumeClaimTemplatesEqual cur des"
  by (auto simp: volumeClaimTemplatesEqual_def list_all_iff currentByName_grown same_template_def
      split: option.splits)

section \<open>Properties\<close>

text \<open>
  C26: claim templates are equal exactly when they agree, as sets, on names, labels, access modes
  and storage classes; the order of the templates and their sizes play no role.
\<close>

theorem templates_equal_iff:
  assumes "distinct (template_names cur)" and "distinct (template_names des)"
  shows "volumeClaimTemplatesEqual cur des \<longleftrightarrow> set (map template_shape cur) = set (map template_shape des)"
proof
  assume "volumeClaimTemplatesEqual cur des"
  then have "set (map template_shape des) \<subseteq> set (map template_shape cur)" "length cur = length des"
    using templates_equal_subset [OF assms(1)] by blast+
  then show "set (map template_shape cur) = set (map template_shape des)"
    using card_template_shapes [OF assms(1)] card_template_shapes [OF assms(2)]
    by (metis List.finite_set card_subset_eq)
next
  assume eq: "set (map template_shape cur) = set (map template_shape des)"
  then have "length cur = length des"
    using card_template_shapes [OF assms(1)] card_template_shapes [OF assms(2)] by metis
  with eq show "volumeClaimTemplatesEqual cur des"
    using templates_equal_subset [OF assms(1)] by blast
qed

theorem templates_equal_iff_witness:
  "volumeClaimTemplatesEqual [demo_claim ''a'' 1, demo_claim ''b'' 2] [demo_claim ''b'' 3, demo_claim ''a'' 4]"
proof -
  have "distinct (template_names [demo_claim ''a'' 1, demo_claim ''b'' 2])"
    "distinct (template_names [demo_claim ''b'' 3, demo_claim ''a'' 4])"
    by (simp_all add: template_names_def demo_claim_def demo_meta_def)
  from templates_equal_iff [OF this] show ?thesis
    by (simp add: template_shape_def demo_claim_def demo_meta_def insert_commute)
qed

text \<open>Changing only the sizes of claim templates never makes the operator replace a StatefulSet.\<close>

lemma size_change_never_recreates:
  "statefulSetRequiresRecreation (resized p found) (resized q desired) =
   statefulSetRequiresRecreation found desired"
  by (simp add: statefulSetRequiresRecreation_def resized_def templates_equal_grown)

text \<open>
  C7: the calls for an existing StatefulSet carry out the decision table: a rejected spec makes no
  call; otherwise the claims are resized first, then there is the one call of the decision or none;
  without an error the result says whether the StatefulSet is being replaced.
\<close>

theorem existing_statefulset_refines_decision:
  "sts_outcome (sts_decision desired found)
     (fst (run_state (ensureExistingStatefulSet L (traced c) a desired found) (w, [])))
     (entries (ensureExistingStatefulSet L (traced c) a desired found) w)"
  by (rule emits_entries [OF ensureExisting_emits])

text \<open>
  C25: a written StatefulSet keeps every field that the API server refuses to change; and however the
  server completes it in the other fields, the next reconciliation neither rejects nor replaces it: it
  leaves it alone when the fields that the operator writes are still as wanted, and writes them again
  otherwise.
\<close>

theorem written_statefulset_stays:
  assumes "sts_decision desired found = Write s" and "same_identity s s'"
  shows "same_identity found s \<and> sts_VolumeClaimTemplates (sts_Spec s) = sts_VolumeClaimTemplates (sts_Spec found) \<and>
    sts_decision desired s' = (if updated_sts s' desired = s' then Keep else Write (updated_sts s' desired))"
proof -
  have "s = updated_sts found desired"
    using assms(1) by (auto simp: sts_decision_def split: option.splits if_splits)
  with decision_identity [OF assms] show ?thesis
    by simp
qed

definition demo_sts :: "CiscoAciAim \<Rightarrow> nat StatefulSet" where
  "demo_sts a = (case StatefulSet demo_lib a ''aim-config'' ''00'' of Inr s \<Rightarrow> s)"

lemma demo_sts_plain: "StatefulSet demo_lib demo_aim n csum = Inr s \<Longrightarrow> sts_VolumeClaimTemplates (sts_Spec s) = []"
  using StatefulSet_claims(1) [of demo_lib demo_aim n csum s] by (simp add: demo_aim_def default_spec_def)

lemma demo_sts_spec: "StatefulSet demo_lib demo_aim ''aim-config'' ''00'' = Inr (demo_sts demo_aim)"
  by (simp add: demo_sts_def StatefulSet_def demo_aim_def default_spec_def)

definition demo_scaled :: "nat StatefulSet" where
  "demo_scaled = (demo_sts demo_aim)\<lparr>sts_Spec := (sts_Spec (demo_sts demo_aim))\<lparr>sts_Replicas := Some 7\<rparr>\<rparr>"

lemma demo_scaled_decision:
  "sts_decision (demo_sts demo_aim) demo_scaled = Write (updated_sts demo_scaled (demo_sts demo_aim))"
proof -
  have "sts_Replicas (sts_Spec (demo_sts demo_aim)) = Some 1"
    using StatefulSet_fields(4) [OF demo_sts_spec]
    by (simp add: desired_replicas_def demo_aim_def default_spec_def default_replicas_def)
  then have "sts_Replicas (sts_Spec (updated_sts demo_scaled (demo_sts demo_aim))) \<noteq> sts_Replicas (sts_Spec demo_scaled)"
    by (simp add: demo_scaled_def updated_sts_def)
  then have "updated_sts demo_scaled (demo_sts demo_aim) \<noteq> demo_scaled"
    by metis
  then show ?thesis
    by (simp add: sts_decision_def demo_scaled_def validateVolumeClaimTemplateStorageClassChange_def
        statefulSetRequiresRecreation_def volumeClaimTemplatesEqual_def demo_sts_plain [OF demo_sts_spec])
qed

text \<open>The server fills in the revision history limit of the StatefulSet that was scaled back.\<close>

definition demo_defaulted :: "nat StatefulSet \<Rightarrow> nat StatefulSet" where
  "demo_defaulted s = s\<lparr>sts_Spec := (sts_Spec s)\<lparr>sts_RevisionHistoryLimit := Some 10\<rparr>\<rparr>"

lemma demo_defaulted_identity: "same_identity s (demo_defaulted s)"
  by (simp add: same_identity_def demo_defaulted_def)

theorem written_statefulset_stays_witness:
  "sts_decision (demo_sts demo_aim) (demo_defaulted (updated_sts demo_scaled (demo_sts demo_aim))) =
     Write (updated_sts demo_scaled (demo_sts demo_aim))"
proof -
  let ?d = "demo_sts demo_aim" and ?s' = "demo_defaulted (updated_sts demo_scaled (demo_sts demo_aim))"
  have again: "updated_sts ?s' ?d = updated_sts demo_scaled ?d"
    by (simp add: demo_defaulted_def updated_sts_def)
  have "sts_RevisionHistoryLimit (sts_Spec (updated_sts ?s' ?d)) \<noteq> sts_RevisionHistoryLimit (sts_Spec ?s')"
    using StatefulSet_fields(9) [OF demo_sts_spec] by (simp add: updated_limit demo_defaulted_def)
  then have "updated_sts ?s' ?d \<noteq> ?s'"
    by metis
  with written_statefulset_stays [OF demo_scaled_decision demo_defaulted_identity] again show ?thesis
    by simp
qed

text \<open>
  C27: asking for another storage class for the log claim is rejected with an error that names both
  classes, before any call.
\<close>

theorem storage_class_change_rejected:
  assumes "sts_VolumeClaimTemplates (sts_Spec found) = [t]" and "sts_VolumeClaimTemplates (sts_Spec desired) = [t']"
    and "Name (pvc_Meta t) = Name (pvc_Meta t')" and "pvc_StorageClassName t \<noteq> pvc_StorageClassName t'"
  shows "ensureExistingStatefulSet L c a desired found =
    fail (TemplateStorageClassChanged (storageClassName (pvc_StorageClassName t))
            (storageClassName (pvc_StorageClassName t')))"
  using assms by (simp add: ensureExistingStatefulSet_def validateVolumeClaimTemplateStorageClassChange_def)

definition demo_with_claim :: "string option \<Rightarrow> nat StatefulSet" where
  "demo_with_claim cls = (demo_sts demo_aim)\<lparr>sts_Spec := (sts_Spec (demo_sts demo_aim))
     \<lparr>sts_VolumeClaimTemplates := [(demo_claim ''aim-logs'' 1)\<lparr>pvc_StorageClassName := cls\<rparr>]\<rparr>\<rparr>"

theorem storage_class_change_rejected_witness:
  "ensureExistingStatefulSet demo_lib demo_client demo_aim (demo_with_claim (Some ''fast'')) (demo_with_claim None) =
     fail (TemplateStorageClassChanged ''<default>'' ''fast'')"
  by (subst storage_class_change_rejected [where t = "(demo_claim ''aim-logs'' 1)\<lparr>pvc_StorageClassName := None\<rparr>"
        and t' = "(demo_claim ''aim-logs'' 1)\<lparr>pvc_StorageClassName := Some ''fast''\<rparr>"])
    (simp_all add: demo_with_claim_def storageClassName_def)

text \<open>
  C39: a StatefulSet whose revision history limit was filled in by the API server is never up to date
  for a built StatefulSet, which has none: it is written again by every reconciliation.
\<close>

theorem defaulted_limit_rewritten:
  assumes "StatefulSet L a configMapName csum = Inr desired"
    and "sts_RevisionHistoryLimit (sts_Spec found) \<noteq> None"
  shows "sts_decision desired found \<noteq> Keep"
proof
  assume "sts_decision desired found = Keep"
  then have "updated_sts found desired = found"
    by (auto simp: sts_decision_def split: option.splits if_splits)
  then have "sts_RevisionHistoryLimit (sts_Spec found) = sts_RevisionHistoryLimit (sts_Spec desired)"
    by (metis updated_limit)
  with assms StatefulSet_fields(9) [OF assms(1)] show False
    by simp
qed

theorem defaulted_limit_rewritten_witness:
  "sts_decision (demo_sts demo_aim)
     ((demo_sts demo_aim)\<lparr>sts_Spec := (sts_Spec (demo_sts demo_aim))\<lparr>sts_RevisionHistoryLimit := Some 10\<rparr>\<rparr>) \<noteq> Keep"
  by (rule defaulted_limit_rewritten [OF demo_sts_spec]) simp

end
