(* ===== verification/Controller.thy ===== *)
theory Controller
  imports Config_Map Dependencies Config_Output Sts_Reconcile
begin

text \<open>
  The reconciler (\<open>src/internal/controller/ciscoaciaim_controller.go\<close>): \<open>Reconcile\<close>, the functions
  that map a changed secret to the instances to reconcile, and the watches of \<open>SetupWithManager\<close>.

  \<open>Reconcile\<close> is a computation over the cluster state. Its parameters are the libraries \<open>L\<close>, the
  client \<open>c\<close>, the file system \<open>fs\<close> and the iteration order of maps \<open>rng\<close>; a Go result
  \<open>(ctrl.Result{...}, nil)\<close> is \<open>Inr\<close>, and \<open>(ctrl.Result{}, err)\<close> is \<open>Inl\<close>.
\<close>

text \<open>A requeue delay in nanoseconds (\<open>time.Duration\<close>); 0 means that none was asked for.\<close>

record Result =
  RequeueAfter :: int64

definition time_Second :: int64 where
  "time_Second = 1000000000"

abbreviation no_requeue :: Result where
  "no_requeue \<equiv> \<lparr>RequeueAfter = 0\<rparr>"

text \<open>
  \<open>Reconcile\<close> in three parts: it fetches the instance, collects what the configuration files need,
  and then brings the objects of the instance up to date and reports.
\<close>

definition reconcileObjects ::
    "'q Lib \<Rightarrow> ('w, 'q) Client \<Rightarrow> range_order \<Rightarrow> CiscoAciAim \<Rightarrow> string gomap \<Rightarrow> ('w, go_error, Result) call" where
  "reconcileObjects L c rng instance2 configFiles =
     (let configMapChecksum = GenerateConfigMapChecksum rng configFiles in
      check (ensureConfigMap L c instance2 configFiles) (\<lambda>configMap.
      check (ensureRabbitMQCaSecret L c instance2) (\<lambda>_.
      check (ensureStatefulSet L c instance2 configMap configMapChecksum) (\<lambda>recreateStatefulSet.
      if recreateStatefulSet then ok \<lparr>RequeueAfter = time_Second\<rparr>
      else
        let instance3 = setCondition L instance2 ConditionAimReady ''True'' ''DeploymentReady''
                          ''Aim deployment is ready''
        in check (UpdateStatus_CiscoAciAim c instance3) (\<lambda>_. ok no_requeue)))))"

definition reconcileInstance ::
    "'q Lib \<Rightarrow> ('w, 'q) Client \<Rightarrow> file_system \<Rightarrow> range_order \<Rightarrow> CiscoAciAim \<Rightarrow> ('w, go_error, Result) call" where
  "reconcileInstance L c fs rng instance0 =
     check (ensureDB L c instance0) (\<lambda>(dbConn, instance1).
     if dbConn = [] then ok \<lparr>RequeueAfter = 10 * time_Second\<rparr>
     else
       check (ensureMessageBus L c instance1) (\<lambda>(busConn, instance2).
       State_Monad.bind (getNeutronRabbitConfig c instance2) (\<lambda>rabbit.
       case generateConfigFiles fs rng instance2 dbConn busConn rabbit of
         Inl err \<Rightarrow> fail err
       | Inr configFiles \<Rightarrow> reconcileObjects L c rng instance2 configFiles)))"

definition Reconcile ::
    "'q Lib \<Rightarrow> ('w, 'q) Client \<Rightarrow> file_system \<Rightarrow> range_order \<Rightarrow> NamespacedName \<Rightarrow> ('w, go_error, Result) call" where
  "Reconcile L c fs rng req =
     State_Monad.bind (Get_CiscoAciAim c req) (\<lambda>r.
       case r of
         Inl err \<Rightarrow> if IsNotFound L err then ok no_requeue else fail err
       | Inr instance0 \<Rightarrow> reconcileInstance L c fs rng instance0)"

section \<open>Watches\<close>

text \<open>The objects an event handler can be given: a secret, or an object of another type.\<close>

datatype Object = SecretObject Secret | OtherObject json

definition requests_of :: "CiscoAciAimList \<Rightarrow> NamespacedName list" where
  "requests_of aimList = map (\<lambda>aim. \<lparr>nn_Namespace = aim_Namespace aim, nn_Name = aim_Name aim\<rparr>) (Items aimList)"

definition mapMariaDBSecretToCiscoAciAim ::
    "('w, 'q) Client \<Rightarrow> Object \<Rightarrow> ('w, NamespacedName list) state" where
  "mapMariaDBSecretToCiscoAciAim c obj =
     (case obj of
        OtherObject j \<Rightarrow> State_Monad.return []
      | SecretObject secret \<Rightarrow>
          if Name (sec_Meta secret) = ''neutron-db-secret'' \<and> Namespace (sec_Meta secret) = ''openstack'' then
            State_Monad.bind (List_CiscoAciAim c ''openstack'') (\<lambda>r.
              case r of Inl err \<Rightarrow> State_Monad.return [] | Inr aimList \<Rightarrow> State_Monad.return (requests_of aimList))
          else State_Monad.return [])"

definition mapRabbitMQSecretToCiscoAciAim ::
    "('w, 'q) Client \<Rightarrow> Object \<Rightarrow> ('w, NamespacedName list) state" where
  "mapRabbitMQSecretToCiscoAciAim c obj =
     (case obj of
        OtherObject j \<Rightarrow> State_Monad.return []
      | SecretObject secret \<Rightarrow>
          if Name (sec_Meta secret) = ''rabbitmq-transport-url-neutron-neutron-transport''
             \<and> Namespace (sec_Meta secret) = ''openstack'' then
            State_Monad.bind (List_CiscoAciAim c ''openstack'') (\<lambda>r.
              case r of Inl err \<Rightarrow> State_Monad.return [] | Inr aimList \<Rightarrow> State_Monad.return (requests_of aimList))
          else State_Monad.return [])"

definition mapNeutronConfigSecretToCiscoAciAim ::
    "('w, 'q) Client \<Rightarrow> Object \<Rightarrow> ('w, NamespacedName list) state" where
  "mapNeutronConfigSecretToCiscoAciAim c obj =
     (case obj of
        OtherObject j \<Rightarrow> State_Monad.return []
      | SecretObject secret \<Rightarrow>
          if Name (sec_Meta secret) = ''neutron-dhcp-agent-neutron-config''
             \<and> Namespace (sec_Meta secret) = ''openstack'' then
            State_Monad.bind (List_CiscoAciAim c ''openstack'') (\<lambda>r.
              case r of Inl err \<Rightarrow> State_Monad.return [] | Inr aimList \<Rightarrow> State_Monad.return (requests_of aimList))
          else State_Monad.return [])"

text \<open>
  What \<open>SetupWithManager\<close> registers: the kind that is reconciled, the kinds whose owner is, and the
  handlers of the watched secrets, in the order of the calls.
\<close>

datatype ('w, 'q) registration =
    For string
  | Owns string
  | Watches string "('w, 'q) Client \<Rightarrow> Object \<Rightarrow> ('w, NamespacedName list) state"

definition SetupWithManager :: "('w, 'q) registration list" where
  "SetupWithManager =
     [For ''CiscoAciAim'', Owns ''StatefulSet'',
      Watches ''Secret'' mapMariaDBSecretToCiscoAciAim,
      Watches ''Secret'' mapRabbitMQSecretToCiscoAciAim,
      Watches ''Secret'' mapNeutronConfigSecretToCiscoAciAim]"

section \<open>The contract of a watched secret\<close>

text \<open>
  A handler that reacts to one secret: for that secret it asks for the listed instances, in the
  order of the list, and for nothing when the list fails; for any other object it makes no call.
\<close>

locale secret_watch =
  fixes handler :: "('w, 'q) Client \<Rightarrow> Object \<Rightarrow> ('w, NamespacedName list) state"
    and watched :: NamespacedName
  assumes hit: "Name (sec_Meta s) = nn_Name watched \<Longrightarrow> Namespace (sec_Meta s) = nn_Namespace watched \<Longrightarrow>
      run_state (handler c (SecretObject s)) w =
        (case run_state (List_CiscoAciAim c (nn_Namespace watched)) w of
           (Inl err, w') \<Rightarrow> ([], w') | (Inr l, w') \<Rightarrow> (requests_of l, w'))"
    and miss: "\<not> (Name (sec_Meta s) = nn_Name watched \<and> Namespace (sec_Meta s) = nn_Namespace watched) \<Longrightarrow>
      run_state (handler c (SecretObject s)) w = ([], w)"
    and other: "run_state (handler c (OtherObject j)) w = ([], w)"
begin

lemma asks_for:
  assumes "run_state (handler c ob) w = (rs, w')" and "rq \<in> set rs"
  shows "\<exists>s l. ob = SecretObject s \<and> Name (sec_Meta s) = nn_Name watched \<and>
    Namespace (sec_Meta s) = nn_Namespace watched \<and>
    run_state (List_CiscoAciAim c (nn_Namespace watched)) w = (Inr l, w') \<and> rs = requests_of l"
proof (cases ob)
  case (SecretObject s)
  show ?thesis
  proof (cases "Name (sec_Meta s) = nn_Name watched \<and> Namespace (sec_Meta s) = nn_Namespace watched")
    case True
    with SecretObject assms show ?thesis
      using hit [of s c w] by (auto split: prod.splits sum.splits)
  next
    case False
    with SecretObject assms show ?thesis
      using miss [of s c w] by simp
  qed
next
  case (OtherObject j)
  with assms other [of c j w] show ?thesis
    by simp
qed

lemma covers:
  assumes "Name (sec_Meta s) = nn_Name watched" "Namespace (sec_Meta s) = nn_Namespace watched"
    and "run_state (List_CiscoAciAim c (nn_Namespace watched)) w = (Inr l, w')" and "a \<in> set (Items l)"
  shows "key (aim_Namespace a) (aim_Name a) \<in> set (fst (run_state (handler c (SecretObject s)) w))"
  using assms hit [of s c w] by (auto simp: requests_of_def key_def)

end

interpretation mariadb: secret_watch mapMariaDBSecretToCiscoAciAim "key ''openstack'' ''neutron-db-secret''"
  by unfold_locales
    (auto simp: mapMariaDBSecretToCiscoAciAim_def key_def split: prod.splits sum.splits)

interpretation rabbitmq: secret_watch mapRabbitMQSecretToCiscoAciAim "key ''openstack'' rabbit_secret_name"
  by unfold_locales
    (auto simp: mapRabbitMQSecretToCiscoAciAim_def key_def rabbit_secret_name_def split: prod.splits sum.splits)

interpretation neutron: secret_watch mapNeutronConfigSecretToCiscoAciAim
  "key ''openstack'' ''neutron-dhcp-agent-neutron-config''"
  by unfold_locales
    (auto simp: mapNeutronConfigSecretToCiscoAciAim_def key_def split: prod.splits sum.splits)

section \<open>Properties\<close>

text \<open>
  C36: which changed secrets lead to a reconciliation of a listed instance: the three secrets with the
  fixed names in the namespace \<open>openstack\<close>, and no others. In particular a database secret of an
  account not called \<open>neutron\<close>, or any secret of another namespace, is not noticed.
\<close>

definition watched_names :: "string list" where
  "watched_names = [''neutron-db-secret'', rabbit_secret_name, ''neutron-dhcp-agent-neutron-config'']"

theorem watched_secrets:
  assumes "run_state (List_CiscoAciAim c ''openstack'') w = (Inr l, w')" and "a \<in> set (Items l)"
  shows "(\<exists>h. Watches ''Secret'' h \<in> set SetupWithManager \<and>
            key (aim_Namespace a) (aim_Name a) \<in> set (fst (run_state (h c (SecretObject s)) w))) \<longleftrightarrow>
         Namespace (sec_Meta s) = ''openstack'' \<and> Name (sec_Meta s) \<in> set watched_names"
proof
  assume "\<exists>h. Watches ''Secret'' h \<in> set SetupWithManager \<and>
      key (aim_Namespace a) (aim_Name a) \<in> set (fst (run_state (h c (SecretObject s)) w))"
  then obtain h where h: "Watches ''Secret'' h \<in> set SetupWithManager"
    and rq: "key (aim_Namespace a) (aim_Name a) \<in> set (fst (run_state (h c (SecretObject s)) w))"
    by blast
  obtain rs w2 where run: "run_state (h c (SecretObject s)) w = (rs, w2)"
    by fastforce
  with h rq show "Namespace (sec_Meta s) = ''openstack'' \<and> Name (sec_Meta s) \<in> set watched_names"
    by (auto simp: SetupWithManager_def watched_names_def key_def
        dest!: mariadb.asks_for rabbitmq.asks_for neutron.asks_for)
next
  assume "Namespace (sec_Meta s) = ''openstack'' \<and> Name (sec_Meta s) \<in> set watched_names"
  with assms show "\<exists>h. Watches ''Secret'' h \<in> set SetupWithManager \<and>
      key (aim_Namespace a) (aim_Name a) \<in> set (fst (run_state (h c (SecretObject s)) w))"
    using mariadb.covers [of s c w l w' a] rabbitmq.covers [of s c w l w' a] neutron.covers [of s c w l w' a]
    unfolding SetupWithManager_def watched_names_def key_def by auto
qed

theorem watched_secrets_witness:
  "\<exists>h. Watches ''Secret'' h \<in> set SetupWithManager \<and>
     key ''openstack'' ''aim'' \<in> set (fst (run_state (h demo_client (SecretObject (demo_secret ''neutron-db-secret'' []))) demo_cluster))"
proof -
  have run: "run_state (List_CiscoAciAim demo_client ''openstack'') demo_cluster = (Inr \<lparr>Items = [demo_aim]\<rparr>, demo_cluster)"
    by (simp add: demo_client_def demo_cluster_def key_def List.map_filter_simps)
  have "demo_aim \<in> set (Items \<lparr>Items = [demo_aim]\<rparr>)"
    by simp
  from watched_secrets [OF run this, of "demo_secret ''neutron-db-secret'' []"] show ?thesis
    by (simp add: demo_secret_def demo_meta_def demo_aim_def watched_names_def)
qed

end
