(* ===== verification/Request_Order.thy ===== *)
theory Request_Order
  imports Config_Map Dependencies Sts_Reconcile
begin

text \<open>
  The order of the write requests of one reconciliation. Every write belongs to a stage: the
  ConfigMap, the CA secret, the log claims, the StatefulSet, the status. \<open>staged lo hi done l\<close> says
  that the writes of a record \<open>l\<close> are in the stages from \<open>lo\<close> to \<open>hi\<close> and in this order, with at most
  one write per stage except for the claims, and that no write follows a failed one; with \<open>done\<close>,
  that none failed.
\<close>

fun stage :: "'q request \<Rightarrow> nat" where
  "stage (RGet k n) = 0"
| "stage (RList k ns) = 0"
| "stage (RCreateConfigMap cm) = 1"
| "stage (RUpdateConfigMap cm) = 1"
| "stage (RCreateSecret s) = 2"
| "stage (RUpdateSecret s) = 2"
| "stage (RUpdateClaim p) = 3"
| "stage (RCreateStatefulSet s) = 4"
| "stage (RUpdateStatefulSet s) = 4"
| "stage (RDeleteStatefulSet s) = 4"
| "stage (RUpdateStatus a) = 5"

definition in_order :: "'q entry \<Rightarrow> 'q entry \<Rightarrow> bool" where
  "in_order e e' \<longleftrightarrow> stage (fst e) < stage (fst e') \<or> stage (fst e) = 3 \<and> stage (fst e') = 3"

definition staged :: "nat \<Rightarrow> nat \<Rightarrow> bool \<Rightarrow> 'q entry list \<Rightarrow> bool" where
  "staged lo hi all l \<longleftrightarrow>
     sorted_wrt in_order (writes l) \<and>
     list_all (\<lambda>e. lo \<le> stage (fst e) \<and> stage (fst e) \<le> hi) (writes l) \<and>
     list_all snd (if all then writes l else butlast (writes l))"

lemma staged_reads: "writes l = [] \<Longrightarrow> staged lo hi all l"
  by (simp add: staged_def)

lemma staged_simps [simp]:
  "staged lo hi all []"
  "staged lo hi all [(rq, b)] \<longleftrightarrow> (is_write rq \<longrightarrow> lo \<le> stage rq \<and> stage rq \<le> hi \<and> (all \<longrightarrow> b))"
  "\<not> is_write rq \<Longrightarrow> staged lo hi all ((rq, b) # l) \<longleftrightarrow> staged lo hi all l"
  by (auto simp: staged_def)

text \<open>No write follows a failed one.\<close>

definition succeeded :: "bool \<Rightarrow> 'q entry list \<Rightarrow> bool" where
  "succeeded all ws \<longleftrightarrow> list_all snd (if all then ws else butlast ws)"

lemma succeeded_append: "list_all snd xs \<Longrightarrow> succeeded all ys \<Longrightarrow> succeeded all (xs @ ys)"
  by (cases "ys = []") (auto simp: succeeded_def butlast_append list_all_iff dest: in_set_butlastD)

lemma succeeded_weaken: "succeeded all ws \<Longrightarrow> (all' \<longrightarrow> all) \<Longrightarrow> succeeded all' ws"
  by (auto simp: succeeded_def list_all_iff split: if_splits dest: in_set_butlastD)

lemma staged_alt:
  "staged lo hi all l \<longleftrightarrow>
     sorted_wrt in_order (writes l) \<and>
     (\<forall>e \<in> set (writes l). lo \<le> stage (fst e) \<and> stage (fst e) \<le> hi) \<and> succeeded all (writes l)"
  by (simp add: staged_def list_all_iff succeeded_def)

lemma staged_append:
  assumes l: "staged lo m True l" and l': "staged m' hi all l'" and "m < m'" "lo \<le> m'" "m \<le> hi"
  shows "staged lo hi all (l @ l')"
proof -
  have "in_order e e'" if "e \<in> set (writes l)" "e' \<in> set (writes l')" for e e'
    using that assms by (fastforce simp: staged_alt in_order_def)
  moreover have "succeeded all (writes l @ writes l')"
    using l l' by (intro succeeded_append) (simp_all add: staged_alt succeeded_def)
  ultimately show ?thesis
    using assms by (fastforce simp: staged_alt sorted_wrt_append)
qed

lemma staged_weaken: "staged lo hi all l \<Longrightarrow> (all' \<longrightarrow> all) \<Longrightarrow> staged lo hi all' l"
  by (auto simp: staged_alt intro: succeeded_weaken)

lemma staged_range: "staged lo hi all l \<Longrightarrow> lo' \<le> lo \<Longrightarrow> hi \<le> hi' \<Longrightarrow> staged lo' hi' all l"
  by (fastforce simp: staged_alt)

lemma staged_one_write:
  assumes "one_write P r l" and "\<And>rq. P rq \<Longrightarrow> stage rq = k"
  shows "staged k k (\<not> isl r) l"
  using assms unfolding one_write_def by (auto simp: staged_def)

section \<open>The stages\<close>

lemma config_map_stage: "config_map_request rq \<Longrightarrow> stage rq = 1"
  by (cases rq) simp_all

lemma secret_stage: "secret_request rq \<Longrightarrow> stage rq = 2"
  by (cases rq) simp_all

lemma ensureConfigMap_staged: "emits (\<lambda>r l. staged 1 1 (\<not> isl r) l) (ensureConfigMap L (traced c) a d)"
  by (rule emits_mono [OF ensureConfigMap_emits]) (blast intro: staged_one_write config_map_stage)

lemma ensureRabbitMQCaSecret_staged:
  "emits (\<lambda>r l. staged 2 2 (\<not> isl r) l) (ensureRabbitMQCaSecret L (traced c) a)"
  by (rule emits_mono [OF ensureRabbitMQCaSecret_emits]) (blast intro: staged_one_write secret_stage)

lemma staged_claim_Cons:
  "staged 3 3 all l \<Longrightarrow> staged 3 3 all ((RUpdateClaim x, True) # l)"
  by (auto simp: staged_def in_order_def list_all_iff)

lemma resize_claims_staged:
  "emits (\<lambda>r l. staged 3 3 (\<not> isl r) l) (resize_claims L (traced c) pre q cls claims)"
proof (induction claims)
  case Nil
  show ?case
    by (auto intro!: emits_rules staged_reads)
next
  case (Cons claim claims)
  have "emits (\<lambda>r l. staged 3 3 (\<not> isl r) ((RUpdateClaim x, True) # l))
      (resize_claims L (traced c) pre q cls claims)" for x
    by (rule emits_mono [OF Cons.IH]) (rule staged_claim_Cons)
  then show ?case
    using Cons.IH
    by (auto intro!: emits_rules split: sum.split)
qed

lemma ensureLogPVCStorage_staged:
  "emits (\<lambda>r l. staged 3 3 (\<not> isl r) l) (ensureLogPVCStorage L (traced c) a)"
  by (auto simp: ensureLogPVCStorage_def split: option.split sum.split intro!: emits_rules)
    (rule emits_mono [OF resize_claims_staged], simp)

lemma replaceOrUpdate_staged:
  "emits (\<lambda>r l. staged 4 4 (r = Inr False) l) (replaceOrUpdateStatefulSet L (traced c) d f)"
  unfolding replaceOrUpdate_alt
  by (auto split: sum.split intro!: emits_rules)

lemma staged_claims_only: "staged 3 3 all l \<Longrightarrow> staged 3 4 all l"
  by (erule staged_range) simp_all

lemma ensureExisting_staged:
  "emits (\<lambda>r l. staged 3 4 (r = Inr False) l) (ensureExistingStatefulSet L (traced c) a d f)"
proof -
  have "emits (\<lambda>r l'. staged 3 4 (r = Inr False) (l @ l')) (replaceOrUpdateStatefulSet L (traced c) d f)"
    if "staged 3 3 True l" for l
    by (rule emits_mono [OF replaceOrUpdate_staged]) (rule staged_append [OF that], assumption, simp_all)
  then show ?thesis
    unfolding ensureExistingStatefulSet_def
    by (auto split: option.split sum.split intro!: emits_rules
        emits_mono [OF ensureLogPVCStorage_staged])
      (rule staged_claims_only)
qed

lemma ensureStatefulSet_staged:
  "emits (\<lambda>r l. staged 3 4 (r = Inr False) l) (ensureStatefulSet L (traced c) a cm s)"
  unfolding ensureStatefulSet_def Let_def
  by (auto split: sum.split intro!: emits_rules emits_mono [OF ensureExisting_staged])

end
