(* ===== verification/Reconcile_Trace.thy ===== *)
theory Reconcile_Trace
  imports Controller Request_Order
begin

text \<open>
  What one call of \<open>Reconcile\<close> does to the cluster: the order of its writes, what the written objects
  have in common, and how its result relates to the status it reports.
\<close>

section \<open>Contents of the written objects\<close>

text \<open>
  A written ConfigMap holds the generated files, and the pod template of a written StatefulSet is
  annotated with their checksum.
\<close>

fun carries :: "range_order \<Rightarrow> string gomap \<Rightarrow> 'q request \<Rightarrow> bool" where
  "carries rng files (RCreateConfigMap cm) \<longleftrightarrow> cm_Data cm = files"
| "carries rng files (RUpdateConfigMap cm) \<longleftrightarrow> cm_Data cm = files"
| "carries rng files (RCreateStatefulSet s) \<longleftrightarrow> annotated (GenerateConfigMapChecksum rng files) s"
| "carries rng files (RUpdateStatefulSet s) \<longleftrightarrow> annotated (GenerateConfigMapChecksum rng files) s"
| "carries rng files _ \<longleftrightarrow> True"

definition all_carry :: "range_order \<Rightarrow> string gomap \<Rightarrow> 'q entry list \<Rightarrow> bool" where
  "all_carry rng files l \<longleftrightarrow> list_all (\<lambda>e. carries rng files (fst e)) l"

lemma all_carry_simps [simp]:
  "all_carry rng files []"
  "all_carry rng files (e # l) \<longleftrightarrow> carries rng files (fst e) \<and> all_carry rng files l"
  "all_carry rng files (l @ l') \<longleftrightarrow> all_carry rng files l \<and> all_carry rng files l'"
  by (simp_all add: all_carry_def)

lemma reads_carry: "\<not> is_write rq \<Longrightarrow> carries rng files rq"
  by (cases rq) simp_all

lemma writes_carry: "writes l = [] \<Longrightarrow> all_carry rng files l"
  by (induction l) (auto simp: reads_carry split: if_splits)

lemma claims_carry: "list_all claim_entry l \<Longrightarrow> all_carry rng files l"
proof (induction l)
  case (Cons e l)
  then show ?case
    by (cases e; cases "fst e") simp_all
qed simp

lemma one_write_carries:
  "one_write P r l \<Longrightarrow> (\<And>rq. P rq \<Longrightarrow> carries rng files rq) \<Longrightarrow> all_carry rng files l"
proof (induction l)
  case (Cons e l)
  then show ?case
    by (cases "is_write (fst e)") (auto simp: one_write_def reads_carry writes_carry)
qed simp

lemma ensureConfigMap_carries:
  "emits (\<lambda>r l. all_carry rng files l) (ensureConfigMap L (traced c) a files)"
  by (auto simp: ensureConfigMap_def applyConfigMap_def Let_def ConfigMap_def split: sum.split intro!: emits_rules)

lemma secret_carries: "secret_request rq \<Longrightarrow> carries rng files rq"
  by (cases rq) simp_all

lemma ensureRabbitMQCaSecret_carries:
  "emits (\<lambda>r l. all_carry rng files l) (ensureRabbitMQCaSecret L (traced c) a)"
  by (rule emits_mono [OF ensureRabbitMQCaSecret_emits]) (blast intro: one_write_carries secret_carries)

lemma replaceOrUpdate_carries:
  assumes "annotated (GenerateConfigMapChecksum rng files) d"
  shows "emits (\<lambda>r l. all_carry rng files l) (replaceOrUpdateStatefulSet L (traced c) d f)"
  unfolding replaceOrUpdate_alt
  by (auto simp: updated_annotated [OF assms] split: sum.split intro!: emits_rules)

lemma ensureExisting_carries:
  assumes "annotated (GenerateConfigMapChecksum rng files) d"
  shows "emits (\<lambda>r l. all_carry rng files l) (ensureExistingStatefulSet L (traced c) a d f)"
  unfolding ensureExistingStatefulSet_def
  by (auto simp: claims_carry split: option.split sum.split intro!: emits_rules
      emits_mono [OF ensureLogPVCStorage_emits] replaceOrUpdate_carries [OF assms])

lemma ensureStatefulSet_carries:
  "emits (\<lambda>r l. all_carry rng files l)
     (ensureStatefulSet L (traced c) a cm (GenerateConfigMapChecksum rng files))"
  unfolding ensureStatefulSet_def Let_def
  by (auto simp: built_annotated split: sum.split intro!: emits_rules ensureExisting_carries)

section \<open>The second half of a reconciliation\<close>

definition ready :: "'q Lib \<Rightarrow> CiscoAciAim \<Rightarrow> CiscoAciAim" where
  "ready L a = setCondition L a ConditionAimReady ''True'' ''DeploymentReady'' ''Aim deployment is ready''"

text \<open>
  The status is reported in the last request, after everything else succeeded, and the result tells
  whether that worked; while the StatefulSet is being replaced there is no report but a short requeue.
\<close>

definition reported :: "'q Lib \<Rightarrow> CiscoAciAim \<Rightarrow> go_error + Result \<Rightarrow> 'q entry list \<Rightarrow> bool" where
  "reported L a r l \<longleftrightarrow>
     (\<exists>l'. staged 1 4 (r = Inr no_requeue) l' \<and>
        (case r of
           Inl err \<Rightarrow> l = l' \<or> l = l' @ [(RUpdateStatus (ready L a), False)] \<and> staged 1 4 True l'
         | Inr res \<Rightarrow>
             res = no_requeue \<and> l = l' @ [(RUpdateStatus (ready L a), True)] \<or>
             res = \<lparr>RequeueAfter = time_Second\<rparr> \<and> l = l'))"

lemma reported_fail: "staged 1 4 False l \<Longrightarrow> reported L a (Inl e) l"
  by (auto simp: reported_def)

lemma reported_wait: "staged 1 4 False l \<Longrightarrow> reported L a (Inr \<lparr>RequeueAfter = time_Second\<rparr>) l"
  by (auto simp: reported_def time_Second_def)

lemma reported_done: "staged 1 4 True l \<Longrightarrow> reported L a (Inr no_requeue) (l @ [(RUpdateStatus (ready L a), True)])"
  by (auto simp: reported_def)

lemma reported_not_done: "staged 1 4 True l \<Longrightarrow> reported L a (Inl e) (l @ [(RUpdateStatus (ready L a), False)])"
  by (auto simp: reported_def intro!: exI [of _ l] staged_weaken [of _ _ True])

lemma status_report_emits:
  assumes "staged 1 4 True l"
  shows "emits (\<lambda>r l'. reported L a r (l @ l')) (check (UpdateStatus_CiscoAciAim (traced c) (ready L a)) (\<lambda>_. ok no_requeue))"
  using assms by (auto split: sum.split intro!: emits_rules reported_not_done reported_done)

lemma workload_emits:
  assumes "staged 1 2 True l"
  shows "emits (\<lambda>r l'. reported L a r (l @ l'))
     (check (ensureStatefulSet L (traced c) a cm csum) (\<lambda>recreate.
        if recreate then ok \<lparr>RequeueAfter = time_Second\<rparr>
        else check (UpdateStatus_CiscoAciAim (traced c) (ready L a)) (\<lambda>_. ok no_requeue)))"
proof -
  have whole: "staged 1 4 b (l @ l')" if "staged 3 4 b l'" for b l'
    by (rule staged_append [OF assms that]) simp_all
  have "emits (\<lambda>r l''. reported L a r (l @ l' @ l'')) (ok \<lparr>RequeueAfter = time_Second\<rparr>)"
    if "staged 3 4 False l'" for l'
    using whole [OF that] by (auto intro!: emits_return reported_wait)
  moreover have "emits (\<lambda>r l''. reported L a r (l @ l' @ l''))
      (check (UpdateStatus_CiscoAciAim (traced c) (ready L a)) (\<lambda>_. ok no_requeue))"
    if "staged 3 4 True l'" for l'
    using status_report_emits [OF whole [OF that], of L a c] by simp
  moreover have "reported L a (Inl e) (l @ l')" if "staged 3 4 False l'" for e l'
    using whole [OF that] by (rule reported_fail)
  ultimately show ?thesis
    by (intro emits_checkI emits_mono [OF ensureStatefulSet_staged]) (auto split: sum.splits)
qed

lemma secrets_emits:
  assumes "staged 1 1 True l"
    and "\<And>l'. staged 1 2 True (l @ l') \<Longrightarrow> emits (\<lambda>r l''. reported L a r ((l @ l') @ l'')) k"
  shows "emits (\<lambda>r l'. reported L a r (l @ l')) (check (ensureRabbitMQCaSecret L (traced c) a) (\<lambda>_. k))"
proof -
  have whole: "staged 1 2 b (l @ l')" if "staged 2 2 b l'" for b l'
    by (rule staged_append [OF assms(1) that]) simp_all
  have "reported L a (Inl e) (l @ l')" if "staged 2 2 False l'" for e l'
    by (rule reported_fail, rule staged_range [OF whole [OF that]]) simp_all
  with whole assms(2) show ?thesis
    by (intro emits_checkI emits_mono [OF ensureRabbitMQCaSecret_staged]) (auto split: sum.splits)
qed

lemma reconcileObjects_reported:
  "emits (reported L a) (reconcileObjects L (traced c) rng a files)"
proof -
  have "reported L a (Inl e) l" if "staged 1 1 False l" for e l
    by (rule reported_fail, rule staged_range [OF that]) simp_all
  then show ?thesis
    unfolding reconcileObjects_def Let_def ready_def [symmetric]
    by (intro emits_checkI emits_mono [OF ensureConfigMap_staged])
      (auto split: sum.splits intro!: secrets_emits workload_emits)
qed

lemma reconcileObjects_carries:
  "emits (\<lambda>r l. all_carry rng files l) (reconcileObjects L (traced c) rng a files)"
  unfolding reconcileObjects_def Let_def
  by (intro emits_checkI emits_mono [OF ensureConfigMap_carries])
    (auto split: sum.splits intro!: emits_rules emits_mono [OF ensureRabbitMQCaSecret_carries]
      emits_mono [OF ensureStatefulSet_carries])

section \<open>From the instance to the report\<close>

text \<open>
  What the collecting half hands over: the files generated from the fetched instance and its
  dependencies, and the instance itself, changed at most in its conditions.
\<close>

definition db_ready :: "'q Lib \<Rightarrow> CiscoAciAim \<Rightarrow> CiscoAciAim" where
  "db_ready L a = setCondition L a ConditionDBReady ''True'' ''DBReady'' ''Database connection is ready''"

definition bus_ready :: "'q Lib \<Rightarrow> CiscoAciAim \<Rightarrow> CiscoAciAim" where
  "bus_ready L a =
     setCondition L a ConditionRabbitMQReady ''True'' ''RabbitMQReady'' ''RabbitMQ transport URL is ready''"

definition prepared :: "'q Lib \<Rightarrow> CiscoAciAim \<Rightarrow> CiscoAciAim \<Rightarrow> bool" where
  "prepared L a b \<longleftrightarrow> b = db_ready L a \<or> b = bus_ready L (db_ready L a)"

text \<open>The whole of a reconciliation of an instance \<open>a\<close>.\<close>

definition instance_outcome ::
    "'q Lib \<Rightarrow> range_order \<Rightarrow> CiscoAciAim \<Rightarrow> go_error + Result \<Rightarrow> 'q entry list \<Rightarrow> bool" where
  "instance_outcome L rng a r l \<longleftrightarrow>
     writes l = [] \<and> ((\<exists>e. r = Inl e) \<or> r = Inr \<lparr>RequeueAfter = 10 * time_Second\<rparr>) \<or>
     (\<exists>l0 l1 b files. l = l0 @ l1 \<and> writes l0 = [] \<and> prepared L a b \<and> reported L b r l1 \<and>
        all_carry rng files l1)"

lemma objects_outcome:
  assumes "writes l0 = []" "prepared L a b"
  shows "emits (\<lambda>r l. instance_outcome L rng a r (l0 @ l)) (reconcileObjects L (traced c) rng b files)"
  by (rule emits_mono [OF emits_conj [OF reconcileObjects_reported reconcileObjects_carries]])
    (use assms in \<open>auto simp: instance_outcome_def\<close>)

lemma reconcileInstance_outcome:
  "emits (instance_outcome L rng a) (reconcileInstance L (traced c) fs rng a)"
proof -
  have reads: "instance_outcome L rng a (Inl e) l" "instance_outcome L rng a (Inr \<lparr>RequeueAfter = 10 * time_Second\<rparr>) l"
    if "writes l = []" for e l
    using that by (auto simp: instance_outcome_def)
  have files: "emits (\<lambda>r l'. instance_outcome L rng a r (l @ l'))
      (case g of Inl err \<Rightarrow> fail err | Inr fl \<Rightarrow> reconcileObjects L (traced c) rng b fl)"
    if "writes l = []" "prepared L a b" for g b l
    using that by (cases g) (auto intro!: emits_return reads objects_outcome)
  have rabbit: "emits (\<lambda>r l'. instance_outcome L rng a r (l @ l'))
      (State_Monad.bind (getNeutronRabbitConfig (traced c) b) (\<lambda>rabbit.
         case g rabbit of Inl err \<Rightarrow> fail err | Inr fl \<Rightarrow> reconcileObjects L (traced c) rng b fl))"
    if "writes l = []" "prepared L a b" for g b l
    by (intro emits_bindI emits_mono [OF getNeutronRabbitConfig_emits])
      (rule files [where l = "l @ _", unfolded append_assoc], simp_all add: that)
  have bus: "emits (\<lambda>r l'. instance_outcome L rng a r (l @ l'))
      (check (ensureMessageBus L (traced c) (db_ready L a)) (\<lambda>(busConn, b).
         State_Monad.bind (getNeutronRabbitConfig (traced c) b) (\<lambda>rabbit.
         case generateConfigFiles fs rng b dbConn busConn rabbit of
           Inl err \<Rightarrow> fail err | Inr fl \<Rightarrow> reconcileObjects L (traced c) rng b fl)))"
    if "writes l = []" for l dbConn
  proof (intro emits_checkI emits_mono [OF ensureMessageBus_emits])
    fix r :: "go_error + string \<times> CiscoAciAim" and l1 :: "'a entry list"
    assume r: "writes l1 = [] \<and> (case r of Inl e \<Rightarrow> True
      | Inr (s, b) \<Rightarrow> same_instance (db_ready L a) b \<and>
          (s = [] \<and> b = db_ready L a \<or> b = setCondition L (db_ready L a) ConditionRabbitMQReady ''True''
             ''RabbitMQReady'' ''RabbitMQ transport URL is ready''))"
    then have "prepared L a b" if "r = Inr (s, b)" for s b
      using that by (auto simp: prepared_def bus_ready_def)
    with r that show "case r of Inl e \<Rightarrow> instance_outcome L rng a (Inl e) (l @ l1)
      | Inr x \<Rightarrow> emits (\<lambda>y l'. instance_outcome L rng a y (l @ l1 @ l'))
          (case x of (busConn, b) \<Rightarrow>
            State_Monad.bind (getNeutronRabbitConfig (traced c) b) (\<lambda>rabbit.
            case generateConfigFiles fs rng b dbConn busConn rabbit of
              Inl err \<Rightarrow> fail err | Inr fl \<Rightarrow> reconcileObjects L (traced c) rng b fl))"
      using rabbit [where l = "l @ l1"] by (auto simp: reads split: sum.splits)
  qed
  show ?thesis
    unfolding reconcileInstance_def
    by (intro emits_checkI emits_mono [OF ensureDB_emits])
      (auto split: sum.splits simp: reads db_ready_def [symmetric] intro!: emits_return bus)
qed

section \<open>The whole call\<close>

lemma staged_low: "staged lo 4 z l \<Longrightarrow> staged lo 5 z l"
  by (erule staged_range) simp_all

lemma staged_report: "staged 1 4 True l \<Longrightarrow> (z \<longrightarrow> k) \<Longrightarrow> staged 1 5 z (l @ [(RUpdateStatus x, k)])"
  by (erule staged_append [where m' = 5]) simp_all

lemma reported_staged: "reported L b r l \<Longrightarrow> staged 1 5 (r = Inr no_requeue) l"
  unfolding reported_def
  by (cases r) (elim exE conjE disjE; simp only: sum.case; elim disjE conjE;
    simp add: staged_low staged_report [unfolded One_nat_def] time_Second_def)+

lemma staged_prepend: "writes l0 = [] \<Longrightarrow> staged lo hi z (l0 @ l) = staged lo hi z l"
  by (simp add: staged_def)

lemma instance_staged: "instance_outcome L rng a r l \<Longrightarrow> staged 1 5 (r = Inr no_requeue) l"
  by (auto simp: instance_outcome_def staged_reads staged_prepend dest: reported_staged)

text \<open>The outcome of \<open>Reconcile\<close>: the instance is missing or unreadable, or it is reconciled.\<close>

definition reconcile_outcome ::
    "'q Lib \<Rightarrow> range_order \<Rightarrow> go_error + Result \<Rightarrow> 'q entry list \<Rightarrow> bool" where
  "reconcile_outcome L rng r l \<longleftrightarrow>
     (\<exists>rd b. l = [(rd, b)] \<and> \<not> is_write rd \<and> (r = Inr no_requeue \<or> (\<exists>e. r = Inl e))) \<or>
     (\<exists>rd a l'. l = (rd, True) # l' \<and> \<not> is_write rd \<and> instance_outcome L rng a r l')"

lemma Reconcile_outcome: "emits (reconcile_outcome L rng) (Reconcile L (traced c) fs rng req)"
proof -
  have "emits (\<lambda>r l. reconcile_outcome L rng r ((RGet k n, True) # l)) (reconcileInstance L (traced c) fs rng a)"
    for k n a
    by (rule emits_mono [OF reconcileInstance_outcome]) (auto simp: reconcile_outcome_def)
  then show ?thesis
    unfolding Reconcile_def
    by (auto split: sum.split intro!: emits_rules) (auto simp: reconcile_outcome_def)
qed

lemma reconcile_staged: "reconcile_outcome L rng r l \<Longrightarrow> staged 1 5 (r = Inr no_requeue) l"
  by (auto simp: reconcile_outcome_def dest: instance_staged)

lemma instance_carries: "instance_outcome L rng a r l \<Longrightarrow> \<exists>files. all_carry rng files l"
  by (auto simp: instance_outcome_def writes_carry)

lemma reconcile_carries: "reconcile_outcome L rng r l \<Longrightarrow> \<exists>files. all_carry rng files l"
  by (auto simp: reconcile_outcome_def reads_carry dest: instance_carries)

section \<open>Reports\<close>

lemma staged_no_status: "staged lo 4 z l \<Longrightarrow> (RUpdateStatus b, k) \<notin> set l"
  by (auto simp: staged_def writes_def list_all_iff)

lemma reads_no_status: "writes l = [] \<Longrightarrow> (RUpdateStatus b, k) \<notin> set l"
  by (auto simp: writes_def filter_empty_conv)

lemma reported_status:
  assumes "reported L a r l" "(RUpdateStatus b, k) \<in> set l"
  shows "b = ready L a \<and> last l = (RUpdateStatus b, k) \<and> (k \<longleftrightarrow> r = Inr no_requeue)"
  using assms by (cases r) (auto simp: reported_def time_Second_def staged_no_status)

lemma instance_status:
  assumes "instance_outcome L rng a r l" "(RUpdateStatus b, k) \<in> set l"
  shows "\<exists>a'. prepared L a a' \<and> b = ready L a' \<and> last l = (RUpdateStatus b, k) \<and> (k \<longleftrightarrow> r = Inr no_requeue)"
  using assms reported_status [of L _ r _ b k] unfolding instance_outcome_def
  by (auto simp: reads_no_status last_append) blast+

lemma ready_conditions:
  assumes "status_condition_doc L" "prepared L a a'"
  shows "same_instance a (ready L a')"
    and "find_cond (Conditions (Status (ready L a'))) ConditionAimReady =
      Some \<lparr>cond_Type = ConditionAimReady, cond_Status = ''True'', cond_Reason = ''DeploymentReady'',
            cond_Message = ''Aim deployment is ready''\<rparr>"
    and "find_cond (Conditions (Status (ready L a'))) ConditionDBReady =
      Some \<lparr>cond_Type = ConditionDBReady, cond_Status = ''True'', cond_Reason = ''DBReady'',
            cond_Message = ''Database connection is ready''\<rparr>"
  using assms(2)
  by (auto simp: prepared_def ready_def db_ready_def bus_ready_def same_instance_def
      setCondition_find [OF assms(1)] ConditionAimReady_def ConditionDBReady_def ConditionRabbitMQReady_def)

lemma reported_result:
  "reported L a (Inr res) l \<Longrightarrow> res = no_requeue \<and> (\<exists>b. (RUpdateStatus b, True) \<in> set l) \<or>
     res = \<lparr>RequeueAfter = time_Second\<rparr> \<and> (\<forall>b k. (RUpdateStatus b, k) \<notin> set l)"
  by (auto simp: reported_def staged_no_status)

lemma instance_result:
  "instance_outcome L rng a (Inr res) l \<Longrightarrow> res = no_requeue \<and> (\<exists>b. (RUpdateStatus b, True) \<in> set l) \<or>
     res = \<lparr>RequeueAfter = time_Second\<rparr> \<and> (\<forall>b k. (RUpdateStatus b, k) \<notin> set l) \<or>
     res = \<lparr>RequeueAfter = 10 * time_Second\<rparr> \<and> writes l = []"
  unfolding instance_outcome_def by (auto simp: reads_no_status dest!: reported_result)

text \<open>When the instance can be read, everything after that is the reconciliation of that instance.\<close>

lemma Reconcile_present:
  assumes "run_state (Get_CiscoAciAim c req) w = (Inr a, w1)"
  shows "\<exists>l'. entries (Reconcile L (traced c) fs rng req) w = (RGet ''CiscoAciAim'' req, True) # l' \<and>
    instance_outcome L rng a (fst (run_state (Reconcile L (traced c) fs rng req) (w, []))) l'"
proof -
  have "run_state (Reconcile L (traced c) fs rng req) (w, []) =
      run_state (reconcileInstance L (traced c) fs rng a) (w1, [(RGet ''CiscoAciAim'' req, True)])"
    using assms by (simp add: Reconcile_def)
  moreover obtain l' where
    "snd (snd (run_state (reconcileInstance L (traced c) fs rng a) (w1, [(RGet ''CiscoAciAim'' req, True)]))) =
       [(RGet ''CiscoAciAim'' req, True)] @ l'"
    "instance_outcome L rng a
       (fst (run_state (reconcileInstance L (traced c) fs rng a) (w1, [(RGet ''CiscoAciAim'' req, True)]))) l'"
    using reconcileInstance_outcome [of L rng a c fs] unfolding emits_def by blast
  ultimately show ?thesis
    by (simp add: entries_def)
qed

end
