(* ===== verification/Reconcile_Stages.thy ===== *)
theory Reconcile_Stages
  imports Reconcile_Trace
begin

text \<open>
  The stages of one call of \<open>Reconcile\<close>, with the states between them: which configuration files a call
  works with, and in which situations it asks to be called again. A stage is stated by the runs of the
  functions it is made of, each in the state that the one before left, so that the values are those that
  the cluster returned in this call.
\<close>

text \<open>The reads of a call lead from the instance \<open>a\<close> to the files, and to the instance with its conditions.\<close>

definition collected ::
    "'q Lib \<Rightarrow> ('s, 'q) Client \<Rightarrow> file_system \<Rightarrow> range_order \<Rightarrow> CiscoAciAim \<Rightarrow> 's \<Rightarrow> CiscoAciAim \<Rightarrow> string gomap \<Rightarrow> 's \<Rightarrow> bool" where
  "collected L c fs rng a s b files s' \<longleftrightarrow>
     (\<exists>db a1 s1 bus s2 rabbit.
        run_state (ensureDB L c a) s = (Inr (db, a1), s1) \<and> db \<noteq> [] \<and>
        run_state (ensureMessageBus L c a1) s1 = (Inr (bus, b), s2) \<and>
        run_state (getNeutronRabbitConfig c b) s2 = (rabbit, s') \<and>
        generateConfigFiles fs rng b db bus rabbit = Inr files)"

text \<open>The secret of the database account was read, and has no password.\<close>

definition password_missing :: "'q Lib \<Rightarrow> ('s, 'q) Client \<Rightarrow> CiscoAciAim \<Rightarrow> 's \<Rightarrow> bool" where
  "password_missing L c a s \<longleftrightarrow>
     (\<exists>n s1 db s2 acc s3 sec s4.
        run_state (Get_NeutronAPI c (key (aim_Namespace a) ''neutron'')) s = (Inr n, s1) \<and>
        run_state (Get_MariaDBDatabase c (key (aim_Namespace a) (DatabaseAccount n))) s1 = (Inr db, s2) \<and>
        run_state (Get_MariaDBAccount c (key (aim_Namespace a) (DatabaseAccount n))) s2 = (Inr acc, s3) \<and>
        run_state (Get_Secret c (key (aim_Namespace a) (DatabaseAccount n @ ''-db-secret''))) s3 = (Inr sec, s4) \<and>
        gm_get (sec_Data sec) (DatabasePasswordSelector L) = None)"

text \<open>
  After the ConfigMap and the CA secret, the StatefulSet \<open>found\<close> was read, where \<open>d\<close> is the one that is
  wanted for the files.
\<close>

definition compared ::
    "'q Lib \<Rightarrow> ('s, 'q) Client \<Rightarrow> file_system \<Rightarrow> range_order \<Rightarrow> CiscoAciAim \<Rightarrow> 's \<Rightarrow> 'q StatefulSet \<Rightarrow> 'q StatefulSet \<Rightarrow> bool" where
  "compared L c fs rng a s d found \<longleftrightarrow>
     (\<exists>b files s1 cm s2 s3 built meta s4. collected L c fs rng a s b files s1 \<and>
        run_state (ensureConfigMap L c b files) s1 = (Inr cm, s2) \<and>
        run_state (ensureRabbitMQCaSecret L c b) s2 = (Inr (), s3) \<and>
        StatefulSet L b (Name (cm_Meta cm)) (GenerateConfigMapChecksum rng files) = Inr built \<and>
        SetControllerReference L (aim_Meta b) (sts_Meta built) = Inr meta \<and> d = built\<lparr>sts_Meta := meta\<rparr> \<and>
        run_state (Get_StatefulSet c (key (aim_Namespace b) (aim_Name b))) s3 = (Inr found, s4))"

section \<open>Following the stages\<close>

lemma wp_emits:
  assumes "emits P m" and "\<And>r s' l'. run_state m s = (r, s') \<Longrightarrow> snd s' = snd s @ l' \<Longrightarrow> P r l' \<Longrightarrow> Q r s'"
  shows "wp m Q s"
proof -
  obtain w l where s: "s = (w, l)"
    by fastforce
  from assms(1) obtain l' where "snd (snd (run_state m (w, l))) = l @ l'" "P (fst (run_state m (w, l))) l'"
    unfolding emits_def by blast
  then show ?thesis
    using assms(2) [of "fst (run_state m s)" "snd (run_state m s)" l'] by (simp add: wp_def s case_prod_beta)
qed

text \<open>A call fails or waits before the first write, or it has collected the files.\<close>

lemma wp_collect:
  assumes "writes (snd s) = []"
    and failed: "\<And>e s'. writes (snd s') = [] \<Longrightarrow> Q (Inl e) s'"
    and waits: "\<And>b s'. writes (snd s') = [] \<Longrightarrow> run_state (ensureDB L (traced c) a) s = (Inr ([], b), s') \<Longrightarrow>
      Q (Inr \<lparr>RequeueAfter = 10 * time_Second\<rparr>) s'"
    and goes_on: "\<And>b files s'. writes (snd s') = [] \<Longrightarrow> collected L (traced c) fs rng a s b files s' \<Longrightarrow>
      wp (reconcileObjects L (traced c) rng b files) Q s'"
  shows "wp (reconcileInstance L (traced c) fs rng a) Q s"
proof -
  let ?gen = "\<lambda>b db bus rabbit. case generateConfigFiles fs rng b db bus rabbit of
      Inl err \<Rightarrow> fail err | Inr configFiles \<Rightarrow> reconcileObjects L (traced c) rng b configFiles"
  have gen: "wp (State_Monad.bind (getNeutronRabbitConfig (traced c) b) (?gen b db bus)) Q s2"
    if "writes (snd s2) = []" "run_state (ensureDB L (traced c) a) s = (Inr (db, a1), s1)" "db \<noteq> []"
      "run_state (ensureMessageBus L (traced c) a1) s1 = (Inr (bus, b), s2)" for db a1 s1 bus b s2
    unfolding wp_bind
  proof (rule wp_emits [OF getNeutronRabbitConfig_emits], goal_cases)
    case (1 r s' l')
    then have none: "writes (snd s') = []"
      using that(1) by simp
    show ?case
    proof (cases "generateConfigFiles fs rng b db bus r")
      case (Inl e)
      with none show ?thesis
        by (simp add: wp_rules failed)
    next
      case (Inr files)
      have "collected L (traced c) fs rng a s b files s'"
        unfolding collected_def using that 1(1) Inr by blast
      with none Inr show ?thesis
        by (simp add: goes_on)
    qed
  qed
  have bus: "wp (check (ensureMessageBus L (traced c) a1) (\<lambda>(bus, b). State_Monad.bind (getNeutronRabbitConfig (traced c) b) (?gen b db bus))) Q s1"
    if "writes (snd s1) = []" "run_state (ensureDB L (traced c) a) s = (Inr (db, a1), s1)" "db \<noteq> []" for db a1 s1
    unfolding wp_check
    by (rule wp_emits [OF ensureMessageBus_emits]) (use that in \<open>auto split: sum.split intro: failed gen\<close>)
  show ?thesis
    unfolding reconcileInstance_def wp_check [of "ensureDB L (traced c) a"]
    by (rule wp_emits [OF ensureDB_emits]) (use assms(1) in \<open>auto simp: wp_return split: sum.split intro: failed waits bus\<close>)
qed

lemma run_check_Inr:
  assumes "run_state (check m f) s = (Inr y, s')"
  obtains x s1 where "run_state m s = (Inr x, s1)" "run_state (f x) s1 = (Inr y, s')"
proof (cases "run_state m s")
  case (Pair r s1)
  with assms that show ?thesis
    by (cases r) (simp_all add: check_def)
qed

lemma ensureDB_empty:
  assumes "run_state (ensureDB L c a) s = (Inr ([], b), s')"
  shows "password_missing L c a s"
  using assms unfolding ensureDB_def Let_def
proof (elim run_check_Inr, goal_cases)
  case (1 n s1 db s2 acc s3 sec s4)
  then have "gm_get (sec_Data sec) (DatabasePasswordSelector L) = None"
    by (cases "gm_get (sec_Data sec) (DatabasePasswordSelector L)") (simp_all add: db_connection_def)
  with 1 show ?case
    unfolding password_missing_def by blast
qed

lemma recreates_decision:
  "action_recreates (sts_decision d f) \<Longrightarrow> statefulSetRequiresRecreation f d"
  "action_recreates (sts_decision d f) \<Longrightarrow> IsZero (DeletionTimestamp (sts_Meta f)) \<Longrightarrow>
   action_requests (sts_decision d f) = [RDeleteStatefulSet f]"
  by (auto simp: sts_decision_def split: option.splits if_splits)

lemma outcome_recreates:
  assumes "sts_outcome (sts_decision d f) (Inr True) l"
  shows "statefulSetRequiresRecreation f d \<and>
    (IsZero (DeletionTimestamp (sts_Meta f)) \<longrightarrow> (\<exists>k. (RDeleteStatefulSet f, k) \<in> set l))"
proof -
  from assms obtain lc lw where "l = lc @ lw" "map fst lw = action_requests (sts_decision d f)"
      "action_recreates (sts_decision d f)"
    by (cases "sts_decision d f") (auto simp: sts_outcome_def)
  then show ?thesis
    using recreates_decision [of d f] by (auto simp: map_eq_Cons_conv) blast
qed

lemma ensureStatefulSet_recreates:
  assumes "run_state (ensureStatefulSet L (traced c) b cm csum) s = (Inr True, s')"
  obtains built meta found s1 where "StatefulSet L b (Name (cm_Meta cm)) csum = Inr built"
    "SetControllerReference L (aim_Meta b) (sts_Meta built) = Inr meta"
    "run_state (Get_StatefulSet (traced c) (key (aim_Namespace b) (aim_Name b))) s = (Inr found, s1)"
    "statefulSetRequiresRecreation found (built\<lparr>sts_Meta := meta\<rparr>)"
    "IsZero (DeletionTimestamp (sts_Meta found)) \<longrightarrow> (\<exists>k. (RDeleteStatefulSet found, k) \<in> set (snd s'))"
proof -
  obtain built meta where built: "StatefulSet L b (Name (cm_Meta cm)) csum = Inr built"
      "SetControllerReference L (aim_Meta b) (sts_Meta built) = Inr meta"
    using assms by (auto simp: ensureStatefulSet_def split: sum.splits)
  let ?d = "built\<lparr>sts_Meta := meta\<rparr>"
  obtain r s1 where get: "run_state (Get_StatefulSet (traced c) (key (aim_Namespace b) (aim_Name b))) s = (r, s1)"
    by (meson surj_pair)
  with assms built obtain found where r: "r = Inr found"
      and run: "run_state (ensureExistingStatefulSet L (traced c) b ?d found) s1 = (Inr True, s')"
    by (auto simp: ensureStatefulSet_def Let_def simp del: traced_simps split: sum.splits if_splits prod.splits)
  have "wp (ensureExistingStatefulSet L (traced c) b ?d found) (\<lambda>r s'. r = Inr True \<longrightarrow>
      statefulSetRequiresRecreation found ?d \<and>
      (IsZero (DeletionTimestamp (sts_Meta found)) \<longrightarrow> (\<exists>k. (RDeleteStatefulSet found, k) \<in> set (snd s')))) s1"
    by (rule wp_emits [OF ensureExisting_emits]) (auto dest!: outcome_recreates)
  with run have "statefulSetRequiresRecreation found ?d"
      "IsZero (DeletionTimestamp (sts_Meta found)) \<longrightarrow> (\<exists>k. (RDeleteStatefulSet found, k) \<in> set (snd s'))"
    by (simp_all add: wp_def)
  with that built get r show ?thesis
    by blast
qed

text \<open>Why a call asks to be called again.\<close>

definition requeue_reason ::
    "'q Lib \<Rightarrow> ('s \<times> 'q entry list, 'q) Client \<Rightarrow> file_system \<Rightarrow> range_order \<Rightarrow> CiscoAciAim \<Rightarrow> 's \<times> 'q entry list \<Rightarrow>
     go_error + Result \<Rightarrow> 's \<times> 'q entry list \<Rightarrow> bool" where
  "requeue_reason L c fs rng a s r s' \<longleftrightarrow>
     (r = Inr \<lparr>RequeueAfter = 10 * time_Second\<rparr> \<longrightarrow> password_missing L c a s) \<and>
     (r = Inr \<lparr>RequeueAfter = time_Second\<rparr> \<longrightarrow>
        (\<exists>d found. compared L c fs rng a s d found \<and> statefulSetRequiresRecreation found d \<and>
           (IsZero (DeletionTimestamp (sts_Meta found)) \<longrightarrow> (\<exists>k. (RDeleteStatefulSet found, k) \<in> set (snd s')))))"

lemma reason_trivial: "requeue_reason L c fs rng a s (Inl e) s'" "requeue_reason L c fs rng a s (Inr no_requeue) s'"
  by (simp_all add: requeue_reason_def time_Second_def)

lemma objects_reason:
  assumes collected: "collected L (traced c) fs rng a s b files s1"
  shows "wp (reconcileObjects L (traced c) rng b files) (requeue_reason L (traced c) fs rng a s) s1"
proof -
  let ?Q = "requeue_reason L (traced c) fs rng a s"
  let ?sts = "\<lambda>cm. ensureStatefulSet L (traced c) b cm (GenerateConfigMapChecksum rng files)"
  let ?report = "check (UpdateStatus_CiscoAciAim (traced c) (setCondition L b ConditionAimReady ''True'' ''DeploymentReady''
    ''Aim deployment is ready'')) (\<lambda>_. ok no_requeue)"
  have report: "wp ?report ?Q s'" for s'
    unfolding wp_check by (rule wp_I) (simp add: wp_return reason_trivial split: sum.split)
  have recreate: "?Q (Inr \<lparr>RequeueAfter = time_Second\<rparr>) s4"
    if "run_state (ensureConfigMap L (traced c) b files) s1 = (Inr cm, s2)"
      "run_state (ensureRabbitMQCaSecret L (traced c) b) s2 = (Inr (), s3)" "run_state (?sts cm) s3 = (Inr True, s4)" for cm s2 s3 s4
    using that(3)
  proof (rule ensureStatefulSet_recreates)
    fix built meta found s5
    assume built: "StatefulSet L b (Name (cm_Meta cm)) (GenerateConfigMapChecksum rng files) = Inr built"
        "SetControllerReference L (aim_Meta b) (sts_Meta built) = Inr meta"
        "run_state (Get_StatefulSet (traced c) (key (aim_Namespace b) (aim_Name b))) s3 = (Inr found, s5)"
      and rest: "statefulSetRequiresRecreation found (built\<lparr>sts_Meta := meta\<rparr>)"
        "IsZero (DeletionTimestamp (sts_Meta found)) \<longrightarrow> (\<exists>k. (RDeleteStatefulSet found, k) \<in> set (snd s4))"
    have "compared L (traced c) fs rng a s (built\<lparr>sts_Meta := meta\<rparr>) found"
      unfolding compared_def using collected that(1,2) built by blast
    with rest show ?thesis
      by (auto simp: requeue_reason_def time_Second_def)
  qed
  have sts: "wp (check (?sts cm) (\<lambda>recreate. if recreate then ok \<lparr>RequeueAfter = time_Second\<rparr> else ?report)) ?Q s3"
    if "run_state (ensureConfigMap L (traced c) b files) s1 = (Inr cm, s2)"
      "run_state (ensureRabbitMQCaSecret L (traced c) b) s2 = (Inr (), s3)" for cm s2 s3
    unfolding wp_check [of "?sts cm"]
    by (rule wp_I) (auto simp: wp_return reason_trivial intro: recreate [OF that] report split: sum.split simp del: traced_simps)
  show ?thesis
    unfolding reconcileObjects_def Let_def wp_check [of "ensureConfigMap L (traced c) b files"]
      wp_check [of "ensureRabbitMQCaSecret L (traced c) b"]
  proof (rule wp_I)
    fix r s2
    assume cm: "run_state (ensureConfigMap L (traced c) b files) s1 = (r, s2)"
    have ca: "wp (ensureRabbitMQCaSecret L (traced c) b) (\<lambda>r. case r of Inl e \<Rightarrow> ?Q (Inl e)
        | Inr x \<Rightarrow> wp (check (?sts cm') (\<lambda>recreate. if recreate then ok \<lparr>RequeueAfter = time_Second\<rparr> else ?report)) ?Q) s2"
      if "r = Inr cm'" for cm'
    proof (rule wp_I)
      fix r' s3
      assume "run_state (ensureRabbitMQCaSecret L (traced c) b) s2 = (r', s3)"
      with cm that show "(case r' of Inl e \<Rightarrow> ?Q (Inl e)
          | Inr x \<Rightarrow> wp (check (?sts cm') (\<lambda>recreate. if recreate then ok \<lparr>RequeueAfter = time_Second\<rparr> else ?report)) ?Q) s3"
        using sts [of cm' s2 s3] by (cases r') (simp_all add: reason_trivial del: traced_simps)
    qed
    show "(case r of Inl e \<Rightarrow> ?Q (Inl e) | Inr cm' \<Rightarrow> wp (ensureRabbitMQCaSecret L (traced c) b) (\<lambda>r. case r of Inl e \<Rightarrow> ?Q (Inl e)
        | Inr x \<Rightarrow> wp (check (?sts cm') (\<lambda>recreate. if recreate then ok \<lparr>RequeueAfter = time_Second\<rparr> else ?report)) ?Q)) s2"
      using ca by (cases r) (simp_all add: reason_trivial del: traced_simps)
  qed
qed

lemma instance_reason:
  assumes "writes (snd s) = []"
  shows "wp (reconcileInstance L (traced c) fs rng a) (requeue_reason L (traced c) fs rng a s) s"
  by (rule wp_collect [OF assms])
    (auto simp: requeue_reason_def time_Second_def intro: ensureDB_empty objects_reason)

section \<open>The files of a call\<close>

text \<open>The writes of a call, if there are any, carry the files that were collected.\<close>

definition follows_files ::
    "'q Lib \<Rightarrow> ('s \<times> 'q entry list, 'q) Client \<Rightarrow> file_system \<Rightarrow> range_order \<Rightarrow> CiscoAciAim \<Rightarrow> 's \<times> 'q entry list \<Rightarrow>
     's \<times> 'q entry list \<Rightarrow> bool" where
  "follows_files L c fs rng a s s' \<longleftrightarrow>
     writes (snd s') = [] \<or> (\<exists>b files s1. collected L c fs rng a s b files s1 \<and> all_carry rng files (snd s'))"

lemma instance_files:
  assumes "writes (snd s) = []"
  shows "wp (reconcileInstance L (traced c) fs rng a) (\<lambda>r s'. follows_files L (traced c) fs rng a s s') s"
proof (rule wp_collect [OF assms], goal_cases)
  case (3 b files s1)
  show ?case
  proof (rule wp_emits [OF reconcileObjects_carries], goal_cases)
    case (1 r s' l')
    then have "all_carry rng files (snd s')"
      using writes_carry [OF 3(1)] by simp
    with 3(2) show ?case
      unfolding follows_files_def by blast
  qed
qed (simp_all add: follows_files_def)

text \<open>The whole call, after the instance was read.\<close>

lemma Reconcile_after_get:
  assumes "run_state (Get_CiscoAciAim (traced c) req) s = (Inr a, s0)"
  shows "run_state (Reconcile L (traced c) fs rng req) s = run_state (reconcileInstance L (traced c) fs rng a) s0"
  using assms by (simp add: Reconcile_def del: traced_simps)

end
