(* ===== verification/Demo_Run.thy ===== *)
theory Demo_Run
  imports Reconcile_Stages
begin

text \<open>
  One reconciliation on the sample cluster, evaluated: the dependencies are there and nothing of the
  instance exists yet, so the three objects are created and the status is reported.
\<close>

abbreviation demo_req :: NamespacedName where
  "demo_req \<equiv> key ''openstack'' ''aim''"

abbreviation demo_trace :: "(go_error + Result) \<times> cluster \<times> nat entry list" where
  "demo_trace \<equiv> run_state (Reconcile demo_lib (traced demo_client) image sorted_order demo_req) (demo_cluster, [])"

lemma run_fetch [simp]:
  "run_state (mem_fetch sel k) w = (case sel w k of None \<Rightarrow> Inl (ApiError ''NotFound'') | Some x \<Rightarrow> Inr x, w)"
  by (simp add: mem_fetch_def)

lemma run_effect [simp]: "run_state (mem_effect f x) w = (Inr x, f w)"
  by (simp add: mem_effect_def)

lemma demo_client_simps [simp]:
  "Get_CiscoAciAim demo_client = mem_fetch st_aims"
  "Get_ConfigMap demo_client = mem_fetch st_config_maps"
  "Get_Secret demo_client = mem_fetch st_secrets"
  "Get_StatefulSet demo_client = mem_fetch st_stateful_sets"
  "Get_NeutronAPI demo_client = mem_fetch st_neutrons"
  "Get_MariaDBDatabase demo_client = mem_fetch st_databases"
  "Get_MariaDBAccount demo_client = mem_fetch st_accounts"
  "Get_TransportURL demo_client = mem_fetch st_transport_urls"
  "Create_StatefulSet demo_client x =
     mem_effect (\<lambda>w. w\<lparr>st_stateful_sets := (st_stateful_sets w)(meta_key (sts_Meta x) := Some x)\<rparr>) ()"
  by (simp_all add: demo_client_def)

lemma demo_get: "run_state (Get_CiscoAciAim demo_client demo_req) demo_cluster = (Inr demo_aim, demo_cluster)"
  by (simp add: demo_cluster_def)

definition demo_db :: CiscoAciAim where
  "demo_db = setCondition demo_lib demo_aim ConditionDBReady ''True'' ''DBReady'' ''Database connection is ready''"

lemma demo_ns [simp]: "aim_Namespace demo_aim = ''openstack''" "aim_Name demo_aim = ''aim''"
  by (simp_all add: demo_aim_def demo_meta_def)

lemma demo_ensureDB:
  "\<exists>s l'. run_state (ensureDB demo_lib (traced demo_client) demo_aim) (demo_cluster, l) = (Inr (s, demo_db), (demo_cluster, l')) \<and> s \<noteq> []"
  by (simp add: ensureDB_def Let_def demo_db_def) (simp add: demo_cluster_def demo_secret_def demo_lib_def)

definition demo_bus :: CiscoAciAim where
  "demo_bus = setCondition demo_lib demo_db ConditionRabbitMQReady ''True'' ''RabbitMQReady'' ''RabbitMQ transport URL is ready''"

lemma demo_frames [simp]:
  "aim_Meta demo_db = aim_Meta demo_aim" "aim_Meta demo_bus = aim_Meta demo_aim"
  "Spec demo_db = Spec demo_aim" "Spec demo_bus = Spec demo_aim"
  by (simp_all add: demo_db_def demo_bus_def)

lemma demo_ensureMessageBus:
  "\<exists>s l'. run_state (ensureMessageBus demo_lib (traced demo_client) demo_db) (demo_cluster, l) = (Inr (s, demo_bus), (demo_cluster, l'))"
  by (simp add: ensureMessageBus_def Let_def demo_bus_def rabbit_secret_name_def)
    (simp add: demo_cluster_def demo_secret_def demo_meta_def)

lemma demo_rabbit:
  "\<exists>l'. run_state (getNeutronRabbitConfig (traced demo_client) demo_bus) (demo_cluster, l) = (rabbit_defaults, (demo_cluster, l'))"
  by (simp add: getNeutronRabbitConfig_def) (simp add: demo_cluster_def)

lemma demo_generate: "\<exists>files. generateConfigFiles image sorted_order demo_bus db bus rabbit = Inr files"
  by (simp add: generate_shipped [OF image_shipped] populateAimCtlConfData_def) (simp add: demo_aim_def default_spec_def)

text \<open>A cluster in which nothing of the instance exists.\<close>

definition fresh :: "cluster \<Rightarrow> bool" where
  "fresh w \<longleftrightarrow> st_config_maps w = Map.empty \<and> st_stateful_sets w = Map.empty \<and>
     st_secrets w (key ''openstack'' ''rootca-internal'') = Some (demo_secret ''rootca-internal'' [(''ca.crt'', ''CA'')]) \<and>
     st_secrets w (key ''openstack'' ''rabbitmq-ca-secret'') = None"

lemma demo_fresh: "fresh demo_cluster"
  by (simp add: fresh_def demo_cluster_def)

lemma demo_ensureConfigMap:
  "fresh w \<Longrightarrow> \<exists>cm w' l'. run_state (ensureConfigMap demo_lib (traced demo_client) demo_bus files) (w, l) = (Inr cm, (w', l')) \<and>
     w' = w\<lparr>st_config_maps := st_config_maps w'\<rparr>"
  by (simp add: ensureConfigMap_def Let_def ConfigMap_def applyConfigMap_def demo_lib_def fresh_def)
    (simp add: demo_client_def)

lemma demo_ensureCa:
  "fresh w \<Longrightarrow> \<exists>w' l'. run_state (ensureRabbitMQCaSecret demo_lib (traced demo_client) demo_bus)
       (w\<lparr>st_config_maps := cms\<rparr>, l) = (Inr (), (w', l')) \<and>
     st_stateful_sets w' = Map.empty"
  by (simp add: ensureRabbitMQCaSecret_def applyCaSecret_def demo_lib_def fresh_def demo_secret_def)
    (simp add: demo_client_def)

lemma demo_ensureStatefulSet:
  "st_stateful_sets w = Map.empty \<Longrightarrow>
   \<exists>w' l'. run_state (ensureStatefulSet demo_lib (traced demo_client) demo_bus cm csum) (w, l) = (Inr False, (w', l'))"
proof -
  have "\<exists>s. StatefulSet demo_lib demo_bus n csum = Inr s" for n
    by (simp add: StatefulSet_def) (simp add: demo_aim_def default_spec_def)
  then obtain s where s: "StatefulSet demo_lib demo_bus (Name (cm_Meta cm)) csum = Inr s"
    by blast
  assume "st_stateful_sets w = Map.empty"
  then show ?thesis
    by (simp add: ensureStatefulSet_def s) (simp add: demo_lib_def Let_def)
qed

lemma demo_objects: "\<exists>t. run_state (reconcileObjects demo_lib (traced demo_client) rng demo_bus files) (demo_cluster, l) = (Inr no_requeue, t)"
proof -
  obtain cm w1 l1 where 1: "run_state (ensureConfigMap demo_lib (traced demo_client) demo_bus files) (demo_cluster, l) = (Inr cm, (w1, l1))"
      "w1 = demo_cluster\<lparr>st_config_maps := st_config_maps w1\<rparr>"
    using demo_ensureConfigMap [OF demo_fresh] by metis
  obtain w2 l2 where 2: "run_state (ensureRabbitMQCaSecret demo_lib (traced demo_client) demo_bus) (w1, l1) = (Inr (), (w2, l2))"
      "st_stateful_sets w2 = Map.empty"
    using demo_ensureCa [OF demo_fresh] 1(2) by metis
  obtain w3 l3 where 3: "run_state (ensureStatefulSet demo_lib (traced demo_client) demo_bus cm
      (GenerateConfigMapChecksum rng files)) (w2, l2) = (Inr False, (w3, l3))"
    using demo_ensureStatefulSet [OF 2(2)] by metis
  show ?thesis
    by (simp add: reconcileObjects_def Let_def 1(1) 2(1) 3) (simp add: demo_client_def)
qed

lemma demo_result: "fst demo_trace = Inr no_requeue"
proof -
  obtain s l1 where 1: "run_state (ensureDB demo_lib (traced demo_client) demo_aim)
      (demo_cluster, [(RGet ''CiscoAciAim'' demo_req, True)]) = (Inr (s, demo_db), (demo_cluster, l1))" "s \<noteq> []"
    using demo_ensureDB by metis
  obtain bus l2 where 2: "run_state (ensureMessageBus demo_lib (traced demo_client) demo_db) (demo_cluster, l1) =
      (Inr (bus, demo_bus), (demo_cluster, l2))"
    using demo_ensureMessageBus by metis
  obtain l3 where 3: "run_state (getNeutronRabbitConfig (traced demo_client) demo_bus) (demo_cluster, l2) =
      (rabbit_defaults, (demo_cluster, l3))"
    using demo_rabbit by metis
  obtain files where 4: "generateConfigFiles image sorted_order demo_bus s bus rabbit_defaults = Inr files"
    using demo_generate by metis
  obtain t where 5: "run_state (reconcileObjects demo_lib (traced demo_client) sorted_order demo_bus files) (demo_cluster, l3) = (Inr no_requeue, t)"
    using demo_objects by metis
  show ?thesis
    using demo_get 1 2 3 4 5 by (simp add: Reconcile_def reconcileInstance_def)
qed

end
