(* ===== verification/Sts_Lifecycle.thy ===== *)
theory Sts_Lifecycle
  imports Sts_Reconcile
begin

text \<open>
  The StatefulSet of an instance over several reconciliations, while the wanted StatefulSet stays the
  same. A state is what the API server holds under the name of the instance; a step is either what a
  successful call of \<open>ensureStatefulSet\<close> does (\<open>ensureStatefulSet_step\<close> proves that its requests make
  no other steps), or the end of a deletion that is under way. The server may complete an object that is created or written
  in any field but its identity, so that an update can be due again in every reconciliation; a deletion
  may take effect at once or leave the object with a deletion time stamp.
\<close>

datatype 'q slot = Absent | Present "'q StatefulSet"

text \<open>Steps that rewrite a StatefulSet in place, and steps of replacing it.\<close>

datatype step_kind = Rewriting | Replacing

definition terminating :: "'q StatefulSet \<Rightarrow> bool" where
  "terminating f \<longleftrightarrow> \<not> IsZero (DeletionTimestamp (sts_Meta f))"

inductive lifecycle :: "'q StatefulSet \<Rightarrow> step_kind \<Rightarrow> 'q slot \<Rightarrow> 'q slot \<Rightarrow> bool" for d where
  created: "same_identity d s \<Longrightarrow> \<not> terminating s \<Longrightarrow> lifecycle d Replacing Absent (Present s)"
| written: "sts_decision d f = Write s \<Longrightarrow> same_identity s s' \<Longrightarrow> terminating s' = terminating s \<Longrightarrow>
    lifecycle d Rewriting (Present f) (Present s')"
| removed: "sts_decision d f = Remove f \<Longrightarrow> lifecycle d Replacing (Present f) Absent"
| doomed: "sts_decision d f = Remove f \<Longrightarrow> terminating f' \<Longrightarrow> lifecycle d Replacing (Present f) (Present f')"
| collected: "terminating f \<Longrightarrow> lifecycle d Replacing (Present f) Absent"

inductive_cases lifecycle_AbsentE: "lifecycle d k Absent y"

fun lifecycle_run :: "'q StatefulSet \<Rightarrow> step_kind list \<Rightarrow> 'q slot \<Rightarrow> 'q slot \<Rightarrow> bool" where
  "lifecycle_run d [] x z \<longleftrightarrow> x = z"
| "lifecycle_run d (k # ks) x z \<longleftrightarrow> (\<exists>y. lifecycle d k x y \<and> lifecycle_run d ks y z)"

text \<open>A StatefulSet the builder can ask for: not being deleted, with distinct claim templates.\<close>

definition wanted :: "'q StatefulSet \<Rightarrow> bool" where
  "wanted d \<longleftrightarrow> \<not> terminating d \<and> distinct (template_names (sts_VolumeClaimTemplates (sts_Spec d)))"

text \<open>The StatefulSet exists, is not being deleted, and the operator will not replace it.\<close>

definition in_service :: "'q StatefulSet \<Rightarrow> 'q slot \<Rightarrow> bool" where
  "in_service d x \<longleftrightarrow>
     (case x of Absent \<Rightarrow> False | Present f \<Rightarrow> \<not> terminating f \<and> sts_decision d f \<noteq> Remove f)"

text \<open>The number of steps of a replacement that may be left.\<close>

definition rank :: "'q StatefulSet \<Rightarrow> 'q slot \<Rightarrow> nat" where
  "rank d x =
     (case x of
        Absent \<Rightarrow> 1
      | Present f \<Rightarrow> if terminating f then 2 else if sts_decision d f = Remove f then 3 else 0)"

section \<open>Steps of the table\<close>

lemma templates_equal_refl: "distinct (template_names ts) \<Longrightarrow> volumeClaimTemplatesEqual ts ts"
  by (simp add: templates_equal_subset)

lemma wanted_stays:
  assumes "wanted d" and "same_identity d s"
  shows "\<not> statefulSetRequiresRecreation s d"
proof -
  have "\<not> statefulSetRequiresRecreation d d"
    using assms(1) by (simp add: wanted_def statefulSetRequiresRecreation_def templates_equal_refl)
  then show ?thesis
    unfolding recreation_identity [OF assms(2)] .
qed

lemma remove_required: "sts_decision d f = Remove s \<Longrightarrow> s = f \<and> \<not> terminating f \<and> statefulSetRequiresRecreation f d"
  by (auto simp: sts_decision_def terminating_def split: option.splits if_splits)

lemma write_terminating: "sts_decision d f = Write s \<Longrightarrow> terminating s = terminating f"
  by (auto simp: sts_decision_def terminating_def split: option.splits if_splits)

lemma await_terminating: "sts_decision d f = AwaitRemoval \<Longrightarrow> terminating f"
  by (auto simp: sts_decision_def terminating_def split: option.splits if_splits)

lemma in_service_rank: "in_service d x \<longleftrightarrow> rank d x = 0"
  by (auto simp: in_service_def rank_def split: slot.split)

lemma rank_step:
  assumes "lifecycle d k x y" and "wanted d"
  shows "rank d y + (if k = Replacing then 1 else 0) \<le> rank d x"
  using assms
proof (induction rule: lifecycle.induct)
  case (created s)
  then show ?case
    using wanted_stays [of d s] remove_required [of d s s] by (auto simp: rank_def)
next
  case (written f s s')
  have "sts_decision d s' \<noteq> Remove s'"
    using decision_identity [OF written(1,2)] by simp
  then show ?case
    using written(3) write_terminating [OF written(1)] by (simp add: rank_def)
next
  case (removed f)
  then show ?case
    using remove_required [OF removed(1)] by (simp add: rank_def)
next
  case (doomed f f')
  then show ?case
    using remove_required [OF doomed(1)] by (simp add: rank_def)
next
  case (collected f)
  then show ?case
    by (simp add: rank_def)
qed

lemma rank_bound: "rank d x \<le> 3"
  by (simp add: rank_def split: slot.split)

lemma run_rank: "lifecycle_run d ks x y \<Longrightarrow> wanted d \<Longrightarrow> rank d y + count_list ks Replacing \<le> rank d x"
proof (induction ks arbitrary: x)
  case (Cons k ks)
  then obtain z where "lifecycle d k x z" "rank d y + count_list ks Replacing \<le> rank d z"
    by auto
  then show ?case
    using rank_step [of d k x z] Cons.prems(2) by (auto split: if_splits)
qed simp




section \<open>Calls of the operator as steps\<close>

text \<open>
  What the API server makes of a request that succeeds: it creates, writes, deletes at once or marks for
  deletion; a read, and a request on a claim, changes no StatefulSet.
\<close>

inductive serves :: "'q request \<Rightarrow> 'q slot \<Rightarrow> 'q slot \<Rightarrow> bool" where
  create: "same_identity s s' \<Longrightarrow> \<not> terminating s' \<Longrightarrow> serves (RCreateStatefulSet s) Absent (Present s')"
| update: "same_identity s s' \<Longrightarrow> terminating s' = terminating s \<Longrightarrow> serves (RUpdateStatefulSet s) (Present f) (Present s')"
| delete_now: "serves (RDeleteStatefulSet s) (Present f) Absent"
| delete_later: "terminating f' \<Longrightarrow> serves (RDeleteStatefulSet s) (Present f) (Present f')"
| read: "serves (RGet n k) x x"
| claim: "claim_request rq \<Longrightarrow> serves rq x x"

inductive_cases serves_createE: "serves (RCreateStatefulSet s) x y"
inductive_cases serves_updateE: "serves (RUpdateStatefulSet s) x y"
inductive_cases serves_deleteE: "serves (RDeleteStatefulSet s) x y"
inductive_cases serves_readE: "serves (RGet n k) x y"

fun served :: "'q request list \<Rightarrow> 'q slot \<Rightarrow> 'q slot \<Rightarrow> bool" where
  "served [] x z \<longleftrightarrow> x = z"
| "served (rq # rqs) x z \<longleftrightarrow> (\<exists>y. serves rq x y \<and> served rqs y z)"

lemma served_append: "served (rqs @ rqs') x z \<longleftrightarrow> (\<exists>y. served rqs x y \<and> served rqs' y z)"
  by (induction rqs arbitrary: x) auto

lemma served_claims: "list_all claim_request rqs \<Longrightarrow> served rqs x y \<Longrightarrow> y = x"
proof (induction rqs arbitrary: x)
  case (Cons rq rqs)
  then obtain z where z: "serves rq x z" "served rqs z y" "claim_request rq" "list_all claim_request rqs"
    by auto
  from z(1,3) have "z = x"
    by (cases rule: serves.cases) auto
  with Cons.IH z(2,4) show ?case
    by blast
qed simp

text \<open>The requests of a decision are the operator's steps.\<close>

lemma decision_step:
  assumes "served (action_requests (sts_decision d f)) (Present f) y"
  shows "y = Present f \<or> (\<exists>k. lifecycle d k (Present f) y)"
proof (cases "sts_decision d f")
  case (Write s)
  with assms have "serves (RUpdateStatefulSet s) (Present f) y"
    by simp
  then show ?thesis
    using Write by (cases rule: serves_updateE) (auto intro: lifecycle.written)
next
  case (Remove s)
  with assms have "serves (RDeleteStatefulSet s) (Present f) y"
    by simp
  moreover have "sts_decision d f = Remove f"
    using Remove remove_required [OF Remove] by simp
  ultimately show ?thesis
    by (cases rule: serves_deleteE) (auto intro: lifecycle.removed lifecycle.doomed)
qed (use assms in auto)

text \<open>
  Every successful call of \<open>ensureStatefulSet\<close> that reads the slot \<open>x\<close> leaves it or makes one step, for
  the StatefulSet \<open>d\<close> that it builds.
\<close>

lemma ensureStatefulSet_step:
  assumes run: "run_state (ensureStatefulSet L (traced c) a cm csum) (w, []) = (Inr b, (w', l))"
    and built: "StatefulSet L a (Name (cm_Meta cm)) csum = Inr s" "SetControllerReference L (aim_Meta a) (sts_Meta s) = Inr m"
    and slot: "case x of Absent \<Rightarrow> isl (fst (run_state (Get_StatefulSet c (key (aim_Namespace a) (aim_Name a))) w))
      | Present f \<Rightarrow> fst (run_state (Get_StatefulSet c (key (aim_Namespace a) (aim_Name a))) w) = Inr f"
    and "served (map fst l) x y"
  shows "y = x \<or> (\<exists>k. lifecycle (s\<lparr>sts_Meta := m\<rparr>) k x y)"
proof (cases "run_state (Get_StatefulSet c (key (aim_Namespace a) (aim_Name a))) w")
  case get: (Pair r w1)
  show ?thesis
  proof (cases r)
    case (Inl e)
    then have "x = Absent"
      using slot get by (cases x) simp_all
    moreover have "map fst l = [RGet ''StatefulSet'' (key (aim_Namespace a) (aim_Name a)), RCreateStatefulSet (s\<lparr>sts_Meta := m\<rparr>)]"
      using run built get Inl by (auto simp: ensureStatefulSet_def Let_def split: if_splits prod.splits sum.splits)
    ultimately show ?thesis
      using assms(5) by (auto elim!: serves_createE serves_readE intro: lifecycle.created)
  next
    case (Inr f)
    let ?get = "(RGet ''StatefulSet'' (key (aim_Namespace a) (aim_Name a)), True)" and ?d = "s\<lparr>sts_Meta := m\<rparr>"
    have x: "x = Present f"
      using slot get Inr by (cases x) simp_all
    have "run_state (ensureExistingStatefulSet L (traced c) a ?d f) (w1, [?get]) = (Inr b, (w', l))"
      using run built get Inr by (simp add: ensureStatefulSet_def Let_def)
    then obtain l' where l': "l = ?get # l'" "sts_outcome (sts_decision ?d f) (Inr b) l'"
      using ensureExisting_emits [of ?d f L c a, unfolded emits_def, rule_format, of w1 "[?get]"] by auto
    then obtain lc lw where "l' = lc @ lw" "list_all claim_entry lc" "map fst lw = action_requests (sts_decision ?d f)"
      by (auto simp: sts_outcome_def split: sts_action.splits)
    then obtain z where z: "served (map fst lc) (Present f) z" "served (action_requests (sts_decision ?d f)) z y"
      using assms(5) l'(1) x by (auto simp: served_append elim: serves_readE)
    have "z = Present f"
      by (rule served_claims [OF _ z(1)]) (use \<open>list_all claim_entry lc\<close> in \<open>simp add: list.pred_map o_def\<close>)
    with z(2) have "served (action_requests (sts_decision ?d f)) (Present f) y"
      by simp
    then show ?thesis
      using decision_step x by blast
  qed
qed

section \<open>The builder's StatefulSets\<close>

lemma built_wanted:
  assumes "StatefulSet L a n csum = Inr b" "owner_ref_doc L" "SetControllerReference L ow (sts_Meta b) = Inr m"
  shows "wanted (b\<lparr>sts_Meta := m\<rparr>)"
proof -
  have "DeletionTimestamp m = None"
    using assms(2,3) StatefulSet_fields(12) [OF assms(1)]
    by (metis (no_types, lifting) ObjectMeta.select_convs(5) ObjectMeta.surjective
        ObjectMeta.update_convs(6) owner_ref_doc_def)
  moreover have "distinct (template_names (sts_VolumeClaimTemplates (sts_Spec b)))"
    using StatefulSet_claims [OF assms(1)] by (cases "log_spec a = None") (auto simp: template_names_def)
  ultimately show ?thesis
    by (simp add: wanted_def terminating_def IsZero_def)
qed

section \<open>Properties\<close>

text \<open>
  C8: a StatefulSet is not replaced over and over: for a fixed wanted StatefulSet, whatever the API
  server holds at the start and however it completes the objects that are written, at most three steps
  of a replacement happen in any number of reconciliations; and a StatefulSet that is in service is
  never deleted again, it is only rewritten in place.
\<close>

theorem replacement_bounded:
  assumes "wanted d" and "lifecycle_run d ks x y"
  shows "count_list ks Replacing \<le> 3 \<and> (in_service d x \<longrightarrow> set ks \<subseteq> {Rewriting} \<and> in_service d y)"
proof -
  have "k = Rewriting" if "count_list ks Replacing = 0" "k \<in> set ks" for k
    using that by (cases k) (auto simp: count_list_0_iff)
  then show ?thesis
    using run_rank [OF assms(2,1)] rank_bound [of d x] by (auto simp: in_service_rank)
qed

lemma demo_wanted: "wanted (demo_sts demo_aim)"
  using StatefulSet_fields(12) [OF demo_sts_spec]
  by (simp add: wanted_def terminating_def IsZero_def demo_sts_plain [OF demo_sts_spec] template_names_def)

text \<open>
  Turning log persistence off: the old StatefulSet is marked, collected and created again; the server
  fills in the revision history limit, and from then on the StatefulSet is rewritten.
\<close>

definition demo_marked :: "nat StatefulSet" where
  "demo_marked = (demo_with_claim None)\<lparr>sts_Meta := (sts_Meta (demo_with_claim None))\<lparr>DeletionTimestamp := Some 1\<rparr>\<rparr>"

lemma demo_replacement:
  "lifecycle_run (demo_sts demo_aim) [Replacing, Replacing, Replacing, Rewriting, Rewriting]
     (Present (demo_with_claim None)) (Present (demo_defaulted (demo_sts demo_aim)))"
proof -
  let ?d = "demo_sts demo_aim"
  have live: "\<not> terminating (demo_defaulted ?d)"
    using StatefulSet_fields(12) [OF demo_sts_spec] by (simp add: terminating_def demo_defaulted_def IsZero_def)
  have "sts_decision ?d (demo_with_claim None) = Remove (demo_with_claim None)"
    using StatefulSet_fields(12) [OF demo_sts_spec]
    by (simp add: sts_decision_def demo_with_claim_def validateVolumeClaimTemplateStorageClassChange_def
        statefulSetRequiresRecreation_def volumeClaimTemplatesEqual_def demo_sts_plain [OF demo_sts_spec] IsZero_def)
  then have 1: "lifecycle ?d Replacing (Present (demo_with_claim None)) (Present demo_marked)"
    by (rule lifecycle.doomed) (simp add: terminating_def demo_marked_def IsZero_def)
  have 2: "lifecycle ?d Replacing (Present demo_marked) Absent"
    by (rule lifecycle.collected) (simp add: terminating_def demo_marked_def IsZero_def)
  have 3: "lifecycle ?d Replacing Absent (Present (demo_defaulted ?d))"
    by (rule lifecycle.created [OF demo_defaulted_identity live])
  have "updated_sts (demo_defaulted ?d) ?d = ?d"
    by (simp add: demo_defaulted_def updated_sts_def)
  moreover have "?d \<noteq> demo_defaulted ?d"
    using StatefulSet_fields(9) [OF demo_sts_spec]
    by (metis StatefulSet.select_convs(2) StatefulSet.surjective StatefulSet.update_convs(2) StatefulSetSpec.select_convs(8)
        StatefulSetSpec.surjective StatefulSetSpec.update_convs(8) demo_defaulted_def option.distinct(1))
  ultimately have "sts_decision ?d (demo_defaulted ?d) = Write ?d"
    by (simp add: sts_decision_def demo_defaulted_def validateVolumeClaimTemplateStorageClassChange_def
        statefulSetRequiresRecreation_def volumeClaimTemplatesEqual_def demo_sts_plain [OF demo_sts_spec])
  then have 4: "lifecycle ?d Rewriting (Present (demo_defaulted ?d)) (Present (demo_defaulted ?d))"
    by (rule lifecycle.written [OF _ demo_defaulted_identity]) (simp add: terminating_def demo_defaulted_def)
  show ?thesis
    using 1 2 3 4 unfolding lifecycle_run.simps by blast
qed

theorem replacement_bounded_witness:
  "lifecycle_run (demo_sts demo_aim) [Replacing, Replacing, Replacing, Rewriting, Rewriting]
     (Present (demo_with_claim None)) (Present (demo_defaulted (demo_sts demo_aim))) \<and>
   count_list [Replacing, Replacing, Replacing, Rewriting, Rewriting] Replacing \<le> 3 \<and>
   \<not> in_service (demo_sts demo_aim) (Present (demo_with_claim None))"
  using demo_replacement replacement_bounded [OF demo_wanted demo_replacement] by auto



end
