(* ===== verification/Api_Store.thy ===== *)
theory Api_Store
  imports Config_Map Dependencies Sts_Reconcile
begin

text \<open>
  An API server that only the operator writes to, seen as a store of objects. \<open>shows S w\<close> says that
  the cluster state \<open>w\<close> shows the objects \<open>S\<close>. What is assumed of a client is documented behaviour of the
  API: a read returns the stored object, fails when there is none, and changes nothing (\<open>reads_doc\<close>); a
  write that fails changes nothing, and one that succeeds stores the object under its name, with the
  content that was sent and metadata and defaults of the server's choice (\<open>writes_doc\<close>). The lemmas
  follow the phases of a reconciliation: what they leave in the store, and that they only read when it
  is there already.
\<close>

record 'q store =
  s_aims :: "NamespacedName \<Rightarrow> CiscoAciAim option"
  s_maps :: "NamespacedName \<Rightarrow> ConfigMap option"
  s_secrets :: "NamespacedName \<Rightarrow> Secret option"
  s_sets :: "NamespacedName \<Rightarrow> 'q StatefulSet option"
  s_claims :: "'q PersistentVolumeClaim list"
  s_neutrons :: "NamespacedName \<Rightarrow> NeutronAPI option"
  s_databases :: "NamespacedName \<Rightarrow> MariaDBDatabase option"
  s_accounts :: "NamespacedName \<Rightarrow> MariaDBAccount option"
  s_transport_urls :: "NamespacedName \<Rightarrow> TransportURL option"

definition listed :: "'q store \<Rightarrow> string \<Rightarrow> string gomap \<Rightarrow> 'q PersistentVolumeClaim list" where
  "listed S ns ls = filter (\<lambda>p. Namespace (pvc_Meta p) = ns \<and> labels_match ls (Labels (pvc_Meta p))) (s_claims S)"

definition answers ::
    "('q store \<Rightarrow> 's \<Rightarrow> bool) \<Rightarrow> (NamespacedName \<Rightarrow> ('s, go_error, 'a) call) \<Rightarrow>
     ('q store \<Rightarrow> NamespacedName \<Rightarrow> 'a option) \<Rightarrow> bool" where
  "answers shows get sel \<longleftrightarrow>
     (\<forall>S s k. shows S s \<longrightarrow>
        wp (get k) (\<lambda>r s'. shows S s' \<and> (case sel S k of None \<Rightarrow> isl r | Some x \<Rightarrow> r = Inr x)) s)"

definition reads_doc :: "('s, 'q) Client \<Rightarrow> ('q store \<Rightarrow> 's \<Rightarrow> bool) \<Rightarrow> bool" where
  "reads_doc c shows \<longleftrightarrow>
     answers shows (Get_CiscoAciAim c) s_aims \<and> answers shows (Get_ConfigMap c) s_maps \<and>
     answers shows (Get_Secret c) s_secrets \<and> answers shows (Get_StatefulSet c) s_sets \<and>
     answers shows (Get_NeutronAPI c) s_neutrons \<and> answers shows (Get_MariaDBDatabase c) s_databases \<and>
     answers shows (Get_MariaDBAccount c) s_accounts \<and> answers shows (Get_TransportURL c) s_transport_urls \<and>
     (\<forall>S s ns ls. shows S s \<longrightarrow>
        wp (List_PersistentVolumeClaim c ns ls) (\<lambda>r s'. shows S s' \<and> r = Inr (listed S ns ls)) s)"

definition effects ::
    "('q store \<Rightarrow> 's \<Rightarrow> bool) \<Rightarrow> ('x \<Rightarrow> ('s, go_error, 'a) call) \<Rightarrow> ('x \<Rightarrow> 'x \<Rightarrow> bool) \<Rightarrow>
     ('x \<Rightarrow> 'q store \<Rightarrow> 'q store) \<Rightarrow> bool" where
  "effects shows put keeps upd \<longleftrightarrow>
     (\<forall>S s x. shows S s \<longrightarrow>
        wp (put x) (\<lambda>r s'. case r of Inl e \<Rightarrow> shows S s' | Inr u \<Rightarrow> \<exists>y. keeps x y \<and> shows (upd y S) s') s)"

definition put_map :: "ConfigMap \<Rightarrow> 'q store \<Rightarrow> 'q store" where
  "put_map x S = S\<lparr>s_maps := (s_maps S)(meta_key (cm_Meta x) \<mapsto> x)\<rparr>"

definition put_secret :: "Secret \<Rightarrow> 'q store \<Rightarrow> 'q store" where
  "put_secret x S = S\<lparr>s_secrets := (s_secrets S)(meta_key (sec_Meta x) \<mapsto> x)\<rparr>"

definition put_set :: "'q StatefulSet \<Rightarrow> 'q store \<Rightarrow> 'q store" where
  "put_set x S = S\<lparr>s_sets := (s_sets S)(meta_key (sts_Meta x) \<mapsto> x)\<rparr>"

definition put_claim :: "'q PersistentVolumeClaim \<Rightarrow> 'q store \<Rightarrow> 'q store" where
  "put_claim x S =
     S\<lparr>s_claims := map (\<lambda>p. if meta_key (pvc_Meta p) = meta_key (pvc_Meta x) then x else p) (s_claims S)\<rparr>"

definition put_aim :: "CiscoAciAim \<Rightarrow> 'q store \<Rightarrow> 'q store" where
  "put_aim x S = S\<lparr>s_aims := (s_aims S)(meta_key (aim_Meta x) \<mapsto> x)\<rparr>"

text \<open>
  What the server keeps of an object that is written: its name and content. In a StatefulSet it fills in
  defaults, and keeps the fields that were set, of which the replicas and the annotations of the pods
  are named here.
\<close>

definition keeps_map :: "ConfigMap \<Rightarrow> ConfigMap \<Rightarrow> bool" where
  "keeps_map x y \<longleftrightarrow> meta_key (cm_Meta y) = meta_key (cm_Meta x) \<and> cm_Data y = cm_Data x"

definition keeps_secret :: "Secret \<Rightarrow> Secret \<Rightarrow> bool" where
  "keeps_secret x y \<longleftrightarrow> meta_key (sec_Meta y) = meta_key (sec_Meta x) \<and> sec_Data y = sec_Data x"

definition keeps_set :: "'q StatefulSet \<Rightarrow> 'q StatefulSet \<Rightarrow> bool" where
  "keeps_set x y \<longleftrightarrow>
     meta_key (sts_Meta y) = meta_key (sts_Meta x) \<and> sts_Replicas (sts_Spec y) = sts_Replicas (sts_Spec x) \<and>
     pt_Annotations (sts_Template (sts_Spec y)) = pt_Annotations (sts_Template (sts_Spec x))"

definition keeps_claim :: "'q PersistentVolumeClaim \<Rightarrow> 'q PersistentVolumeClaim \<Rightarrow> bool" where
  "keeps_claim x y \<longleftrightarrow>
     meta_key (pvc_Meta y) = meta_key (pvc_Meta x) \<and> Labels (pvc_Meta y) = Labels (pvc_Meta x) \<and>
     pvc_Requests y = pvc_Requests x \<and> pvc_StorageClassName y = pvc_StorageClassName x"

definition keeps_aim :: "CiscoAciAim \<Rightarrow> CiscoAciAim \<Rightarrow> bool" where
  "keeps_aim x y \<longleftrightarrow> meta_key (aim_Meta y) = meta_key (aim_Meta x) \<and> Spec y = Spec x \<and> Status y = Status x"

text \<open>Objects are stored under their names. Creating a ConfigMap returns the object as it is stored.\<close>

definition keyed :: "'q store \<Rightarrow> bool" where
  "keyed S \<longleftrightarrow>
     (\<forall>k x. s_aims S k = Some x \<longrightarrow> meta_key (aim_Meta x) = k) \<and>
     (\<forall>k x. s_maps S k = Some x \<longrightarrow> meta_key (cm_Meta x) = k) \<and>
     (\<forall>k x. s_secrets S k = Some x \<longrightarrow> meta_key (sec_Meta x) = k) \<and>
     (\<forall>k x. s_sets S k = Some x \<longrightarrow> meta_key (sts_Meta x) = k) \<and>
     distinct (map (\<lambda>p. meta_key (pvc_Meta p)) (s_claims S))"

definition writes_doc :: "('s, 'q) Client \<Rightarrow> ('q store \<Rightarrow> 's \<Rightarrow> bool) \<Rightarrow> bool" where
  "writes_doc c shows \<longleftrightarrow>
     (\<forall>S s. shows S s \<longrightarrow> keyed S) \<and>
     (\<forall>S s x. shows S s \<longrightarrow>
        wp (Create_ConfigMap c x) (\<lambda>r s'. case r of
            Inl e \<Rightarrow> shows S s' | Inr y \<Rightarrow> keeps_map x y \<and> shows (put_map y S) s') s) \<and>
     effects shows (Update_ConfigMap c) keeps_map put_map \<and>
     effects shows (Create_Secret c) keeps_secret put_secret \<and>
     effects shows (Update_Secret c) keeps_secret put_secret \<and>
     effects shows (Create_StatefulSet c) keeps_set put_set \<and>
     effects shows (Update_StatefulSet c) keeps_set put_set \<and>
     effects shows (Update_PersistentVolumeClaim c) keeps_claim put_claim \<and>
     effects shows (UpdateStatus_CiscoAciAim c) keeps_aim put_aim"

section \<open>Rules\<close>

lemma answers_wp:
  assumes "answers shows get sel" and "shows S s"
    and "\<And>r s'. shows S s' \<Longrightarrow> (case sel S k of None \<Rightarrow> isl r | Some x \<Rightarrow> r = Inr x) \<Longrightarrow> Q r s'"
  shows "wp (get k) Q s"
proof -
  have "wp (get k) (\<lambda>r s'. shows S s' \<and> (case sel S k of None \<Rightarrow> isl r | Some x \<Rightarrow> r = Inr x)) s"
    using assms(1,2) by (simp add: answers_def)
  then show ?thesis
    by (rule wp_mono) (blast intro: assms(3))
qed

lemma effects_wp:
  assumes "effects shows put keeps upd" and "shows S s"
    and "\<And>e s'. shows S s' \<Longrightarrow> Q (Inl e) s'" and "\<And>u y s'. keeps x y \<Longrightarrow> shows (upd y S) s' \<Longrightarrow> Q (Inr u) s'"
  shows "wp (put x) Q s"
proof -
  have "wp (put x) (\<lambda>r s'. case r of Inl e \<Rightarrow> shows S s' | Inr u \<Rightarrow> \<exists>y. keeps x y \<and> shows (upd y S) s') s"
    using assms(1,2) by (simp add: effects_def)
  then show ?thesis
    by (rule wp_mono) (auto intro: assms(3,4) split: sum.splits)
qed

text \<open>Recording the requests of a client does not change what it reads; and a read is not a write.\<close>

definition recorded :: "('q store \<Rightarrow> 'w \<Rightarrow> bool) \<Rightarrow> 'q entry list \<Rightarrow> 'q store \<Rightarrow> 'w \<times> 'q entry list \<Rightarrow> bool" where
  "recorded shows ws S s \<longleftrightarrow> shows S (fst s) \<and> writes (snd s) = ws"

lemma wp_logged: "wp (logged rq m) Q (w, l) = wp m (\<lambda>r w'. Q r (w', l @ [(rq, \<not> isl r)])) w"
  by (simp add: wp_def split: prod.split)

lemma answers_recorded:
  assumes "answers shows get sel" and "\<And>k. \<not> is_write (rq k)"
  shows "answers (recorded shows ws) (\<lambda>k. logged (rq k) (get k)) sel"
  unfolding answers_def
proof (intro allI impI)
  fix S s k
  assume s: "recorded shows ws S s"
  obtain w l where "s = (w, l)"
    by fastforce
  with s assms(2) [of k] show "wp (logged (rq k) (get k))
      (\<lambda>r s'. recorded shows ws S s' \<and> (case sel S k of None \<Rightarrow> isl r | Some x \<Rightarrow> r = Inr x)) s"
    by (auto simp: wp_logged recorded_def intro!: answers_wp [OF assms(1)])
qed

lemma reads_recorded: "reads_doc c shows \<Longrightarrow> reads_doc (traced c) (recorded shows ws)"
  unfolding reads_doc_def traced_def
  by (auto intro!: answers_recorded simp: wp_logged recorded_def intro: wp_mono)

lemma reads_docD:
  assumes "reads_doc c shows"
  shows "answers shows (Get_CiscoAciAim c) s_aims" "answers shows (Get_ConfigMap c) s_maps"
    "answers shows (Get_Secret c) s_secrets" "answers shows (Get_StatefulSet c) s_sets"
    "answers shows (Get_NeutronAPI c) s_neutrons" "answers shows (Get_MariaDBDatabase c) s_databases"
    "answers shows (Get_MariaDBAccount c) s_accounts" "answers shows (Get_TransportURL c) s_transport_urls"
  using assms by (simp_all add: reads_doc_def)

lemma listed_wp:
  assumes "reads_doc c shows" and "shows S s" and "\<And>s'. shows S s' \<Longrightarrow> Q (Inr (listed S ns ls)) s'"
  shows "wp (List_PersistentVolumeClaim c ns ls) Q s"
proof -
  have "wp (List_PersistentVolumeClaim c ns ls) (\<lambda>r s'. shows S s' \<and> r = Inr (listed S ns ls)) s"
    using assms(1,2) by (simp add: reads_doc_def)
  then show ?thesis
    by (rule wp_mono) (simp add: assms(3))
qed

section \<open>Dependencies\<close>

definition db_conn :: "'q Lib \<Rightarrow> 'q store \<Rightarrow> string \<Rightarrow> string option" where
  "db_conn L S ns =
     (case s_neutrons S (key ns ''neutron'') of
        None \<Rightarrow> None
      | Some n \<Rightarrow>
          (case (s_databases S (key ns (DatabaseAccount n)), s_accounts S (key ns (DatabaseAccount n)),
                 s_secrets S (key ns (DatabaseAccount n @ ''-db-secret''))) of
             (Some db, Some acc, Some sec) \<Rightarrow>
               Some (case gm_get (sec_Data sec) (DatabasePasswordSelector L) of
                       None \<Rightarrow> []
                     | Some pw \<Rightarrow> db_connection (UserName acc) pw (DatabaseHostname n) ''neutron'')
           | _ \<Rightarrow> None))"

definition bus_conn :: "'q store \<Rightarrow> string \<Rightarrow> string option" where
  "bus_conn S ns =
     (case s_neutrons S (key ns ''neutron'') of
        None \<Rightarrow> None
      | Some n \<Rightarrow>
          (case (s_transport_urls S (key ns (Name (neutron_Meta n) @ ''-neutron-transport'')),
                 s_secrets S (key ns rabbit_secret_name)) of
             (Some t, Some sec) \<Rightarrow> Some (case gm_get (sec_Data sec) ''transport_url'' of None \<Rightarrow> [] | Some u \<Rightarrow> u)
           | _ \<Rightarrow> None))"

definition queue_settings :: "'q store \<Rightarrow> string \<Rightarrow> rabbit_settings" where
  "queue_settings S ns =
     (case s_secrets S (key ns ''neutron-dhcp-agent-neutron-config'') of
        None \<Rightarrow> rabbit_defaults
      | Some sec \<Rightarrow>
          (case gm_get (sec_Data sec) ''10-neutron-dhcp.conf'' of
             None \<Rightarrow> rabbit_defaults
           | Some conf \<Rightarrow> scan_rabbit_config conf))"

definition found_conn :: "CiscoAciAim \<Rightarrow> string option \<Rightarrow> go_error + string \<times> CiscoAciAim \<Rightarrow> bool" where
  "found_conn a conn r \<longleftrightarrow>
     (case conn of None \<Rightarrow> isl r | Some s \<Rightarrow> \<exists>b. r = Inr (s, b) \<and> same_instance a b)"

lemma wp_ensureDB:
  assumes R: "reads_doc c shows" and S: "shows S s"
  shows "wp (ensureDB L c a) (\<lambda>r s'. shows S s' \<and> found_conn a (db_conn L S (aim_Namespace a)) r) s"
  unfolding ensureDB_def Let_def wp_check
proof (rule answers_wp [OF reads_docD(5) [OF R] S], goal_cases)
  case (1 r s1)
  show ?case
  proof (cases "s_neutrons S (key (aim_Namespace a) ''neutron'')")
    case None
    with 1 show ?thesis
      by (cases r) (simp_all add: db_conn_def found_conn_def)
  next
    case (Some n)
    with 1 show ?thesis
      by (cases "s_databases S (key (aim_Namespace a) (DatabaseAccount n))";
          cases "s_accounts S (key (aim_Namespace a) (DatabaseAccount n))";
          cases "s_secrets S (key (aim_Namespace a) (DatabaseAccount n @ ''-db-secret''))")
        (auto simp: db_conn_def found_conn_def same_instance_def wp_rules intro!: answers_wp [OF reads_docD(6) [OF R], where S = S]
          answers_wp [OF reads_docD(7) [OF R], where S = S] answers_wp [OF reads_docD(3) [OF R], where S = S]
          split: option.splits sum.splits)
  qed
qed

lemma wp_ensureMessageBus:
  assumes R: "reads_doc c shows" and S: "shows S s"
  shows "wp (ensureMessageBus L c a) (\<lambda>r s'. shows S s' \<and> found_conn a (bus_conn S (aim_Namespace a)) r) s"
  unfolding ensureMessageBus_def Let_def wp_check
proof (rule answers_wp [OF reads_docD(5) [OF R] S], goal_cases)
  case (1 r s1)
  show ?case
  proof (cases "s_neutrons S (key (aim_Namespace a) ''neutron'')")
    case None
    with 1 show ?thesis
      by (cases r) (simp_all add: bus_conn_def found_conn_def)
  next
    case (Some n)
    with 1 show ?thesis
      by (cases "s_transport_urls S (key (aim_Namespace a) (Name (neutron_Meta n) @ ''-neutron-transport''))";
          cases "s_secrets S (key (aim_Namespace a) rabbit_secret_name)")
        (auto simp: bus_conn_def found_conn_def same_instance_def wp_rules intro!: answers_wp [OF reads_docD(8) [OF R], where S = S]
          answers_wp [OF reads_docD(3) [OF R], where S = S] split: option.splits sum.splits)
  qed
qed

lemma wp_queue_settings:
  assumes R: "reads_doc c shows" and S: "shows S s"
  shows "wp (getNeutronRabbitConfig c a) (\<lambda>r s'. shows S s' \<and> r = queue_settings S (aim_Namespace a)) s"
  unfolding getNeutronRabbitConfig_def wp_bind
  by (rule answers_wp [OF reads_docD(3) [OF R] S])
    (auto simp: queue_settings_def wp_rules split: option.splits sum.splits)

section \<open>ConfigMap and CA secret\<close>

definition map_ready :: "'q Lib \<Rightarrow> CiscoAciAim \<Rightarrow> string gomap \<Rightarrow> 'q store \<Rightarrow> bool" where
  "map_ready L a files S \<longleftrightarrow>
     (\<exists>meta. SetControllerReference L (aim_Meta a) (cm_Meta (ConfigMap a files)) = Inr meta) \<and>
     (\<exists>ob. s_maps S (key (aim_Namespace a) (aim_Name a @ ''-config'')) = Some ob \<and> cm_Data ob = files)"

lemma config_map_meta:
  assumes "owner_ref_doc L" and "SetControllerReference L (aim_Meta a) (cm_Meta (ConfigMap a files)) = Inr meta"
  shows "Name meta = aim_Name a @ ''-config''" "Namespace meta = aim_Namespace a"
  using owner_ref_names [OF assms] by (simp_all add: ConfigMap_def)

lemma writes_docD:
  assumes "writes_doc c shows"
  shows "shows S s \<Longrightarrow> keyed S"
    and "effects shows (Update_ConfigMap c) keeps_map put_map" "effects shows (Create_Secret c) keeps_secret put_secret"
    "effects shows (Update_Secret c) keeps_secret put_secret" "effects shows (Create_StatefulSet c) keeps_set put_set"
    "effects shows (Update_StatefulSet c) keeps_set put_set"
    "effects shows (Update_PersistentVolumeClaim c) keeps_claim put_claim"
    "effects shows (UpdateStatus_CiscoAciAim c) keeps_aim put_aim"
  using assms unfolding writes_doc_def by blast+

lemma create_map_wp:
  assumes "writes_doc c shows" and "shows S s" and "\<And>e s'. Q (Inl e) s'"
    and "\<And>y s'. keeps_map x y \<Longrightarrow> shows (put_map y S) s' \<Longrightarrow> Q (Inr y) s'"
  shows "wp (Create_ConfigMap c x) Q s"
proof -
  have "wp (Create_ConfigMap c x) (\<lambda>r s'. case r of
      Inl e \<Rightarrow> shows S s' | Inr y \<Rightarrow> keeps_map x y \<and> shows (put_map y S) s') s"
    using assms(1,2) unfolding writes_doc_def by blast
  then show ?thesis
    by (rule wp_mono) (auto simp: assms(3) intro: assms(4) split: sum.splits)
qed

definition put_config :: "CiscoAciAim \<Rightarrow> ConfigMap option \<Rightarrow> 'q store \<Rightarrow> 'q store" where
  "put_config a x S = S\<lparr>s_maps := (s_maps S)(key (aim_Namespace a) (aim_Name a @ ''-config'') := x)\<rparr>"

text \<open>A phase that leaves the store, but for one object, as it was, and makes that object ready.\<close>

lemma store_ensureConfigMap:
  assumes R: "reads_doc c shows" and W: "writes_doc c shows" and own: "owner_ref_doc L" and S: "shows S s"
  shows "wp (ensureConfigMap L c a files) (\<lambda>r s'. \<forall>cm. r = Inr cm \<longrightarrow>
      Name (cm_Meta cm) = aim_Name a @ ''-config'' \<and>
      (\<exists>x. shows (put_config a x S) s' \<and> map_ready L a files (put_config a x S))) s"
proof (cases "SetControllerReference L (aim_Meta a) (cm_Meta (ConfigMap a files))")
  case (Inl e)
  then show ?thesis
    by (simp add: ensureConfigMap_def wp_rules)
next
  case (Inr meta)
  let ?k = "key (aim_Namespace a) (aim_Name a @ ''-config'')"
  let ?want = "(ConfigMap a files)\<lparr>cm_Meta := meta\<rparr>"
  note name = config_map_meta [OF own Inr]
  have data: "cm_Data (ConfigMap a files) = files"
    by (simp add: ConfigMap_def)
  define P where "P s' \<longleftrightarrow> (\<exists>x. shows (put_config a x S) s' \<and> map_ready L a files (put_config a x S))" for s'
  have put: "P s'" if "shows (put_map y S) s'" "keeps_map x y" "meta_key (cm_Meta x) = ?k" "cm_Data x = files" for x y s'
    unfolding P_def using that Inr
    by (intro exI [of _ "Some y"]) (simp add: put_map_def put_config_def map_ready_def keeps_map_def)
  have keep: "P s'" if "shows S s'" "s_maps S ?k = Some ob" "cm_Data ob = files" for ob s'
    unfolding P_def using that Inr by (intro exI [of _ "Some ob"]) (simp add: put_config_def map_ready_def fun_upd_idem)
  have at: "meta_key (cm_Meta ob) = ?k" if "s_maps S ?k = Some ob" for ob
    using writes_docD(1) [OF W S] that unfolding keyed_def by blast
  have "wp (applyConfigMap L c (aim_Namespace a, ?want))
      (\<lambda>r s'. \<forall>cm. r = Inr cm \<longrightarrow> Name (cm_Meta cm) = aim_Name a @ ''-config'' \<and> P s') s"
    unfolding applyConfigMap_def prod.case wp_bind
  proof (rule answers_wp [OF reads_docD(2) [OF R] S], goal_cases)
    case (1 r s1)
    show ?case
    proof (cases "s_maps S ?k")
      case None
      with 1 show ?thesis
        by (cases r) (auto simp: name data wp_rules keeps_map_def intro!: create_map_wp [OF W 1(1)] intro: put [where x = ?want])
    next
      case (Some ob)
      have "P s'" if "shows (put_map y S) s'" "keeps_map (ob\<lparr>cm_Data := files\<rparr>) y" for y s'
        using that at [OF Some] by (intro put [OF that]) simp_all
      with 1 Some show ?thesis
        by (auto simp: name data wp_rules intro!: effects_wp [OF writes_docD(2) [OF W] 1(1)] intro: keep)
    qed
  qed
  then show ?thesis
    by (simp add: ensureConfigMap_def Inr P_def)
qed

lemma ready_ensureConfigMap:
  assumes R: "reads_doc c shows" and own: "owner_ref_doc L" and S: "shows S s" and ready: "map_ready L a files S"
  shows "wp (ensureConfigMap L c a files)
    (\<lambda>r s'. shows S s' \<and> (\<exists>cm. r = Inr cm \<and> Name (cm_Meta cm) = aim_Name a @ ''-config'')) s"
proof -
  from ready obtain meta ob where meta: "SetControllerReference L (aim_Meta a) (cm_Meta (ConfigMap a files)) = Inr meta"
    and ob: "s_maps S (key (aim_Namespace a) (aim_Name a @ ''-config'')) = Some ob" "cm_Data ob = files"
    unfolding map_ready_def by blast
  have data: "cm_Data (ConfigMap a files) = files"
    by (simp add: ConfigMap_def)
  show ?thesis
    unfolding ensureConfigMap_def Let_def meta sum.case applyConfigMap_def prod.case wp_bind
    by (rule answers_wp [OF reads_docD(2) [OF R] S]) (simp add: config_map_meta [OF own meta] ob data wp_rules)
qed

section \<open>The CA secret\<close>

definition ca_ready :: "string \<Rightarrow> 'q store \<Rightarrow> bool" where
  "ca_ready ns S \<longleftrightarrow>
     (\<exists>src crt ob. s_secrets S (key ns ''rootca-internal'') = Some src \<and> gm_get (sec_Data src) ''ca.crt'' = Some crt \<and>
        s_secrets S (key ns ''rabbitmq-ca-secret'') = Some ob \<and> sec_Data ob = gm_of [(''tls-ca-bundle.pem'', crt)])"

definition put_ca :: "string \<Rightarrow> Secret option \<Rightarrow> 'q store \<Rightarrow> 'q store" where
  "put_ca ns x S = S\<lparr>s_secrets := (s_secrets S)(key ns ''rabbitmq-ca-secret'' := x)\<rparr>"

lemma store_applyCaSecret:
  assumes R: "reads_doc c shows" and W: "writes_doc c shows" and S: "shows S s"
    and src: "s_secrets S (key ns ''rootca-internal'') = Some src" and crt: "gm_get (sec_Data src) ''ca.crt'' = Some crt"
  shows "wp (applyCaSecret L c (ns, ca_secret ns crt)) (\<lambda>r s'. r = Inr () \<longrightarrow>
      (\<exists>x. shows (put_ca ns x S) s' \<and> ca_ready ns (put_ca ns x S))) s"
proof -
  let ?k = "key ns ''rabbitmq-ca-secret''"
  define P where "P s' \<longleftrightarrow> (\<exists>x. shows (put_ca ns x S) s' \<and> ca_ready ns (put_ca ns x S))" for s'
  have data: "sec_Data (ca_secret ns crt) = gm_of [(''tls-ca-bundle.pem'', crt)]"
    by (simp add: ca_secret_def)
  have stored: "P s'" if "shows (put_ca ns (Some y) S) s'" "sec_Data y = sec_Data (ca_secret ns crt)" for y s'
    unfolding P_def using that src crt by (intro exI [of _ "Some y"]) (auto simp: ca_ready_def put_ca_def data)
  have put: "P s'" if "keeps_secret y x" "shows (put_secret x S) s'" "meta_key (sec_Meta y) = ?k" "sec_Data y = sec_Data (ca_secret ns crt)" for y x s'
    using that by (intro stored [of x]) (simp_all add: put_secret_def put_ca_def keeps_secret_def)
  have at: "meta_key (sec_Meta ob) = ?k" "S = put_ca ns (Some ob) S" if "s_secrets S ?k = Some ob" for ob
    using writes_docD(1) [OF W S] that unfolding keyed_def by (blast, simp add: put_ca_def fun_upd_idem)
  have new: "meta_key (sec_Meta (ca_secret ns crt)) = ?k"
    by (simp add: ca_secret_def)
  show ?thesis
    unfolding applyCaSecret_def prod.case wp_bind P_def [symmetric]
  proof (rule answers_wp [OF reads_docD(3) [OF R] S], goal_cases)
    case (1 r s1)
    show ?case
    proof (cases "s_secrets S ?k")
      case None
      with 1 show ?thesis
        by (cases r) (auto simp: wp_rules intro!: effects_wp [OF writes_docD(3) [OF W] 1(1)] intro: put [OF _ _ new])
    next
      case (Some ob)
      have same: "P s1" if "sec_Data ob = sec_Data (ca_secret ns crt)"
        using at(2) [OF Some] 1(1) that by (intro stored [of ob]) simp_all
      have "P s'" if "keeps_secret (ob\<lparr>sec_Data := sec_Data (ca_secret ns crt)\<rparr>) x" "shows (put_secret x S) s'" for x s'
        using at(1) [OF Some] by (intro put [OF that]) simp_all
      with Some 1 show ?thesis
        by (auto simp: wp_rules intro!: effects_wp [OF writes_docD(4) [OF W] 1(1)] intro: same)
    qed
  qed
qed

lemma store_ensureRabbitMQCaSecret:
  assumes R: "reads_doc c shows" and W: "writes_doc c shows" and S: "shows S s"
  shows "wp (ensureRabbitMQCaSecret L c a) (\<lambda>r s'. r = Inr () \<longrightarrow>
      (\<exists>x. shows (put_ca (aim_Namespace a) x S) s' \<and> ca_ready (aim_Namespace a) (put_ca (aim_Namespace a) x S))) s"
  unfolding ensureRabbitMQCaSecret_def wp_check
proof (rule answers_wp [OF reads_docD(3) [OF R] S], goal_cases)
  case (1 r s1)
  then show ?case
    by (cases "s_secrets S (key (aim_Namespace a) ''rootca-internal'')"; cases r)
      (auto simp: wp_rules intro!: store_applyCaSecret [OF R W 1(1)] split: option.split)
qed

lemma ready_ensureRabbitMQCaSecret:
  assumes R: "reads_doc c shows" and S: "shows S s" and ready: "ca_ready (aim_Namespace a) S"
  shows "wp (ensureRabbitMQCaSecret L c a) (\<lambda>r s'. shows S s' \<and> r = Inr ()) s"
proof -
  from ready obtain src crt ob where src: "s_secrets S (key (aim_Namespace a) ''rootca-internal'') = Some src"
    and crt: "gm_get (sec_Data src) ''ca.crt'' = Some crt"
    and ob: "s_secrets S (key (aim_Namespace a) ''rabbitmq-ca-secret'') = Some ob"
      "sec_Data ob = gm_of [(''tls-ca-bundle.pem'', crt)]"
    unfolding ca_ready_def by blast
  have apply_ca: "wp (applyCaSecret L c (aim_Namespace a, ca_secret (aim_Namespace a) crt)) (\<lambda>r s'. shows S s' \<and> r = Inr ()) s1"
    if "shows S s1" for s1
    unfolding applyCaSecret_def prod.case wp_bind
    by (rule answers_wp [OF reads_docD(3) [OF R] that]) (simp add: ob ca_secret_def wp_rules)
  show ?thesis
    unfolding ensureRabbitMQCaSecret_def wp_check
    by (rule answers_wp [OF reads_docD(3) [OF R] S]) (simp add: src crt apply_ca)
qed

section \<open>Log claims\<close>

definition claims_ready :: "'q Lib \<Rightarrow> CiscoAciAim \<Rightarrow> 'q store \<Rightarrow> bool" where
  "claims_ready L a S \<longleftrightarrow>
     (case log_spec a of
        None \<Rightarrow> True
      | Some lp \<Rightarrow>
          (\<exists>q. ParseQuantity L (Size lp) = Inr q \<and>
             list_all (\<lambda>x. growable L (log_claim_prefix a) q (StorageClassName lp) x \<and>
                            \<not> needs_growth L (log_claim_prefix a) q x)
               (listed S (aim_Namespace a) (gm_of [(''app'', aim_Name a)]))))"

text \<open>The claims after those of \<open>xs\<close> that are too small have grown.\<close>

definition grew ::
    "'q Lib \<Rightarrow> string \<Rightarrow> 'q \<Rightarrow> 'q PersistentVolumeClaim list \<Rightarrow> 'q PersistentVolumeClaim \<Rightarrow> 'q PersistentVolumeClaim \<Rightarrow> bool" where
  "grew L pre q xs p p' \<longleftrightarrow>
     (if p \<in> set xs \<and> needs_growth L pre q p then keeps_claim (grown q p) p' else p' = p)"

lemma grew_keeps:
  "grew L pre q xs p p' \<Longrightarrow> meta_key (pvc_Meta p') = meta_key (pvc_Meta p) \<and> Labels (pvc_Meta p') = Labels (pvc_Meta p)"
  by (auto simp: grew_def keeps_claim_def split: if_splits)

lemma list_all2_grew_none: "\<forall>p \<in> set xs. \<not> needs_growth L pre q p \<Longrightarrow> list_all2 (grew L pre q xs) claims claims"
  by (auto simp: grew_def intro!: list_all2_refl)

lemma grew_skip: "\<not> needs_growth L pre q x \<Longrightarrow> grew L pre q (x # xs) = grew L pre q xs"
  by (auto simp: grew_def fun_eq_iff)

lemma distinct_keyD:
  "distinct (map f xs) \<Longrightarrow> x \<in> set xs \<Longrightarrow> y \<in> set xs \<Longrightarrow> f x = f y \<Longrightarrow> x = y"
  by (meson distinct_map inj_onD)

lemma grew_update:
  assumes "distinct (map (\<lambda>p. meta_key (pvc_Meta p)) (s_claims S))" and "set (x # xs) \<subseteq> set (s_claims S)" and "x \<notin> set xs"
    and "needs_growth L pre q x" and y: "keeps_claim (grown q x) y"
  defines "after \<equiv> map (\<lambda>p. if p = x then y else p) (s_claims S)"
  shows "put_claim y S = S\<lparr>s_claims := after\<rparr>" and "set xs \<subseteq> set after"
    and "list_all2 (grew L pre q xs) after claims' \<Longrightarrow> list_all2 (grew L pre q (x # xs)) (s_claims S) claims'"
proof -
  have uniq: "meta_key (pvc_Meta p) = meta_key (pvc_Meta y) \<longleftrightarrow> p = x" if "p \<in> set (s_claims S)" for p
    using distinct_keyD [OF assms(1) that, of x] assms(2) y by (auto simp: keeps_claim_def)
  show "put_claim y S = S\<lparr>s_claims := after\<rparr>"
    using uniq unfolding put_claim_def after_def by (intro arg_cong [where f = "\<lambda>f. S\<lparr>s_claims := f\<rparr>"] map_cong) simp_all
  show "set xs \<subseteq> set after"
    using assms(2,3) by (auto simp: after_def)
  have "y \<notin> set xs"
    using assms(2,3) uniq [of y] by auto
  then have step: "grew L pre q xs (if p = x then y else p) p' \<Longrightarrow> grew L pre q (x # xs) p p'" for p p'
    using assms(3,4) y by (auto simp: grew_def split: if_splits)
  show "list_all2 (grew L pre q xs) after claims' \<Longrightarrow> list_all2 (grew L pre q (x # xs)) (s_claims S) claims'"
    unfolding after_def list_all2_map1 by (erule list_all2_mono) (rule step)
qed

lemma store_resize_claims:
  assumes W: "writes_doc c shows"
  shows "shows S s \<Longrightarrow> set xs \<subseteq> set (s_claims S) \<Longrightarrow> distinct xs \<Longrightarrow>
    wp (resize_claims L c pre q cls xs) (\<lambda>r s'. r = Inr () \<longrightarrow> list_all (growable L pre q cls) xs \<and>
      (\<exists>cl. list_all2 (grew L pre q xs) (s_claims S) cl \<and> shows (S\<lparr>s_claims := cl\<rparr>) s')) s"
proof (induction xs arbitrary: S s)
  case Nil
  then show ?case
    by (auto simp: wp_rules intro!: exI [of _ "s_claims S"] list_all2_grew_none)
next
  case (Cons x xs)
  show ?case
  proof (cases rule: resize_claims_step [where L = L and pre = pre and q = q and cls = cls and x = x and c = c and xs = xs])
    case (rejected err)
    show ?thesis
      unfolding rejected(2) by (simp add: wp_rules)
  next
    case kept
    then show ?thesis
      using Cons.IH [OF Cons.prems(1)] Cons.prems(2,3) unfolding kept(3) grew_skip [OF kept(2)] by simp
  next
    case grows
    have x: "x \<notin> set xs" "distinct xs" and keys: "distinct (map (\<lambda>p. meta_key (pvc_Meta p)) (s_claims S))"
      using Cons.prems(3) writes_docD(1) [OF W Cons.prems(1)] by (simp_all add: keyed_def)
    have "wp (resize_claims L c pre q cls xs) (\<lambda>r s'. r = Inr () \<longrightarrow> list_all (growable L pre q cls) (x # xs) \<and>
        (\<exists>cl. list_all2 (grew L pre q (x # xs)) (s_claims S) cl \<and> shows (S\<lparr>s_claims := cl\<rparr>) s')) s'"
      if y: "keeps_claim (grown q x) y" "shows (put_claim y S) s'" for y s'
    proof -
      note after = grew_update [OF keys Cons.prems(2) x(1) grows(2) y(1)]
      show ?thesis
        using Cons.IH [OF y(2) [unfolded after(1)]] after(2) x(2) grows(1)
        by (auto elim!: wp_mono intro: after(3))
    qed
    then show ?thesis
      unfolding grows(3) by (auto simp: wp_rules intro!: effects_wp [OF writes_docD(7) [OF W] Cons.prems(1)])
  qed
qed

text \<open>Apart from log claims of the instance that may have been resized, the claims are as before.\<close>

definition claims_frame :: "CiscoAciAim \<Rightarrow> 'q PersistentVolumeClaim \<Rightarrow> 'q PersistentVolumeClaim \<Rightarrow> bool" where
  "claims_frame a p p' \<longleftrightarrow>
     p' = p \<or> HasPrefix (Name (pvc_Meta p)) (log_claim_prefix a) \<and> Namespace (pvc_Meta p) = aim_Namespace a \<and>
               (\<exists>q. keeps_claim (grown q p) p')"

lemma list_all2_filter:
  "list_all2 R xs ys \<Longrightarrow> (\<And>x y. R x y \<Longrightarrow> P x \<longleftrightarrow> P y) \<Longrightarrow> list_all2 R (filter P xs) (filter P ys)"
  by (induction rule: list_all2_induct) auto

lemma listed_grew:
  "list_all2 (grew L pre q xs) (s_claims S) cl \<Longrightarrow> list_all2 (grew L pre q xs) (listed S ns ls) (listed (S\<lparr>s_claims := cl\<rparr>) ns ls)"
  unfolding listed_def by simp (erule list_all2_filter, drule grew_keeps, simp)

lemma grown_ready:
  assumes "cmp_doc L" "storage_doc L" "growable L pre q cls p" "p \<in> set xs" "grew L pre q xs p p'"
  shows "growable L pre q cls p' \<and> \<not> needs_growth L pre q p'"
proof (cases "needs_growth L pre q p")
  case True
  with assms(4,5) have "keeps_claim (grown q p) p'"
    by (simp add: grew_def)
  then have "growable L pre q cls p' = growable L pre q cls (grown q p)"
      "needs_growth L pre q p' = needs_growth L pre q (grown q p)"
    by (simp_all add: keeps_claim_def growable_def needs_growth_def)
  with grown_done [OF assms(1-3)] show ?thesis
    by simp
next
  case False
  with assms(3,5) show ?thesis
    by (simp add: grew_def)
qed

abbreviation log_claims :: "CiscoAciAim \<Rightarrow> 'q store \<Rightarrow> 'q PersistentVolumeClaim list" where
  "log_claims a S \<equiv> listed S (aim_Namespace a) (gm_of [(''app'', aim_Name a)])"

lemma grew_claims:
  assumes "cmp_doc L" "storage_doc L" and spec: "log_spec a = Some lp" "ParseQuantity L (Size lp) = Inr q"
    and fit: "list_all (growable L (log_claim_prefix a) q (StorageClassName lp)) (log_claims a S)"
    and grew: "list_all2 (grew L (log_claim_prefix a) q (log_claims a S)) (s_claims S) cl"
  shows "list_all2 (claims_frame a) (s_claims S) cl" and "claims_ready L a (S\<lparr>s_claims := cl\<rparr>)"
proof -
  show "list_all2 (claims_frame a) (s_claims S) cl"
    using grew by (rule list_all2_mono) (auto simp: grew_def claims_frame_def listed_def needs_growth_def split: if_splits)
  have ready: "growable L (log_claim_prefix a) q (StorageClassName lp) p' \<and> \<not> needs_growth L (log_claim_prefix a) q p'"
    if "p \<in> set (log_claims a S)" "grew L (log_claim_prefix a) q (log_claims a S) p p'" for p p'
    using fit that(1) by (intro grown_ready [OF assms(1,2) _ that]) (simp add: list_all_iff)
  have "list_all2 (grew L (log_claim_prefix a) q (log_claims a S)) (log_claims a S) (log_claims a (S\<lparr>s_claims := cl\<rparr>))"
    using grew by (rule listed_grew)
  then have "list_all2 (\<lambda>p p'. p \<in> set (log_claims a S) \<longrightarrow> growable L (log_claim_prefix a) q (StorageClassName lp) p' \<and>
      \<not> needs_growth L (log_claim_prefix a) q p') (log_claims a S) (log_claims a (S\<lparr>s_claims := cl\<rparr>))"
    by (rule list_all2_mono) (use ready in blast)
  then show "claims_ready L a (S\<lparr>s_claims := cl\<rparr>)"
    using spec by (auto simp: claims_ready_def list_all_length list_all2_conv_all_nth)
qed

lemma store_ensureLogPVCStorage:
  assumes R: "reads_doc c shows" and W: "writes_doc c shows" and doc: "cmp_doc L" "storage_doc L" and S: "shows S s"
  shows "wp (ensureLogPVCStorage L c a) (\<lambda>r s'. r = Inr () \<longrightarrow> (\<exists>cl. list_all2 (claims_frame a) (s_claims S) cl \<and>
      shows (S\<lparr>s_claims := cl\<rparr>) s' \<and> claims_ready L a (S\<lparr>s_claims := cl\<rparr>))) s"
proof (cases "log_spec a")
  case None
  then show ?thesis
    using S by (simp add: ensureLogPVCStorage_def wp_rules claims_ready_def)
      (rule exI [of _ "s_claims S"], simp add: claims_frame_def list_all2_refl)
next
  case (Some lp)
  show ?thesis
  proof (cases "ParseQuantity L (Size lp)")
    case (Inl e)
    with Some show ?thesis
      by (simp add: ensureLogPVCStorage_def wp_rules)
  next
    case (Inr q)
    have xs: "set (log_claims a S) \<subseteq> set (s_claims S)" "distinct (log_claims a S)"
      using writes_docD(1) [OF W S] by (auto simp: listed_def keyed_def distinct_map)
    show ?thesis
      unfolding ensureLogPVCStorage_def Some Inr option.case sum.case wp_bind
    proof (rule listed_wp [OF R S], goal_cases)
      case (1 s1)
      from store_resize_claims [OF W 1 xs] show ?case
        unfolding sum.case by (rule wp_mono) (use grew_claims [OF doc Some Inr] in blast)
    qed
  qed
qed

lemma ready_ensureLogPVCStorage:
  assumes R: "reads_doc c shows" and S: "shows S s" and ready: "claims_ready L a S"
  shows "wp (ensureLogPVCStorage L c a) (\<lambda>r s'. shows S s' \<and> r = Inr ()) s"
proof (cases "log_spec a")
  case None
  then show ?thesis
    using S by (simp add: ensureLogPVCStorage_def wp_rules)
next
  case (Some lp)
  with ready obtain q where q: "ParseQuantity L (Size lp) = Inr q"
      "list_all (\<lambda>x. growable L (log_claim_prefix a) q (StorageClassName lp) x \<and> \<not> needs_growth L (log_claim_prefix a) q x)
        (log_claims a S)"
    by (auto simp: claims_ready_def)
  show ?thesis
    unfolding ensureLogPVCStorage_def Some q(1) option.case sum.case wp_bind
    by (rule listed_wp [OF R S]) (simp add: resize_claims_idle [OF q(2)] wp_rules)
qed

section \<open>The StatefulSet\<close>

definition put_own_set :: "CiscoAciAim \<Rightarrow> 'q StatefulSet option \<Rightarrow> 'q store \<Rightarrow> 'q store" where
  "put_own_set a x S = S\<lparr>s_sets := (s_sets S)(key (aim_Namespace a) (aim_Name a) := x)\<rparr>"

text \<open>The StatefulSet that is wanted, when the ConfigMap has its usual name.\<close>

definition wanted_set :: "'q Lib \<Rightarrow> CiscoAciAim \<Rightarrow> string \<Rightarrow> 'q StatefulSet option" where
  "wanted_set L a csum =
     (case StatefulSet L a (aim_Name a @ ''-config'') csum of
        Inl err \<Rightarrow> None
      | Inr built \<Rightarrow>
          (case SetControllerReference L (aim_Meta a) (sts_Meta built) of
             Inl err \<Rightarrow> None | Inr meta \<Rightarrow> Some (built\<lparr>sts_Meta := meta\<rparr>)))"

text \<open>With the claims ready, an existing StatefulSet is compared and updated or replaced.\<close>

lemma ready_ensureStatefulSet:
  assumes R: "reads_doc c shows" and S: "shows S s" and claims: "claims_ready L a S"
    and name: "Name (cm_Meta cm) = aim_Name a @ ''-config''" and d: "wanted_set L a csum = Some d"
    and found: "s_sets S (key (aim_Namespace a) (aim_Name a)) = Some found"
    and valid: "validateVolumeClaimTemplateStorageClassChange
      (sts_VolumeClaimTemplates (sts_Spec found)) (sts_VolumeClaimTemplates (sts_Spec d)) = None"
    and rest: "\<And>s'. shows S s' \<Longrightarrow> wp (replaceOrUpdateStatefulSet L c d found) Q s'"
  shows "wp (ensureStatefulSet L c a cm csum) Q s"
proof -
  from d obtain built meta where built: "StatefulSet L a (aim_Name a @ ''-config'') csum = Inr built"
      "SetControllerReference L (aim_Meta a) (sts_Meta built) = Inr meta" and eq: "built\<lparr>sts_Meta := meta\<rparr> = d"
    by (auto simp: wanted_set_def split: sum.splits)
  have "wp (ensureExistingStatefulSet L c a d found) Q s1" if "shows S s1" for s1
    unfolding ensureExistingStatefulSet_def valid option.case wp_check
    by (rule wp_mono [OF ready_ensureLogPVCStorage [OF R that claims]]) (auto intro: rest)
  then show ?thesis
    unfolding ensureStatefulSet_def name built sum.case Let_def wp_bind eq
    by (intro answers_wp [OF reads_docD(4) [OF R] S]) (simp add: found)
qed

text \<open>After the phase, unless the StatefulSet is being replaced, its pods run as wanted.\<close>

definition set_current :: "CiscoAciAim \<Rightarrow> string \<Rightarrow> 'q StatefulSet \<Rightarrow> bool" where
  "set_current a csum x \<longleftrightarrow> sts_Replicas (sts_Spec x) = Some (desired_replicas a) \<and> annotated csum x"

lemma set_current_kept: "set_current a csum x \<Longrightarrow> keeps_set x y \<Longrightarrow> set_current a csum y"
  by (simp add: set_current_def keeps_set_def annotated_def)

lemma set_current_built: "StatefulSet L a n csum = Inr s \<Longrightarrow> set_current a csum (s\<lparr>sts_Meta := m\<rparr>)"
  by (simp add: set_current_def built_annotated StatefulSet_fields)

lemma set_current_updated: "set_current a csum d \<Longrightarrow> set_current a csum (updated_sts f d)"
  by (simp add: set_current_def updated_annotated) (simp add: updated_sts_def)

definition set_stored :: "'q Lib \<Rightarrow> CiscoAciAim \<Rightarrow> string \<Rightarrow> ('q store \<Rightarrow> 's \<Rightarrow> bool) \<Rightarrow> 'q store \<Rightarrow> 's \<Rightarrow> bool" where
  "set_stored L a csum shows S s \<longleftrightarrow>
     (\<exists>x cl. set_current a csum x \<and> list_all2 (claims_frame a) (s_claims S) cl \<and>
        shows (put_own_set a (Some x) (S\<lparr>s_claims := cl\<rparr>)) s \<and>
        (s_sets S (key (aim_Namespace a) (aim_Name a)) \<noteq> None \<longrightarrow> claims_ready L a (S\<lparr>s_claims := cl\<rparr>)))"

lemma store_replaceOrUpdate:
  assumes W: "writes_doc c shows" and S: "shows S s" and found: "s_sets S (key (aim_Namespace a) (aim_Name a)) = Some found"
    and d: "set_current a csum d"
  shows "wp (replaceOrUpdateStatefulSet L c d found)
    (\<lambda>r s'. r = Inr False \<longrightarrow> (\<exists>x. set_current a csum x \<and> shows (put_own_set a (Some x) S) s')) s"
proof -
  have at: "meta_key (sts_Meta found) = key (aim_Namespace a) (aim_Name a)"
    using writes_docD(1) [OF W S] found unfolding keyed_def by blast
  define P where "P s' \<longleftrightarrow> (\<exists>x. set_current a csum x \<and> shows (put_own_set a (Some x) S) s')" for s'
  have keep: "P s" if "updated_sts found d = found"
    unfolding P_def using set_current_updated [OF d, of found] that S found
    by (intro exI [of _ found]) (simp add: put_own_set_def fun_upd_idem)
  have put: "P s'" if "keeps_set (updated_sts found d) y" "shows (put_set y S) s'" for y s'
    unfolding P_def using set_current_kept [OF set_current_updated [OF d] that(1)] that at
    by (intro exI [of _ y]) (simp add: keeps_set_def put_set_def put_own_set_def)
  show ?thesis
    unfolding replaceOrUpdate_alt P_def [symmetric]
    by (auto simp: wp_rules intro: wp_I keep put split: sum.split intro!: effects_wp [OF writes_docD(6) [OF W] S])
qed

lemma store_ensureExisting:
  assumes R: "reads_doc c shows" and W: "writes_doc c shows" and doc: "cmp_doc L" "storage_doc L" and S: "shows S s"
    and found: "s_sets S (key (aim_Namespace a) (aim_Name a)) = Some found" and d: "set_current a csum d"
  shows "wp (ensureExistingStatefulSet L c a d found) (\<lambda>r s'. r = Inr False \<longrightarrow> set_stored L a csum shows S s') s"
proof (cases "validateVolumeClaimTemplateStorageClassChange
    (sts_VolumeClaimTemplates (sts_Spec found)) (sts_VolumeClaimTemplates (sts_Spec d))")
  case (Some e)
  then show ?thesis
    by (simp add: ensureExistingStatefulSet_def wp_rules)
next
  case None
  have "wp (replaceOrUpdateStatefulSet L c d found) (\<lambda>r s'. r = Inr False \<longrightarrow> set_stored L a csum shows S s') s1"
    if cl: "list_all2 (claims_frame a) (s_claims S) cl" "shows (S\<lparr>s_claims := cl\<rparr>) s1" "claims_ready L a (S\<lparr>s_claims := cl\<rparr>)" for cl s1
    using found by (intro wp_mono [OF store_replaceOrUpdate [OF W cl(2) _ d]]) (use cl in \<open>auto simp: set_stored_def\<close>)
  then show ?thesis
    unfolding ensureExistingStatefulSet_def None option.case wp_check
    by (intro wp_mono [OF store_ensureLogPVCStorage [OF R W doc S]]) (auto split: sum.split)
qed

lemma store_ensureStatefulSet:
  assumes R: "reads_doc c shows" and W: "writes_doc c shows" and own: "owner_ref_doc L"
    and doc: "cmp_doc L" "storage_doc L" and S: "shows S s"
  shows "wp (ensureStatefulSet L c a cm csum) (\<lambda>r s'. r = Inr False \<longrightarrow> set_stored L a csum shows S s') s"
proof (cases "StatefulSet L a (Name (cm_Meta cm)) csum")
  case (Inl e)
  then show ?thesis
    by (simp add: ensureStatefulSet_def wp_rules)
next
  case built: (Inr built)
  show ?thesis
  proof (cases "SetControllerReference L (aim_Meta a) (sts_Meta built)")
    case (Inl e)
    then show ?thesis
      by (simp add: ensureStatefulSet_def built wp_rules)
  next
    case (Inr meta)
    let ?d = "built\<lparr>sts_Meta := meta\<rparr>"
    note d = set_current_built [OF built, of meta]
    have names: "meta_key (sts_Meta ?d) = key (aim_Namespace a) (aim_Name a)"
      using owner_ref_names [OF own Inr] StatefulSet_fields(1,2) [OF built] by simp
    have create: "set_stored L a csum shows S s'"
      if "keeps_set ?d y" "shows (put_set y S) s'" "s_sets S (key (aim_Namespace a) (aim_Name a)) = None" for y s'
      unfolding set_stored_def using that names set_current_kept [OF d that(1)]
      by (intro exI [of _ y] exI [of _ "s_claims S"])
        (simp add: keeps_set_def put_set_def put_own_set_def claims_frame_def list_all2_refl)
    show ?thesis
      unfolding ensureStatefulSet_def built Inr sum.case Let_def wp_bind
    proof (rule answers_wp [OF reads_docD(4) [OF R] S], goal_cases)
      case (1 r s1)
      then show ?case
        by (cases "s_sets S (key (aim_Namespace a) (aim_Name a))"; cases r)
          (auto simp: wp_rules intro: store_ensureExisting [OF R W doc 1(1) _ d] create
            intro!: effects_wp [OF writes_docD(5) [OF W] 1(1)])
    qed
  qed
qed

end
