(* ===== verification/Reconcile_Store.thy ===== *)
theory Reconcile_Store
  imports Demo_Run Sts_Lifecycle Api_Store
begin

text \<open>
  \<open>Reconcile\<close> against an API server that nobody else writes to (\<open>Api_Store\<close>): what a successful call
  leaves in the store, what it never touches, and that a call which finds the objects in order writes
  at most the StatefulSet, in place, and the status.
\<close>

section \<open>The status is not an input\<close>

lemma same_instance_Status: "same_instance a b \<Longrightarrow> b = a\<lparr>Status := Status b\<rparr>"
  by (cases a; cases b) (simp add: same_instance_def)

lemma frame_Status: "aim_Meta (a\<lparr>Status := x\<rparr>) = aim_Meta a" "Spec (a\<lparr>Status := x\<rparr>) = Spec a"
  by simp_all

lemma generate_Status [simp]: "generateConfigFiles fs rng (a\<lparr>Status := x\<rparr>) db bus rabbit = generateConfigFiles fs rng a db bus rabbit"
  unfolding generateConfigFiles_def populateAimConfData_def populateAimCtlConfData_def frame_Status by (rule refl)

lemma mounts_Status [simp]:
  "GetVolumeMounts (a\<lparr>Status := x\<rparr>) = GetVolumeMounts a" "GetVolumes n (a\<lparr>Status := x\<rparr>) = GetVolumes n a"
  unfolding GetVolumeMounts_def GetVolumes_def verify_ssl_is_path_def ca_mount_def key_mount_def cert_mount_def
      private_key_file_def cert_file_def ca_volume_def key_volume_def cert_volume_def frame_Status
  by (rule refl)+

lemma StatefulSet_Status [simp]: "StatefulSet L (a\<lparr>Status := x\<rparr>) n csum = StatefulSet L a n csum"
  unfolding StatefulSet_def pod_template_def aim_container_def liveness_probe_def desired_replicas_def
      LogVolumeClaimTemplate_def mounts_Status frame_Status
  by (rule refl)

lemma ready_Status [simp]:
  "map_ready L (a\<lparr>Status := x\<rparr>) files S = map_ready L a files S"
  "claims_ready L (a\<lparr>Status := x\<rparr>) S = claims_ready L a S"
  "wanted_set L (a\<lparr>Status := x\<rparr>) csum = wanted_set L a csum"
  "set_current (a\<lparr>Status := x\<rparr>) csum y = set_current a csum y"
  "put_config (a\<lparr>Status := x\<rparr>) m S = put_config a m S"
  "put_own_set (a\<lparr>Status := x\<rparr>) st S = put_own_set a st S"
  unfolding map_ready_def ConfigMap_def claims_ready_def log_claim_prefix_def wanted_set_def set_current_def
    desired_replicas_def put_config_def put_own_set_def frame_Status StatefulSet_Status
  by (rule refl)+

lemma frames_Status [simp]: "claims_frame (a\<lparr>Status := x\<rparr>) = claims_frame a"
  by (simp add: fun_eq_iff claims_frame_def log_claim_prefix_def)

lemma set_stored_Status [simp]: "set_stored L (a\<lparr>Status := x\<rparr>) csum shows S s = set_stored L a csum shows S s"
  unfolding set_stored_def ready_Status frames_Status frame_Status by (rule refl)

section \<open>Nothing to do\<close>

text \<open>The files that the dependencies in the store lead to.\<close>

definition files_of :: "'q Lib \<Rightarrow> file_system \<Rightarrow> range_order \<Rightarrow> CiscoAciAim \<Rightarrow> 'q store \<Rightarrow> string gomap option" where
  "files_of L fs rng a S =
     (case (db_conn L S (aim_Namespace a), bus_conn S (aim_Namespace a)) of
        (Some db, Some bus) \<Rightarrow>
          if db = [] then None
          else (case generateConfigFiles fs rng a db bus (queue_settings S (aim_Namespace a)) of
                  Inl err \<Rightarrow> None | Inr files \<Rightarrow> Some files)
      | _ \<Rightarrow> None)"

text \<open>
  The objects of the instance are in order: the ConfigMap, the CA secret and the log claims are as
  wanted, and the StatefulSet \<open>found\<close> need not be replaced by the wanted one \<open>d\<close>. It may still differ in
  fields that can be changed in place, in particular where the API server filled in defaults.
\<close>

definition in_order ::
    "'q Lib \<Rightarrow> file_system \<Rightarrow> range_order \<Rightarrow> CiscoAciAim \<Rightarrow> 'q store \<Rightarrow> 'q StatefulSet \<Rightarrow> 'q StatefulSet \<Rightarrow> bool" where
  "in_order L fs rng a S d found \<longleftrightarrow>
     (\<exists>files. files_of L fs rng a S = Some files \<and> map_ready L a files S \<and> ca_ready (aim_Namespace a) S \<and>
        claims_ready L a S \<and> wanted_set L a (GenerateConfigMapChecksum rng files) = Some d) \<and>
     s_sets S (key (aim_Namespace a) (aim_Name a)) = Some found \<and>
     validateVolumeClaimTemplateStorageClassChange
       (sts_VolumeClaimTemplates (sts_Spec found)) (sts_VolumeClaimTemplates (sts_Spec d)) = None \<and>
     \<not> statefulSetRequiresRecreation found d"

text \<open>The update of the StatefulSet, if one is due, with its outcome.\<close>

definition set_update :: "'q StatefulSet \<Rightarrow> 'q StatefulSet \<Rightarrow> bool \<Rightarrow> 'q entry list" where
  "set_update d found k =
     (if updated_sts found d = found then [] else [(RUpdateStatefulSet (updated_sts found d), k)])"

definition quiet ::
    "CiscoAciAim \<Rightarrow> 'q StatefulSet \<Rightarrow> 'q StatefulSet \<Rightarrow> go_error + Result \<Rightarrow> 'q entry list \<Rightarrow> bool" where
  "quiet a d found r l \<longleftrightarrow>
     (\<exists>b k. l = set_update d found True @ [(RUpdateStatus b, k)] \<and> same_instance a b \<and> (k \<longleftrightarrow> r = Inr no_requeue)) \<or>
     (\<exists>e. r = Inl e \<and> updated_sts found d \<noteq> found \<and> l = set_update d found False)"

lemma quiet_status:
  assumes "writes (snd s) = set_update d found True" and "same_instance a b"
  shows "wp (check (UpdateStatus_CiscoAciAim (traced c) b) (\<lambda>_. ok no_requeue)) (\<lambda>r s'. quiet a d found r (writes (snd s'))) s"
  using assms by (cases s) (auto simp: wp_check wp_logged quiet_def wp_rules intro!: wp_I split: sum.split)

lemma quiet_failed: "updated_sts found d \<noteq> found \<Longrightarrow> quiet a d found (Inl e) (set_update d found False)"
  by (simp add: quiet_def)

lemma quiet_update:
  assumes "\<not> statefulSetRequiresRecreation found d" and "recorded shows [] S s"
  shows "wp (replaceOrUpdateStatefulSet L (traced c) d found) (\<lambda>r s'.
      r = Inr False \<and> writes (snd s') = set_update d found True \<or>
      (\<exists>e. r = Inl e \<and> updated_sts found d \<noteq> found \<and> writes (snd s') = set_update d found False)) s"
  using assms unfolding replaceOrUpdate_alt
  by (cases s) (auto simp: wp_check wp_logged recorded_def set_update_def wp_rules intro!: wp_I split: sum.split)

lemma quiet_reconcileObjects:
  assumes R: "reads_doc c shows" and own: "owner_ref_doc L" and S: "recorded shows [] S s" and b: "same_instance a b"
    and order: "in_order L fs rng a S d found" and files: "files_of L fs rng a S = Some files"
  shows "wp (reconcileObjects L (traced c) rng b files) (\<lambda>r s'. quiet a d found r (writes (snd s'))) s"
proof -
  note T = reads_recorded [OF R, of "[]"]
  obtain x where x: "b = a\<lparr>Status := x\<rparr>"
    using same_instance_Status [OF b] by blast
  have ready: "map_ready L b files S" "ca_ready (aim_Namespace b) S" "claims_ready L b S"
      "wanted_set L b (GenerateConfigMapChecksum rng files) = Some d"
      "s_sets S (key (aim_Namespace b) (aim_Name b)) = Some found"
    and keep: "validateVolumeClaimTemplateStorageClassChange
        (sts_VolumeClaimTemplates (sts_Spec found)) (sts_VolumeClaimTemplates (sts_Spec d)) = None"
      "\<not> statefulSetRequiresRecreation found d"
    using order files by (auto simp: in_order_def x)
  have same: "same_instance a (setCondition L b ty st rs ms)" for ty st rs ms
    using b by (simp add: same_instance_def)
  show ?thesis
    unfolding reconcileObjects_def Let_def wp_check [of "ensureConfigMap L (traced c) b files"]
      wp_check [of "ensureRabbitMQCaSecret L (traced c) b"] wp_check [of "ensureStatefulSet L (traced c) b _ _"]
  proof (rule wp_mono [OF ready_ensureConfigMap [OF T own S ready(1)]], goal_cases)
    case (1 r s1)
    then obtain cm where cm: "r = Inr cm" "Name (cm_Meta cm) = aim_Name b @ ''-config''" "recorded shows [] S s1"
      by blast
    show ?case
      unfolding cm(1) sum.case
      by (rule wp_mono [OF ready_ensureRabbitMQCaSecret [OF T cm(3) ready(2)]])
        (auto intro!: ready_ensureStatefulSet [OF T _ ready(3) cm(2) ready(4,5) keep(1)] wp_mono [OF quiet_update [OF keep(2)]]
          quiet_status same simp: quiet_failed simp del: traced_simps)
  qed
qed

text \<open>What the dependencies in the store make of the call: without configuration files it does not succeed.\<close>

lemma wp_reconcileInstance:
  assumes R: "reads_doc c shows" and S: "shows S s"
    and objects: "\<And>files b s'. files_of L fs rng a S = Some files \<Longrightarrow> same_instance a b \<Longrightarrow> shows S s' \<Longrightarrow>
      wp (reconcileObjects L c rng b files) Q s'"
    and others: "\<And>r s'. files_of L fs rng a S = None \<Longrightarrow> r \<noteq> Inr no_requeue \<Longrightarrow> Q r s'"
  shows "wp (reconcileInstance L c fs rng a) Q s"
proof -
  let ?ns = "aim_Namespace a"
  let ?gen = "\<lambda>b db bus rabbit. case generateConfigFiles fs rng b db bus rabbit of
      Inl err \<Rightarrow> fail err | Inr configFiles \<Rightarrow> reconcileObjects L c rng b configFiles"
  have gen: "wp (getNeutronRabbitConfig c b) (\<lambda>rabbit. wp (?gen b db bus rabbit) Q) s1"
    if conn: "db_conn L S ?ns = Some db" "db \<noteq> []" "bus_conn S ?ns = Some bus" and b: "same_instance a b" and s1: "shows S s1" for db bus b s1
  proof (rule wp_mono [OF wp_queue_settings [OF R s1]], goal_cases)
    case (1 r s2)
    have "generateConfigFiles fs rng b db bus r = generateConfigFiles fs rng a db bus (queue_settings S ?ns)"
      using 1 b same_instance_Status [OF b] by (metis generate_Status same_instance_def)
    with 1 b conn show ?case
      by (auto simp: wp_rules files_of_def intro!: objects others split: sum.split)
  qed
  have bus: "wp (ensureMessageBus L c b) (\<lambda>r. case r of Inl e \<Rightarrow> Q (Inl e)
      | Inr x \<Rightarrow> wp (case x of (bus, b) \<Rightarrow> State_Monad.bind (getNeutronRabbitConfig c b) (?gen b db bus)) Q) s1"
    if conn: "db_conn L S ?ns = Some db" "db \<noteq> []" and b: "same_instance a b" and s1: "shows S s1" for db b s1
  proof (rule wp_mono [OF wp_ensureMessageBus [OF R s1, of L b]], goal_cases)
    case (1 r s2)
    with b show ?case
      by (cases "bus_conn S ?ns"; cases r)
        (auto simp: found_conn_def same_instance_def wp_bind files_of_def conn intro!: gen [OF conn] others split: option.split)
  qed
  show ?thesis
    unfolding reconcileInstance_def wp_check [of "ensureDB L c a"]
  proof (rule wp_mono [OF wp_ensureDB [OF R S, of L a]], goal_cases)
    case (1 r s1)
    then show ?case
      by (cases "db_conn L S ?ns"; cases r)
        (auto simp: found_conn_def wp_check wp_return files_of_def time_Second_def intro!: bus others split: option.split)
  qed
qed

section \<open>What a call leaves behind\<close>

definition own_objects_only :: "CiscoAciAim \<Rightarrow> 'q store \<Rightarrow> 'q store \<Rightarrow> bool" where
  "own_objects_only a S S' \<longleftrightarrow>
     (\<forall>k. k = key (aim_Namespace a) (aim_Name a @ ''-config'') \<or> s_maps S' k = s_maps S k) \<and>
     (\<forall>k. k = key (aim_Namespace a) ''rabbitmq-ca-secret'' \<or> s_secrets S' k = s_secrets S k) \<and>
     (\<forall>k. k = key (aim_Namespace a) (aim_Name a) \<or> s_sets S' k = s_sets S k \<and> s_aims S' k = s_aims S k) \<and>
     list_all2 (claims_frame a) (s_claims S) (s_claims S') \<and>
     s_neutrons S' = s_neutrons S \<and> s_databases S' = s_databases S \<and> s_accounts S' = s_accounts S \<and>
     s_transport_urls S' = s_transport_urls S"

definition in_place :: "'q Lib \<Rightarrow> range_order \<Rightarrow> CiscoAciAim \<Rightarrow> string gomap \<Rightarrow> 'q store \<Rightarrow> bool" where
  "in_place L rng a files S \<longleftrightarrow>
     map_ready L a files S \<and> ca_ready (aim_Namespace a) S \<and>
     (\<exists>x. s_sets S (key (aim_Namespace a) (aim_Name a)) = Some x \<and> set_current a (GenerateConfigMapChecksum rng files) x) \<and>
     (\<exists>b. s_aims S (key (aim_Namespace a) (aim_Name a)) = Some b \<and> Spec b = Spec a \<and>
        map_option cond_Status (find_cond (Conditions (Status b)) ConditionAimReady) = Some ''True'')"

lemma map_ready_cong: "s_maps S' = s_maps S \<Longrightarrow> map_ready L a files S' = map_ready L a files S"
  by (simp add: map_ready_def)

lemma ca_ready_cong: "s_secrets S' = s_secrets S \<Longrightarrow> ca_ready ns S' = ca_ready ns S"
  by (simp add: ca_ready_def)

lemma claims_ready_cong: "s_claims S' = s_claims S \<Longrightarrow> claims_ready L a S' = claims_ready L a S"
  by (simp add: claims_ready_def listed_def split: option.split)

lemma store_status:
  assumes W: "writes_doc c shows" and doc: "status_condition_doc L" and a: "shows S3 s"
    and before: "own_objects_only a S S3" "map_ready L a files S3" "ca_ready (aim_Namespace a) S3"
      "s_sets S3 (key (aim_Namespace a) (aim_Name a)) = Some x" "set_current a (GenerateConfigMapChecksum rng files) x"
    and b: "same_instance a b"
  shows "wp (UpdateStatus_CiscoAciAim c (setCondition L b ConditionAimReady ''True'' rs ms)) (\<lambda>r s'. \<forall>u. r = Inr u \<longrightarrow>
    (\<exists>S'. shows S' s' \<and> own_objects_only a S S' \<and> in_place L rng a files S' \<and> s_claims S' = s_claims S3)) s"
proof (rule effects_wp [OF writes_docD(8) [OF W] a], goal_cases)
  case (2 u y s')
  let ?S' = "put_aim y S3"
  have y: "meta_key (aim_Meta y) = key (aim_Namespace a) (aim_Name a)" "Spec y = Spec a"
      "map_option cond_Status (find_cond (Conditions (Status y)) ConditionAimReady) = Some ''True''"
    using 2(1) b setCondition_find [OF doc] by (simp_all add: keeps_aim_def same_instance_def)
  have "own_objects_only a S ?S'"
    using before(1) y(1) by (auto simp: own_objects_only_def put_aim_def)
  moreover have "in_place L rng a files ?S'"
    using before(2-5) y map_ready_cong [of ?S' S3 L a files] ca_ready_cong [of ?S' S3 "aim_Namespace a"]
    by (simp add: in_place_def put_aim_def)
  ultimately show ?case
    using 2(2) by (auto intro!: exI [of _ ?S'] simp: put_aim_def)
qed simp

definition completed ::
    "'q Lib \<Rightarrow> range_order \<Rightarrow> CiscoAciAim \<Rightarrow> string gomap \<Rightarrow> ('q store \<Rightarrow> 's \<Rightarrow> bool) \<Rightarrow> 'q store \<Rightarrow> 's \<Rightarrow> bool" where
  "completed L rng a files shows S s \<longleftrightarrow>
     (\<exists>S'. shows S' s \<and> own_objects_only a S S' \<and> in_place L rng a files S' \<and>
        (s_sets S (key (aim_Namespace a) (aim_Name a)) \<noteq> None \<longrightarrow> claims_ready L a S'))"

lemma store_finish:
  assumes W: "writes_doc c shows" and doc: "status_condition_doc L" and b: "same_instance a b"
    and map: "map_ready L a files (put_config a m S)" and ca: "ca_ready (aim_Namespace a) (put_ca (aim_Namespace a) y (put_config a m S))"
    and sts: "set_stored L a (GenerateConfigMapChecksum rng files) shows (put_ca (aim_Namespace a) y (put_config a m S)) s"
  shows "wp (UpdateStatus_CiscoAciAim c (setCondition L b ConditionAimReady ''True'' rs ms))
    (\<lambda>r s'. \<forall>u. r = Inr u \<longrightarrow> completed L rng a files shows S s') s"
proof -
  let ?S2 = "put_ca (aim_Namespace a) y (put_config a m S)"
  from sts obtain x cl where x: "set_current a (GenerateConfigMapChecksum rng files) x"
      "list_all2 (claims_frame a) (s_claims ?S2) cl" "shows (put_own_set a (Some x) (?S2\<lparr>s_claims := cl\<rparr>)) s"
    and claims: "s_sets ?S2 (key (aim_Namespace a) (aim_Name a)) \<noteq> None \<longrightarrow> claims_ready L a (?S2\<lparr>s_claims := cl\<rparr>)"
    unfolding set_stored_def by blast
  let ?S3 = "put_own_set a (Some x) (?S2\<lparr>s_claims := cl\<rparr>)"
  have "own_objects_only a S ?S3"
    using x(2) by (auto simp: own_objects_only_def put_own_set_def put_ca_def put_config_def)
  moreover have "map_ready L a files ?S3" "ca_ready (aim_Namespace a) ?S3"
    using map map_ready_cong [of ?S3 "put_config a m S" L a files] ca ca_ready_cong [of ?S3 ?S2 "aim_Namespace a"]
    by (simp_all add: put_own_set_def put_ca_def)
  moreover have "claims_ready L a S'" if "s_claims S' = s_claims ?S3" "s_sets S (key (aim_Namespace a) (aim_Name a)) \<noteq> None" for S'
    using that claims claims_ready_cong [of S' "?S2\<lparr>s_claims := cl\<rparr>" L a] by (simp add: put_own_set_def put_ca_def put_config_def)
  moreover have "s_sets ?S3 (key (aim_Namespace a) (aim_Name a)) = Some x"
    by (simp add: put_own_set_def)
  ultimately show ?thesis
    by (intro wp_mono [OF store_status [OF W doc x(3) _ _ _ _ x(1) b, where S = S]]) (auto simp: completed_def)
qed

lemma store_reconcileObjects:
  assumes R: "reads_doc c shows" and W: "writes_doc c shows"
    and doc: "owner_ref_doc L" "status_condition_doc L" "cmp_doc L" "storage_doc L" and S: "shows S s" and b: "same_instance a b"
  shows "wp (reconcileObjects L c rng b files) (\<lambda>r s'. r = Inr no_requeue \<longrightarrow> completed L rng a files shows S s') s"
proof -
  obtain x where x: "b = a\<lparr>Status := x\<rparr>"
    using same_instance_Status [OF b] by blast
  have eqs: "aim_Namespace b = aim_Namespace a" "put_config b m S' = put_config a m S'" "map_ready L b files S' = map_ready L a files S'"
      "set_stored L b csum shows S' s' = set_stored L a csum shows S' s'" for m csum S' s'
    by (simp_all add: x)
  let ?Q = "\<lambda>r s'. r = Inr no_requeue \<longrightarrow> completed L rng a files shows S s'"
  let ?report = "\<lambda>r. if r then ok \<lparr>RequeueAfter = time_Second\<rparr> else
    check (UpdateStatus_CiscoAciAim c (setCondition L b ConditionAimReady ''True'' ''DeploymentReady'' ''Aim deployment is ready''))
      (\<lambda>_. ok no_requeue)"
  have report: "wp (check (ensureStatefulSet L c b cm (GenerateConfigMapChecksum rng files)) ?report) ?Q s1"
    if "map_ready L a files (put_config a m S)" "ca_ready (aim_Namespace a) (put_ca (aim_Namespace a) y (put_config a m S))"
      "shows (put_ca (aim_Namespace a) y (put_config a m S)) s1" for m y cm s1
  proof -
    have "wp (?report False) ?Q s'"
      if "set_stored L a (GenerateConfigMapChecksum rng files) shows (put_ca (aim_Namespace a) y (put_config a m S)) s'" for s'
      using \<open>map_ready L a files (put_config a m S)\<close> \<open>ca_ready _ _\<close> that
      by (simp add: wp_check) (rule wp_mono [OF store_finish [OF W doc(2) b]], auto simp: wp_rules split: sum.split)
    moreover have "wp (?report True) ?Q s'" for s'
      by (simp add: wp_rules time_Second_def)
    ultimately show ?thesis
      unfolding wp_check
      by (intro wp_mono [OF store_ensureStatefulSet [OF R W doc(1,3,4) that(3)]]) (auto simp: eqs split: sum.split if_splits)
  qed
  have ca: "wp (check (ensureRabbitMQCaSecret L c b) (\<lambda>_. check (ensureStatefulSet L c b cm (GenerateConfigMapChecksum rng files)) ?report)) ?Q s1"
    if m: "map_ready L a files (put_config a m S)" "shows (put_config a m S) s1" for m cm s1
    unfolding wp_check [of "ensureRabbitMQCaSecret L c b"]
    by (rule wp_mono [OF store_ensureRabbitMQCaSecret [OF R W m(2)]]) (auto simp: eqs intro: report [OF m(1)] split: sum.split)
  show ?thesis
    unfolding reconcileObjects_def Let_def wp_check [of "ensureConfigMap L c b files"]
    by (rule wp_mono [OF store_ensureConfigMap [OF R W doc(1) S]]) (auto simp: eqs intro: ca split: sum.split)
qed

section \<open>The CA secret is not a dependency\<close>

lemma db_secret_not_ca: "n @ ''-db-secret'' \<noteq> ''rabbitmq-ca-secret''"
proof
  assume "n @ ''-db-secret'' = ''rabbitmq-ca-secret''"
  then have "take 10 (rev (n @ ''-db-secret'')) = take 10 (rev ''rabbitmq-ca-secret'')"
    by metis
  then show False
    by simp
qed

lemma files_of_own:
  assumes "own_objects_only a S S'"
  shows "files_of L fs rng a S' = files_of L fs rng a S"
proof -
  have *: "k = key (aim_Namespace a) ''rabbitmq-ca-secret'' \<or> s_secrets S' k = s_secrets S k" for k
    using assms by (simp add: own_objects_only_def)
  have "s_secrets S' (key (aim_Namespace a) n) = s_secrets S (key (aim_Namespace a) n)" if "n \<noteq> ''rabbitmq-ca-secret''" for n
    using * [of "key (aim_Namespace a) n"] that by simp
  then have eqs: "db_conn L S' (aim_Namespace a) = db_conn L S (aim_Namespace a)"
      "bus_conn S' (aim_Namespace a) = bus_conn S (aim_Namespace a)"
      "queue_settings S' (aim_Namespace a) = queue_settings S (aim_Namespace a)"
    using assms by (simp_all add: db_conn_def bus_conn_def queue_settings_def own_objects_only_def db_secret_not_ca rabbit_secret_name_def
        cong: option.case_cong)
  show ?thesis
    unfolding files_of_def eqs by (rule refl)
qed

section \<open>The sample server\<close>

definition demo_store :: "cluster \<Rightarrow> nat store" where
  "demo_store w =
     \<lparr>s_aims = st_aims w, s_maps = st_config_maps w, s_secrets = st_secrets w, s_sets = st_stateful_sets w,
      s_claims = st_claims w, s_neutrons = st_neutrons w, s_databases = st_databases w,
      s_accounts = st_accounts w, s_transport_urls = st_transport_urls w\<rparr>"

definition demo_shows :: "nat store \<Rightarrow> cluster \<Rightarrow> bool" where
  "demo_shows S w \<longleftrightarrow> S = demo_store w \<and> keyed S"

lemma demo_reads: "reads_doc demo_client demo_shows"
  by (simp add: reads_doc_def answers_def wp_def demo_shows_def demo_store_def split: option.split)
    (simp add: demo_client_def listed_def)

lemma keyed_put:
  "keyed S \<Longrightarrow> keyed (put_map m S)" "keyed S \<Longrightarrow> keyed (put_secret y S)" "keyed S \<Longrightarrow> keyed (put_set z S)"
  "keyed S \<Longrightarrow> keyed (put_claim p S)" "keyed S \<Longrightarrow> keyed (put_aim b S)"
proof -
  have *: "map (\<lambda>p. meta_key (pvc_Meta p)) (s_claims (put_claim p S)) = map (\<lambda>p. meta_key (pvc_Meta p)) (s_claims S)"
    by (simp add: put_claim_def comp_def)
  show "keyed S \<Longrightarrow> keyed (put_claim p S)"
    unfolding keyed_def * by (simp add: put_claim_def)
qed (simp_all add: keyed_def put_map_def put_secret_def put_set_def put_aim_def)

lemma keeps_refl: "keeps_map m m" "keeps_secret y y" "keeps_set z z" "keeps_claim p p" "keeps_aim b b"
  by (simp_all add: keeps_map_def keeps_secret_def keeps_set_def keeps_claim_def keeps_aim_def)

lemma effects_mem:
  assumes "\<And>x w. demo_store (f x w) = upd x (demo_store w)" and "\<And>x S. keyed S \<Longrightarrow> keyed (upd x S)" and "\<And>x. keeps x x"
  shows "effects demo_shows (\<lambda>x. mem_effect (f x) u) keeps upd"
  using assms by (auto simp: effects_def wp_def demo_shows_def) metis

lemma demo_puts:
  "demo_store (w\<lparr>st_config_maps := (st_config_maps w)(meta_key (cm_Meta m) := Some m)\<rparr>) = put_map m (demo_store w)"
  "demo_store (w\<lparr>st_secrets := (st_secrets w)(meta_key (sec_Meta y) := Some y)\<rparr>) = put_secret y (demo_store w)"
  "demo_store (w\<lparr>st_stateful_sets := (st_stateful_sets w)(meta_key (sts_Meta z) := Some z)\<rparr>) = put_set z (demo_store w)"
  "demo_store (w\<lparr>st_claims := map (replace_claim p) (st_claims w)\<rparr>) = put_claim p (demo_store w)"
  "demo_store (w\<lparr>st_aims := (st_aims w)(meta_key (aim_Meta b) := Some b)\<rparr>) = put_aim b (demo_store w)"
  by (simp_all add: demo_store_def put_map_def put_secret_def put_set_def put_claim_def put_aim_def replace_claim_def)

lemma demo_writes: "writes_doc demo_client demo_shows"
  unfolding writes_doc_def demo_client_def Client.simps
  by (intro conjI effects_mem keyed_put keeps_refl demo_puts)
    (simp_all add: wp_def demo_shows_def demo_puts keyed_put keeps_refl)

text \<open>The same for the record of the requests.\<close>

lemma answers_logged: "answers shows get sel \<Longrightarrow> answers (\<lambda>S s. shows S (fst s)) (\<lambda>k. logged (rq k) (get k)) sel"
  by (fastforce simp: answers_def wp_def split: prod.splits)

lemma effects_logged:
  "effects shows put keeps upd \<Longrightarrow> effects (\<lambda>S s. shows S (fst s)) (\<lambda>k. logged (rq k) (put k)) keeps upd"
  by (fastforce simp: effects_def wp_def split: prod.splits)

lemma reads_traced: "reads_doc c shows \<Longrightarrow> reads_doc (traced c) (\<lambda>S s. shows S (fst s))"
  unfolding reads_doc_def traced_def by (auto intro!: answers_logged simp: wp_def split: prod.splits)

lemma writes_traced: "writes_doc c shows \<Longrightarrow> writes_doc (traced c) (\<lambda>S s. shows S (fst s))"
  unfolding writes_doc_def traced_def Client.simps
  by (intro conjI; (elim conjE)?) (auto intro!: effects_logged simp: wp_def split: prod.splits sum.splits)

section \<open>Properties\<close>

lemma wp_Reconcile:
  assumes R: "reads_doc c shows" and S: "shows S s" and a: "s_aims S req = Some a"
    and inst: "\<And>s'. shows S s' \<Longrightarrow> wp (reconcileInstance L c fs rng a) Q s'"
  shows "wp (Reconcile L c fs rng req) Q s"
  unfolding Reconcile_def wp_bind
  by (rule answers_wp [OF reads_docD(1) [OF R] S]) (simp add: a inst)

text \<open>
  C5: what a call that succeeds leaves behind, on an API server that nobody else writes to: the
  ConfigMap holds the files that the dependencies in the store lead to, the CA secret is a copy of the
  internal CA, the StatefulSet has the wanted replicas and its pods carry the checksum of these files,
  the stored instance has its spec and reports readiness, and if the StatefulSet existed, all log
  claims have the wanted size. No other object has changed.
\<close>

theorem reconcile_establishes:
  assumes "reads_doc c shows" and "writes_doc c shows"
    and "owner_ref_doc L" and "status_condition_doc L" and "cmp_doc L" and "storage_doc L"
    and "shows S w" and "s_aims S req = Some a"
    and "run_state (Reconcile L c fs rng req) w = (Inr no_requeue, w')"
  shows "\<exists>S' files. shows S' w' \<and> files_of L fs rng a S' = Some files \<and> in_place L rng a files S' \<and>
    own_objects_only a S S' \<and> (s_sets S req \<noteq> None \<longrightarrow> claims_ready L a S')"
proof -
  have req: "key (aim_Namespace a) (aim_Name a) = req"
    using writes_docD(1) [OF assms(2,7)] assms(8) unfolding keyed_def by blast
  let ?P = "\<lambda>s'. \<exists>files. files_of L fs rng a S = Some files \<and> completed L rng a files shows S s'"
  have "wp (reconcileInstance L c fs rng a) (\<lambda>r s'. r = Inr no_requeue \<longrightarrow> ?P s') s" if "shows S s" for s
    by (rule wp_reconcileInstance [OF assms(1) that])
      (auto elim!: wp_mono [OF store_reconcileObjects [OF assms(1-6)]])
  from wp_Reconcile [OF assms(1,7,8) this] have "?P w'"
    using assms(9) by (simp add: wp_def)
  then show ?thesis
    using files_of_own unfolding completed_def req by metis
qed

lemma demo_start: "demo_shows (demo_store demo_cluster) demo_cluster"
  by (simp add: demo_shows_def keyed_def demo_store_def demo_cluster_def demo_aim_def demo_meta_def demo_secret_def)

theorem reconcile_establishes_witness:
  "\<exists>cm sts. st_config_maps (fst (snd demo_trace)) (key ''openstack'' ''aim-config'') = Some cm \<and>
     st_stateful_sets (fst (snd demo_trace)) demo_req = Some sts \<and>
     annotated (GenerateConfigMapChecksum sorted_order (cm_Data cm)) sts"
proof -
  have run: "run_state (Reconcile demo_lib (traced demo_client) image sorted_order demo_req) (demo_cluster, []) =
      (Inr no_requeue, snd demo_trace)"
    using demo_result by (metis prod.collapse)
  have "s_aims (demo_store demo_cluster) demo_req = Some demo_aim" "demo_shows (demo_store demo_cluster) (fst (demo_cluster, []))"
    using demo_start by (simp_all add: demo_store_def demo_cluster_def)
  from reconcile_establishes [OF reads_traced [OF demo_reads] writes_traced [OF demo_writes] demo_lib_doc this(2,1) run]
  show ?thesis
    by (auto simp: demo_shows_def in_place_def map_ready_def set_current_def demo_store_def)
qed

text \<open>
  C6: a call that finds the objects of the instance in order, as a successful call leaves them, makes
  at most two writes: the update of the StatefulSet, if the fields that are changed in place differ, as
  they do when the API server filled in defaults, and then the status of the instance that was read. If
  that update fails the call fails; otherwise it succeeds exactly when the status is stored.
\<close>

theorem quiet_reconcile:
  assumes "reads_doc c shows" and "owner_ref_doc L" and "shows S w" and "s_aims S req = Some a"
    and "in_order L fs rng a S d found"
  shows "quiet a d found (fst (run_state (Reconcile L (traced c) fs rng req) (w, [])))
    (writes (entries (Reconcile L (traced c) fs rng req) w))"
proof -
  note T = reads_recorded [OF assms(1), of "[]"]
  have start: "recorded shows [] S (w, [])"
    using assms(3) by (simp add: recorded_def)
  obtain files where "files_of L fs rng a S = Some files"
    using assms(5) by (auto simp: in_order_def)
  then have "wp (reconcileInstance L (traced c) fs rng a) (\<lambda>r s'. quiet a d found r (writes (snd s'))) s"
    if "recorded shows [] S s" for s
    by (intro wp_reconcileInstance [OF T that]) (auto intro: quiet_reconcileObjects [OF assms(1,2) _ _ assms(5)])
  from wp_Reconcile [OF T start assms(4) this] show ?thesis
    by (simp add: wp_def entries_def split: prod.splits)
qed

definition demo_files :: "string gomap" where
  "demo_files = (case files_of demo_lib image sorted_order demo_aim (demo_store demo_cluster) of Some files \<Rightarrow> files)"

text \<open>The sample cluster with everything in place.\<close>

definition demo_built :: "nat StatefulSet" where
  "demo_built = (case StatefulSet demo_lib demo_aim ''aim-config'' (GenerateConfigMapChecksum sorted_order demo_files) of Inr s \<Rightarrow>
     s\<lparr>sts_Meta := (sts_Meta s)\<lparr>OwnerReferences := [JStr ''aim'']\<rparr>\<rparr>)"

text \<open>The stored StatefulSet has a revision history limit that the server filled in.\<close>

definition demo_quiet :: cluster where
  "demo_quiet = demo_cluster\<lparr>
     st_config_maps := [key ''openstack'' ''aim-config'' \<mapsto> \<lparr>cm_Meta = demo_meta ''aim-config'', cm_Data = demo_files, cm_rest = JNull\<rparr>],
     st_secrets := (st_secrets demo_cluster)(key ''openstack'' ''rabbitmq-ca-secret'' \<mapsto>
       demo_secret ''rabbitmq-ca-secret'' [(''tls-ca-bundle.pem'', ''CA'')]),
     st_stateful_sets := [demo_req \<mapsto> demo_defaulted demo_built]\<rparr>"

lemma demo_files_of: "files_of demo_lib image sorted_order demo_aim (demo_store demo_cluster) = Some demo_files"
proof -
  have "\<exists>files. generateConfigFiles image sorted_order demo_aim db bus rabbit = Inr files" for db bus rabbit
    by (simp add: generate_shipped [OF image_shipped] populateAimCtlConfData_def) (simp add: demo_aim_def default_spec_def)
  moreover have "\<exists>db. db_conn demo_lib (demo_store demo_cluster) ''openstack'' = Some db \<and> db \<noteq> []"
    by (simp add: db_conn_def demo_store_def demo_cluster_def demo_secret_def demo_lib_def)
  moreover have "\<exists>bus. bus_conn (demo_store demo_cluster) ''openstack'' = Some bus"
    by (simp add: bus_conn_def demo_store_def demo_cluster_def demo_secret_def demo_meta_def rabbit_secret_name_def)
  ultimately obtain db bus files where "db_conn demo_lib (demo_store demo_cluster) ''openstack'' = Some db" "db \<noteq> []"
      "bus_conn (demo_store demo_cluster) ''openstack'' = Some bus"
      "generateConfigFiles image sorted_order demo_aim db bus (queue_settings (demo_store demo_cluster) ''openstack'') = Inr files"
    by metis
  then have "\<exists>files. files_of demo_lib image sorted_order demo_aim (demo_store demo_cluster) = Some files"
    by (simp add: files_of_def)
  then show ?thesis
    by (auto simp: demo_files_def)
qed

lemma demo_built_spec:
  obtains s where "StatefulSet demo_lib demo_aim ''aim-config'' (GenerateConfigMapChecksum sorted_order demo_files) = Inr s"
    and "demo_built = s\<lparr>sts_Meta := (sts_Meta s)\<lparr>OwnerReferences := [JStr ''aim'']\<rparr>\<rparr>"
proof -
  have "\<exists>s. StatefulSet demo_lib demo_aim ''aim-config'' (GenerateConfigMapChecksum sorted_order demo_files) = Inr s"
    by (simp add: StatefulSet_def) (simp add: demo_aim_def default_spec_def)
  then show ?thesis
    using that by (auto simp: demo_built_def)
qed

lemma demo_in_order: "in_order demo_lib image sorted_order demo_aim (demo_store demo_quiet) demo_built (demo_defaulted demo_built)"
proof -
  have "own_objects_only demo_aim (demo_store demo_cluster) (demo_store demo_quiet)"
    by (simp add: own_objects_only_def demo_quiet_def demo_store_def) (simp add: demo_cluster_def)
  then have "files_of demo_lib image sorted_order demo_aim (demo_store demo_quiet) = Some demo_files"
    by (simp add: files_of_own demo_files_of)
  moreover have "map_ready demo_lib demo_aim demo_files (demo_store demo_quiet)"
    by (simp add: map_ready_def demo_quiet_def demo_store_def) (simp add: demo_lib_def)
  moreover have "ca_ready ''openstack'' (demo_store demo_quiet)"
    by (simp add: ca_ready_def demo_quiet_def demo_store_def demo_cluster_def demo_secret_def)
  moreover have "claims_ready demo_lib demo_aim (demo_store demo_quiet)"
    by (simp add: claims_ready_def) (simp add: demo_aim_def default_spec_def)
  moreover obtain s where s: "StatefulSet demo_lib demo_aim ''aim-config'' (GenerateConfigMapChecksum sorted_order demo_files) = Inr s"
      "demo_built = s\<lparr>sts_Meta := (sts_Meta s)\<lparr>OwnerReferences := [JStr ''aim'']\<rparr>\<rparr>"
    by (rule demo_built_spec)
  moreover have "wanted_set demo_lib demo_aim (GenerateConfigMapChecksum sorted_order demo_files) = Some demo_built"
    using s by (simp add: wanted_set_def) (simp add: demo_lib_def)
  moreover have "s_sets (demo_store demo_quiet) demo_req = Some (demo_defaulted demo_built)"
    by (simp add: demo_store_def demo_quiet_def)
  moreover have "sts_VolumeClaimTemplates (sts_Spec demo_built) = []"
    using demo_sts_plain [OF s(1)] by (simp add: s(2))
  ultimately show ?thesis
    by (simp add: in_order_def validateVolumeClaimTemplateStorageClassChange_def statefulSetRequiresRecreation_def
        volumeClaimTemplatesEqual_def demo_defaulted_def)
qed

theorem quiet_reconcile_witness:
  "(\<exists>b k. writes (entries (Reconcile demo_lib (traced demo_client) image sorted_order demo_req) demo_quiet) =
      [(RUpdateStatefulSet demo_built, True), (RUpdateStatus b, k)]) \<or>
   writes (entries (Reconcile demo_lib (traced demo_client) image sorted_order demo_req) demo_quiet) = [(RUpdateStatefulSet demo_built, False)]"
proof -
  obtain s where s: "StatefulSet demo_lib demo_aim ''aim-config'' (GenerateConfigMapChecksum sorted_order demo_files) = Inr s"
      "demo_built = s\<lparr>sts_Meta := (sts_Meta s)\<lparr>OwnerReferences := [JStr ''aim'']\<rparr>\<rparr>"
    by (rule demo_built_spec)
  have "Name (sts_Meta demo_built) = ''aim'' \<and> Namespace (sts_Meta demo_built) = ''openstack''"
    using StatefulSet_fields(1,2) [OF s(1)] by (simp add: s(2))
  then have shown: "demo_shows (demo_store demo_quiet) demo_quiet"
    using demo_start
    by (simp add: demo_shows_def keyed_def demo_store_def demo_quiet_def demo_defaulted_def)
      (simp add: demo_secret_def demo_meta_def demo_cluster_def)
  have aim: "s_aims (demo_store demo_quiet) demo_req = Some demo_aim"
    by (simp add: demo_store_def demo_quiet_def demo_cluster_def)
  have "sts_RevisionHistoryLimit (sts_Spec demo_built) = None"
    using StatefulSet_fields(9) [OF s(1)] by (simp add: s(2))
  then have "sts_RevisionHistoryLimit (sts_Spec (demo_defaulted demo_built)) \<noteq> sts_RevisionHistoryLimit (sts_Spec demo_built)"
    by (simp add: demo_defaulted_def)
  then have "demo_defaulted demo_built \<noteq> demo_built" "updated_sts (demo_defaulted demo_built) demo_built = demo_built"
    by (metis, simp add: demo_defaulted_def updated_sts_def)
  then show ?thesis
    using quiet_reconcile [OF demo_reads demo_lib_doc(1) shown aim demo_in_order] by (auto simp: quiet_def set_update_def)
qed

end
