(* ===== verification/Json_Decode.thy ===== *)
theory Json_Decode
  imports Go_Json
begin

text \<open>
  Two facts about the JSON decoder of \<open>Go_Json\<close>: its fuel is enough for every input, and it reads back
  every map of maps of well-formed UTF-8 strings from its encoding. The encoder is a reference
  definition: it escapes quotes, backslashes and control characters and writes no white space.
\<close>

section \<open>Parsers consume their input\<close>

lemma skip_ws_length: "length (skip_ws s) \<le> length s"
  by (simp add: skip_ws_def length_dropWhile_le)

lemma skip_ws_Cons_length: "skip_ws s = c # cs \<Longrightarrow> length cs < length s"
  using skip_ws_length [of s] by simp

text \<open>A step of \<open>lex_string\<close> that does not end the literal goes on with some rest of the input.\<close>

lemma lex_string_step:
  assumes "lex_string acc (c # cs) = Some (raw, r)" and "c \<noteq> quote"
  shows "\<exists>acc' k. lex_string acc' (drop k cs) = Some (raw, r)"
proof (cases "c = backslash")
  case True
  with assms obtain e cs' where cs: "cs = e # cs'"
    by (cases cs) auto
  show ?thesis
  proof (cases "e \<in> set [CHR ''b'', CHR ''f'', CHR ''n'', CHR ''r'', CHR ''t'', backslash, slash, quote]")
    case simple: True
    have "lex_string (e # c # acc) (drop 1 cs) = Some (raw, r)"
      using assms True simple unfolding cs lex_string.simps(2) by (simp del: list.set)
    then show ?thesis
      by blast
  next
    case False
    with assms True obtain h1 h2 h3 h4 r' where
      "lex_string (h4 # h3 # h2 # h1 # e # c # acc) r' = Some (raw, r)" "cs' = h1 # h2 # h3 # h4 # r'"
      unfolding cs lex_string.simps(2) by (auto simp del: list.set split: if_splits list.splits)
    then have "lex_string (h4 # h3 # h2 # h1 # e # c # acc) (drop 5 cs) = Some (raw, r)"
      by (simp add: cs)
    then show ?thesis
      by blast
  qed
next
  case False
  with assms have "lex_string (c # acc) (drop 0 cs) = Some (raw, r)"
    by (simp split: if_splits)
  then show ?thesis
    by blast
qed

lemma lex_string_length: "lex_string acc s = Some (raw, r) \<Longrightarrow> length r < length s"
proof (induction "length s" arbitrary: acc s rule: less_induct)
  case less
  then obtain c cs where s: "s = c # cs"
    by (cases s) auto
  show ?case
  proof (cases "c = quote")
    case True
    with less.prems s show ?thesis
      by simp
  next
    case False
    with less.prems s obtain acc' k where "lex_string acc' (drop k cs) = Some (raw, r)"
      using lex_string_step by blast
    with less.hyps [of "drop k cs" acc'] s have "length r < length (drop k cs)"
      by simp
    then show ?thesis
      using s by simp
  qed
qed

lemma lex_digits1_length: "lex_digits1 s = Some (d, r) \<Longrightarrow> length r < length s"
proof -
  assume run: "lex_digits1 s = Some (d, r)"
  then have "s = d @ r" "d \<noteq> []"
    by (auto simp: lex_digits1_def Let_def split: if_splits)
  then show ?thesis
    by simp
qed

lemma lex_int_length: "lex_int s = Some (d, r) \<Longrightarrow> length r < length s"
  by (auto simp: lex_int_def dest: lex_digits1_length split: list.splits if_splits)

lemma lex_frac_length: "lex_frac s = Some (d, r) \<Longrightarrow> length r \<le> length s"
  by (auto simp: lex_frac_def dest!: lex_digits1_length split: list.splits if_splits)

lemma lex_exp_length: "lex_exp s = Some (d, r) \<Longrightarrow> length r \<le> length s"
  by (auto simp: lex_exp_def dest!: lex_digits1_length split: list.splits if_splits)

lemma lex_number_length: "lex_number s = Some (d, r) \<Longrightarrow> length r < length s"
  by (fastforce simp: lex_number_def Let_def dest: lex_int_length lex_frac_length lex_exp_length
      split: option.splits prod.splits list.splits if_splits)

lemma lex_key_length: "lex_key s = Some (k, r) \<Longrightarrow> length r < length s"
proof -
  assume run: "lex_key s = Some (k, r)"
  then obtain cs raw t ds where s: "s = quote # cs" and "lex_string [] cs = Some (raw, t)"
      and "skip_ws t = CHR '':'' # ds" and "r = skip_ws ds"
    by (auto simp: lex_key_def split: list.splits option.splits if_splits)
  from lex_string_length [OF this(2)] skip_ws_Cons_length [OF this(3)] show ?thesis
    using skip_ws_length [of ds] by (simp add: s \<open>r = skip_ws ds\<close>)
qed

text \<open>The literal words.\<close>

lemma HasPrefix_length: "HasPrefix s p \<Longrightarrow> length p \<le> length s"
  by (metis HasPrefix_def length_take min.absorb_iff1 min.commute)

lemma value_rest:
  assumes "parse_value (Suc n) d s = Some (v, r)"
    and members: "\<And>d s ms r. parse_members n d s = Some (ms, r) \<Longrightarrow> length r < length s"
    and elems: "\<And>d s vs r. parse_elems n d s = Some (vs, r) \<Longrightarrow> length r < length s"
  shows "length r < length s"
proof -
  obtain c cs where s: "s = c # cs"
    using assms(1) by (cases s) auto
  consider (obj) "c = CHR ''{''" | (arr) "c = CHR ''[''" | (str) "c = quote"
    | (other) "c \<noteq> CHR ''{''" "c \<noteq> CHR ''[''" "c \<noteq> quote"
    by blast
  then show ?thesis
  proof cases
    case obj
    with assms(1) s show ?thesis
      using skip_ws_Cons_length [of cs] members by (fastforce split: if_splits list.splits)
  next
    case arr
    with assms(1) s show ?thesis
      using skip_ws_Cons_length [of cs] elems by (fastforce split: if_splits list.splits)
  next
    case str
    with assms(1) s show ?thesis
      using lex_string_length [of "[]" cs] by fastforce
  next
    case other
    with assms(1) s show ?thesis
      by (auto dest: lex_number_length HasPrefix_length split: if_splits)
  qed
qed

lemma json_rest:
  "parse_value n d s = Some (v, r) \<Longrightarrow> length r < length s"
  "parse_members n d s = Some (ms, r) \<Longrightarrow> length r < length s"
  "parse_elems n d s = Some (vs, r) \<Longrightarrow> length r < length s"
proof (induction n arbitrary: d s v r ms vs)
  case (Suc n)
  {
    case 1
    then show ?case
      by (rule value_rest [OF _ Suc.IH(2,3)])
  next
    case 2
    then obtain k t v t1 c cs where k: "lex_key s = Some (k, t)" and v: "parse_value n d t = Some (v, t1)"
      and ws: "skip_ws t1 = c # cs" and r: "r = cs \<or> (\<exists>ms'. parse_members n d (skip_ws cs) = Some (ms', r))"
      by (auto split: option.splits list.splits if_splits)
    have "length r \<le> length cs"
      using r Suc.IH(2) [of d "skip_ws cs"] skip_ws_length [of cs] by fastforce
    then show ?case
      using lex_key_length [OF k] Suc.IH(1) [OF v] skip_ws_Cons_length [OF ws] by simp
  next
    case 3
    then obtain v t c cs where v: "parse_value n d s = Some (v, t)"
      and ws: "skip_ws t = c # cs" and r: "r = cs \<or> (\<exists>vs'. parse_elems n d (skip_ws cs) = Some (vs', r))"
      by (auto split: option.splits list.splits if_splits)
    have "length r \<le> length cs"
      using r Suc.IH(3) [of d "skip_ws cs"] skip_ws_length [of cs] by fastforce
    then show ?case
      using Suc.IH(1) [OF v] skip_ws_Cons_length [OF ws] by simp
  }
qed simp_all

section \<open>The fuel is enough\<close>

text \<open>
  One more unit of fuel gives the same result, and so by induction does any number. An array hands its
  input on to its first element, so it needs one unit more than a value of the same length.
\<close>

declare parse_value.simps [simp del] parse_members.simps [simp del] parse_elems.simps [simp del]

lemma parse_value_step:
  assumes members: "\<And>d s. 2 * length s + 1 \<le> n \<Longrightarrow> parse_members (Suc n) d s = parse_members n d s"
    and elems: "\<And>d s. 2 * length s + 2 \<le> n \<Longrightarrow> parse_elems (Suc n) d s = parse_elems n d s"
    and bound: "2 * length s + 1 \<le> Suc n"
  shows "parse_value (Suc (Suc n)) d s = parse_value (Suc n) d s"
proof (cases s)
  case (Cons c cs)
  have "parse_members (Suc n) d' (e # es) = parse_members n d' (e # es)"
    and "parse_elems (Suc n) d' (e # es) = parse_elems n d' (e # es)" if "skip_ws cs = e # es" for d' e es
    using skip_ws_Cons_length [OF that] bound by (auto intro!: members elems simp: Cons)
  then show ?thesis
    unfolding Cons parse_value.simps(2) by (auto split: list.split)
qed (simp add: parse_value.simps)

lemma parse_members_step:
  assumes val: "\<And>d s. 2 * length s + 1 \<le> n \<Longrightarrow> parse_value (Suc n) d s = parse_value n d s"
    and members: "\<And>d s. 2 * length s + 1 \<le> n \<Longrightarrow> parse_members (Suc n) d s = parse_members n d s"
    and bound: "2 * length s + 1 \<le> Suc n"
  shows "parse_members (Suc (Suc n)) d s = parse_members (Suc n) d s"
proof (cases "lex_key s")
  case (Some kt)
  obtain k t where kt: "kt = (k, t)"
    by fastforce
  have t: "length t < length s"
    using lex_key_length Some kt by blast
  then have 1: "parse_value (Suc n) d t = parse_value n d t"
    using bound by (intro val) simp
  have 2: "parse_members (Suc n) d (skip_ws cs) = parse_members n d (skip_ws cs)"
    if "parse_value n d t = Some (v, t1)" "skip_ws t1 = c # cs" for v t1 c cs
    using json_rest(1) [OF that(1)] skip_ws_Cons_length [OF that(2)] skip_ws_length [of cs] t bound
    by (intro members) simp
  show ?thesis
    unfolding parse_members.simps(2) [of "Suc n" d s] parse_members.simps(2) [of n d s] Some kt option.case prod.case 1
    by (auto split: option.split list.split simp: 2)
qed (simp add: parse_members.simps)

lemma parse_elems_step:
  assumes val: "\<And>d s. 2 * length s + 1 \<le> n \<Longrightarrow> parse_value (Suc n) d s = parse_value n d s"
    and elems: "\<And>d s. 2 * length s + 2 \<le> n \<Longrightarrow> parse_elems (Suc n) d s = parse_elems n d s"
    and bound: "2 * length s + 2 \<le> Suc n"
  shows "parse_elems (Suc (Suc n)) d s = parse_elems (Suc n) d s"
proof -
  have 1: "parse_value (Suc n) d s = parse_value n d s"
    using bound by (intro val) simp
  have 2: "parse_elems (Suc n) d (skip_ws cs) = parse_elems n d (skip_ws cs)"
    if "parse_value n d s = Some (v, t)" "skip_ws t = c # cs" for v t c cs
    using json_rest(1) [OF that(1)] skip_ws_Cons_length [OF that(2)] skip_ws_length [of cs] bound
    by (intro elems) simp
  show ?thesis
    unfolding parse_elems.simps(2) [of "Suc n" d s] parse_elems.simps(2) [of n d s] 1
    by (auto split: option.split list.split simp: 2)
qed

lemma json_fuel_step:
  "(\<forall>d s. 2 * length s + 1 \<le> n \<longrightarrow> parse_value (Suc n) d s = parse_value n d s) \<and>
   (\<forall>d s. 2 * length s + 1 \<le> n \<longrightarrow> parse_members (Suc n) d s = parse_members n d s) \<and>
   (\<forall>d s. 2 * length s + 2 \<le> n \<longrightarrow> parse_elems (Suc n) d s = parse_elems n d s)"
proof (induction n)
  case (Suc n)
  then have "\<And>d s. 2 * length s + 1 \<le> n \<Longrightarrow> parse_value (Suc n) d s = parse_value n d s"
    and "\<And>d s. 2 * length s + 1 \<le> n \<Longrightarrow> parse_members (Suc n) d s = parse_members n d s"
    and "\<And>d s. 2 * length s + 2 \<le> n \<Longrightarrow> parse_elems (Suc n) d s = parse_elems n d s"
    by blast+
  then show ?case
    using parse_value_step [of n] parse_members_step [of n] parse_elems_step [of n] by blast
qed simp

lemma parse_value_fuel:
  assumes "2 * length s + 1 \<le> n" and "n \<le> m"
  shows "parse_value m d s = parse_value n d s"
  using assms(2,1) json_fuel_step by (induction m rule: dec_induct) auto

lemma json_fuel_enough:
  "json_fuel s \<le> n \<Longrightarrow> parse_value n d (skip_ws s) = parse_value (json_fuel s) d (skip_ws s)"
  using skip_ws_length [of s] by (intro parse_value_fuel) (auto simp: json_fuel_def)

lemma unquote_fuel_step: "length s \<le> n \<Longrightarrow> unquote_fuel (Suc n) s = unquote_fuel n s"
proof (induction n arbitrary: s)
  case (Suc n)
  show ?case
  proof (cases s)
    case (Cons c cs)
    have IH: "unquote_fuel (Suc n) (drop k (c # cs)) = unquote_fuel n (drop k (c # cs))" if "k \<noteq> 0" for k
      using Suc.prems Cons that by (intro Suc.IH) simp
    have "unquote_fuel (Suc n) r = unquote_fuel n r" if "cs = e # r" for e r
      using Suc.prems Cons that by (intro Suc.IH) simp
    moreover have "unquote_fuel (Suc n) cs = unquote_fuel n cs"
      using Suc.prems Cons by (intro Suc.IH) simp
    ultimately show ?thesis
      using IH [of 6] IH [of 12] IH [of "utf8_len (c # cs)"]
      unfolding Cons unquote_fuel.simps(2) [of "Suc n" "c # cs"] unquote_fuel.simps(2) [of n "c # cs"]
      by (auto simp: Let_def simp del: unquote_fuel.simps split: list.split option.split)
  qed simp
qed simp

lemma unquote_fuel_enough: "unquote_fuel (length s + k) s = unquote s"
  using unquote_fuel_step [of s] by (induction k) (simp_all add: unquote_def)

section \<open>Encoding strings\<close>

definition escape_digit :: "nat \<Rightarrow> char" where
  "escape_digit d = char_of (if d < 10 then 48 + d else 87 + d)"

definition esc_char :: "char \<Rightarrow> string" where
  "esc_char c =
     (if c = quote \<or> c = backslash then [backslash, c]
      else if (of_char c :: nat) < 32 then
        [backslash, CHR ''u'', CHR ''0'', CHR ''0'', escape_digit (of_char c div 16), escape_digit (of_char c mod 16)]
      else [c])"

definition escape :: "string \<Rightarrow> string" where
  "escape s = concat (map esc_char s)"

definition encode_string :: "string \<Rightarrow> string" where
  "encode_string s = quote # escape s @ [quote]"

text \<open>Well-formed UTF-8, as a sequence of well-formed chunks.\<close>

lemma utf8_len_le: "utf8_len s \<le> length s"
  by (auto simp: utf8_len_def split: list.split)

function valid_utf8 :: "string \<Rightarrow> bool" where
  "valid_utf8 s \<longleftrightarrow>
     (if s = [] then True else if utf8_len s = 0 then False else valid_utf8 (drop (utf8_len s) s))"
  by pat_completeness auto
termination
  by (relation "measure length") auto

declare valid_utf8.simps [simp del]

lemma escape_simps [simp]: "escape [] = []" "escape (c # s) = esc_char c @ escape s" "escape (s @ t) = escape s @ escape t"
  by (simp_all add: escape_def)

lemma hex_val_escape_digit [simp]: "d < 16 \<Longrightarrow> hex_val (escape_digit d) = Some d"
  by (auto simp: hex_val_def escape_digit_def Let_def)

lemma is_hex_escape_digit [simp]: "d < 16 \<Longrightarrow> is_hex (escape_digit d)"
  by (simp add: is_hex_def)

lemma hex_val_0 [simp]: "hex_val (CHR ''0'') = Some 0"
  by code_simp

lemma lex_string_escape: "lex_string acc (escape s @ quote # r) = Some (rev acc @ escape s, r)"
proof (induction s arbitrary: acc)
  case (Cons c s)
  consider (esc) "c = quote \<or> c = backslash" | (ctl) "c \<noteq> quote" "c \<noteq> backslash" "(of_char c :: nat) < 32"
    | (raw) "c \<noteq> quote" "c \<noteq> backslash" "\<not> (of_char c :: nat) < 32"
    by blast
  then show ?case
  proof cases
    case esc
    then show ?thesis
      by (auto simp: esc_char_def Cons)
  next
    case ctl
    then have "lex_string acc (esc_char c @ t) =
        lex_string (rev (esc_char c) @ acc) t" for t
      by (simp add: esc_char_def is_hex_def)
    then show ?thesis
      by (simp add: Cons)
  next
    case raw
    then show ?thesis
      by (simp add: esc_char_def Cons)
  qed
qed simp

text \<open>A chunk of several bytes has no byte that is escaped, and does not depend on what follows.\<close>

lemma in_range_raw: "128 \<le> lo \<Longrightarrow> in_range lo hi c \<Longrightarrow> esc_char c = [c] \<and> c \<noteq> backslash"
  by (auto simp: in_range_def esc_char_def)

lemma utf8_second:
  "(if a = CHR 0xE0 then in_range 160 191 b else if a = CHR 0xED then in_range 128 159 b else cont b) \<Longrightarrow>
   in_range 128 191 b"
  "(if a = CHR 0xF0 then in_range 144 191 b else if a = CHR 0xF4 then in_range 128 143 b else cont b) \<Longrightarrow>
   in_range 128 191 b"
  by (auto simp: in_range_def cont_def split: if_splits)

lemma utf8_len_ranges:
  "in_range 0 127 a \<Longrightarrow> utf8_len (a # t) = 1"
  "in_range 194 223 a \<Longrightarrow> utf8_len (a # t) = (case t of b # _ \<Rightarrow> if cont b then 2 else 0 | [] \<Rightarrow> 0)"
  "in_range 224 239 a \<Longrightarrow> utf8_len (a # t) =
     (case t of
        b # c # _ \<Rightarrow>
          if cont c \<and> (if a = CHR 0xE0 then in_range 160 191 b
                        else if a = CHR 0xED then in_range 128 159 b else cont b) then 3 else 0
      | _ \<Rightarrow> 0)"
  "in_range 240 244 a \<Longrightarrow> utf8_len (a # t) =
     (case t of
        b # c # d # _ \<Rightarrow>
          if cont c \<and> cont d \<and> (if a = CHR 0xF0 then in_range 144 191 b
                        else if a = CHR 0xF4 then in_range 128 143 b else cont b) then 4 else 0
      | _ \<Rightarrow> 0)"
  by (simp_all only: utf8_len_def list.case) (simp_all add: in_range_def)

lemma utf8_len_none:
  assumes "\<not> in_range 0 127 a" "\<not> in_range 194 223 a" "\<not> in_range 224 239 a" "\<not> in_range 240 244 a"
  shows "utf8_len (a # t) = 0"
  by (simp add: utf8_len_def assms)

lemmas raw_bytes = in_range_raw [of 128 191] in_range_raw [of 194 223] in_range_raw [of 224 239] in_range_raw [of 240 244]

lemma utf8_chunk:
  assumes "utf8_len s = k" and "k \<noteq> 0" and "\<not> in_range 0 127 (hd s)"
  shows "escape (take k s) = take k s \<and> utf8_len (take k s @ t) = k \<and> hd s \<noteq> backslash"
proof -
  from assms obtain a u where s: "s = a # u"
    by (cases s) (auto simp: utf8_len_def)
  from assms s consider (two) "in_range 194 223 a" | (three) "in_range 224 239 a" | (four) "in_range 240 244 a"
    using utf8_len_none [of a u] by auto
  then show ?thesis
  proof cases
    case two
    with assms s obtain b v where u: "u = b # v" and "cont b" and k: "k = 2"
      by (cases u) (auto simp: utf8_len_ranges(2) split: if_splits)
    with two s show ?thesis
      by (simp add: utf8_len_ranges(2) raw_bytes cont_def)
  next
    case three
    with assms s obtain b c v where u: "u = b # c # v"
      by (cases u; cases "tl u") (auto simp: utf8_len_ranges(3))
    note len = utf8_len_ranges(3) [OF three]
    have P: "cont c \<and> (if a = CHR 0xE0 then in_range 160 191 b
        else if a = CHR 0xED then in_range 128 159 b else cont b)" (is ?P)
      using assms(1,2) unfolding s u len list.case by (metis (full_types))
    have k: "k = 3"
      using assms(1) unfolding s u len list.case if_P [OF P] by simp
    show ?thesis
      using P utf8_second(1) [OF conjunct2 [OF P]] three unfolding s u k
      by (simp add: len raw_bytes cont_def)
  next
    case four
    with assms s obtain b c d v where u: "u = b # c # d # v"
      by (cases u; cases "tl u"; cases "tl (tl u)") (auto simp: utf8_len_ranges(4))
    note len = utf8_len_ranges(4) [OF four]
    have P: "cont c \<and> cont d \<and> (if a = CHR 0xF0 then in_range 144 191 b
        else if a = CHR 0xF4 then in_range 128 143 b else cont b)"
      using assms(1,2) unfolding s u len list.case by (metis (full_types))
    have k: "k = 4"
      using assms(1) unfolding s u len list.case if_P [OF P] by simp
    show ?thesis
      using P utf8_second(2) [OF conjunct2 [OF conjunct2 [OF P]]] four unfolding s u k
      by (simp add: len raw_bytes cont_def)
  qed
qed


lemma esc_char_ascii:
  assumes "in_range 0 127 c"
  shows "esc_char c \<noteq> [] \<and> unquote_fuel (Suc n) (esc_char c @ t) = c # unquote_fuel n t"
proof -
  consider (esc) "c = quote \<or> c = backslash" | (ctl) "c \<noteq> quote" "c \<noteq> backslash" "(of_char c :: nat) < 32"
    | (raw) "c \<noteq> quote" "c \<noteq> backslash" "\<not> (of_char c :: nat) < 32"
    by blast
  then show ?thesis
  proof cases
    case esc
    then have "esc_char c = [backslash, c]" "getu4 (backslash # c # t) = None" "simple_escape c = c"
      by (auto simp: esc_char_def getu4_def simple_escape_def split: list.split)
    then show ?thesis
      by simp
  next
    case ctl
    then have "getu4 (esc_char c @ t) = Some (of_char c)"
      by (simp add: esc_char_def getu4_def)
    moreover obtain e where "esc_char c = backslash # e" "drop 6 (backslash # e @ t) = t"
      using ctl by (simp add: esc_char_def)
    moreover have "\<not> surrogate (of_char c)" "utf8_encode (of_char c) = [c]"
      using ctl by (simp_all add: surrogate_def utf8_encode_def)
    ultimately show ?thesis
      by simp
  next
    case raw
    with assms show ?thesis
      by (simp add: esc_char_def utf8_len_ranges(1))
  qed
qed


lemma unquote_fuel_chunk:
  assumes "utf8_len s = k" and "k \<noteq> 0" and "hd s \<noteq> backslash"
  shows "unquote_fuel (Suc n) s = take k s @ unquote_fuel n (drop k s)"
proof -
  obtain c t where "s = c # t"
    using assms(1,2) by (cases s) (auto simp: utf8_len_def)
  with assms show ?thesis
    by (simp add: Let_def)
qed

lemma unquote_escape_ascii:
  assumes "in_range 0 127 a" and "length (escape (a # t)) \<le> n"
    and IH: "\<And>m. length (escape t) \<le> m \<Longrightarrow> unquote_fuel m (escape t) = t"
  shows "unquote_fuel n (escape (a # t)) = a # t"
proof -
  have esc: "escape (a # t) = esc_char a @ escape t"
    using escape_simps(3) [of "[a]" t] by simp
  with assms(2) obtain m where n: "n = Suc m" "length (escape t) \<le> m"
    using esc_char_ascii [OF assms(1)] by (cases n; cases "esc_char a") auto
  have "unquote_fuel n (escape (a # t)) = a # unquote_fuel m (escape t)"
    using esc_char_ascii [OF assms(1), of m "escape t"] unfolding esc n(1) by simp
  with IH [OF n(2)] show ?thesis
    by simp
qed

lemma unquote_escape_chunk:
  assumes k: "utf8_len s \<noteq> 0" and high: "\<not> in_range 0 127 (hd s)" and bound: "length (escape s) \<le> n"
    and IH: "\<And>m. length (escape (drop (utf8_len s) s)) \<le> m \<Longrightarrow>
      unquote_fuel m (escape (drop (utf8_len s) s)) = drop (utf8_len s) s"
  shows "unquote_fuel n (escape s) = s"
proof -
  let ?k = "utf8_len s"
  let ?rest = "drop ?k s"
  have esc: "escape s = escape (take ?k s) @ escape ?rest"
    by (metis append_take_drop_id escape_simps(3))
  have chunk: "escape (take ?k s) = take ?k s" "utf8_len (take ?k s @ escape ?rest) = ?k" "hd s \<noteq> backslash"
    using utf8_chunk [OF refl k, of "escape ?rest"] high by auto
  have len: "length (take ?k s) = ?k"
    using utf8_len_le [of s] by simp
  have "?k + length (escape ?rest) \<le> n"
    using bound len unfolding esc chunk(1) by simp
  with k obtain m where n: "n = Suc m" "length (escape ?rest) \<le> m"
    by (cases n) auto
  have "hd (take ?k s @ escape ?rest) = hd s"
    using k by (cases s) simp_all
  then have "unquote_fuel n (escape s) = take ?k (take ?k s @ escape ?rest) @
      unquote_fuel m (drop ?k (take ?k s @ escape ?rest))"
    using unquote_fuel_chunk [OF chunk(2) k] chunk(3) unfolding esc chunk(1) n(1) by simp
  also have "\<dots> = take ?k s @ ?rest"
    using IH [OF n(2)] len by simp
  finally show ?thesis
    by simp
qed

lemma unquote_fuel_escape:
  "valid_utf8 s \<Longrightarrow> length (escape s) \<le> n \<Longrightarrow> unquote_fuel n (escape s) = s"
proof (induction s arbitrary: n rule: valid_utf8.induct)
  case (1 s)
  show ?case
  proof (cases s)
    case Nil
    then show ?thesis
      by (cases n) simp_all
  next
    case (Cons a u)
    let ?rest = "drop (utf8_len s) s"
    have k: "utf8_len s \<noteq> 0" and valid: "valid_utf8 ?rest"
      using "1.prems"(1) Cons valid_utf8.simps [of s] by (auto split: if_splits)
    have IH: "length (escape ?rest) \<le> m \<Longrightarrow> unquote_fuel m (escape ?rest) = ?rest" for m
      using "1.IH" Cons k valid by simp
    show ?thesis
    proof (cases "in_range 0 127 a")
      case True
      then have "utf8_len s = 1"
        by (simp add: Cons utf8_len_ranges)
      with True IH "1.prems"(2) show ?thesis
        unfolding Cons by (intro unquote_escape_ascii) simp_all
    next
      case False
      with Cons show ?thesis
        by (intro unquote_escape_chunk [OF k _ "1.prems"(2) IH]) simp_all
    qed
  qed
qed

lemma unquote_escape [simp]: "valid_utf8 s \<Longrightarrow> unquote (escape s) = s"
  by (simp add: unquote_def unquote_fuel_escape)

section \<open>Encoding maps\<close>

fun enc_members :: "('v \<Rightarrow> string) \<Rightarrow> (string \<times> 'v) list \<Rightarrow> string" where
  "enc_members f [] = ''}''"
| "enc_members f [(k, v)] = encode_string k @ '':'' @ f v @ ''}''"
| "enc_members f ((k, v) # kv # kvs) = encode_string k @ '':'' @ f v @ '','' @ enc_members f (kv # kvs)"

definition fm_entries :: "(string, 'v) fmap \<Rightarrow> (string \<times> 'v) list" where
  "fm_entries m = map (\<lambda>k. (k, the (fmlookup m k))) (sorted_list_of_fset (fmdom m))"

definition encode_map :: "('v \<Rightarrow> string) \<Rightarrow> 'v gomap \<Rightarrow> string" where
  "encode_map f m = (case m of None \<Rightarrow> ''null'' | Some m \<Rightarrow> ''{'' @ enc_members f (fm_entries m))"

text \<open>\<open>parses d t v\<close>: the text \<open>t\<close> is read as \<open>v\<close> whatever follows, and does not start with white space.\<close>

definition parses :: "nat \<Rightarrow> string \<Rightarrow> jval \<Rightarrow> bool" where
  "parses d t v \<longleftrightarrow>
     t \<noteq> [] \<and> \<not> json_space (hd t) \<and>
     (\<forall>r n. 2 * length (t @ r) + 1 \<le> n \<longrightarrow> parse_value n d (t @ r) = Some (v, r))"

lemma skip_ws_id: "t \<noteq> [] \<Longrightarrow> \<not> json_space (hd t) \<Longrightarrow> skip_ws (t @ r) = t @ r"
  by (cases t) (simp_all add: skip_ws_def)

lemma parses_run: "parses d t v \<Longrightarrow> 2 * length (t @ r) + 1 \<le> n \<Longrightarrow> parse_value n d (t @ r) = Some (v, r)"
  by (simp add: parses_def)

lemma parses_skip: "parses d t v \<Longrightarrow> skip_ws (t @ r) = t @ r"
  by (simp add: parses_def skip_ws_id)

lemma skip_ws_mark [simp]:
  "skip_ws (CHR ''}'' # r) = CHR ''}'' # r" "skip_ws (CHR '','' # r) = CHR '','' # r"
  "skip_ws (CHR '':'' # r) = CHR '':'' # r" "skip_ws (quote # r) = quote # r"
  by (simp_all add: skip_ws_def json_space_def)

lemma parses_string:
  assumes "valid_utf8 s"
  shows "parses d (encode_string s) (JvStr s)"
proof -
  have "parse_value (Suc n) d (encode_string s @ r) = Some (JvStr s, r)" for n r
    using assms by (simp add: parse_value.simps(2) encode_string_def lex_string_escape)
  then have "parse_value n d (encode_string s @ r) = Some (JvStr s, r)" if "2 * length (encode_string s @ r) + 1 \<le> n" for n r
    using that by (cases n) simp_all
  then show ?thesis
    by (simp add: parses_def encode_string_def json_space_def)
qed

lemma lex_key_encode: "valid_utf8 k \<Longrightarrow> lex_key (encode_string k @ CHR '':'' # t) = Some (k, skip_ws t)"
  by (simp add: lex_key_def encode_string_def lex_string_escape)


lemma parse_members_encode:
  assumes "kvs \<noteq> []" and "\<forall>(k, v) \<in> set kvs. valid_utf8 k \<and> parses d (f v) (g v)"
    and "2 * length (enc_members f kvs @ r) + 1 \<le> n"
  shows "parse_members n d (enc_members f kvs @ r) = Some (map (\<lambda>(k, v). (k, g v)) kvs, r)"
  using assms
proof (induction f kvs arbitrary: n rule: enc_members.induct)
  case (2 f k v)
  then obtain n' where n: "n = Suc n'"
    by (cases n) auto
  have v: "valid_utf8 k" "parses d (f v) (g v)"
    using 2 by auto
  have run: "parse_value n' d (f v @ CHR ''}'' # r) = Some (g v, CHR ''}'' # r)"
    using 2(3) n by (intro parses_run [OF v(2)]) simp
  have key: "lex_key (encode_string k @ CHR '':'' # f v @ CHR ''}'' # r) = Some (k, f v @ CHR ''}'' # r)"
    using lex_key_encode [OF v(1)] parses_skip [OF v(2)] by simp
  show ?case
    by (simp add: n parse_members.simps(2) key run)
next
  case (3 f k v kv kvs)
  then obtain n' where n: "n = Suc n'"
    by (cases n) auto
  let ?t = "enc_members f (kv # kvs) @ r"
  have v: "valid_utf8 k" "parses d (f v) (g v)"
    using 3 by auto
  have run: "parse_value n' d (f v @ CHR '','' # ?t) = Some (g v, CHR '','' # ?t)"
    using 3(4) n by (intro parses_run [OF v(2)]) simp
  have key: "lex_key (encode_string k @ CHR '':'' # f v @ CHR '','' # ?t) = Some (k, f v @ CHR '','' # ?t)"
    using lex_key_encode [OF v(1)] parses_skip [OF v(2)] by simp
  have "skip_ws ?t = ?t"
    by (cases kv; cases kvs) (simp_all add: encode_string_def)
  moreover have "parse_members n' d ?t = Some (map (\<lambda>(k, v). (k, g v)) (kv # kvs), r)"
    using 3(3,4) n by (intro 3(1)) simp_all
  ultimately show ?case
    using key run by (simp add: n parse_members.simps(2) split_def)
qed simp

definition jval_map :: "('v \<Rightarrow> jval) \<Rightarrow> 'v gomap \<Rightarrow> jval" where
  "jval_map g m = (case m of None \<Rightarrow> JvNull | Some m \<Rightarrow> JvObj (map (\<lambda>(k, v). (k, g v)) (fm_entries m)))"

lemma parses_map:
  assumes d: "d < maxNestingDepth"
    and vals: "\<And>k v. gm_get m k = Some v \<Longrightarrow> valid_utf8 k \<and> parses (Suc d) (f v) (g v)"
  shows "parses d (encode_map f m) (jval_map g m)"
proof (cases m)
  case None
  have "parse_value n d (''null'' @ r) = Some (JvNull, r)" if "2 * length (''null'' @ r) + 1 \<le> n" for n r
    using that by (cases n) (simp_all add: parse_value.simps HasPrefix_def)
  then show ?thesis
    by (simp add: None parses_def encode_map_def jval_map_def json_space_def)
next
  case (Some fm)
  have mem: "\<forall>(k, v) \<in> set (fm_entries fm). valid_utf8 k \<and> parses (Suc d) (f v) (g v)"
    using vals by (auto simp: Some fm_entries_def sorted_list_of_fset.rep_eq fmlookup_dom_iff)
  have "parse_value n d ((CHR ''{'' # enc_members f (fm_entries fm)) @ r) =
      Some (JvObj (map (\<lambda>(k, v). (k, g v)) (fm_entries fm)), r)"
    if bound: "2 * length ((CHR ''{'' # enc_members f (fm_entries fm)) @ r) + 1 \<le> n" for n r
  proof -
    obtain n' where n: "n = Suc n'"
      using bound by (cases n) auto
    show ?thesis
    proof (cases "fm_entries fm")
      case Nil
      with d show ?thesis
        by (simp add: n parse_value.simps(2))
    next
      case (Cons kv kvs)
      have run: "parse_members n' (Suc d) (enc_members f (fm_entries fm) @ r) =
          Some (map (\<lambda>(k, v). (k, g v)) (fm_entries fm), r)"
        using bound n by (intro parse_members_encode mem) (simp_all add: Cons)
      obtain x where x: "enc_members f (fm_entries fm) @ r = quote # x"
        unfolding Cons by (cases kv; cases kvs) (simp_all add: encode_string_def)
      show ?thesis
        using d run by (simp add: n parse_value.simps(2) x)
    qed
  qed
  then show ?thesis
    by (simp add: Some parses_def encode_map_def jval_map_def json_space_def)
qed

section \<open>Storing an encoded map\<close>

lemma store_entries_distinct:
  assumes "distinct (map fst kvs)" and "\<forall>(k, v) \<in> set kvs. st (g v) = Some v"
  shows "\<exists>m'. store_entries st m (map (\<lambda>(k, v). (k, g v)) kvs) = Some m' \<and>
    (\<forall>k. fmlookup m' k = (case map_of kvs k of None \<Rightarrow> fmlookup m k | Some v \<Rightarrow> Some v))"
  using assms
proof (induction kvs arbitrary: m)
  case (Cons kv kvs)
  obtain k v where kv: "kv = (k, v)"
    by fastforce
  with Cons.prems Cons.IH [of "fmupd k v m"] obtain m' where
    "store_entries st (fmupd k v m) (map (\<lambda>(k, v). (k, g v)) kvs) = Some m'"
    "\<forall>j. fmlookup m' j = (case map_of kvs j of None \<Rightarrow> fmlookup (fmupd k v m) j | Some v \<Rightarrow> Some v)"
    by auto
  moreover have "map_of kvs k = None"
    using Cons.prems kv by (simp add: map_of_eq_None_iff)
  ultimately show ?case
    using Cons.prems by (auto simp: kv split: option.splits)
qed simp

lemma map_of_fm_entries: "map_of (fm_entries m) k = fmlookup m k"
  by (cases "fmlookup m k")
    (auto simp: fm_entries_def map_of_map_restrict restrict_map_def sorted_list_of_fset.rep_eq fmlookup_dom_iff)

lemma case_option_id: "(case x of None \<Rightarrow> fmlookup fmempty k | Some v \<Rightarrow> Some v) = x"
  by (cases x) simp_all

lemma store_jval_map:
  assumes "\<And>k v. gm_get m k = Some v \<Longrightarrow> st (g v) = Some v"
  shows "store_map st (jval_map g m) = Some m"
proof (cases m)
  case (Some fm)
  have "distinct (map fst (fm_entries fm))"
    by (simp add: fm_entries_def comp_def sorted_list_of_fset.rep_eq)
  moreover have "\<forall>(k, v) \<in> set (fm_entries fm). st (g v) = Some v"
    using assms by (auto simp: Some fm_entries_def sorted_list_of_fset.rep_eq fmlookup_dom_iff)
  ultimately obtain m' where "store_entries st fmempty (map (\<lambda>(k, v). (k, g v)) (fm_entries fm)) = Some m'"
    and "\<forall>k. fmlookup m' k = fmlookup fm k"
    using store_entries_distinct [of "fm_entries fm" st g fmempty] by (auto simp: map_of_fm_entries case_option_id)
  moreover from this(2) have "m' = fm"
    by (simp add: fmap_ext)
  ultimately show ?thesis
    by (simp add: Some store_map_def jval_map_def)
qed (simp add: store_map_def jval_map_def)

section \<open>Decoding an encoded map of maps\<close>

definition encode_links :: "string gomap gomap \<Rightarrow> string" where
  "encode_links = encode_map (encode_map encode_string)"

definition valid_links :: "string gomap gomap \<Rightarrow> bool" where
  "valid_links m \<longleftrightarrow>
     (\<forall>k ls. gm_get m k = Some ls \<longrightarrow> valid_utf8 k \<and> (\<forall>h p. gm_get ls h = Some p \<longrightarrow> valid_utf8 h \<and> valid_utf8 p))"

lemma Unmarshal_encode:
  assumes "valid_links m"
  shows "json_Unmarshal_map2 (encode_links m) = Inr m"
proof -
  let ?v = "jval_map (jval_map JvStr) m"
  have "parses 0 (encode_links m) ?v"
    using assms unfolding encode_links_def valid_links_def
    by (intro parses_map conjI parses_string) (auto simp: maxNestingDepth_def)
  then have "parse_value (json_fuel (encode_links m)) 0 (skip_ws (encode_links m)) = Some (?v, [])"
    using parses_run [of 0 "encode_links m" ?v "[]"] parses_skip [of 0 "encode_links m" ?v "[]"]
    by (simp add: json_fuel_def)
  then have "json_parse (encode_links m) = Some ?v"
    by (simp add: json_parse_def skip_ws_def)
  moreover have "store_map (store_map store_string) ?v = Some m"
    by (intro store_jval_map) simp
  ultimately show ?thesis
    by (simp add: json_Unmarshal_map2_def)
qed

end
