(* ===== verification/Host_Links.thy ===== *)
theory Host_Links
  imports Config_Data Json_Decode
begin

text \<open>
  The host links from end to end: the JSON text of the custom resource, the decoded map of maps, and
  the switch sections of \<open>aimctl.conf\<close>. \<open>read_links\<close> reads the sections back the way a consumer of the
  file does, splitting the host lists at commas.
\<close>

fun split_comma :: "string \<Rightarrow> string list" where
  "split_comma [] = [[]]"
| "split_comma (c # cs) =
     (if c = CHR '','' then [] # split_comma cs
      else (case split_comma cs of [] \<Rightarrow> [[c]] | w # ws \<Rightarrow> (c # w) # ws))"

definition read_section :: "HostLink list \<Rightarrow> string gomap" where
  "read_section ls = gm_of (concat (map (\<lambda>hl. map (\<lambda>h. (h, Port hl)) (split_comma (Hosts hl))) ls))"

definition read_links :: "SwitchConfig list \<Rightarrow> string gomap gomap" where
  "read_links scs = gm_of (map (\<lambda>sc. (SwitchID sc, read_section (HostLinks sc))) scs)"

text \<open>Maps without nil inside, and hosts without commas.\<close>

definition plain_links :: "string gomap gomap \<Rightarrow> bool" where
  "plain_links m \<longleftrightarrow>
     m \<noteq> None \<and> (\<forall>sid links. gm_get m sid = Some links \<longrightarrow>
       links \<noteq> None \<and> (\<forall>h p. gm_get links h = Some p \<longrightarrow> CHR '','' \<notin> set h))"

section \<open>Lemmas\<close>

lemma split_comma_append:
  "CHR '','' \<notin> set w \<Longrightarrow> split_comma (w @ CHR '','' # s) = w # split_comma s"
  by (induction w) auto

lemma split_comma_id: "CHR '','' \<notin> set w \<Longrightarrow> split_comma w = [w]"
  by (induction w) auto

lemma split_comma_Join:
  "ws \<noteq> [] \<Longrightarrow> \<forall>w \<in> set ws. CHR '','' \<notin> set w \<Longrightarrow> split_comma (strings_Join ws '','') = ws"
  by (induction ws "'',''" rule: strings_Join.induct) (auto simp: split_comma_id split_comma_append)

lemma map_of_graph:
  assumes "\<And>k v. (k, v) \<in> set kvs \<longleftrightarrow> f k = Some v"
  shows "map_of kvs k = f k"
proof (cases "f k")
  case None
  with assms [of k] have "k \<notin> fst ` set kvs"
    by auto
  with None show ?thesis
    by (simp add: map_of_eq_None_iff)
next
  case (Some v)
  with assms [of k v] obtain u where u: "map_of kvs k = Some u"
    using weak_map_of_SomeI by fastforce
  then show ?thesis
    using assms [of k u] map_of_SomeD [OF u] by simp
qed

lemma gomap_ext: "m \<noteq> None \<Longrightarrow> m' \<noteq> None \<Longrightarrow> (\<And>k. gm_get m k = gm_get m' k) \<Longrightarrow> m = m'"
  by (auto intro: fmap_ext)

lemma set_hosts_of_port [simp]: "h \<in> set (hosts_of_port links p) \<longleftrightarrow> gm_get links h = Some p"
  by (auto simp: hosts_of_port_def)

lemma read_link_table:
  assumes "links \<noteq> None" and plain: "\<forall>h p. gm_get links h = Some p \<longrightarrow> CHR '','' \<notin> set h"
  shows "read_section (link_table links) = links"
proof (rule gomap_ext)
  fix h
  have "hosts_of_port links p \<noteq> []" if "p |\<in>| ports_of links" for p
    using that set_hosts_of_port [of _ links p] unfolding ports_of_iff by force
  then have split: "split_comma (strings_Join (hosts_of_port links p) '','') = hosts_of_port links p"
    if "p |\<in>| ports_of links" for p
    using that plain by (intro split_comma_Join) simp_all
  have "(h, p) \<in> set (concat (map (\<lambda>hl. map (\<lambda>h. (h, Port hl)) (split_comma (Hosts hl))) (link_table links))) \<longleftrightarrow>
      gm_get links h = Some p" for h p
    by (fastforce simp: link_table_def split ports_of_iff)
  then show "gm_get (read_section (link_table links)) h = gm_get links h"
    unfolding read_section_def gm_get_of by (rule map_of_graph)
qed (use assms in \<open>simp_all add: read_section_def gm_of_def\<close>)

lemma read_buildSwitchConfigs:
  assumes "range_ok rng" and "plain_links m"
  shows "read_links (buildSwitchConfigs rng m) = m"
proof (rule gomap_ext)
  fix sid
  have "(k, v) \<in> set (map (\<lambda>sc. (SwitchID sc, read_section (HostLinks sc))) (buildSwitchConfigs rng m)) \<longleftrightarrow>
      gm_get m k = Some v" for k v
    using assms(2)
    by (auto simp: switches.canonical [OF assms(1)] switch_body_def links_of_def plain_links_def read_link_table)
  then show "gm_get (read_links (buildSwitchConfigs rng m)) sid = gm_get m sid"
    unfolding read_links_def gm_get_of by (rule map_of_graph)
qed (use assms in \<open>simp_all add: read_links_def gm_of_def plain_links_def\<close>)

lemma encode_links_nonempty: "encode_links m \<noteq> []"
  by (simp add: encode_links_def encode_map_def split: option.split)

section \<open>Properties\<close>

text \<open>
  C13: host links survive the way from the custom resource to the switch sections. For every map of
  switches to hosts to ports in which neither the map nor one of its inner maps is nil, all names are
  well-formed UTF-8 and no host name contains a comma, the JSON encoding of the map is accepted, and
  reading the switch sections of \<open>aimctl.conf\<close> back gives exactly that map; this holds for every order
  in which Go visits its maps.
\<close>

theorem host_links_roundtrip:
  assumes "range_ok rng" and "valid_links m" and "plain_links m"
    and "AciFabric (Spec a) = Some fab" and "ACIHostLinks fab = Some (encode_links m)"
  shows "\<exists>d. populateAimCtlConfData rng a = Inr d \<and> read_links (ACISwitchConfigs d) = m"
  using assms read_buildSwitchConfigs [OF assms(1,3)] Unmarshal_encode [OF assms(2)] encode_links_nonempty [of m]
  by (simp add: populateAimCtlConfData_def Let_def)

abbreviation demo_links :: "string gomap gomap" where
  "demo_links \<equiv> gm_of [(''101'', gm_of [(''h1'', ''vpc-1/1''), (''h2'', ''vpc-1/1'')])]"

theorem host_links_roundtrip_witness:
  "\<exists>d. populateAimCtlConfData sorted_order
       (demo_aim\<lparr>Spec := (default_spec ''img'')\<lparr>AciFabric :=
          Some (default_fabric\<lparr>ACIHostLinks := Some (encode_links demo_links)\<rparr>)\<rparr>\<rparr>) = Inr d \<and>
     read_links (ACISwitchConfigs d) = demo_links"
proof -
  have ascii: "valid_utf8 s" if "list_all (in_range 0 127) s" for s
    using that by (induction s) (simp_all add: valid_utf8.simps [of "_ # _"] valid_utf8.simps [of "[]"] utf8_len_ranges)
  have "valid_utf8 ''101''" "valid_utf8 ''h1''" "valid_utf8 ''h2''" "valid_utf8 ''vpc-1/1''"
    by (rule ascii, simp add: in_range_def)+
  then have "valid_links demo_links" "plain_links demo_links"
    by (auto simp: valid_links_def plain_links_def gm_of_def fmlookup_of_list split: if_splits)
  then show ?thesis
    by (intro host_links_roundtrip [OF sorted_order_ok(1), where
          fab = "default_fabric\<lparr>ACIHostLinks := Some (encode_links demo_links)\<rparr>"]) simp_all
qed

end
