(* ===== verification/Go_Memory.thy ===== *)
theory Go_Memory
  imports Main
begin

text \<open>
  Go's memory, as far as the generated deep copies need it: cells at addresses, an allocation limit,
  \<open>new\<close> and assignment through a pointer. A pointer or a slice is an address or nil. The contract of
  a function that copies a value of some memory type is the locale \<open>deep_copyable\<close>; the lemmas after it
  build copiers of pointers, slices and structs from copiers of their parts.
\<close>

type_synonym addr = nat

record 'c mem =
  cells :: "addr \<Rightarrow> 'c"
  limit :: addr

definition alloc :: "'c \<Rightarrow> 'c mem \<Rightarrow> addr \<times> 'c mem" where
  "alloc x h = (limit h, h\<lparr>cells := (cells h)(limit h := x), limit := Suc (limit h)\<rparr>)"

definition assign :: "addr \<Rightarrow> 'c \<Rightarrow> 'c mem \<Rightarrow> 'c mem" where
  "assign a x h = h\<lparr>cells := (cells h)(a := x)\<rparr>"

text \<open>Everything that was allocated is still there, unchanged.\<close>

definition extends :: "'c mem \<Rightarrow> 'c mem \<Rightarrow> bool" where
  "extends h h' \<longleftrightarrow> limit h \<le> limit h' \<and> (\<forall>a < limit h. cells h' a = cells h a)"

lemma extends_refl [simp]: "extends h h"
  by (simp add: extends_def)

lemma extends_trans: "extends h h1 \<Longrightarrow> extends h1 h2 \<Longrightarrow> extends h h2"
  by (auto simp: extends_def)

lemma extends_alloc: "alloc x h = (a, h') \<Longrightarrow> extends h h' \<and> a = limit h \<and> limit h' = Suc (limit h) \<and> cells h' a = x"
  by (auto simp: alloc_def extends_def)

lemma assign_simps [simp]:
  "limit (assign a x h) = limit h"
  "cells (assign a x h) b = (if b = a then x else cells h b)"
  by (simp_all add: assign_def)

section \<open>Copiers\<close>

text \<open>
  \<open>foot h m\<close> are the addresses a value \<open>m\<close> of a memory type reaches and \<open>val h m\<close> is the value it
  stands for; both depend on the reached cells only. A copier only allocates, its result stands for
  the same value, and what the result reaches is new.
\<close>

locale deep_copyable =
  fixes copy :: "'m \<Rightarrow> 'c mem \<Rightarrow> 'm \<times> 'c mem"
    and foot :: "'c mem \<Rightarrow> 'm \<Rightarrow> addr set"
    and val :: "'c mem \<Rightarrow> 'm \<Rightarrow> 'v"
  assumes frame: "\<forall>a \<in> foot h m. cells h' a = cells h a \<Longrightarrow> foot h' m = foot h m \<and> val h' m = val h m"
    and grows: "copy m h = (m', h') \<Longrightarrow> extends h h'"
    and copied: "foot h m \<subseteq> {..<limit h} \<Longrightarrow> copy m h = (m', h') \<Longrightarrow>
      val h' m' = val h m \<and> foot h' m' \<subseteq> {limit h..<limit h'}"
begin

lemma stable: "extends h h' \<Longrightarrow> foot h m \<subseteq> {..<limit h} \<Longrightarrow> foot h' m = foot h m \<and> val h' m = val h m"
  by (rule frame) (auto simp: extends_def)

text \<open>Whatever is later done to the cells of the original does not change the copy, and vice versa.\<close>

lemma independent:
  assumes "foot h m \<subseteq> {..<limit h}" and "copy m h = (m', h')"
  shows "\<forall>a \<ge> limit h. cells h'' a = cells h' a \<Longrightarrow> val h'' m' = val h m"
    and "\<forall>a < limit h. cells h'' a = cells h' a \<Longrightarrow> val h'' m = val h m"
proof -
  have new: "val h' m' = val h m" "foot h' m' \<subseteq> {limit h..<limit h'}"
    using copied [OF assms] by auto
  show "val h'' m' = val h m" if "\<forall>a \<ge> limit h. cells h'' a = cells h' a"
    using frame [of h' m' h''] new that by fastforce
  have old: "foot h' m = foot h m \<and> val h' m = val h m"
    by (rule stable [OF grows [OF assms(2)] assms(1)])
  show "val h'' m = val h m" if "\<forall>a < limit h. cells h'' a = cells h' a"
    using frame [of h' m h''] old assms(1) that by fastforce
qed

lemma disjoint: "foot h m \<subseteq> {..<limit h} \<Longrightarrow> copy m h = (m', h') \<Longrightarrow> foot h m \<inter> foot h' m' = {}"
  using copied [of h m m' h'] by fastforce

end

section \<open>Building copiers\<close>

text \<open>A type without pointers is copied by assignment.\<close>

definition flat_copy :: "'m \<Rightarrow> 'c mem \<Rightarrow> 'm \<times> 'c mem" where
  "flat_copy m h = (m, h)"

lemma deep_flat: "deep_copyable flat_copy (\<lambda>h m. {}) (\<lambda>h m. f m)"
  by unfold_locales (simp_all add: flat_copy_def)

text \<open>
  A pointer that is not nil: \<open>*out = new(T)\<close> and then the copier of \<open>T\<close>, which starts with
  \<open>*out = *in\<close>, writes into the new cell. \<open>emb\<close> and \<open>get\<close> embed \<open>T\<close> into the cells.
\<close>

definition new_copy ::
    "('a \<Rightarrow> 'c) \<Rightarrow> ('c \<Rightarrow> 'a) \<Rightarrow> ('a \<Rightarrow> 'c mem \<Rightarrow> 'a \<times> 'c mem) \<Rightarrow> addr option \<Rightarrow> 'c mem \<Rightarrow> addr option \<times> 'c mem" where
  "new_copy emb get copy p h =
     (case p of
        None \<Rightarrow> (None, h)
      | Some a \<Rightarrow>
          (let x = get (cells h a);
               (a', h1) = alloc (emb x) h;
               (x', h2) = copy x h1
           in (Some a', assign a' (emb x') h2)))"

definition ptr_foot :: "('c \<Rightarrow> 'a) \<Rightarrow> ('c mem \<Rightarrow> 'a \<Rightarrow> addr set) \<Rightarrow> 'c mem \<Rightarrow> addr option \<Rightarrow> addr set" where
  "ptr_foot get foot h p = (case p of None \<Rightarrow> {} | Some a \<Rightarrow> insert a (foot h (get (cells h a))))"

definition ptr_val :: "('c \<Rightarrow> 'a) \<Rightarrow> ('c mem \<Rightarrow> 'a \<Rightarrow> 'v) \<Rightarrow> 'c mem \<Rightarrow> addr option \<Rightarrow> 'v option" where
  "ptr_val get val h p = map_option (\<lambda>a. val h (get (cells h a))) p"

lemma new_copy_Some:
  assumes "new_copy emb get copy (Some a) h = (p', h')"
  obtains h1 x' h2 where "extends h h1" "limit h1 = Suc (limit h)" "copy (get (cells h a)) h1 = (x', h2)"
    "p' = Some (limit h)" "h' = assign (limit h) (emb x') h2"
  using assms extends_alloc [of "emb (get (cells h a))" h]
  by (auto simp: new_copy_def Let_def split: prod.splits)

lemma new_copy_extends:
  assumes D: "deep_copyable copy foot val" and new: "new_copy emb get copy p h = (p', h')"
  shows "extends h h'"
proof (cases p)
  case None
  with new show ?thesis
    by (simp add: new_copy_def)
next
  case (Some a)
  with new obtain h1 x' h2 where "extends h h1" "limit h1 = Suc (limit h)" "copy (get (cells h a)) h1 = (x', h2)"
      "h' = assign (limit h) (emb x') h2"
    by (auto elim: new_copy_Some)
  then show ?thesis
    using deep_copyable.grows [OF D, of "get (cells h a)" h1 x' h2] by (auto simp: extends_def)
qed

lemma deep_ptr:
  assumes D: "deep_copyable copy foot val" and inv: "\<And>x. get (emb x) = x"
  shows "deep_copyable (new_copy emb get copy) (ptr_foot get foot) (ptr_val get val)"
proof
  fix h h' :: "'b mem" and p
  assume "\<forall>a \<in> ptr_foot get foot h p. cells h' a = cells h a"
  then show "ptr_foot get foot h' p = ptr_foot get foot h p \<and> ptr_val get val h' p = ptr_val get val h p"
    using deep_copyable.frame [OF D, of h _ h'] by (cases p) (auto simp: ptr_foot_def ptr_val_def)
next
  fix h h' :: "'b mem" and p p'
  assume new: "new_copy emb get copy p h = (p', h')"
  show "extends h h'"
    by (rule new_copy_extends [OF D new])
next
  fix h h' :: "'b mem" and p p'
  assume old: "ptr_foot get foot h p \<subseteq> {..<limit h}" and new: "new_copy emb get copy p h = (p', h')"
  show "ptr_val get val h' p' = ptr_val get val h p \<and> ptr_foot get foot h' p' \<subseteq> {limit h..<limit h'}"
  proof (cases p)
    case None
    with new show ?thesis
      by (simp add: new_copy_def ptr_val_def ptr_foot_def)
  next
    case (Some a)
    let ?x = "get (cells h a)"
    from new Some obtain h1 x' h2 where 1: "extends h h1" "limit h1 = Suc (limit h)"
        and 2: "copy ?x h1 = (x', h2)" and p': "p' = Some (limit h)" and h': "h' = assign (limit h) (emb x') h2"
      by (auto elim: new_copy_Some)
    from old Some have old': "foot h ?x \<subseteq> {..<limit h}"
      by (simp add: ptr_foot_def)
    then have x: "foot h1 ?x = foot h ?x \<and> val h1 ?x = val h ?x"
      by (rule deep_copyable.stable [OF D 1(1)])
    with old' 1(2) have "foot h1 ?x \<subseteq> {..<limit h1}"
      by auto
    from deep_copyable.copied [OF D this 2] have x': "val h2 x' = val h1 ?x" "foot h2 x' \<subseteq> {limit h1..<limit h2}"
      by auto
    then have "foot h' x' = foot h2 x' \<and> val h' x' = val h2 x'"
      using 1(2) unfolding h' by (intro deep_copyable.frame [OF D]) auto
    moreover have "limit h1 \<le> limit h2"
      using deep_copyable.grows [OF D 2] by (simp add: extends_def)
    ultimately show ?thesis
      using x x' 1(2) Some p' by (auto simp: ptr_val_def ptr_foot_def h' inv)
  qed
qed

text \<open>The elements of a slice of structs, one after the other.\<close>

fun list_copy :: "('a \<Rightarrow> 'c mem \<Rightarrow> 'a \<times> 'c mem) \<Rightarrow> 'a list \<Rightarrow> 'c mem \<Rightarrow> 'a list \<times> 'c mem" where
  "list_copy copy [] h = ([], h)"
| "list_copy copy (x # xs) h =
     (let (x', h1) = copy x h; (xs', h2) = list_copy copy xs h1 in (x' # xs', h2))"

text \<open>Two fields of a struct, one after the other.\<close>

definition pair_copy ::
    "('a \<Rightarrow> 'c mem \<Rightarrow> 'a \<times> 'c mem) \<Rightarrow> ('b \<Rightarrow> 'c mem \<Rightarrow> 'b \<times> 'c mem) \<Rightarrow> 'a \<times> 'b \<Rightarrow> 'c mem \<Rightarrow> ('a \<times> 'b) \<times> 'c mem" where
  "pair_copy c1 c2 m h = (let (x', h1) = c1 (fst m) h; (y', h2) = c2 (snd m) h1 in ((x', y'), h2))"

text \<open>Copying two things one after the other: the second copier sees the first one's allocations.\<close>

lemma copy_twice:
  assumes D1: "deep_copyable c1 f1 v1" and D2: "deep_copyable c2 f2 v2"
    and old: "f1 h x \<subseteq> {..<limit h}" "f2 h y \<subseteq> {..<limit h}"
    and run: "c1 x h = (x', h1)" "c2 y h1 = (y', h2)"
  shows "v1 h2 x' = v1 h x \<and> v2 h2 y' = v2 h y \<and>
    f1 h2 x' \<subseteq> {limit h..<limit h2} \<and> f2 h2 y' \<subseteq> {limit h..<limit h2}"
proof -
  have e1: "extends h h1" and e2: "extends h1 h2"
    using deep_copyable.grows [OF D1 run(1)] deep_copyable.grows [OF D2 run(2)] .
  have x: "v1 h1 x' = v1 h x" "f1 h1 x' \<subseteq> {limit h..<limit h1}"
    using deep_copyable.copied [OF D1 old(1) run(1)] by auto
  then have x2: "f1 h2 x' = f1 h1 x' \<and> v1 h2 x' = v1 h1 x'"
    by (intro deep_copyable.stable [OF D1 e2]) auto
  have y: "f2 h1 y = f2 h y \<and> v2 h1 y = v2 h y"
    by (rule deep_copyable.stable [OF D2 e1 old(2)])
  with old(2) e1 have "f2 h1 y \<subseteq> {..<limit h1}"
    by (auto simp: extends_def)
  from deep_copyable.copied [OF D2 this run(2)] show ?thesis
    using x x2 y e1 e2 by (fastforce simp: extends_def)
qed

lemma deep_pair:
  assumes D1: "deep_copyable c1 f1 v1" and D2: "deep_copyable c2 f2 v2"
  shows "deep_copyable (pair_copy c1 c2) (\<lambda>h m. f1 h (fst m) \<union> f2 h (snd m)) (\<lambda>h m. (v1 h (fst m), v2 h (snd m)))"
proof
  fix h h' :: "'b mem" and m
  assume "\<forall>a \<in> f1 h (fst m) \<union> f2 h (snd m). cells h' a = cells h a"
  then show "f1 h' (fst m) \<union> f2 h' (snd m) = f1 h (fst m) \<union> f2 h (snd m) \<and>
      (v1 h' (fst m), v2 h' (snd m)) = (v1 h (fst m), v2 h (snd m))"
    using deep_copyable.frame [OF D1, of h "fst m" h'] deep_copyable.frame [OF D2, of h "snd m" h'] by auto
next
  fix h h' :: "'b mem" and m m'
  assume "pair_copy c1 c2 m h = (m', h')"
  then obtain x' h1 y' where "c1 (fst m) h = (x', h1)" "c2 (snd m) h1 = (y', h')"
    by (auto simp: pair_copy_def split: prod.splits)
  then show "extends h h'"
    using deep_copyable.grows [OF D1] deep_copyable.grows [OF D2] by (blast intro: extends_trans)
next
  fix h h' :: "'b mem" and m m'
  assume old: "f1 h (fst m) \<union> f2 h (snd m) \<subseteq> {..<limit h}" and "pair_copy c1 c2 m h = (m', h')"
  then obtain x' h1 y' where "c1 (fst m) h = (x', h1)" "c2 (snd m) h1 = (y', h')" "m' = (x', y')"
    by (auto simp: pair_copy_def split: prod.splits)
  with old show "(v1 h' (fst m'), v2 h' (snd m')) = (v1 h (fst m), v2 h (snd m)) \<and>
      f1 h' (fst m') \<union> f2 h' (snd m') \<subseteq> {limit h..<limit h'}"
    using copy_twice [OF D1 D2, of h "fst m" "snd m" x' h1 y' h'] by simp
qed

lemma list_copy_grows: "deep_copyable copy foot val \<Longrightarrow> list_copy copy xs h = (xs', h') \<Longrightarrow> extends h h'"
  by (induction xs arbitrary: h xs')
    (auto split: prod.splits dest!: deep_copyable.grows intro: extends_trans)

lemma list_copied:
  assumes D: "deep_copyable copy foot val"
  shows "\<forall>x \<in> set xs. foot h x \<subseteq> {..<limit h} \<Longrightarrow> list_copy copy xs h = (xs', h') \<Longrightarrow>
    map (val h') xs' = map (val h) xs \<and> (\<forall>x \<in> set xs'. foot h' x \<subseteq> {limit h..<limit h'})"
proof (induction xs arbitrary: h xs')
  case (Cons x xs)
  then obtain x' h1 xs1 where run: "copy x h = (x', h1)" "list_copy copy xs h1 = (xs1, h')" "xs' = x' # xs1"
    by (auto split: prod.splits)
  have e1: "extends h h1" and e2: "extends h1 h'"
    using deep_copyable.grows [OF D run(1)] list_copy_grows [OF D run(2)] .
  have old: "foot h1 y = foot h y \<and> val h1 y = val h y" if "y \<in> set xs" for y
    using that Cons.prems by (intro deep_copyable.stable [OF D e1]) simp
  have "foot h1 y \<subseteq> {..<limit h1}" if "y \<in> set xs" for y
    using old [OF that] that Cons.prems(1) e1 by (fastforce simp: extends_def)
  with Cons.IH [of h1 xs1] run(2) have tail: "map (val h') xs1 = map (val h1) xs"
      "\<forall>y \<in> set xs1. foot h' y \<subseteq> {limit h1..<limit h'}"
    by auto
  have x: "val h1 x' = val h x" "foot h1 x' \<subseteq> {limit h..<limit h1}"
    using deep_copyable.copied [OF D _ run(1)] Cons.prems(1) by auto
  then have "foot h' x' = foot h1 x' \<and> val h' x' = val h1 x'"
    by (intro deep_copyable.stable [OF D e2]) auto
  with x tail run(3) old e1 e2 show ?case
    by (fastforce simp: extends_def)
qed simp

lemma deep_list:
  assumes D: "deep_copyable copy foot val"
  shows "deep_copyable (list_copy copy) (\<lambda>h xs. \<Union> (foot h ` set xs)) (\<lambda>h xs. map (val h) xs)"
proof
  fix h h' :: "'b mem" and xs
  assume "\<forall>a \<in> \<Union> (foot h ` set xs). cells h' a = cells h a"
  then have "foot h' x = foot h x \<and> val h' x = val h x" if "x \<in> set xs" for x
    using that by (intro deep_copyable.frame [OF D]) auto
  then show "\<Union> (foot h' ` set xs) = \<Union> (foot h ` set xs) \<and> map (val h') xs = map (val h) xs"
    by auto
next
  fix h h' :: "'b mem" and xs xs'
  assume "list_copy copy xs h = (xs', h')"
  then show "extends h h'"
    by (rule list_copy_grows [OF D])
next
  fix h h' :: "'b mem" and xs xs'
  assume "\<Union> (foot h ` set xs) \<subseteq> {..<limit h}" and "list_copy copy xs h = (xs', h')"
  then show "map (val h') xs' = map (val h) xs \<and> \<Union> (foot h' ` set xs') \<subseteq> {limit h..<limit h'}"
    using list_copied [OF D, of xs h xs' h'] by blast
qed

text \<open>
  A struct whose pointer fields \<open>view m\<close> are copied by \<open>c\<close> and whose other fields are copied by the
  assignment \<open>*out = *in\<close>; \<open>put\<close> sets the pointer fields.
\<close>

lemma deep_struct:
  assumes D: "deep_copyable c f v"
    and run: "\<And>m h. copy m h = (case c (view m) h of (t, h') \<Rightarrow> (put t m, h'))"
    and view: "\<And>t m. view (put t m) = t" and rest: "\<And>t m. rest (put t m) = rest m"
  shows "deep_copyable copy (\<lambda>h m. f h (view m)) (\<lambda>h m. combine (rest m) (v h (view m)))"
proof
  fix h h' :: "'b mem" and m
  assume "\<forall>a \<in> f h (view m). cells h' a = cells h a"
  then show "f h' (view m) = f h (view m) \<and> combine (rest m) (v h' (view m)) = combine (rest m) (v h (view m))"
    using deep_copyable.frame [OF D, of h "view m" h'] by simp
next
  fix h h' :: "'b mem" and m m'
  assume "copy m h = (m', h')"
  then show "extends h h'"
    using deep_copyable.grows [OF D, of "view m" h] run [of m h] by (auto split: prod.splits)
next
  fix h h' :: "'b mem" and m m'
  assume "f h (view m) \<subseteq> {..<limit h}" and "copy m h = (m', h')"
  then show "combine (rest m') (v h' (view m')) = combine (rest m) (v h (view m)) \<and> f h' (view m') \<subseteq> {limit h..<limit h'}"
    using deep_copyable.copied [OF D, of h "view m"] run [of m h] by (auto simp: view rest split: prod.splits)
qed

lemma deep_structI:
  assumes "deep_copyable c f v"
    and "\<And>m h. copy m h = (case c (view m) h of (t, h') \<Rightarrow> (put t m, h'))"
    and "\<And>t m. view (put t m) = t" and "\<And>t m. rest (put t m) = rest m"
    and "\<And>h m. foot h m = f h (view m)" and "\<And>h m. val h m = combine (rest m) (v h (view m))"
  shows "deep_copyable copy foot val"
proof -
  have foot: "foot = (\<lambda>h m. f h (view m))" and val: "val = (\<lambda>h m. combine (rest m) (v h (view m)))"
    by (simp_all add: fun_eq_iff assms(5,6))
  show ?thesis
    unfolding foot val by (rule deep_struct, fact+)
qed

section \<open>Typed copiers\<close>

text \<open>
  \<open>wt h m\<close>: every pointer of \<open>m\<close> leads to an allocated cell of the type that the pointer has. A copier
  turns a well-typed value into a well-typed value.
\<close>

locale typed_copyable = deep_copyable copy foot val
  for copy :: "'m \<Rightarrow> 'c mem \<Rightarrow> 'm \<times> 'c mem"
    and foot :: "'c mem \<Rightarrow> 'm \<Rightarrow> addr set"
    and val :: "'c mem \<Rightarrow> 'm \<Rightarrow> 'v" +
  fixes wt :: "'c mem \<Rightarrow> 'm \<Rightarrow> bool"
  assumes wt_frame: "\<forall>a \<in> foot h m. cells h' a = cells h a \<Longrightarrow> limit h \<le> limit h' \<Longrightarrow> wt h m \<Longrightarrow> wt h' m"
    and wt_allocated: "wt h m \<Longrightarrow> foot h m \<subseteq> {..<limit h}"
    and wt_copied: "wt h m \<Longrightarrow> copy m h = (m', h') \<Longrightarrow> wt h' m'"
begin

lemma wt_stable: "extends h h' \<Longrightarrow> wt h m \<Longrightarrow> wt h' m"
  using wt_allocated [of h m] by (intro wt_frame [of h m h']) (auto simp: extends_def)

lemma wt_both: "wt h m \<Longrightarrow> copy m h = (m', h') \<Longrightarrow> wt h' m \<and> wt h' m'"
  using wt_stable [OF grows] wt_copied by blast

end

lemma typed_flat: "typed_copyable flat_copy (\<lambda>h m. {}) (\<lambda>h m. f m) (\<lambda>h m. True)"
  by (intro typed_copyable.intro typed_copyable_axioms.intro deep_flat) simp_all

definition ptr_wt :: "('a \<Rightarrow> 'c) \<Rightarrow> ('c mem \<Rightarrow> 'a \<Rightarrow> bool) \<Rightarrow> 'c mem \<Rightarrow> addr option \<Rightarrow> bool" where
  "ptr_wt emb wt h p \<longleftrightarrow> (\<forall>a. p = Some a \<longrightarrow> a < limit h \<and> (\<exists>x. cells h a = emb x \<and> wt h x))"

lemma typed_ptr:
  assumes T: "typed_copyable copy foot val wt" and inv: "\<And>x. get (emb x) = x"
  shows "typed_copyable (new_copy emb get copy) (ptr_foot get foot) (ptr_val get val) (ptr_wt emb wt)"
proof (intro typed_copyable.intro typed_copyable_axioms.intro deep_ptr [OF typed_copyable.axioms(1) [OF T] inv])
  fix h h' :: "'b mem" and p
  assume "\<forall>a \<in> ptr_foot get foot h p. cells h' a = cells h a" "limit h \<le> limit h'" "ptr_wt emb wt h p"
  then show "ptr_wt emb wt h' p"
    using typed_copyable.wt_frame [OF T, of h _ h'] by (fastforce simp: ptr_foot_def ptr_wt_def inv)
next
  fix h :: "'b mem" and p
  assume "ptr_wt emb wt h p"
  then show "ptr_foot get foot h p \<subseteq> {..<limit h}"
    using typed_copyable.wt_allocated [OF T, of h] by (cases p) (fastforce simp: ptr_foot_def ptr_wt_def inv)+
next
  fix h h' :: "'b mem" and p p'
  assume wt: "ptr_wt emb wt h p" and new: "new_copy emb get copy p h = (p', h')"
  show "ptr_wt emb wt h' p'"
  proof (cases p)
    case None
    with new show ?thesis
      by (simp add: new_copy_def ptr_wt_def)
  next
    case (Some a)
    let ?x = "get (cells h a)"
    note D = typed_copyable.axioms(1) [OF T]
    from new Some obtain h1 x' h2 where 1: "extends h h1" "limit h1 = Suc (limit h)"
        and 2: "copy ?x h1 = (x', h2)" and p': "p' = Some (limit h)" and h': "h' = assign (limit h) (emb x') h2"
      by (auto elim: new_copy_Some)
    from wt Some have "wt h ?x"
      by (auto simp: ptr_wt_def inv)
    then have x: "wt h1 ?x"
      by (rule typed_copyable.wt_stable [OF T 1(1)])
    then have x': "wt h2 x'"
      by (rule typed_copyable.wt_copied [OF T _ 2])
    have "foot h2 x' \<subseteq> {limit h1..<limit h2}"
      using deep_copyable.copied [OF D typed_copyable.wt_allocated [OF T x] 2] by blast
    then have "wt h' x'"
      using 1(2) unfolding h' by (intro typed_copyable.wt_frame [OF T _ _ x']) auto
    moreover have "limit h1 \<le> limit h2"
      using deep_copyable.grows [OF D 2] by (simp add: extends_def)
    ultimately show ?thesis
      using 1(2) by (auto simp: p' ptr_wt_def h')
  qed
qed

lemma typed_pair:
  assumes T1: "typed_copyable c1 f1 v1 w1" and T2: "typed_copyable c2 f2 v2 w2"
  shows "typed_copyable (pair_copy c1 c2) (\<lambda>h m. f1 h (fst m) \<union> f2 h (snd m)) (\<lambda>h m. (v1 h (fst m), v2 h (snd m)))
    (\<lambda>h m. w1 h (fst m) \<and> w2 h (snd m))"
proof (intro typed_copyable.intro typed_copyable_axioms.intro
    deep_pair [OF typed_copyable.axioms(1) [OF T1] typed_copyable.axioms(1) [OF T2]])
  fix h h' :: "'b mem" and m
  assume "\<forall>a \<in> f1 h (fst m) \<union> f2 h (snd m). cells h' a = cells h a" "limit h \<le> limit h'"
    "w1 h (fst m) \<and> w2 h (snd m)"
  then show "w1 h' (fst m) \<and> w2 h' (snd m)"
    using typed_copyable.wt_frame [OF T1, of h "fst m" h'] typed_copyable.wt_frame [OF T2, of h "snd m" h'] by auto
next
  fix h :: "'b mem" and m
  assume "w1 h (fst m) \<and> w2 h (snd m)"
  then show "f1 h (fst m) \<union> f2 h (snd m) \<subseteq> {..<limit h}"
    using typed_copyable.wt_allocated [OF T1, of h] typed_copyable.wt_allocated [OF T2, of h] by auto
next
  fix h h' :: "'b mem" and m m'
  assume wt: "w1 h (fst m) \<and> w2 h (snd m)" and "pair_copy c1 c2 m h = (m', h')"
  then obtain x' h1 y' where run: "c1 (fst m) h = (x', h1)" "c2 (snd m) h1 = (y', h')" "m' = (x', y')"
    by (auto simp: pair_copy_def split: prod.splits)
  have "w1 h1 x'" "w2 h1 (snd m)"
    using wt typed_copyable.wt_copied [OF T1 _ run(1)]
      typed_copyable.wt_stable [OF T2 deep_copyable.grows [OF typed_copyable.axioms(1) [OF T1] run(1)]] by blast+
  then show "w1 h' (fst m') \<and> w2 h' (snd m')"
    using typed_copyable.wt_copied [OF T2 _ run(2)] run(3)
      typed_copyable.wt_stable [OF T1 deep_copyable.grows [OF typed_copyable.axioms(1) [OF T2] run(2)]] by simp
qed

lemma list_copy_typed:
  assumes T: "typed_copyable copy foot val wt"
  shows "\<forall>x \<in> set xs. wt h x \<Longrightarrow> list_copy copy xs h = (xs', h') \<Longrightarrow> \<forall>x \<in> set xs'. wt h' x"
proof (induction xs arbitrary: h xs')
  case (Cons x xs)
  then obtain x' h1 xs1 where run: "copy x h = (x', h1)" "list_copy copy xs h1 = (xs1, h')" "xs' = x' # xs1"
    by (auto split: prod.splits)
  note D = typed_copyable.axioms(1) [OF T]
  have "\<forall>y \<in> set xs. wt h1 y"
    using Cons.prems(1) typed_copyable.wt_stable [OF T deep_copyable.grows [OF D run(1)]] by auto
  with Cons.IH run(2) have "\<forall>y \<in> set xs1. wt h' y"
    by blast
  moreover have "wt h1 x'"
    using Cons.prems(1) typed_copyable.wt_copied [OF T _ run(1)] by simp
  then have "wt h' x'"
    by (rule typed_copyable.wt_stable [OF T list_copy_grows [OF D run(2)]])
  ultimately show ?case
    by (simp add: run(3))
qed simp

lemma typed_list:
  assumes T: "typed_copyable copy foot val wt"
  shows "typed_copyable (list_copy copy) (\<lambda>h xs. \<Union> (foot h ` set xs)) (\<lambda>h xs. map (val h) xs)
    (\<lambda>h xs. \<forall>x \<in> set xs. wt h x)"
proof (intro typed_copyable.intro typed_copyable_axioms.intro deep_list [OF typed_copyable.axioms(1) [OF T]])
  fix h h' :: "'b mem" and xs
  assume "\<forall>a \<in> \<Union> (foot h ` set xs). cells h' a = cells h a" "limit h \<le> limit h'" "\<forall>x \<in> set xs. wt h x"
  then show "\<forall>x \<in> set xs. wt h' x"
    using typed_copyable.wt_frame [OF T, of h _ h'] by auto
next
  fix h :: "'b mem" and xs
  assume "\<forall>x \<in> set xs. wt h x"
  then show "\<Union> (foot h ` set xs) \<subseteq> {..<limit h}"
    using typed_copyable.wt_allocated [OF T, of h] by auto
qed (rule list_copy_typed [OF T])

lemma typed_structI:
  assumes T: "typed_copyable c f v w"
    and run: "\<And>m h. copy m h = (case c (view m) h of (t, h') \<Rightarrow> (put t m, h'))"
    and view: "\<And>t m. view (put t m) = t" and rest: "\<And>t m. rest (put t m) = rest m"
    and foot: "\<And>h m. foot h m = f h (view m)" and val: "\<And>h m. val h m = combine (rest m) (v h (view m))"
    and wt: "\<And>h m. wt h m = w h (view m)"
  shows "typed_copyable copy foot val wt"
proof (intro typed_copyable.intro typed_copyable_axioms.intro)
  show "deep_copyable copy foot val"
    by (rule deep_structI [OF typed_copyable.axioms(1) [OF T]], fact+)
next
  fix h h' :: "'b mem" and m
  assume "\<forall>a \<in> foot h m. cells h' a = cells h a" "limit h \<le> limit h'" "wt h m"
  then show "wt h' m"
    using typed_copyable.wt_frame [OF T, of h "view m" h'] by (simp add: foot wt)
next
  fix h :: "'b mem" and m
  assume "wt h m"
  then show "foot h m \<subseteq> {..<limit h}"
    using typed_copyable.wt_allocated [OF T, of h "view m"] by (simp add: foot wt)
next
  fix h h' :: "'b mem" and m m'
  assume "wt h m" "copy m h = (m', h')"
  then show "wt h' m'"
    using typed_copyable.wt_copied [OF T, of h "view m"] by (auto simp: run wt view split: prod.splits)
qed

end
