(* ===== verification/Deep_Copy.thy ===== *)
theory Deep_Copy
  imports Aim_Types Go_Memory
begin

text \<open>
  \<open>src/api/v1alpha1/zz_generated.deepcopy.go\<close>: the deep copies of the custom resource, over an
  explicit memory. Elsewhere in the development a custom resource is a value; here it is a struct in
  memory with pointers and slices, and the theorems show that the value view is justified: a copy
  stands for the same value and shares no memory with the original.

  A struct in memory is a record with its plain fields as they are in the value record (the
  fields for pointers and slices are not used there) and an address for every pointer or slice. The
  types of other packages (\<open>ObjectMeta\<close>, \<open>ListMeta\<close>, \<open>Condition\<close>, \<open>SecretKeySelector\<close>, \<open>JSON\<close>) have
  their own deep copies; they are a type variable \<open>'x\<close> with the functions of \<open>Ext\<close>.
\<close>

record TypeMeta =
  Kind :: string
  APIVersion :: string

record connection_mem =
  con_flat :: AciConnectionSpec
  con_cert :: "addr option"
  con_key :: "addr option"

record fabric_mem =
  fab_flat :: AciFabricSpec
  fab_vpc :: "addr option"
  fab_vlan :: "addr option"
  fab_links :: "addr option"
  fab_nets :: "addr option"
  fab_pdoms :: "addr option"
  fab_devs :: "addr option"

record spec_mem =
  spec_flat :: CiscoAciAimSpec
  spec_replicas :: "addr option"
  spec_connection :: connection_mem
  spec_fabric :: "addr option"
  spec_log :: "addr option"
  spec_probe :: "addr option"

record status_mem =
  status_conditions :: "addr option"

record 'x aim_mem =
  am_TypeMeta :: TypeMeta
  am_Meta :: 'x
  am_Spec :: spec_mem
  am_Status :: status_mem

record 'x list_mem =
  lm_TypeMeta :: TypeMeta
  lm_Meta :: 'x
  lm_Items :: "addr option"

text \<open>What a cell can hold, one constructor per type that the code allocates.\<close>

datatype 'x cell =
    CInt32 int32
  | CStrings "string list"
  | CExt 'x
  | CExts "'x list"
  | CLog LogPersistenceSpec
  | CProbe LivenessProbeSpec
  | CConnection connection_mem
  | CFabric fabric_mem
  | CSpec spec_mem
  | CStatus status_mem
  | CAim "'x aim_mem"
  | CAims "'x aim_mem list"
  | CList "'x list_mem"

text \<open>Reading a cell at its type; Go's type system rules out the other cases.\<close>

primrec (nonexhaustive) get_int32 :: "'x cell \<Rightarrow> int32" where
  "get_int32 (CInt32 x) = x"

primrec (nonexhaustive) get_strings :: "'x cell \<Rightarrow> string list" where
  "get_strings (CStrings x) = x"

primrec (nonexhaustive) get_ext :: "'x cell \<Rightarrow> 'x" where
  "get_ext (CExt x) = x"

primrec (nonexhaustive) get_exts :: "'x cell \<Rightarrow> 'x list" where
  "get_exts (CExts x) = x"

primrec (nonexhaustive) get_log :: "'x cell \<Rightarrow> LogPersistenceSpec" where
  "get_log (CLog x) = x"

primrec (nonexhaustive) get_probe :: "'x cell \<Rightarrow> LivenessProbeSpec" where
  "get_probe (CProbe x) = x"

primrec (nonexhaustive) get_connection :: "'x cell \<Rightarrow> connection_mem" where
  "get_connection (CConnection x) = x"

primrec (nonexhaustive) get_fabric :: "'x cell \<Rightarrow> fabric_mem" where
  "get_fabric (CFabric x) = x"

primrec (nonexhaustive) get_spec :: "'x cell \<Rightarrow> spec_mem" where
  "get_spec (CSpec x) = x"

primrec (nonexhaustive) get_status :: "'x cell \<Rightarrow> status_mem" where
  "get_status (CStatus x) = x"

primrec (nonexhaustive) get_aim :: "'x cell \<Rightarrow> 'x aim_mem" where
  "get_aim (CAim x) = x"

primrec (nonexhaustive) get_aims :: "'x cell \<Rightarrow> 'x aim_mem list" where
  "get_aims (CAims x) = x"

primrec (nonexhaustive) get_list :: "'x cell \<Rightarrow> 'x list_mem" where
  "get_list (CList x) = x"

section \<open>Types of other packages\<close>

datatype ext_value =
    EvMeta ObjectMeta
  | EvListMeta json
  | EvCondition Condition
  | EvSelector SecretKeySelector
  | EvJson string

record 'x Ext =
  ext_DeepCopyInto :: "'x \<Rightarrow> 'x cell mem \<Rightarrow> 'x \<times> 'x cell mem"
  ext_foot :: "'x cell mem \<Rightarrow> 'x \<Rightarrow> addr set"
  ext_val :: "'x cell mem \<Rightarrow> 'x \<Rightarrow> ext_value"
  ext_wt :: "'x cell mem \<Rightarrow> 'x \<Rightarrow> bool"

text \<open>Their \<open>DeepCopyInto\<close> is a deep copy of well-typed values.\<close>

definition ext_copy_doc :: "'x Ext \<Rightarrow> bool" where
  "ext_copy_doc E \<longleftrightarrow> typed_copyable (ext_DeepCopyInto E) (ext_foot E) (ext_val E) (ext_wt E)"

section \<open>The copies\<close>

text \<open>\<open>DeepCopyInto\<close> returns what is written to \<open>out\<close>; \<open>DeepCopy\<close> works on a pointer, which may be nil.\<close>

definition DeepCopyInto_LivenessProbeSpec ::
    "LivenessProbeSpec \<Rightarrow> 'x cell mem \<Rightarrow> LivenessProbeSpec \<times> 'x cell mem" where
  "DeepCopyInto_LivenessProbeSpec m h = (m, h)"

definition DeepCopy_LivenessProbeSpec :: "addr option \<Rightarrow> 'x cell mem \<Rightarrow> addr option \<times> 'x cell mem" where
  "DeepCopy_LivenessProbeSpec = new_copy CProbe get_probe DeepCopyInto_LivenessProbeSpec"

definition DeepCopyInto_LogPersistenceSpec ::
    "LogPersistenceSpec \<Rightarrow> 'x cell mem \<Rightarrow> LogPersistenceSpec \<times> 'x cell mem" where
  "DeepCopyInto_LogPersistenceSpec m h = (m, h)"

definition DeepCopy_LogPersistenceSpec :: "addr option \<Rightarrow> 'x cell mem \<Rightarrow> addr option \<times> 'x cell mem" where
  "DeepCopy_LogPersistenceSpec = new_copy CLog get_log DeepCopyInto_LogPersistenceSpec"

definition DeepCopyInto_AciConnectionSpec ::
    "'x Ext \<Rightarrow> connection_mem \<Rightarrow> 'x cell mem \<Rightarrow> connection_mem \<times> 'x cell mem" where
  "DeepCopyInto_AciConnectionSpec E m h =
     (let (cert, h1) = new_copy CExt get_ext (ext_DeepCopyInto E) (con_cert m) h;
          (key, h2) = new_copy CExt get_ext (ext_DeepCopyInto E) (con_key m) h1
      in (m\<lparr>con_cert := cert, con_key := key\<rparr>, h2))"

definition DeepCopy_AciConnectionSpec :: "'x Ext \<Rightarrow> addr option \<Rightarrow> 'x cell mem \<Rightarrow> addr option \<times> 'x cell mem" where
  "DeepCopy_AciConnectionSpec E = new_copy CConnection get_connection (DeepCopyInto_AciConnectionSpec E)"

text \<open>\<open>*out = make([]string, len(*in)); copy(*out, *in)\<close>, unless the slice is nil.\<close>

definition copy_strings :: "addr option \<Rightarrow> 'x cell mem \<Rightarrow> addr option \<times> 'x cell mem" where
  "copy_strings = new_copy CStrings get_strings flat_copy"

definition DeepCopyInto_AciFabricSpec ::
    "'x Ext \<Rightarrow> fabric_mem \<Rightarrow> 'x cell mem \<Rightarrow> fabric_mem \<times> 'x cell mem" where
  "DeepCopyInto_AciFabricSpec E m h =
     (let (vpc, h1) = copy_strings (fab_vpc m) h;
          (vlan, h2) = copy_strings (fab_vlan m) h1;
          (links, h3) = new_copy CExt get_ext (ext_DeepCopyInto E) (fab_links m) h2;
          (nets, h4) = copy_strings (fab_nets m) h3;
          (pdoms, h5) = copy_strings (fab_pdoms m) h4;
          (devs, h6) = copy_strings (fab_devs m) h5
      in (m\<lparr>fab_vpc := vpc, fab_vlan := vlan, fab_links := links, fab_nets := nets,
            fab_pdoms := pdoms, fab_devs := devs\<rparr>, h6))"

definition DeepCopy_AciFabricSpec :: "'x Ext \<Rightarrow> addr option \<Rightarrow> 'x cell mem \<Rightarrow> addr option \<times> 'x cell mem" where
  "DeepCopy_AciFabricSpec E = new_copy CFabric get_fabric (DeepCopyInto_AciFabricSpec E)"

definition DeepCopyInto_CiscoAciAimSpec ::
    "'x Ext \<Rightarrow> spec_mem \<Rightarrow> 'x cell mem \<Rightarrow> spec_mem \<times> 'x cell mem" where
  "DeepCopyInto_CiscoAciAimSpec E m h =
     (let (replicas, h1) = new_copy CInt32 get_int32 flat_copy (spec_replicas m) h;
          (connection, h2) = DeepCopyInto_AciConnectionSpec E (spec_connection m) h1;
          (fabric, h3) = new_copy CFabric get_fabric (DeepCopyInto_AciFabricSpec E) (spec_fabric m) h2;
          (log, h4) = new_copy CLog get_log flat_copy (spec_log m) h3;
          (probe, h5) = new_copy CProbe get_probe flat_copy (spec_probe m) h4
      in (m\<lparr>spec_replicas := replicas, spec_connection := connection, spec_fabric := fabric,
            spec_log := log, spec_probe := probe\<rparr>, h5))"

definition DeepCopy_CiscoAciAimSpec :: "'x Ext \<Rightarrow> addr option \<Rightarrow> 'x cell mem \<Rightarrow> addr option \<times> 'x cell mem" where
  "DeepCopy_CiscoAciAimSpec E = new_copy CSpec get_spec (DeepCopyInto_CiscoAciAimSpec E)"

definition DeepCopyInto_CiscoAciAimStatus ::
    "'x Ext \<Rightarrow> status_mem \<Rightarrow> 'x cell mem \<Rightarrow> status_mem \<times> 'x cell mem" where
  "DeepCopyInto_CiscoAciAimStatus E m h =
     (let (conds, h1) = new_copy CExts get_exts (list_copy (ext_DeepCopyInto E)) (status_conditions m) h
      in (m\<lparr>status_conditions := conds\<rparr>, h1))"

definition DeepCopy_CiscoAciAimStatus :: "'x Ext \<Rightarrow> addr option \<Rightarrow> 'x cell mem \<Rightarrow> addr option \<times> 'x cell mem" where
  "DeepCopy_CiscoAciAimStatus E = new_copy CStatus get_status (DeepCopyInto_CiscoAciAimStatus E)"

definition DeepCopyInto_CiscoAciAim ::
    "'x Ext \<Rightarrow> 'x aim_mem \<Rightarrow> 'x cell mem \<Rightarrow> 'x aim_mem \<times> 'x cell mem" where
  "DeepCopyInto_CiscoAciAim E m h =
     (let (meta, h1) = ext_DeepCopyInto E (am_Meta m) h;
          (spec, h2) = DeepCopyInto_CiscoAciAimSpec E (am_Spec m) h1;
          (status, h3) = DeepCopyInto_CiscoAciAimStatus E (am_Status m) h2
      in (m\<lparr>am_Meta := meta, am_Spec := spec, am_Status := status\<rparr>, h3))"

definition DeepCopy_CiscoAciAim :: "'x Ext \<Rightarrow> addr option \<Rightarrow> 'x cell mem \<Rightarrow> addr option \<times> 'x cell mem" where
  "DeepCopy_CiscoAciAim E = new_copy CAim get_aim (DeepCopyInto_CiscoAciAim E)"

definition DeepCopyInto_CiscoAciAimList ::
    "'x Ext \<Rightarrow> 'x list_mem \<Rightarrow> 'x cell mem \<Rightarrow> 'x list_mem \<times> 'x cell mem" where
  "DeepCopyInto_CiscoAciAimList E m h =
     (let (meta, h1) = ext_DeepCopyInto E (lm_Meta m) h;
          (items, h2) = new_copy CAims get_aims (list_copy (DeepCopyInto_CiscoAciAim E)) (lm_Items m) h1
      in (m\<lparr>lm_Meta := meta, lm_Items := items\<rparr>, h2))"

definition DeepCopy_CiscoAciAimList :: "'x Ext \<Rightarrow> addr option \<Rightarrow> 'x cell mem \<Rightarrow> addr option \<times> 'x cell mem" where
  "DeepCopy_CiscoAciAimList E = new_copy CList get_list (DeepCopyInto_CiscoAciAimList E)"

text \<open>\<open>DeepCopyObject\<close> wraps the pointer into a \<open>runtime.Object\<close>; a nil pointer gives a nil object.\<close>

datatype runtime_object = AimObject addr | AimListObject addr

definition DeepCopyObject_CiscoAciAim ::
    "'x Ext \<Rightarrow> addr option \<Rightarrow> 'x cell mem \<Rightarrow> runtime_object option \<times> 'x cell mem" where
  "DeepCopyObject_CiscoAciAim E p h =
     (case DeepCopy_CiscoAciAim E p h of (None, h') \<Rightarrow> (None, h') | (Some c, h') \<Rightarrow> (Some (AimObject c), h'))"

definition DeepCopyObject_CiscoAciAimList ::
    "'x Ext \<Rightarrow> addr option \<Rightarrow> 'x cell mem \<Rightarrow> runtime_object option \<times> 'x cell mem" where
  "DeepCopyObject_CiscoAciAimList E p h =
     (case DeepCopy_CiscoAciAimList E p h of (None, h') \<Rightarrow> (None, h') | (Some c, h') \<Rightarrow> (Some (AimListObject c), h'))"

section \<open>The value a struct in memory stands for\<close>

primrec (nonexhaustive) meta_of :: "ext_value \<Rightarrow> ObjectMeta" where
  "meta_of (EvMeta x) = x"

primrec (nonexhaustive) list_meta_of :: "ext_value \<Rightarrow> json" where
  "list_meta_of (EvListMeta x) = x"

primrec (nonexhaustive) condition_of :: "ext_value \<Rightarrow> Condition" where
  "condition_of (EvCondition x) = x"

primrec (nonexhaustive) selector_of :: "ext_value \<Rightarrow> SecretKeySelector" where
  "selector_of (EvSelector x) = x"

primrec (nonexhaustive) raw_of :: "ext_value \<Rightarrow> string" where
  "raw_of (EvJson x) = x"

text \<open>A nil slice stands for the empty list.\<close>

definition slice :: "'a list option \<Rightarrow> 'a list" where
  "slice p = (case p of None \<Rightarrow> [] | Some xs \<Rightarrow> xs)"

abbreviation ext_ptr_foot :: "'x Ext \<Rightarrow> 'x cell mem \<Rightarrow> addr option \<Rightarrow> addr set" where
  "ext_ptr_foot E \<equiv> ptr_foot get_ext (ext_foot E)"

abbreviation ext_ptr_val :: "'x Ext \<Rightarrow> 'x cell mem \<Rightarrow> addr option \<Rightarrow> ext_value option" where
  "ext_ptr_val E \<equiv> ptr_val get_ext (ext_val E)"

abbreviation flat_foot :: "('x cell \<Rightarrow> 'a) \<Rightarrow> 'x cell mem \<Rightarrow> addr option \<Rightarrow> addr set" where
  "flat_foot get \<equiv> ptr_foot get (\<lambda>h m. {})"

abbreviation flat_val :: "('x cell \<Rightarrow> 'a) \<Rightarrow> 'x cell mem \<Rightarrow> addr option \<Rightarrow> 'a option" where
  "flat_val get \<equiv> ptr_val get (\<lambda>h m. m)"

definition connection_foot :: "'x Ext \<Rightarrow> 'x cell mem \<Rightarrow> connection_mem \<Rightarrow> addr set" where
  "connection_foot E h m = ext_ptr_foot E h (con_cert m) \<union> ext_ptr_foot E h (con_key m)"

definition connection_val :: "'x Ext \<Rightarrow> 'x cell mem \<Rightarrow> connection_mem \<Rightarrow> AciConnectionSpec" where
  "connection_val E h m = (con_flat m)
     \<lparr>ACIApicCertificateSecretRef := map_option selector_of (ext_ptr_val E h (con_cert m)),
      ACIApicPrivateKeySecretRef := map_option selector_of (ext_ptr_val E h (con_key m))\<rparr>"

definition fabric_foot :: "'x Ext \<Rightarrow> 'x cell mem \<Rightarrow> fabric_mem \<Rightarrow> addr set" where
  "fabric_foot E h m =
     flat_foot get_strings h (fab_vpc m) \<union> (flat_foot get_strings h (fab_vlan m) \<union>
     (ext_ptr_foot E h (fab_links m) \<union> (flat_foot get_strings h (fab_nets m) \<union>
     (flat_foot get_strings h (fab_pdoms m) \<union> flat_foot get_strings h (fab_devs m)))))"

definition fabric_val :: "'x Ext \<Rightarrow> 'x cell mem \<Rightarrow> fabric_mem \<Rightarrow> AciFabricSpec" where
  "fabric_val E h m = (fab_flat m)
     \<lparr>ACIVpcPairs := slice (flat_val get_strings h (fab_vpc m)),
      ACIOpflexVlanRange := slice (flat_val get_strings h (fab_vlan m)),
      ACIHostLinks := map_option raw_of (ext_ptr_val E h (fab_links m)),
      NeutronNetworkVLANRanges := slice (flat_val get_strings h (fab_nets m)),
      AciPhysDomMappings := slice (flat_val get_strings h (fab_pdoms m)),
      NeutronPhysicalDevMappings := slice (flat_val get_strings h (fab_devs m))\<rparr>"

definition spec_foot :: "'x Ext \<Rightarrow> 'x cell mem \<Rightarrow> spec_mem \<Rightarrow> addr set" where
  "spec_foot E h m =
     flat_foot get_int32 h (spec_replicas m) \<union> (connection_foot E h (spec_connection m) \<union>
     (ptr_foot get_fabric (fabric_foot E) h (spec_fabric m) \<union>
     (flat_foot get_log h (spec_log m) \<union> flat_foot get_probe h (spec_probe m))))"

definition spec_val :: "'x Ext \<Rightarrow> 'x cell mem \<Rightarrow> spec_mem \<Rightarrow> CiscoAciAimSpec" where
  "spec_val E h m = (spec_flat m)
     \<lparr>Replicas := flat_val get_int32 h (spec_replicas m),
      AciConnection := connection_val E h (spec_connection m),
      AciFabric := ptr_val get_fabric (fabric_val E) h (spec_fabric m),
      LogPersistence := flat_val get_log h (spec_log m),
      LivenessProbe := flat_val get_probe h (spec_probe m)\<rparr>"

definition status_foot :: "'x Ext \<Rightarrow> 'x cell mem \<Rightarrow> status_mem \<Rightarrow> addr set" where
  "status_foot E h m = ptr_foot get_exts (\<lambda>h xs. \<Union> (ext_foot E h ` set xs)) h (status_conditions m)"

definition status_val :: "'x Ext \<Rightarrow> 'x cell mem \<Rightarrow> status_mem \<Rightarrow> CiscoAciAimStatus" where
  "status_val E h m =
     \<lparr>Conditions = map condition_of (slice (ptr_val get_exts (\<lambda>h xs. map (ext_val E h) xs) h (status_conditions m)))\<rparr>"

definition aim_foot :: "'x Ext \<Rightarrow> 'x cell mem \<Rightarrow> 'x aim_mem \<Rightarrow> addr set" where
  "aim_foot E h m = ext_foot E h (am_Meta m) \<union> (spec_foot E h (am_Spec m) \<union> status_foot E h (am_Status m))"

definition aim_val :: "'x Ext \<Rightarrow> 'x cell mem \<Rightarrow> 'x aim_mem \<Rightarrow> TypeMeta \<times> CiscoAciAim" where
  "aim_val E h m =
     (am_TypeMeta m,
      \<lparr>aim_Meta = meta_of (ext_val E h (am_Meta m)), Spec = spec_val E h (am_Spec m),
       Status = status_val E h (am_Status m)\<rparr>)"

definition list_foot :: "'x Ext \<Rightarrow> 'x cell mem \<Rightarrow> 'x list_mem \<Rightarrow> addr set" where
  "list_foot E h m =
     ext_foot E h (lm_Meta m) \<union> ptr_foot get_aims (\<lambda>h xs. \<Union> (aim_foot E h ` set xs)) h (lm_Items m)"

definition list_val :: "'x Ext \<Rightarrow> 'x cell mem \<Rightarrow> 'x list_mem \<Rightarrow> TypeMeta \<times> json \<times> CiscoAciAimList" where
  "list_val E h m =
     (lm_TypeMeta m, list_meta_of (ext_val E h (lm_Meta m)),
      \<lparr>Items = map snd (slice (ptr_val get_aims (\<lambda>h xs. map (aim_val E h) xs) h (lm_Items m)))\<rparr>)"

section \<open>Well-typed structs\<close>

abbreviation flat_wt :: "('a \<Rightarrow> 'x cell) \<Rightarrow> 'x cell mem \<Rightarrow> addr option \<Rightarrow> bool" where
  "flat_wt emb \<equiv> ptr_wt emb (\<lambda>h m. True)"

abbreviation ext_ptr_wt :: "'x Ext \<Rightarrow> 'x cell mem \<Rightarrow> addr option \<Rightarrow> bool" where
  "ext_ptr_wt E \<equiv> ptr_wt CExt (ext_wt E)"

definition connection_wt :: "'x Ext \<Rightarrow> 'x cell mem \<Rightarrow> connection_mem \<Rightarrow> bool" where
  "connection_wt E h m \<longleftrightarrow> ext_ptr_wt E h (con_cert m) \<and> ext_ptr_wt E h (con_key m)"

definition fabric_wt :: "'x Ext \<Rightarrow> 'x cell mem \<Rightarrow> fabric_mem \<Rightarrow> bool" where
  "fabric_wt E h m \<longleftrightarrow>
     flat_wt CStrings h (fab_vpc m) \<and> flat_wt CStrings h (fab_vlan m) \<and> ext_ptr_wt E h (fab_links m) \<and>
     flat_wt CStrings h (fab_nets m) \<and> flat_wt CStrings h (fab_pdoms m) \<and> flat_wt CStrings h (fab_devs m)"

definition spec_wt :: "'x Ext \<Rightarrow> 'x cell mem \<Rightarrow> spec_mem \<Rightarrow> bool" where
  "spec_wt E h m \<longleftrightarrow>
     flat_wt CInt32 h (spec_replicas m) \<and> connection_wt E h (spec_connection m) \<and>
     ptr_wt CFabric (fabric_wt E) h (spec_fabric m) \<and>
     flat_wt CLog h (spec_log m) \<and> flat_wt CProbe h (spec_probe m)"

definition status_wt :: "'x Ext \<Rightarrow> 'x cell mem \<Rightarrow> status_mem \<Rightarrow> bool" where
  "status_wt E h m \<longleftrightarrow> ptr_wt CExts (\<lambda>h xs. \<forall>x \<in> set xs. ext_wt E h x) h (status_conditions m)"

definition aim_wt :: "'x Ext \<Rightarrow> 'x cell mem \<Rightarrow> 'x aim_mem \<Rightarrow> bool" where
  "aim_wt E h m \<longleftrightarrow> ext_wt E h (am_Meta m) \<and> spec_wt E h (am_Spec m) \<and> status_wt E h (am_Status m)"

definition list_wt :: "'x Ext \<Rightarrow> 'x cell mem \<Rightarrow> 'x list_mem \<Rightarrow> bool" where
  "list_wt E h m \<longleftrightarrow>
     ext_wt E h (lm_Meta m) \<and> ptr_wt CAims (\<lambda>h xs. \<forall>x \<in> set xs. aim_wt E h x) h (lm_Items m)"

section \<open>Every generated copy is a deep copy\<close>

interpretation probe: typed_copyable DeepCopyInto_LivenessProbeSpec "\<lambda>h m. {}" "\<lambda>h m. m" "\<lambda>h m. True"
  by unfold_locales (simp_all add: DeepCopyInto_LivenessProbeSpec_def)

interpretation log: typed_copyable DeepCopyInto_LogPersistenceSpec "\<lambda>h m. {}" "\<lambda>h m. m" "\<lambda>h m. True"
  by unfold_locales (simp_all add: DeepCopyInto_LogPersistenceSpec_def)

lemma typed_strings: "typed_copyable copy_strings (flat_foot get_strings) (flat_val get_strings) (flat_wt CStrings)"
  unfolding copy_strings_def by (rule typed_ptr [OF typed_flat]) simp

lemma typed_ext_ptr:
  "ext_copy_doc E \<Longrightarrow> typed_copyable (new_copy CExt get_ext (ext_DeepCopyInto E)) (ext_ptr_foot E) (ext_ptr_val E) (ext_ptr_wt E)"
  unfolding ext_copy_doc_def by (rule typed_ptr) simp_all

lemmas deep_copy_defs = pair_copy_def Let_def

lemma typed_connection:
  assumes E: "ext_copy_doc E"
  shows "typed_copyable (DeepCopyInto_AciConnectionSpec E) (connection_foot E) (connection_val E) (connection_wt E)"
  by (rule typed_structI [OF typed_pair [OF typed_ext_ptr [OF E] typed_ext_ptr [OF E]],
        where view = "\<lambda>m. (con_cert m, con_key m)" and put = "\<lambda>(c, k) m. m\<lparr>con_cert := c, con_key := k\<rparr>"
          and rest = con_flat
          and combine = "\<lambda>flat (c, k). flat\<lparr>ACIApicCertificateSecretRef := map_option selector_of c,
            ACIApicPrivateKeySecretRef := map_option selector_of k\<rparr>"])
    (auto simp: DeepCopyInto_AciConnectionSpec_def connection_foot_def connection_val_def connection_wt_def deep_copy_defs
      split: prod.splits)

lemma typed_fabric:
  assumes E: "ext_copy_doc E"
  shows "typed_copyable (DeepCopyInto_AciFabricSpec E) (fabric_foot E) (fabric_val E) (fabric_wt E)"
  by (rule typed_structI [OF typed_pair [OF typed_strings typed_pair [OF typed_strings typed_pair [OF typed_ext_ptr [OF E]
          typed_pair [OF typed_strings typed_pair [OF typed_strings typed_strings]]]]],
        where view = "\<lambda>m. (fab_vpc m, fab_vlan m, fab_links m, fab_nets m, fab_pdoms m, fab_devs m)"
          and put = "\<lambda>(v, w, l, n, p, d) m. m\<lparr>fab_vpc := v, fab_vlan := w, fab_links := l, fab_nets := n,
            fab_pdoms := p, fab_devs := d\<rparr>"
          and rest = fab_flat
          and combine = "\<lambda>flat (v, w, l, n, p, d). flat\<lparr>ACIVpcPairs := slice v, ACIOpflexVlanRange := slice w,
            ACIHostLinks := map_option raw_of l, NeutronNetworkVLANRanges := slice n,
            AciPhysDomMappings := slice p, NeutronPhysicalDevMappings := slice d\<rparr>"])
    (auto simp: DeepCopyInto_AciFabricSpec_def fabric_foot_def fabric_val_def fabric_wt_def deep_copy_defs split: prod.splits)

lemma typed_flat_ptr:
  "(\<And>x. get (emb x) = x) \<Longrightarrow> typed_copyable (new_copy emb get flat_copy) (flat_foot get) (flat_val get) (flat_wt emb)"
  by (rule typed_ptr [OF typed_flat])

lemma typed_spec:
  assumes E: "ext_copy_doc E"
  shows "typed_copyable (DeepCopyInto_CiscoAciAimSpec E) (spec_foot E) (spec_val E) (spec_wt E)"
proof -
  have replicas: "typed_copyable (new_copy CInt32 get_int32 flat_copy) (flat_foot get_int32) (flat_val get_int32) (flat_wt CInt32)"
    and log: "typed_copyable (new_copy CLog get_log flat_copy) (flat_foot get_log) (flat_val get_log) (flat_wt CLog)"
    and probe: "typed_copyable (new_copy CProbe get_probe flat_copy) (flat_foot get_probe) (flat_val get_probe) (flat_wt CProbe)"
    by (rule typed_flat_ptr, simp)+
  have fabric: "typed_copyable (new_copy CFabric get_fabric (DeepCopyInto_AciFabricSpec E))
      (ptr_foot get_fabric (fabric_foot E)) (ptr_val get_fabric (fabric_val E)) (ptr_wt CFabric (fabric_wt E))"
    by (rule typed_ptr [OF typed_fabric [OF E]]) simp
  show ?thesis
    by (rule typed_structI [OF typed_pair [OF replicas typed_pair [OF typed_connection [OF E] typed_pair [OF fabric
            typed_pair [OF log probe]]]],
          where view = "\<lambda>m. (spec_replicas m, spec_connection m, spec_fabric m, spec_log m, spec_probe m)"
            and put = "\<lambda>(r, c, f, l, p) m. m\<lparr>spec_replicas := r, spec_connection := c, spec_fabric := f,
              spec_log := l, spec_probe := p\<rparr>"
            and rest = spec_flat
            and combine = "\<lambda>flat (r, c, f, l, p). flat\<lparr>Replicas := r, AciConnection := c, AciFabric := f,
              LogPersistence := l, LivenessProbe := p\<rparr>"])
      (auto simp: DeepCopyInto_CiscoAciAimSpec_def spec_foot_def spec_val_def spec_wt_def deep_copy_defs split: prod.splits)
qed

lemma typed_status:
  assumes E: "ext_copy_doc E"
  shows "typed_copyable (DeepCopyInto_CiscoAciAimStatus E) (status_foot E) (status_val E) (status_wt E)"
  by (rule typed_structI [OF typed_ptr [OF typed_list [OF E [unfolded ext_copy_doc_def]], of get_exts CExts],
        where view = status_conditions and put = "\<lambda>c m. m\<lparr>status_conditions := c\<rparr>" and rest = "\<lambda>m. ()"
          and combine = "\<lambda>u c. \<lparr>Conditions = map condition_of (slice c)\<rparr>"])
    (auto simp: DeepCopyInto_CiscoAciAimStatus_def status_foot_def status_val_def status_wt_def split: prod.splits)

lemma typed_aim:
  assumes E: "ext_copy_doc E"
  shows "typed_copyable (DeepCopyInto_CiscoAciAim E) (aim_foot E) (aim_val E) (aim_wt E)"
  by (rule typed_structI [OF typed_pair [OF E [unfolded ext_copy_doc_def] typed_pair [OF typed_spec [OF E] typed_status [OF E]]],
        where view = "\<lambda>m. (am_Meta m, am_Spec m, am_Status m)"
          and put = "\<lambda>(a, s, t) m. m\<lparr>am_Meta := a, am_Spec := s, am_Status := t\<rparr>"
          and rest = am_TypeMeta
          and combine = "\<lambda>ty (a, s, t). (ty, \<lparr>aim_Meta = meta_of a, Spec = s, Status = t\<rparr>)"])
    (auto simp: DeepCopyInto_CiscoAciAim_def aim_foot_def aim_val_def aim_wt_def deep_copy_defs split: prod.splits)

lemma typed_aim_list:
  assumes E: "ext_copy_doc E"
  shows "typed_copyable (DeepCopyInto_CiscoAciAimList E) (list_foot E) (list_val E) (list_wt E)"
  by (rule typed_structI [OF typed_pair [OF E [unfolded ext_copy_doc_def]
          typed_ptr [OF typed_list [OF typed_aim [OF E]], of get_aims CAims]],
        where view = "\<lambda>m. (lm_Meta m, lm_Items m)" and put = "\<lambda>(a, i) m. m\<lparr>lm_Meta := a, lm_Items := i\<rparr>"
          and rest = lm_TypeMeta
          and combine = "\<lambda>ty (a, i). (ty, list_meta_of a, \<lparr>Items = map snd (slice i)\<rparr>)"])
    (auto simp: DeepCopyInto_CiscoAciAimList_def list_foot_def list_val_def list_wt_def deep_copy_defs split: prod.splits)

lemma typed_aim_ptr:
  "ext_copy_doc E \<Longrightarrow> typed_copyable (DeepCopy_CiscoAciAim E) (ptr_foot get_aim (aim_foot E)) (ptr_val get_aim (aim_val E))
     (ptr_wt CAim (aim_wt E))"
  unfolding DeepCopy_CiscoAciAim_def by (rule typed_ptr [OF typed_aim]) simp_all

lemma typed_list_ptr:
  "ext_copy_doc E \<Longrightarrow>
   typed_copyable (DeepCopy_CiscoAciAimList E) (ptr_foot get_list (list_foot E)) (ptr_val get_list (list_val E))
     (ptr_wt CList (list_wt E))"
  unfolding DeepCopy_CiscoAciAimList_def by (rule typed_ptr [OF typed_aim_list]) simp_all

text \<open>A memory with one instance, whose types of other packages have no pointers.\<close>

definition flat_ext :: "ext_value Ext" where
  "flat_ext = \<lparr>ext_DeepCopyInto = flat_copy, ext_foot = (\<lambda>h x. {}), ext_val = (\<lambda>h x. x), ext_wt = (\<lambda>h x. True)\<rparr>"

lemma flat_ext_doc: "ext_copy_doc flat_ext"
  unfolding ext_copy_doc_def flat_ext_def by (simp add: typed_flat)

definition demo_aim_mem :: "ext_value aim_mem" where
  "demo_aim_mem =
     \<lparr>am_TypeMeta = \<lparr>Kind = ''CiscoAciAim'', APIVersion = ''api.cisco.com/v1alpha1''\<rparr>,
      am_Meta = EvMeta zero_meta,
      am_Spec = \<lparr>spec_flat = default_spec ''img'', spec_replicas = Some 1,
        spec_connection = \<lparr>con_flat = default_connection, con_cert = None, con_key = None\<rparr>,
        spec_fabric = None, spec_log = None, spec_probe = None\<rparr>,
      am_Status = \<lparr>status_conditions = None\<rparr>\<rparr>"

definition demo_mem :: "ext_value cell mem" where
  "demo_mem = \<lparr>cells = (\<lambda>a. if a = 0 then CAim demo_aim_mem else CInt32 3), limit = 2\<rparr>"

text \<open>A pointer to an instance, or to a list of instances: what it reaches, stands for, and that it is well typed.\<close>

abbreviation reach :: "'x Ext \<Rightarrow> 'x cell mem \<Rightarrow> addr option \<Rightarrow> addr set" where
  "reach E \<equiv> ptr_foot get_aim (aim_foot E)"

abbreviation instance_at :: "'x Ext \<Rightarrow> 'x cell mem \<Rightarrow> addr option \<Rightarrow> (TypeMeta \<times> CiscoAciAim) option" where
  "instance_at E \<equiv> ptr_val get_aim (aim_val E)"

abbreviation instance_wt :: "'x Ext \<Rightarrow> 'x cell mem \<Rightarrow> addr option \<Rightarrow> bool" where
  "instance_wt E \<equiv> ptr_wt CAim (aim_wt E)"

abbreviation instances_at :: "'x Ext \<Rightarrow> 'x cell mem \<Rightarrow> addr option \<Rightarrow> (TypeMeta \<times> json \<times> CiscoAciAimList) option" where
  "instances_at E \<equiv> ptr_val get_list (list_val E)"

lemma demo_mem_wt: "instance_wt flat_ext demo_mem (Some 0)"
  by (simp add: ptr_wt_def aim_wt_def spec_wt_def connection_wt_def status_wt_def demo_mem_def
      demo_aim_mem_def flat_ext_def)

section \<open>Properties\<close>

text \<open>
  C18: the deep copy of a well-typed instance is well typed: every pointer in it leads to an allocated
  cell of the pointer's type, through all nested structs and slices; the original stays well typed.
\<close>

theorem deep_copy_typed:
  assumes "ext_copy_doc E" and "instance_wt E h p" and "DeepCopy_CiscoAciAim E p h = (p', h')"
  shows "instance_wt E h' p \<and> instance_wt E h' p' \<and> reach E h' p' \<subseteq> {..<limit h'}"
  using typed_copyable.wt_both [OF typed_aim_ptr [OF assms(1)] assms(2,3)]
    typed_copyable.wt_allocated [OF typed_aim_ptr [OF assms(1)], of h' p'] by blast

theorem deep_copy_typed_witness:
  "\<exists>p' h'. DeepCopy_CiscoAciAim flat_ext (Some 0) demo_mem = (p', h') \<and> instance_wt flat_ext h' p'"
proof -
  obtain p' h' where run: "DeepCopy_CiscoAciAim flat_ext (Some 0) demo_mem = (p', h')"
    by fastforce
  with deep_copy_typed [OF flat_ext_doc demo_mem_wt run] show ?thesis
    by blast
qed

text \<open>
  C17: a deep copy of an instance stands for the same instance, is nil exactly for a nil pointer, and
  shares no address with the original, which keeps its value.
\<close>

theorem deep_copy_faithful:
  assumes "ext_copy_doc E" and "instance_wt E h p" and "DeepCopy_CiscoAciAim E p h = (p', h')"
  shows "instance_at E h' p' = instance_at E h p \<and> instance_at E h' p = instance_at E h p \<and>
    reach E h' p' \<inter> reach E h p = {} \<and> (p' = None \<longleftrightarrow> p = None)"
proof -
  note T = typed_aim_ptr [OF assms(1)]
  note D = typed_copyable.axioms(1) [OF T]
  have old: "reach E h p \<subseteq> {..<limit h}"
    using typed_copyable.wt_allocated [OF T assms(2)] .
  have "instance_at E h' p' = instance_at E h p"
    using deep_copyable.copied [OF D old assms(3)] by blast
  then show ?thesis
    using deep_copyable.disjoint [OF D old assms(3)]
      deep_copyable.stable [OF D deep_copyable.grows [OF D assms(3)] old]
    by (auto simp: ptr_val_def)
qed

theorem deep_copy_faithful_witness:
  "\<exists>p' h'. DeepCopy_CiscoAciAim flat_ext (Some 0) demo_mem = (p', h') \<and>
     map_option (Replicas \<circ> Spec \<circ> snd) (instance_at flat_ext h' p') = Some (Some 3)"
proof -
  obtain p' h' where run: "DeepCopy_CiscoAciAim flat_ext (Some 0) demo_mem = (p', h')"
    by fastforce
  have "map_option (Replicas \<circ> Spec \<circ> snd) (instance_at flat_ext demo_mem (Some 0)) = Some (Some 3)"
    by (simp add: ptr_val_def aim_val_def spec_val_def demo_mem_def demo_aim_mem_def)
  with deep_copy_faithful [OF flat_ext_doc demo_mem_wt run] run show ?thesis
    by auto
qed

text \<open>
  C16: the operator may change its copy of a cached instance, and the cache may replace its own:
  whatever is later written to the memory of the one, the other keeps its value.
\<close>

theorem deep_copy_isolated:
  assumes "ext_copy_doc E" and "instance_wt E h p" and "DeepCopy_CiscoAciAim E p h = (p', h')"
  shows "((\<forall>a \<ge> limit h. cells h'' a = cells h' a) \<longrightarrow> instance_at E h'' p' = instance_at E h p) \<and>
    ((\<forall>a < limit h. cells h'' a = cells h' a) \<longrightarrow> instance_at E h'' p = instance_at E h p)"
proof -
  note T = typed_aim_ptr [OF assms(1)]
  show ?thesis
    using deep_copyable.independent [OF typed_copyable.axioms(1) [OF T] typed_copyable.wt_allocated [OF T assms(2)]
        assms(3)] by blast
qed

theorem deep_copy_isolated_witness:
  "\<exists>p' h'. DeepCopy_CiscoAciAim flat_ext (Some 0) demo_mem = (p', h') \<and>
     instance_at flat_ext (assign 1 (CInt32 9) h') p' = instance_at flat_ext demo_mem (Some 0)"
proof -
  obtain p' h' where run: "DeepCopy_CiscoAciAim flat_ext (Some 0) demo_mem = (p', h')"
    by fastforce
  have "\<forall>a \<ge> limit demo_mem. cells (assign 1 (CInt32 9) h') a = cells h' a"
    by (simp add: demo_mem_def)
  with deep_copy_isolated [OF flat_ext_doc demo_mem_wt run] run show ?thesis
    by blast
qed

text \<open>The same holds for a list of instances, the object of a list request.\<close>

lemma list_copy_isolated:
  assumes "ext_copy_doc E" and "ptr_wt CList (list_wt E) h p"
    and "DeepCopy_CiscoAciAimList E p h = (p', h')" and "\<forall>a \<ge> limit h. cells h'' a = cells h' a"
  shows "instances_at E h'' p' = instances_at E h p"
proof -
  note T = typed_list_ptr [OF assms(1)]
  show ?thesis
    by (rule deep_copyable.independent(1) [OF typed_copyable.axioms(1) [OF T]
          typed_copyable.wt_allocated [OF T assms(2)] assms(3,4)])
qed

end
