(* ===== verification/Go_Flag.thy ===== *)
theory Go_Flag
  imports Go_Prelude
begin

text \<open>
  The standard library's \<open>flag\<close> package, as far as a program uses it that registers string and boolean
  flags on \<open>flag.CommandLine\<close> and calls \<open>flag.Parse\<close>. A flag is a name with the two methods of
  \<open>flag.Value\<close> that parsing uses; \<open>'v\<close> is the memory the flags' variables live in.
\<close>

record 'v Flag =
  flag_Name :: string
  IsBoolFlag :: bool
  Set_flag :: "string \<Rightarrow> 'v \<Rightarrow> 'v option"

datatype flag_error =
    ErrHelp
  | BadFlagSyntax string
  | FlagNotDefined string
  | InvalidBooleanValue string string
  | InvalidBooleanFlag string
  | FlagNeedsArgument string
  | InvalidValue string string

definition lookup_flag :: "'v Flag list \<Rightarrow> string \<Rightarrow> 'v Flag option" where
  "lookup_flag formal n = find (\<lambda>f. flag_Name f = n) formal"

text \<open>\<open>Var\<close> panics for a name that cannot be given on a command line and for a name that is taken.\<close>

datatype flag_panic =
    FlagBeginsWithMinus string
  | FlagContainsEquals string
  | FlagRedefined string

definition flag_Var :: "'v Flag \<Rightarrow> 'v Flag list \<Rightarrow> flag_panic + 'v Flag list" where
  "flag_Var f formal =
     (if HasPrefix (flag_Name f) ''-'' then Inl (FlagBeginsWithMinus (flag_Name f))
      else if CHR ''='' \<in> set (flag_Name f) then Inl (FlagContainsEquals (flag_Name f))
      else if lookup_flag formal (flag_Name f) \<noteq> None then Inl (FlagRedefined (flag_Name f))
      else Inr (formal @ [f]))"

primrec flag_Vars :: "'v Flag list \<Rightarrow> 'v Flag list \<Rightarrow> flag_panic + 'v Flag list" where
  "flag_Vars [] formal = Inr formal"
| "flag_Vars (f # fs) formal = (case flag_Var f formal of Inl e \<Rightarrow> Inl e | Inr formal' \<Rightarrow> flag_Vars fs formal')"

text \<open>\<open>strconv.ParseBool\<close>.\<close>

definition true_texts :: "string list" where
  "true_texts = [''1'', ''t'', ''T'', ''true'', ''TRUE'', ''True'']"

definition false_texts :: "string list" where
  "false_texts = [''0'', ''f'', ''F'', ''false'', ''FALSE'', ''False'']"

definition ParseBool :: "string \<Rightarrow> bool option" where
  "ParseBool s = (if s \<in> set true_texts then Some True else if s \<in> set false_texts then Some False else None)"

text \<open>The name and the value of \<open>name=value\<close>; the first character is never taken for the \<open>=\<close>.\<close>

definition cut_value :: "string \<Rightarrow> string \<times> string option" where
  "cut_value s =
     (case s of
        [] \<Rightarrow> ([], None)
      | c # cs \<Rightarrow>
          (c # takeWhile (\<lambda>x. x \<noteq> CHR ''='') cs,
           case dropWhile (\<lambda>x. x \<noteq> CHR ''='') cs of [] \<Rightarrow> None | _ # v \<Rightarrow> Some v))"

text \<open>
  One step of parsing, on the arguments \<open>args\<close> that are left: whether a flag was seen, the arguments
  left after it, and the variables.
\<close>

definition set_flag ::
    "'v Flag \<Rightarrow> string \<Rightarrow> string option \<Rightarrow> string list \<Rightarrow> 'v \<Rightarrow> flag_error + bool \<times> string list \<times> 'v" where
  "set_flag f n val args v =
     (if IsBoolFlag f then
        case val of
          Some t \<Rightarrow> (case Set_flag f t v of None \<Rightarrow> Inl (InvalidBooleanValue t n) | Some v' \<Rightarrow> Inr (True, args, v'))
        | None \<Rightarrow> (case Set_flag f ''true'' v of None \<Rightarrow> Inl (InvalidBooleanFlag n) | Some v' \<Rightarrow> Inr (True, args, v'))
      else
        case (val, args) of
          (Some t, _) \<Rightarrow> (case Set_flag f t v of None \<Rightarrow> Inl (InvalidValue t n) | Some v' \<Rightarrow> Inr (True, args, v'))
        | (None, []) \<Rightarrow> Inl (FlagNeedsArgument n)
        | (None, t # args') \<Rightarrow> (case Set_flag f t v of None \<Rightarrow> Inl (InvalidValue t n) | Some v' \<Rightarrow> Inr (True, args', v')))"

definition flag_text :: "string \<Rightarrow> string" where
  "flag_text s = (if s ! 1 = CHR ''-'' then drop 2 s else drop 1 s)"

definition parseOne :: "'v Flag list \<Rightarrow> string list \<Rightarrow> 'v \<Rightarrow> flag_error + bool \<times> string list \<times> 'v" where
  "parseOne formal args v =
     (case args of
        [] \<Rightarrow> Inr (False, args, v)
      | s # args' \<Rightarrow>
          if length s < 2 \<or> s ! 0 \<noteq> CHR ''-'' then Inr (False, args, v)
          else if s = ''--'' then Inr (False, args', v)
          else
            let name = flag_text s in
            if name = [] \<or> name ! 0 = CHR ''-'' \<or> name ! 0 = CHR ''='' then Inl (BadFlagSyntax s)
            else
              let (n, val) = cut_value name in
              case lookup_flag formal n of
                None \<Rightarrow> Inl (if n = ''help'' \<or> n = ''h'' then ErrHelp else FlagNotDefined n)
              | Some f \<Rightarrow> set_flag f n val args' v)"

lemma set_flag_shortens: "set_flag f n val args v = Inr (b, args', v') \<Longrightarrow> length args' \<le> length args"
  by (auto simp: set_flag_def split: if_splits option.splits sum.splits list.splits prod.splits)

lemma parseOne_shortens: "parseOne formal args v = Inr (True, args', v') \<Longrightarrow> length args' < length args"
  by (auto simp: parseOne_def Let_def less_Suc_eq_le
      split: list.splits if_splits option.splits prod.splits dest!: set_flag_shortens)

text \<open>\<open>Parse\<close> repeats the step until no flag is seen; it returns the variables and the other arguments.\<close>

function flag_Parse :: "'v Flag list \<Rightarrow> string list \<Rightarrow> 'v \<Rightarrow> flag_error + 'v \<times> string list" where
  "flag_Parse formal args v =
     (case parseOne formal args v of
        Inl e \<Rightarrow> Inl e
      | Inr (False, args', v') \<Rightarrow> Inr (v', args')
      | Inr (True, args', v') \<Rightarrow> flag_Parse formal args' v')"
  by pat_completeness auto
termination
  by (relation "measure (\<lambda>(formal, args, v). length args)") (auto dest: parseOne_shortens)

declare flag_Parse.simps [simp del]

section \<open>Lemmas\<close>

lemma lookup_flagD: "lookup_flag formal n = Some f \<Longrightarrow> f \<in> set formal \<and> flag_Name f = n"
  by (auto simp: lookup_flag_def find_Some_iff)

lemma lookup_flag_unique:
  "distinct (map flag_Name formal) \<Longrightarrow> f \<in> set formal \<Longrightarrow> lookup_flag formal (flag_Name f) = Some f"
  unfolding lookup_flag_def by (induction formal) auto

lemma flag_Vars_Inr:
  assumes "flag_Vars fs formal = Inr all"
  shows "all = formal @ fs \<and> (distinct (map flag_Name formal) \<longrightarrow> distinct (map flag_Name all))"
  using assms
proof (induction fs arbitrary: formal)
  case (Cons f fs)
  then obtain "flag_Vars fs (formal @ [f]) = Inr all" and "lookup_flag formal (flag_Name f) = None"
    by (auto simp: flag_Var_def split: sum.splits if_splits)
  moreover from this(2) have "flag_Name f \<notin> flag_Name ` set formal"
    by (auto simp: lookup_flag_def find_None_iff)
  ultimately show ?case
    using Cons.IH [of "formal @ [f]"] by clarsimp
qed simp

lemma flag_Vars_eq: "flag_Vars fs formal = Inr all \<Longrightarrow> all = formal @ fs"
  using flag_Vars_Inr by blast

lemma flag_Vars_distinct: "flag_Vars fs [] = Inr all \<Longrightarrow> distinct (map flag_Name all)"
  using flag_Vars_Inr [of fs "[]" all] by (metis distinct.simps(1) list.simps(8))

text \<open>An argument \<open>--name=value\<close> is one flag with that value.\<close>

definition flag_arg :: "string \<Rightarrow> string \<Rightarrow> string" where
  "flag_arg n t = ''--'' @ n @ ''='' @ t"

definition flag_name_ok :: "string \<Rightarrow> bool" where
  "flag_name_ok n \<longleftrightarrow> n \<noteq> [] \<and> \<not> HasPrefix n ''-'' \<and> CHR ''='' \<notin> set n"

lemma cut_value_arg: "flag_name_ok n \<Longrightarrow> cut_value (n @ ''='' @ t) = (n, Some t)"
  by (cases n) (auto simp: cut_value_def flag_name_ok_def takeWhile_append dropWhile_append)

lemma parseOne_arg:
  assumes "flag_name_ok n" and "lookup_flag formal n = Some f" and "Set_flag f t v = Some v'"
  shows "parseOne formal (flag_arg n t # args) v = Inr (True, args, v')"
proof -
  have "n \<noteq> []" "n ! 0 \<noteq> CHR ''-''" "n ! 0 \<noteq> CHR ''=''"
    using assms(1) by (cases n; auto simp: flag_name_ok_def HasPrefix_def)+
  moreover have "flag_text (flag_arg n t) = n @ ''='' @ t" "length (flag_arg n t) \<ge> 2"
      "flag_arg n t ! 0 = CHR ''-''" "flag_arg n t \<noteq> ''--''"
    by (simp_all add: flag_text_def flag_arg_def)
  ultimately show ?thesis
    using assms cut_value_arg [OF assms(1), of t]
    by (simp add: parseOne_def set_flag_def nth_append split: option.splits)
qed

lemma flag_Parse_arg:
  assumes "flag_name_ok n" and "lookup_flag formal n = Some f" and "Set_flag f t v = Some v'"
  shows "flag_Parse formal (flag_arg n t # args) v = flag_Parse formal args v'"
  using parseOne_arg [OF assms, of args] by (subst flag_Parse.simps) simp

lemma flag_Parse_stop:
  "args = [] \<or> \<not> HasPrefix (hd args) ''-'' \<Longrightarrow> flag_Parse formal args v = Inr (v, args)"
  by (cases args; cases "hd args") (auto simp: flag_Parse.simps parseOne_def HasPrefix_def)

text \<open>
  What a completed parse says about a command line: a property of the variables that fails at the end
  and held at the start was broken by setting some flag to some text; the flag stands in the command
  line with that text after \<open>=\<close>, or it is boolean, stands there alone and the text is \<open>true\<close>, or it
  stands there alone and the text is the next argument.
\<close>

definition given :: "'v Flag \<Rightarrow> string \<Rightarrow> string list \<Rightarrow> bool" where
  "given f t args \<longleftrightarrow>
     (\<exists>d \<in> {''-'', ''--''}. d @ flag_Name f @ ''='' @ t \<in> set args \<or>
        d @ flag_Name f \<in> set args \<and> (if IsBoolFlag f then t = ''true'' else t \<in> set args))"

lemma cut_value_parts:
  assumes "cut_value s = (n, val)" and "s \<noteq> []"
  shows "s = n @ (case val of None \<Rightarrow> [] | Some t \<Rightarrow> ''='' @ t)"
proof -
  obtain c cs where s: "s = c # cs"
    using assms(2) by (cases s) auto
  show ?thesis
  proof (cases "CHR ''='' \<in> set cs")
    case True
    then obtain a t where "cs = a @ CHR ''='' # t" "CHR ''='' \<notin> set a"
      by (meson split_list_first)
    with assms(1) s show ?thesis
      by (auto simp: cut_value_def takeWhile_append dropWhile_append)
  next
    case False
    then have "takeWhile (\<lambda>x. x \<noteq> CHR ''='') cs = cs" "dropWhile (\<lambda>x. x \<noteq> CHR ''='') cs = []"
      by (auto simp: takeWhile_eq_all_conv dropWhile_eq_Nil_conv)
    with assms(1) s show ?thesis
      by (simp add: cut_value_def)
  qed
qed

lemma flag_text_prefix:
  assumes "2 \<le> length s" and "s ! 0 = CHR ''-''"
  shows "\<exists>d \<in> {''-'', ''--''}. s = d @ flag_text s"
proof -
  obtain c cs where "s = CHR ''-'' # c # cs"
    using assms by (cases s; cases "tl s") auto
  then show ?thesis
    by (auto simp: flag_text_def)
qed

lemma set_flag_given:
  assumes "set_flag f n val args v = Inr (b, args', v')" and "d \<in> {''-'', ''--''}" and "flag_Name f = n"
  shows "b \<and> set args' \<subseteq> set args \<and>
    (\<exists>t. Set_flag f t v = Some v' \<and> given f t ((d @ n @ (case val of None \<Rightarrow> [] | Some t \<Rightarrow> ''='' @ t)) # args))"
  using assms
  by (auto simp: set_flag_def given_def split: if_splits option.splits sum.splits list.splits)

lemma parseOne_given:
  assumes "parseOne formal args v = Inr (b, args', v')"
  shows "set args' \<subseteq> set args \<and>
    (if b then \<exists>f \<in> set formal. \<exists>t. Set_flag f t v = Some v' \<and> given f t args else v' = v)"
proof (cases args)
  case (Cons s rest)
  show ?thesis
  proof (cases "2 \<le> length s \<and> s ! 0 = CHR ''-'' \<and> s \<noteq> ''--''")
    case True
    let ?name = "flag_text s"
    obtain n val where cut: "cut_value ?name = (n, val)"
      by fastforce
    from assms Cons True cut obtain f where ne: "?name \<noteq> []" and f: "lookup_flag formal n = Some f"
      and run: "set_flag f n val rest v = Inr (b, args', v')"
      by (auto simp: parseOne_def Let_def split: if_splits option.splits)
    obtain d where d: "d \<in> {''-'', ''--''}" and "s = d @ ?name"
      using flag_text_prefix True by blast
    then have s: "s = d @ n @ (case val of None \<Rightarrow> [] | Some t \<Rightarrow> ''='' @ t)"
      using cut_value_parts [OF cut ne] by simp
    show ?thesis
      using set_flag_given [OF run d] lookup_flagD [OF f] unfolding Cons s by auto
  next
    case False
    with assms Cons show ?thesis
      by (auto simp: parseOne_def split: if_splits)
  qed
qed (use assms in \<open>simp add: parseOne_def\<close>)

lemma given_mono: "given f t args' \<Longrightarrow> set args' \<subseteq> set args \<Longrightarrow> given f t args"
  unfolding given_def by (auto split: if_splits)

lemma flag_Parse_cause:
  assumes "flag_Parse formal args v = Inr (v', rest)" and "P v" and "\<not> P v'"
  shows "\<exists>f \<in> set formal. \<exists>t u u'. given f t args \<and> P u \<and> \<not> P u' \<and> Set_flag f t u = Some u'"
  using assms
proof (induction formal args v rule: flag_Parse.induct)
  case (1 formal args v)
  obtain b args1 v1 where one: "parseOne formal args v = Inr (b, args1, v1)"
    using 1(2) by (subst (asm) flag_Parse.simps) (auto split: sum.splits)
  note step = parseOne_given [OF one]
  have b: b
    using 1(2-4) one step by (subst (asm) flag_Parse.simps) (auto split: bool.splits)
  then have run: "flag_Parse formal args1 v1 = Inr (v', rest)"
    using 1(2) one by (subst (asm) flag_Parse.simps) simp
  show ?case
  proof (cases "P v1")
    case True
    with 1(1) [OF one refl _ refl run _ 1(4)] b
    have "\<exists>f \<in> set formal. \<exists>t u u'. given f t args1 \<and> P u \<and> \<not> P u' \<and> Set_flag f t u = Some u'"
      by simp
    with step given_mono show ?thesis
      by blast
  next
    case False
    with step b 1(3) show ?thesis
      by auto
  qed
qed

end
