(* ===== verification/Operator_Main.thy ===== *)
theory Operator_Main
  imports Controller Go_Flag
begin

text \<open>
  The operator process: \<open>src/cmd/main.go\<close>, with the registration of the API group
  (\<open>src/api/v1alpha1/groupversion_info.go\<close> and the \<open>init\<close> of \<open>ciscoaciaim_types.go\<close>).

  The libraries are parameters: the registration functions of the API packages (\<open>SchemeLib\<close>), the
  flags that other packages put on the command line (\<open>OtherFlags\<close>) and the functions of
  controller-runtime that \<open>main\<close> calls, over an arbitrary type \<open>'p\<close> of process states (\<open>Runtime\<close>).
  A process that ends early is a value of \<open>exit_status\<close>. Log output is left out.
\<close>

section \<open>API group\<close>

record schema_GroupVersion =
  Group :: string
  Version :: string

definition GroupVersion :: schema_GroupVersion where
  "GroupVersion = \<lparr>Group = ''api.cisco.com'', Version = ''v1alpha1''\<rparr>"

text \<open>A \<open>scheme.Builder\<close>: the group version and the kinds of the objects registered with it.\<close>

record Builder =
  builder_GroupVersion :: schema_GroupVersion
  builder_Objects :: "string list"

definition SchemeBuilder :: Builder where
  "SchemeBuilder = \<lparr>builder_GroupVersion = GroupVersion, builder_Objects = []\<rparr>"

definition Register :: "string list \<Rightarrow> Builder \<Rightarrow> Builder" where
  "Register objects b = b\<lparr>builder_Objects := builder_Objects b @ objects\<rparr>"

definition init_types :: Builder where
  "init_types = Register [''CiscoAciAim'', ''CiscoAciAimList''] SchemeBuilder"

record 's SchemeLib =
  NewScheme :: 's
  AddToScheme_clientgo :: "'s \<Rightarrow> go_error + 's"
  AddToScheme_neutron :: "'s \<Rightarrow> go_error + 's"
  AddToScheme_mariadb :: "'s \<Rightarrow> go_error + 's"
  AddToScheme_rabbitmq :: "'s \<Rightarrow> go_error + 's"
  AddToScheme_Builder :: "Builder \<Rightarrow> 's \<Rightarrow> go_error + 's"
  Recognizes :: "'s \<Rightarrow> schema_GroupVersion \<Rightarrow> string \<Rightarrow> bool"

definition AddToScheme :: "'s SchemeLib \<Rightarrow> 's \<Rightarrow> go_error + 's" where
  "AddToScheme S = AddToScheme_Builder S init_types"

section \<open>How the process ends early\<close>

datatype exit_status =
    FlagPanic flag_panic
  | MustPanic go_error
  | FlagExit flag_error
  | FailureExit string go_error

text \<open>The exit code: 2 after a panic and for a bad command line, 0 for \<open>-help\<close>, 1 from \<open>os.Exit(1)\<close>.\<close>

definition exit_code :: "exit_status \<Rightarrow> int" where
  "exit_code e =
     (case e of
        FlagPanic p \<Rightarrow> 2
      | MustPanic err \<Rightarrow> 2
      | FlagExit err \<Rightarrow> if err = ErrHelp then 0 else 2
      | FailureExit msg err \<Rightarrow> 1)"

section \<open>Initialisation\<close>

definition Must :: "go_error + 'a \<Rightarrow> exit_status + 'a" where
  "Must r = (case r of Inl err \<Rightarrow> Inl (MustPanic err) | Inr x \<Rightarrow> Inr x)"

definition init_main :: "'s SchemeLib \<Rightarrow> exit_status + 's" where
  "init_main S =
     (case Must (AddToScheme_clientgo S (NewScheme S)) of Inl e \<Rightarrow> Inl e | Inr s1 \<Rightarrow>
     (case Must (AddToScheme_neutron S s1) of Inl e \<Rightarrow> Inl e | Inr s2 \<Rightarrow>
     (case Must (AddToScheme_mariadb S s2) of Inl e \<Rightarrow> Inl e | Inr s3 \<Rightarrow>
     (case Must (AddToScheme S s3) of Inl e \<Rightarrow> Inl e | Inr s4 \<Rightarrow>
      Must (AddToScheme_rabbitmq S s4)))))"

section \<open>Flags\<close>

text \<open>The variables of the flags; those of other packages are in \<open>otherFlags\<close>.\<close>

record 'o Flags =
  metricsAddr :: string
  enableLeaderElection :: bool
  probeAddr :: string
  secureMetrics :: bool
  enableHTTP2 :: bool
  otherFlags :: 'o

text \<open>
  The flags other packages register: at import (\<open>-kubeconfig\<close> of controller-runtime), and in
  \<open>zap.Options.BindFlags\<close>; and the values of their variables before parsing.
\<close>

record 'o OtherFlags =
  importedFlags :: "'o Flag list"
  zapFlags :: "'o Flag list"
  otherDefaults :: 'o

definition StringVar :: "((string \<Rightarrow> string) \<Rightarrow> 'v \<Rightarrow> 'v) \<Rightarrow> string \<Rightarrow> 'v Flag" where
  "StringVar upd n = \<lparr>flag_Name = n, IsBoolFlag = False, Set_flag = (\<lambda>t v. Some (upd (\<lambda>_. t) v))\<rparr>"

definition BoolVar :: "((bool \<Rightarrow> bool) \<Rightarrow> 'v \<Rightarrow> 'v) \<Rightarrow> string \<Rightarrow> 'v Flag" where
  "BoolVar upd n = \<lparr>flag_Name = n, IsBoolFlag = True,
     Set_flag = (\<lambda>t v. map_option (\<lambda>b. upd (\<lambda>_. b) v) (ParseBool t))\<rparr>"

definition other_flag :: "'o Flag \<Rightarrow> 'o Flags Flag" where
  "other_flag f = \<lparr>flag_Name = flag_Name f, IsBoolFlag = IsBoolFlag f,
     Set_flag = (\<lambda>t v. map_option (\<lambda>x. v\<lparr>otherFlags := x\<rparr>) (Set_flag f t (otherFlags v)))\<rparr>"

definition flag_defaults :: "'o OtherFlags \<Rightarrow> 'o Flags" where
  "flag_defaults X =
     \<lparr>metricsAddr = ''0'', enableLeaderElection = False, probeAddr = '':8081'', secureMetrics = True,
      enableHTTP2 = False, otherFlags = otherDefaults X\<rparr>"

definition main_flags :: "'o Flags Flag list" where
  "main_flags =
     [StringVar metricsAddr_update ''metrics-bind-address'',
      StringVar probeAddr_update ''health-probe-bind-address'',
      BoolVar enableLeaderElection_update ''leader-elect'',
      BoolVar secureMetrics_update ''metrics-secure'',
      BoolVar enableHTTP2_update ''enable-http2'']"

definition command_line :: "'o OtherFlags \<Rightarrow> flag_panic + 'o Flags Flag list" where
  "command_line X =
     flag_Vars (map other_flag (importedFlags X) @ main_flags @ map other_flag (zapFlags X)) []"

text \<open>\<open>flag.CommandLine\<close> is created with \<open>ExitOnError\<close>.\<close>

definition parse_command_line :: "'o OtherFlags \<Rightarrow> string list \<Rightarrow> exit_status + 'o Flags" where
  "parse_command_line X args =
     (case command_line X of
        Inl p \<Rightarrow> Inl (FlagPanic p)
      | Inr formal \<Rightarrow>
          (case flag_Parse formal args (flag_defaults X) of
             Inl e \<Rightarrow> Inl (FlagExit e)
           | Inr (v, rest) \<Rightarrow> Inr v))"

section \<open>Options of the manager\<close>

text \<open>The only field of \<open>tls.Config\<close> that the operator touches.\<close>

record tls_Config =
  NextProtos :: "string list"

definition disableHTTP2 :: "tls_Config \<Rightarrow> tls_Config" where
  "disableHTTP2 c = c\<lparr>NextProtos := [''http/1.1'']\<rparr>"

definition tlsOpts :: "'o Flags \<Rightarrow> (tls_Config \<Rightarrow> tls_Config) list" where
  "tlsOpts v = (if enableHTTP2 v then [] else [disableHTTP2])"

datatype FilterProvider = WithAuthenticationAndAuthorization

record metrics_Options =
  BindAddress :: string
  SecureServing :: bool
  metrics_TLSOpts :: "(tls_Config \<Rightarrow> tls_Config) list"
  Filter :: "FilterProvider option"

text \<open>A webhook server is given by the options of \<open>webhook.NewServer\<close>.\<close>

record webhook_Options =
  webhook_TLSOpts :: "(tls_Config \<Rightarrow> tls_Config) list"

record 's Options =
  Scheme :: 's
  Metrics :: metrics_Options
  WebhookServer :: webhook_Options
  HealthProbeBindAddress :: string
  LeaderElection :: bool
  LeaderElectionID :: string

definition metricsServerOptions :: "'o Flags \<Rightarrow> metrics_Options" where
  "metricsServerOptions v =
     (let opts = \<lparr>BindAddress = metricsAddr v, SecureServing = secureMetrics v, metrics_TLSOpts = tlsOpts v,
                  Filter = None\<rparr>
      in if secureMetrics v then opts\<lparr>Filter := Some WithAuthenticationAndAuthorization\<rparr> else opts)"

definition manager_options :: "'s \<Rightarrow> 'o Flags \<Rightarrow> 's Options" where
  "manager_options s v =
     \<lparr>Scheme = s, Metrics = metricsServerOptions v, WebhookServer = \<lparr>webhook_TLSOpts = tlsOpts v\<rparr>,
      HealthProbeBindAddress = probeAddr v, LeaderElection = enableLeaderElection v,
      LeaderElectionID = ''675fe04e.cisco.com''\<rparr>"

section \<open>The main function\<close>

text \<open>
  What \<open>main\<close> calls of controller-runtime; \<open>'h\<close> is the type of the configuration and of the manager it
  hands out. \<open>GetConfigOrDie\<close> ends the process itself when \<open>GetConfig\<close> fails, and reads the flags of
  controller-runtime.
\<close>

record ('p, 's, 'o, 'h, 'w, 'q) Runtime =
  GetConfig :: "'o \<Rightarrow> ('p, go_error, 'h) call"
  NewManager :: "'h \<Rightarrow> 's Options \<Rightarrow> ('p, go_error, 'h) call"
  CompleteController :: "'h \<Rightarrow> ('w, 'q) registration list \<Rightarrow> ('p, go_error, unit) call"
  AddHealthzCheck :: "'h \<Rightarrow> string \<Rightarrow> ('p, go_error, unit) call"
  AddReadyzCheck :: "'h \<Rightarrow> string \<Rightarrow> ('p, go_error, unit) call"
  Start :: "'h \<Rightarrow> ('p, go_error, unit) call"

text \<open>\<open>if err != nil { setupLog.Error(err, msg); os.Exit(1) }\<close>\<close>

definition or_exit ::
    "string \<Rightarrow> ('p, go_error, 'a) call \<Rightarrow> ('a \<Rightarrow> ('p, exit_status, 'b) call) \<Rightarrow> ('p, exit_status, 'b) call" where
  "or_exit msg m f =
     State_Monad.bind m (\<lambda>r. case r of Inl err \<Rightarrow> fail (FailureExit msg err) | Inr x \<Rightarrow> f x)"

definition main ::
    "('p, 's, 'o, 'h, 'w, 'q) Runtime \<Rightarrow> 'o OtherFlags \<Rightarrow> 's \<Rightarrow> string list \<Rightarrow> ('p, exit_status, unit) call" where
  "main R X scheme args =
     (case parse_command_line X args of
        Inl e \<Rightarrow> fail e
      | Inr v \<Rightarrow>
          or_exit ''unable to get kubeconfig'' (GetConfig R (otherFlags v)) (\<lambda>config.
          or_exit ''unable to start manager'' (NewManager R config (manager_options scheme v)) (\<lambda>mgr.
          or_exit ''unable to create controller'' (CompleteController R mgr SetupWithManager) (\<lambda>_.
          or_exit ''unable to set up health check'' (AddHealthzCheck R mgr ''healthz'') (\<lambda>_.
          or_exit ''unable to set up ready check'' (AddReadyzCheck R mgr ''readyz'') (\<lambda>_.
          or_exit ''problem running manager'' (Start R mgr) (\<lambda>_. ok ())))))))"

definition run_operator ::
    "'s SchemeLib \<Rightarrow> ('p, 's, 'o, 'h, 'w, 'q) Runtime \<Rightarrow> 'o OtherFlags \<Rightarrow> string list \<Rightarrow> ('p, exit_status, unit) call" where
  "run_operator S R X args = (case init_main S of Inl e \<Rightarrow> fail e | Inr scheme \<Rightarrow> main R X scheme args)"

section \<open>Recording the calls\<close>

datatype ('s, 'w, 'q) startup =
    SConfig
  | SManager "'s Options"
  | SController "('w, 'q) registration list"
  | SHealthz string
  | SReadyz string
  | SStart

definition traced_runtime ::
    "('p, 's, 'o, 'h, 'w, 'q) Runtime \<Rightarrow>
     ('p \<times> (('s, 'w, 'q) startup \<times> bool) list, 's, 'o, 'h, 'w, 'q) Runtime" where
  "traced_runtime R =
     \<lparr>GetConfig = \<lambda>x. logged SConfig (GetConfig R x),
      NewManager = \<lambda>config opts. logged (SManager opts) (NewManager R config opts),
      CompleteController = \<lambda>mgr rs. logged (SController rs) (CompleteController R mgr rs),
      AddHealthzCheck = \<lambda>mgr n. logged (SHealthz n) (AddHealthzCheck R mgr n),
      AddReadyzCheck = \<lambda>mgr n. logged (SReadyz n) (AddReadyzCheck R mgr n),
      Start = \<lambda>mgr. logged SStart (Start R mgr)\<rparr>"

text \<open>
  \<open>started ss r l\<close>: the calls \<open>l\<close> are those of \<open>ss\<close> up to and including the first that fails; the result
  is an exit with code 1 if one fails, and a normal return otherwise.
\<close>

fun started :: "'a list \<Rightarrow> exit_status + unit \<Rightarrow> ('a \<times> bool) list \<Rightarrow> bool" where
  "started [] r l \<longleftrightarrow> r = Inr () \<and> l = []"
| "started (s # ss) r [] \<longleftrightarrow> False"
| "started (s # ss) r ((s', b) # l) \<longleftrightarrow>
     s' = s \<and> (if b then started ss r l else l = [] \<and> (\<exists>e. r = Inl e \<and> exit_code e = 1))"

lemma emits_step:
  assumes "\<And>x. emits (started ss) (f x)"
  shows "emits (started (s # ss)) (or_exit msg (logged s m) f)"
  unfolding or_exit_def
  by (rule emits_bindI, rule emits_logged)
    (auto intro!: emits_return emits_mono [OF assms] simp: exit_code_def split: sum.split)

lemma started_alt:
  assumes "started ss r l"
  shows "map fst l = take (length l) ss \<and> list_all snd (butlast l) \<and>
    (r = Inr () \<longleftrightarrow> length l = length ss \<and> list_all snd l) \<and> (\<forall>e. r = Inl e \<longrightarrow> exit_code e = 1)"
  using assms by (induction ss r l rule: started.induct) (auto split: if_splits)

definition startup_steps :: "'s Options \<Rightarrow> ('s, 'w, 'q) startup list" where
  "startup_steps opts =
     [SConfig, SManager opts, SController SetupWithManager, SHealthz ''healthz'', SReadyz ''readyz'', SStart]"

lemma length_startup_steps [simp]: "length (startup_steps opts) = 6"
  by (simp add: startup_steps_def)

lemma emits_main:
  "emits (\<lambda>r l. case parse_command_line X args of
       Inl e \<Rightarrow> r = Inl e \<and> l = [] | Inr v \<Rightarrow> started (startup_steps (manager_options s v)) r l)
     (main (traced_runtime R) X s args)"
proof (cases "parse_command_line X args")
  case (Inl e)
  then show ?thesis
    by (simp add: main_def emits_return)
next
  case (Inr v)
  have "emits (started (startup_steps (manager_options s v))) (main (traced_runtime R) X s args)"
    by (simp add: main_def Inr startup_steps_def traced_runtime_def)
      (intro emits_step emits_return, simp)
  with Inr show ?thesis
    by simp
qed

lemma parse_exit_code: "parse_command_line X args = Inl e \<Longrightarrow> exit_code e \<in> {0, 2}"
  by (auto simp: parse_command_line_def exit_code_def split: sum.splits prod.splits if_splits)

section \<open>Flags by name\<close>

lemma flag_var_simps [simp]:
  "flag_Name (StringVar upd n) = n" "flag_Name (BoolVar upd' n) = n"
  "Set_flag (StringVar upd n) t v = Some (upd (\<lambda>_. t) v)"
  "Set_flag (BoolVar upd' n) t v = map_option (\<lambda>b. upd' (\<lambda>_. b) v) (ParseBool t)"
  "IsBoolFlag (BoolVar upd' n)" "\<not> IsBoolFlag (StringVar upd n)"
  by (simp_all add: StringVar_def BoolVar_def)

lemma own_flag_lookup:
  assumes "command_line X = Inr formal" and "f \<in> set main_flags"
  shows "lookup_flag formal (flag_Name f) = Some f"
  using flag_Vars_distinct [OF assms(1) [unfolded command_line_def]]
    flag_Vars_eq [OF assms(1) [unfolded command_line_def]] assms(2)
  by (intro lookup_flag_unique) simp_all

definition print_flags :: "'o Flags \<Rightarrow> string list" where
  "print_flags v =
     [flag_arg ''metrics-bind-address'' (metricsAddr v),
      flag_arg ''health-probe-bind-address'' (probeAddr v),
      flag_arg ''leader-elect'' (btoa (enableLeaderElection v)),
      flag_arg ''metrics-secure'' (btoa (secureMetrics v)),
      flag_arg ''enable-http2'' (btoa (enableHTTP2 v))]"

lemma ParseBool_btoa [simp]: "ParseBool (btoa b) = Some b"
  by (simp add: btoa_def ParseBool_def true_texts_def false_texts_def)

lemma parse_string_flag:
  assumes "command_line X = Inr formal" and "StringVar upd n \<in> set main_flags" and "flag_name_ok n"
  shows "flag_Parse formal (flag_arg n t # args) v = flag_Parse formal args (upd (\<lambda>_. t) v)"
  using own_flag_lookup [OF assms(1,2)] by (intro flag_Parse_arg [OF assms(3), of _ "StringVar upd n"]) simp_all

lemma parse_bool_flag:
  assumes "command_line X = Inr formal" and "BoolVar upd n \<in> set main_flags" and "flag_name_ok n"
  shows "flag_Parse formal (flag_arg n (btoa b) # args) v = flag_Parse formal args (upd (\<lambda>_. b) v)"
  using own_flag_lookup [OF assms(1,2)] by (intro flag_Parse_arg [OF assms(3), of _ "BoolVar upd n"]) simp_all

lemma parse_printed:
  assumes cl: "command_line X = Inr formal" and "args = [] \<or> \<not> HasPrefix (hd args) ''-''"
  shows "flag_Parse formal (print_flags v @ args) u = Inr (v\<lparr>otherFlags := otherFlags u\<rparr>, args)"
proof -
  note step =
    parse_string_flag [OF cl, of metricsAddr_update "''metrics-bind-address''"]
    parse_string_flag [OF cl, of probeAddr_update "''health-probe-bind-address''"]
    parse_bool_flag [OF cl, of enableLeaderElection_update "''leader-elect''"]
    parse_bool_flag [OF cl, of secureMetrics_update "''metrics-secure''"]
    parse_bool_flag [OF cl, of enableHTTP2_update "''enable-http2''"]
  show ?thesis
    by (simp add: print_flags_def step flag_Parse_stop [OF assms(2)] main_flags_def flag_name_ok_def HasPrefix_def)
qed

text \<open>A boolean flag of the operator is changed only by an argument that names it.\<close>

definition bool_given :: "string \<Rightarrow> string list \<Rightarrow> string list \<Rightarrow> bool" where
  "bool_given n texts args \<longleftrightarrow>
     (\<exists>d \<in> {''-'', ''--''}. (\<exists>t \<in> set texts. d @ n @ ''='' @ t \<in> set args) \<or>
        ''true'' \<in> set texts \<and> d @ n \<in> set args)"

lemma ParseBool_texts:
  "ParseBool t = Some b \<Longrightarrow> t \<in> set (if b then true_texts else false_texts)"
  by (auto simp: ParseBool_def split: if_splits)

lemma other_flag_keeps:
  "Set_flag (other_flag f) t u = Some u' \<Longrightarrow> secureMetrics u' = secureMetrics u \<and> enableHTTP2 u' = enableHTTP2 u"
  by (auto simp: other_flag_def)

lemma given_bool:
  "given (BoolVar upd n) t args \<Longrightarrow> t \<in> set texts \<Longrightarrow> bool_given n texts args"
  unfolding given_def bool_given_def by auto

lemma parse_cause:
  assumes "parse_command_line X args = Inr v" and "P (flag_defaults X)" and "\<not> P v"
  shows "\<exists>f t u u'. (f \<in> set main_flags \<or> (\<exists>g. f = other_flag g)) \<and> given f t args \<and> P u \<and> \<not> P u' \<and>
    Set_flag f t u = Some u'"
proof -
  from assms(1) obtain formal rest where cl: "command_line X = Inr formal"
    and run: "flag_Parse formal args (flag_defaults X) = Inr (v, rest)"
    by (auto simp: parse_command_line_def split: sum.splits prod.splits)
  have "set formal = set main_flags \<union> other_flag ` (set (importedFlags X) \<union> set (zapFlags X))"
    using flag_Vars_eq [OF cl [unfolded command_line_def]] by auto
  with flag_Parse_cause [of formal args "flag_defaults X" v rest P, OF run assms(2,3)] show ?thesis
    by blast
qed

lemma insecure_cause:
  fixes X :: "'a OtherFlags"
  assumes "parse_command_line X args = Inr v" and "\<not> secureMetrics v"
  shows "bool_given ''metrics-secure'' false_texts args"
proof -
  obtain f :: "'a Flags Flag" and t u u' where "f \<in> set main_flags \<or> (\<exists>g. f = other_flag g)" "given f t args"
    "secureMetrics u" "\<not> secureMetrics u'" "Set_flag f t u = Some u'"
    using parse_cause [of X args v secureMetrics, OF assms(1) _ assms(2)] unfolding flag_defaults_def by force
  then show ?thesis
    by (auto simp: main_flags_def dest: other_flag_keeps dest!: ParseBool_texts) (erule (1) given_bool)
qed

lemma http2_cause:
  fixes X :: "'a OtherFlags"
  assumes "parse_command_line X args = Inr v" and "enableHTTP2 v"
  shows "bool_given ''enable-http2'' true_texts args"
proof -
  obtain f :: "'a Flags Flag" and t u u' where "f \<in> set main_flags \<or> (\<exists>g. f = other_flag g)" "given f t args"
    "\<not> enableHTTP2 u" "enableHTTP2 u'" "Set_flag f t u = Some u'"
    using parse_cause [of X args v "\<lambda>v. \<not> enableHTTP2 v", OF assms(1)] assms(2) unfolding flag_defaults_def by force
  then show ?thesis
    by (auto simp: main_flags_def dest: other_flag_keeps dest!: ParseBool_texts) (erule (1) given_bool)
qed

section \<open>Registered kinds\<close>

text \<open>
  Documented behaviour of the registration functions: they only add kinds to a scheme, and a builder
  adds the objects registered with it to its group version.
\<close>

definition adds_kinds :: "'s SchemeLib \<Rightarrow> ('s \<Rightarrow> go_error + 's) \<Rightarrow> bool" where
  "adds_kinds S f \<longleftrightarrow> (\<forall>s s' gv k. f s = Inr s' \<longrightarrow> Recognizes S s gv k \<longrightarrow> Recognizes S s' gv k)"

definition scheme_doc :: "'s SchemeLib \<Rightarrow> bool" where
  "scheme_doc S \<longleftrightarrow>
     adds_kinds S (AddToScheme_clientgo S) \<and> adds_kinds S (AddToScheme_neutron S) \<and>
     adds_kinds S (AddToScheme_mariadb S) \<and> adds_kinds S (AddToScheme_rabbitmq S) \<and>
     (\<forall>b. adds_kinds S (AddToScheme_Builder S b)) \<and>
     (\<forall>b s s' k. AddToScheme_Builder S b s = Inr s' \<longrightarrow> k \<in> set (builder_Objects b) \<longrightarrow>
        Recognizes S s' (builder_GroupVersion b) k)"

lemma Must_Inr [simp]: "Must r = Inr x \<longleftrightarrow> r = Inr x"
  by (simp add: Must_def split: sum.split)

lemma init_recognizes:
  assumes "scheme_doc S" and "init_main S = Inr s" and "k \<in> {''CiscoAciAim'', ''CiscoAciAimList''}"
  shows "Recognizes S s GroupVersion k"
proof -
  from assms(2) obtain s3 s4 where add: "AddToScheme S s3 = Inr s4" and last: "AddToScheme_rabbitmq S s4 = Inr s"
    by (auto simp: init_main_def split: sum.splits)
  have "Recognizes S s4 GroupVersion k"
    using assms(1,3) add unfolding scheme_doc_def AddToScheme_def init_types_def
    by (fastforce simp: Register_def SchemeBuilder_def)
  with assms(1) last show ?thesis
    unfolding scheme_doc_def adds_kinds_def by blast
qed

lemma started_step:
  "started ss r l \<Longrightarrow> (x, b) \<in> set l \<Longrightarrow> x \<in> set ss"
  by (induction ss r l rule: started.induct) (auto split: if_splits)

lemma main_started:
  assumes "run_state (main (traced_runtime R) X s args) (p, []) = (r, p', l)"
  shows "case parse_command_line X args of
      Inl e \<Rightarrow> r = Inl e \<and> l = [] | Inr v \<Rightarrow> started (startup_steps (manager_options s v)) r l"
  using emits_entries [OF emits_main [where X = X and args = args and s = s and R = R], of p] assms
  by (simp add: entries_def split: sum.splits)

lemma main_manager:
  assumes "run_state (main (traced_runtime R) X s args) (p, []) = (r, p', l)" and "(SManager opts, b) \<in> set l"
  obtains v where "parse_command_line X args = Inr v" and "opts = manager_options s v"
  using main_started [OF assms(1)] assms(2) that
  by (auto simp: startup_steps_def split: sum.splits dest!: started_step)

section \<open>A process to run\<close>

definition demo_other :: "unit OtherFlags" where
  "demo_other = \<lparr>importedFlags = [], zapFlags = [], otherDefaults = ()\<rparr>"

definition demo_runtime :: "(unit, string list, unit, unit, unit, nat) Runtime" where
  "demo_runtime =
     \<lparr>GetConfig = (\<lambda>x. ok ()), NewManager = (\<lambda>config opts. ok ()), CompleteController = (\<lambda>mgr rs. ok ()),
      AddHealthzCheck = (\<lambda>mgr n. ok ()), AddReadyzCheck = (\<lambda>mgr n. ok ()),
      Start = (\<lambda>mgr. fail (ApiError ''leader election lost''))\<rparr>"

definition demo_scheme :: "string list SchemeLib" where
  "demo_scheme =
     \<lparr>NewScheme = [], AddToScheme_clientgo = Inr, AddToScheme_neutron = Inr, AddToScheme_mariadb = Inr,
      AddToScheme_rabbitmq = Inr, AddToScheme_Builder = (\<lambda>b s. Inr (builder_Objects b @ s)),
      Recognizes = (\<lambda>s gv k. k \<in> set s)\<rparr>"

lemma demo_scheme_doc: "scheme_doc demo_scheme"
  by (simp add: scheme_doc_def adds_kinds_def demo_scheme_def)

abbreviation insecure_args :: "string list" where
  "insecure_args \<equiv> [''--metrics-secure=false'', ''-enable-http2'']"

lemma insecure_parse:
  "parse_command_line demo_other insecure_args =
     Inr ((flag_defaults demo_other)\<lparr>secureMetrics := False, enableHTTP2 := True\<rparr>)"
  by code_simp

section \<open>Properties\<close>

text \<open>
  C14: \<open>main\<close> makes its calls in the order configuration, manager, controller, health check, ready check,
  start, and stops at the first that fails. It returns normally exactly when all six succeed; otherwise
  it exits with code 1 after a failed call, or without any call, with code 0 or 2, when the command
  line asks for help, is malformed or cannot be set up.
\<close>

theorem startup_sequence:
  assumes "run_state (main (traced_runtime R) X s args) (p, []) = (r, p', l)"
  shows "case parse_command_line X args of
      Inl e \<Rightarrow> r = Inl e \<and> l = [] \<and> exit_code e \<in> {0, 2}
    | Inr v \<Rightarrow>
        map fst l = take (length l) (startup_steps (manager_options s v)) \<and> list_all snd (butlast l) \<and>
        (r = Inr () \<longleftrightarrow> length l = 6 \<and> list_all snd l) \<and> (\<forall>e. r = Inl e \<longrightarrow> exit_code e = 1)"
proof (cases "parse_command_line X args")
  case (Inl e)
  with main_started [OF assms] parse_exit_code [OF Inl] show ?thesis
    by simp
next
  case (Inr v)
  with main_started [OF assms] have "started (startup_steps (manager_options s v)) r l"
    by simp
  from started_alt [OF this] Inr show ?thesis
    by simp
qed

theorem startup_sequence_witness:
  "\<exists>r p' l. run_state (main (traced_runtime demo_runtime) demo_other [] insecure_args) ((), []) = (r, p', l) \<and>
     list_all snd (butlast l) \<and> (\<forall>e. r = Inl e \<longrightarrow> exit_code e = 1)"
proof -
  obtain r p' l where run: "run_state (main (traced_runtime demo_runtime) demo_other [] insecure_args) ((), []) = (r, p', l)"
    by (metis surj_pair)
  from startup_sequence [OF run] run show ?thesis
    unfolding insecure_parse by auto
qed

text \<open>
  C15: what the operator serves can be weakened only by the command line. A manager is created without
  the authentication filter on the metrics endpoint only if an argument turns \<open>metrics-secure\<close> off, and
  with a TLS configuration that offers more than HTTP/1.1 only if an argument turns \<open>enable-http2\<close> on;
  the metrics endpoint is served securely exactly when it has the filter.
\<close>

theorem hardened_options:
  assumes "run_state (main (traced_runtime R) X s args) (p, []) = (r, p', l)" and "(SManager opts, b) \<in> set l"
  shows "(SecureServing (Metrics opts) \<longleftrightarrow> Filter (Metrics opts) = Some WithAuthenticationAndAuthorization) \<and>
    (Filter (Metrics opts) = None \<longrightarrow> bool_given ''metrics-secure'' false_texts args) \<and>
    (\<forall>c. NextProtos (fold id (metrics_TLSOpts (Metrics opts)) c) \<noteq> [''http/1.1''] \<or>
         NextProtos (fold id (webhook_TLSOpts (WebhookServer opts)) c) \<noteq> [''http/1.1''] \<longrightarrow>
         bool_given ''enable-http2'' true_texts args)"
proof -
  obtain v where v: "parse_command_line X args = Inr v" "opts = manager_options s v"
    using main_manager [OF assms] by blast
  then show ?thesis
    using insecure_cause [OF v(1)] http2_cause [OF v(1)]
    by (auto simp: manager_options_def metricsServerOptions_def tlsOpts_def disableHTTP2_def Let_def)
qed

lemma demo_manager:
  "run_state (main (traced_runtime demo_runtime) demo_other s insecure_args) ((), []) =
     (Inl (FailureExit ''problem running manager'' (ApiError ''leader election lost'')), (),
      map (\<lambda>x. (x, x \<noteq> SStart)) (startup_steps
        (manager_options s ((flag_defaults demo_other)\<lparr>secureMetrics := False, enableHTTP2 := True\<rparr>))))"
  by (simp add: main_def insecure_parse or_exit_def traced_runtime_def demo_runtime_def startup_steps_def)

theorem hardened_options_witness: "bool_given ''metrics-secure'' false_texts insecure_args"
proof -
  let ?opts = "manager_options [] ((flag_defaults demo_other)\<lparr>secureMetrics := False, enableHTTP2 := True\<rparr>)"
  have "(SManager ?opts, True) \<in> set (map (\<lambda>x. (x, x \<noteq> SStart)) (startup_steps ?opts))"
    by (simp add: startup_steps_def)
  moreover have "Filter (Metrics ?opts) = None"
    by (simp add: manager_options_def metricsServerOptions_def)
  ultimately show ?thesis
    using hardened_options [OF demo_manager] by blast
qed

text \<open>
  C19: a command line that spells out the flags of the operator as \<open>--name=value\<close> sets its variables to
  these values, whatever other arguments follow and whatever flags other packages have registered.
\<close>

theorem flags_roundtrip:
  assumes "command_line X = Inr formal" and "args = [] \<or> \<not> HasPrefix (hd args) ''-''"
    and "otherFlags v = otherDefaults X"
  shows "parse_command_line X (print_flags v @ args) = Inr v"
  using assms parse_printed [OF assms(1,2), of v "flag_defaults X"]
  by (simp add: parse_command_line_def flag_defaults_def)

theorem flags_roundtrip_witness:
  "parse_command_line demo_other (print_flags \<lparr>metricsAddr = ''=:8443'', enableLeaderElection = True,
       probeAddr = [], secureMetrics = True, enableHTTP2 = False, otherFlags = ()\<rparr> @ []) =
     Inr \<lparr>metricsAddr = ''=:8443'', enableLeaderElection = True,
       probeAddr = [], secureMetrics = True, enableHTTP2 = False, otherFlags = ()\<rparr>"
proof -
  have "command_line demo_other = Inr main_flags"
    by (simp add: command_line_def demo_other_def main_flags_def flag_Var_def HasPrefix_def lookup_flag_def)
  then show ?thesis
    by (rule flags_roundtrip) simp_all
qed

text \<open>
  C20: the manager is only ever created with a scheme that knows the custom resource and its list in
  the group version \<open>api.cisco.com/v1alpha1\<close>; a failed registration ends the process before \<open>main\<close>.
\<close>

theorem manager_knows_kinds:
  assumes "scheme_doc S" and "run_state (run_operator S (traced_runtime R) X args) (p, []) = (r, p', l)"
    and "(SManager opts, b) \<in> set l"
  shows "Recognizes S (Scheme opts) GroupVersion ''CiscoAciAim'' \<and>
    Recognizes S (Scheme opts) GroupVersion ''CiscoAciAimList''"
proof (cases "init_main S")
  case (Inl e)
  with assms(2,3) show ?thesis
    by (simp add: run_operator_def)
next
  case (Inr s)
  with assms(2) have "run_state (main (traced_runtime R) X s args) (p, []) = (r, p', l)"
    by (simp add: run_operator_def)
  then obtain v where "parse_command_line X args = Inr v" and "opts = manager_options s v"
    by (rule main_manager [OF _ assms(3)])
  then show ?thesis
    using init_recognizes [OF assms(1) Inr] by (simp add: manager_options_def)
qed

theorem manager_knows_kinds_witness:
  "\<exists>opts b. (SManager opts, b) \<in> set (entries (run_operator demo_scheme (traced_runtime demo_runtime) demo_other insecure_args) ()) \<and>
     Recognizes demo_scheme (Scheme opts) GroupVersion ''CiscoAciAim''"
proof -
  let ?opts = "\<lambda>s. manager_options s ((flag_defaults demo_other)\<lparr>secureMetrics := False, enableHTTP2 := True\<rparr>)"
  have init: "init_main demo_scheme = Inr [''CiscoAciAim'', ''CiscoAciAimList'']" (is "_ = Inr ?s")
    by (simp add: init_main_def demo_scheme_def Must_def AddToScheme_def init_types_def Register_def SchemeBuilder_def)
  have run: "run_state (run_operator demo_scheme (traced_runtime demo_runtime) demo_other insecure_args) ((), []) =
      (Inl (FailureExit ''problem running manager'' (ApiError ''leader election lost'')), (),
       map (\<lambda>x. (x, x \<noteq> SStart)) (startup_steps (?opts ?s)))"
    by (simp only: run_operator_def init sum.case demo_manager)
  have mem: "(SManager (?opts ?s), True) \<in> set (map (\<lambda>x. (x, x \<noteq> SStart)) (startup_steps (?opts ?s)))"
    by (simp add: startup_steps_def)
  from mem manager_knows_kinds [OF demo_scheme_doc run mem] show ?thesis
    unfolding entries_def run snd_conv by blast
qed

end
