(* ===== verification/Spec2Isabelle.thy ===== *)
theory Spec2Isabelle
  imports Reconcile_Store Host_Links Deep_Copy Operator_Main
begin

text \<open>
  A model of the Cisco ACI AIM operator and what it guarantees.

  The program. The operator (Go, controller-runtime) runs Cisco's AIM service for an OpenStack
  control plane. For every custom resource \<open>CiscoAciAim\<close> it looks up the database and message bus of
  the neutron service, renders the configuration files of AIM into a ConfigMap, copies the internal CA
  into a secret, grows the persistent claims for logs, creates or updates a StatefulSet, and reports
  conditions in the status. The parts and the theories that model them:

  \<^item> \<^bold>\<open>Libraries and cluster.\<close> \<open>K8s_API\<close> has the API types with the fields the operator names, the
    error values and \<open>Lib\<close>, the functions of third-party packages; \<open>K8s_Client\<close> has \<open>Client\<close>, the API
    client, over an arbitrary type of cluster states. Both are parameters of everything below; a client
    may fail or change the cluster at any call, unless a theorem says otherwise. What theorems assume of
    \<open>Lib\<close> are the named predicates \<open>owner_ref_doc\<close>, \<open>status_condition_doc\<close>, \<open>cmp_doc\<close>, \<open>storage_doc\<close>; what
    some assume of the client are \<open>reads_by_name\<close> and \<open>stores_data\<close> (\<open>Config_Map\<close>: only the data of an
    object is kept as sent) and \<open>reads_doc\<close> and \<open>writes_doc\<close> (\<open>Api_Store\<close>). \<open>Sample\<close> has a concrete library
    and an API server in memory for which they hold. \<open>traced\<close> records the requests of a run.
  \<^item> \<^bold>\<open>Go's standard library\<close>, where the source uses it: \<open>Go_Prelude\<close> (strings, \<open>bufio.Scanner\<close>, paths,
    maps with their unspecified iteration order, the state and error monad), \<open>Go_Json\<close>
    (\<open>json.Unmarshal\<close> into a map of maps of strings), \<open>Go_Sha256\<close>, \<open>Go_Template\<close> (the actions of
    \<open>text/template\<close> that the templates use), \<open>Go_Flag\<close> (\<open>flag.Parse\<close>), \<open>Go_Memory\<close> (cells, pointers and
    allocation).
  \<^item> \<^bold>\<open>Custom resource\<close> (\<open>src/api/v1alpha1/ciscoaciaim_types.go\<close>): \<open>Aim_Types\<close>, the records with the
    limits and defaults of the schema. Everywhere but in \<open>Deep_Copy\<close> a custom resource is a value.
  \<^item> \<^bold>\<open>Deep copies\<close> (\<open>src/api/v1alpha1/zz_generated.deepcopy.go\<close>): \<open>Deep_Copy\<close>, over an explicit memory.
    A copy is well typed, stands for the same value and shares no memory with the original, so that
    treating custom resources as values is justified.
  \<^item> \<^bold>\<open>Volumes\<close> (\<open>src/pkg/ciscoaciaim/volumes.go\<close>, \<open>const.go\<close>): \<open>Aim_Volumes\<close>. Every mount is backed,
    names are unique, and exactly when two mounts share a path.
  \<^item> \<^bold>\<open>Log claims\<close> (\<open>src/pkg/ciscoaciaim/pvc.go\<close>, \<open>src/internal/controller/log_pvc_resize.go\<close>):
    \<open>Log_Claims\<close>. Claims never shrink, the loop updates exactly the claims that are too small, and it
    has nothing left to do once these have grown, if no claim is too large or of another class.
  \<^item> \<^bold>\<open>StatefulSet builder\<close> (\<open>src/pkg/ciscoaciaim/statefulset.go\<close>): \<open>Workload\<close>. The built object is
    consistent, the probe parameters are positive, and when building fails.
  \<^item> \<^bold>\<open>StatefulSet reconciliation\<close> (\<open>ensureStatefulSet\<close> and its helpers in
    \<open>src/internal/controller/ciscoaciaim_controller.go\<close>): \<open>Sts_Reconcile\<close> gives the operations, a
    decision table without calls (\<open>sts_decision\<close>) and the proof that the calls refine it;
    \<open>Sts_Lifecycle\<close> is the step relation over several reconciliations, on a server that completes what is
    written: a replacement takes at most three steps, it completes, and a StatefulSet in service is
    never deleted again. It can be written again in every reconciliation, since the comparison never
    succeeds where the server filled in the revision history limit (\<open>defaulted_limit_rewritten\<close>).
  \<^item> \<^bold>\<open>Configuration data and files\<close> (\<open>populate...\<close>, \<open>buildSwitchConfigs\<close>, \<open>generateConfigFiles\<close>):
    \<open>Config_Data\<close>, \<open>Config_Files\<close>, \<open>Log_Files\<close>, \<open>Config_Output\<close>, with the shipped files of
    \<open>src/templates\<close> as constants in \<open>Aim_Templates\<close>. The rendered files are reference texts, do not
    depend on map order, and agree with the mounts of the pod. \<open>Json_Decode\<close> shows that the JSON decoder
    has enough fuel and reads back what is encoded, and \<open>Host_Links\<close> that host links survive the way
    from the custom resource to the switch sections.
  \<^item> \<^bold>\<open>ConfigMap, checksum and CA secret\<close> (\<open>src/pkg/ciscoaciaim/configmap.go\<close>, \<open>ensureConfigMap\<close>,
    \<open>ensureRabbitMQCaSecret\<close>): \<open>Config_Map\<close>, both create-or-update functions as instances of one locale. A
    successful call is followed by one that only reads; the checksum does not depend on map order, and
    does not identify the files.
  \<^item> \<^bold>\<open>Dependencies\<close> (\<open>ensureDB\<close>, \<open>ensureMessageBus\<close>, \<open>getNeutronRabbitConfig\<close>): \<open>Dependencies\<close>.
  \<^item> \<^bold>\<open>Reconciler and watches\<close> (\<open>Reconcile\<close>, the \<open>map...\<close> handlers, \<open>SetupWithManager\<close>): \<open>Controller\<close>.
    \<open>Request_Order\<close> and \<open>Reconcile_Trace\<close> follow the requests of one call through all phases,
    \<open>Reconcile_Stages\<close> the values that its phases read and hand on, and the theorems below state the
    result; \<open>Demo_Run\<close> evaluates one call on the sample cluster. \<open>Api_Store\<close> and \<open>Reconcile_Store\<close> look at
    the objects instead of the requests: what a successful call leaves on an API server that nobody
    else writes to, and that a call which finds the objects in order writes at most the StatefulSet in
    place and the status. They assume of the client the documented behaviour \<open>reads_doc\<close> (a read of an
    object returns it, of a missing one an error) and \<open>writes_doc\<close>, which the sample server
    has; the traces above are for clients that fail at any call.
  \<^item> \<^bold>\<open>Operator process\<close> (\<open>src/cmd/main.go\<close>, \<open>src/api/v1alpha1/groupversion_info.go\<close>): \<open>Operator_Main\<close>, the
    registration of the API types, the command line, the options of the manager and the start sequence.
    The calls are made in order up to the first failure, the metrics endpoint is open or HTTP/2 offered
    only when the command line says so, and the manager knows the kinds of the operator.

  Conventions. A Go function that calls the API is a computation \<open>('w, go_error, 'a) call\<close>; a returned
  error is \<open>Inl\<close>, one constructor of \<open>go_error\<close> per error the source builds. A function that mutates
  its argument returns the changed value. \<open>int32\<close> and \<open>int\<close> are words of their widths; a nil pointer is
  \<open>None\<close>, a nil map is \<open>None\<close> as well, and loops over maps take the visiting order from a parameter
  \<open>range_order\<close>. Interfaces are locales: \<open>sorted_range\<close> (loops that sort the keys), \<open>secret_file\<close>
  (optional mounts), \<open>upsert\<close> (create or update), \<open>secret_watch\<close> (event handlers), \<open>deep_copyable\<close> and
  \<open>typed_copyable\<close> (deep copies), each interpreted on the operator's own functions.

  Fuel. The template parser takes \<open>template_fuel\<close>, twice the number of tokens and two more, which
  \<open>template_fuel_enough\<close> proves sufficient; the JSON parser takes \<open>json_fuel\<close>, twice the length of its
  input and two more, which \<open>json_fuel_enough\<close> proves sufficient; the expansion of escapes in a JSON
  string takes one unit per byte (\<open>unquote_fuel_enough\<close>). Everything else terminates by structure or
  a proved measure.

  Not modelled: log output, contexts and cancellation; the code of controller-runtime, zap and the API
  packages, which are parameters; the actions of \<open>text/template\<close> that no shipped template uses, which
  the model rejects as syntax errors; the shell helpers of the end-to-end tests
  (\<open>src/test/utils/utils.go\<close>) and the generated manifests under \<open>src/config\<close>.
\<close>

section \<open>One reconciliation\<close>

text \<open>
  C1: on any cluster, one call of \<open>Reconcile\<close> writes in a fixed order: the ConfigMap, the CA secret,
  the log claims, the StatefulSet, the status; each at most once but for the claims. It stops at the
  first write that fails, and reports neither an error nor a requeue only if no write failed.
\<close>

theorem reconcile_write_order:
  "staged 1 5 (fst (run_state (Reconcile L (traced c) fs rng req) (w, [])) = Inr no_requeue)
     (entries (Reconcile L (traced c) fs rng req) w)"
  by (rule reconcile_staged [OF emits_entries [OF Reconcile_outcome]])

text \<open>
  C2: the readiness that is reported is true to the run: a status is written only as the last request
  of a call, for the instance that was read with its spec unchanged, with the conditions \<open>DBReady\<close> and
  \<open>AimReady\<close> set, and the call returns without error and requeue exactly when that write succeeds.
\<close>

theorem reported_status_sound:
  assumes "status_condition_doc L" and "run_state (Get_CiscoAciAim c req) w = (Inr a, w1)"
    and "(RUpdateStatus b, k) \<in> set (entries (Reconcile L (traced c) fs rng req) w)"
  shows "last (entries (Reconcile L (traced c) fs rng req) w) = (RUpdateStatus b, k) \<and>
    aim_Meta b = aim_Meta a \<and> Spec b = Spec a \<and>
    map_option cond_Status (find_cond (Conditions (Status b)) ConditionDBReady) = Some ''True'' \<and>
    map_option cond_Status (find_cond (Conditions (Status b)) ConditionAimReady) = Some ''True'' \<and>
    (k \<longleftrightarrow> fst (run_state (Reconcile L (traced c) fs rng req) (w, [])) = Inr no_requeue)"
proof -
  obtain l' where l': "entries (Reconcile L (traced c) fs rng req) w = (RGet ''CiscoAciAim'' req, True) # l'"
      "instance_outcome L rng a (fst (run_state (Reconcile L (traced c) fs rng req) (w, []))) l'"
    using Reconcile_present [OF assms(2), of L fs rng] by blast
  with assms(3) have "(RUpdateStatus b, k) \<in> set l'"
    by simp
  from instance_status [OF l'(2) this] obtain a' where "prepared L a a'" "b = ready L a'"
      "last l' = (RUpdateStatus b, k)" "k \<longleftrightarrow> fst (run_state (Reconcile L (traced c) fs rng req) (w, [])) = Inr no_requeue"
    by blast
  with ready_conditions [OF assms(1), of a a'] l'(1) \<open>(RUpdateStatus b, k) \<in> set l'\<close> show ?thesis
    by (auto simp: same_instance_def)
qed

theorem reported_status_sound_witness:
  "\<exists>b k. last (entries (Reconcile demo_lib (traced demo_client) image sorted_order demo_req) demo_cluster) = (RUpdateStatus b, k) \<and>
     aim_Meta b = aim_Meta demo_aim \<and> k"
proof -
  obtain l' where l': "entries (Reconcile demo_lib (traced demo_client) image sorted_order demo_req) demo_cluster =
      (RGet ''CiscoAciAim'' demo_req, True) # l'" "instance_outcome demo_lib sorted_order demo_aim (Inr no_requeue) l'"
    using Reconcile_present [OF demo_get, of demo_lib image sorted_order] demo_result by auto
  then obtain b where "(RUpdateStatus b, True) \<in> set (entries (Reconcile demo_lib (traced demo_client) image sorted_order demo_req) demo_cluster)"
    using instance_result [OF l'(2)] by (auto simp: time_Second_def)
  from reported_status_sound [OF demo_lib_doc(2) demo_get this] show ?thesis
    by blast
qed

text \<open>
  C3: what a call writes belongs together: unless it writes nothing at all, the reads of this call led
  from the instance to the files that \<open>generateConfigFiles\<close> returned, every ConfigMap it creates or
  updates holds exactly these files, and every StatefulSet it creates or updates carries their checksum
  in its pod template.
\<close>

theorem pods_follow_config:
  "let l = entries (Reconcile L (traced c) fs rng req) w in
   writes l = [] \<or>
   (\<exists>a s0 b files s1. run_state (Get_CiscoAciAim (traced c) req) (w, []) = (Inr a, s0) \<and>
      collected L (traced c) fs rng a s0 b files s1 \<and> all_carry rng files l)"
proof (cases "run_state (Get_CiscoAciAim c req) w")
  case (Pair r w1)
  show ?thesis
  proof (cases r)
    case (Inl e)
    with Pair show ?thesis
      by (simp add: entries_def Reconcile_def)
  next
    case (Inr a)
    let ?s0 = "(w1, [(RGet ''CiscoAciAim'' req, True)])"
    have get: "run_state (Get_CiscoAciAim (traced c) req) (w, []) = (Inr a, ?s0)"
      using Pair Inr by simp
    have "follows_files L (traced c) fs rng a ?s0 (snd (run_state (reconcileInstance L (traced c) fs rng a) ?s0))"
      using instance_files [of ?s0 L c fs rng a] by (simp add: wp_def split: prod.splits)
    then show ?thesis
      using get unfolding entries_def Reconcile_after_get [OF get] follows_files_def Let_def by blast
  qed
qed

text \<open>
  C4: the three ways a call for an existing instance ends without an error. It is done and the status
  is stored. Or it asks to be called again after a second, without writing a status: the StatefulSet
  that was read has to be replaced by the wanted one, and it is being deleted or its deletion was
  requested in this call. Or it asks to be called again after ten seconds, and has written nothing: the
  secret of the database account has no password yet.
\<close>

theorem reconcile_results:
  assumes "run_state (Get_CiscoAciAim c req) w = (Inr a, w1)"
    and "run_state (Reconcile L (traced c) fs rng req) (w, []) = (Inr res, (w', l))"
  shows "res = no_requeue \<and> (\<exists>b. (RUpdateStatus b, True) \<in> set l) \<or>
    res = \<lparr>RequeueAfter = time_Second\<rparr> \<and> (\<forall>b k. (RUpdateStatus b, k) \<notin> set l) \<and>
      (\<exists>d found. compared L (traced c) fs rng a (w1, [(RGet ''CiscoAciAim'' req, True)]) d found \<and>
         statefulSetRequiresRecreation found d \<and>
         (\<not> IsZero (DeletionTimestamp (sts_Meta found)) \<or> (\<exists>k. (RDeleteStatefulSet found, k) \<in> set l))) \<or>
    res = \<lparr>RequeueAfter = 10 * time_Second\<rparr> \<and> writes l = [] \<and>
      password_missing L (traced c) a (w1, [(RGet ''CiscoAciAim'' req, True)])"
proof -
  let ?s0 = "(w1, [(RGet ''CiscoAciAim'' req, True)])"
  have get: "run_state (Get_CiscoAciAim (traced c) req) (w, []) = (Inr a, ?s0)"
    using assms(1) by simp
  have "requeue_reason L (traced c) fs rng a ?s0 (Inr res) (w', l)"
    using instance_reason [of ?s0 L c fs rng a] assms(2) unfolding Reconcile_after_get [OF get] by (simp add: wp_def)
  moreover obtain l' where "l = (RGet ''CiscoAciAim'' req, True) # l'" "instance_outcome L rng a (Inr res) l'"
    using Reconcile_present [OF assms(1), of L fs rng] assms(2) by (auto simp: entries_def)
  ultimately show ?thesis
    using instance_result [of L rng a res l'] by (auto simp: requeue_reason_def)
qed

theorem reconcile_results_witness:
  "\<exists>b. (RUpdateStatus b, True) \<in> set (entries (Reconcile demo_lib (traced demo_client) image sorted_order demo_req) demo_cluster)"
proof -
  obtain w' l where run: "run_state (Reconcile demo_lib (traced demo_client) image sorted_order demo_req) (demo_cluster, []) =
      (Inr no_requeue, (w', l))"
    using demo_result by (metis prod.collapse)
  from reconcile_results [OF demo_get run] run show ?thesis
    by (auto simp: time_Second_def entries_def)
qed

end
